(* ===== verification/Elemental_Prelude.thy ===== *)
theory Elemental_Prelude
  imports Main "HOL-Library.Word"
begin

section \<open>Effects, errors and shared lemmas\<close>

text \<open>
  The vocabulary every component shares. A Go function with side effects is a function from a
  state to a result and a new state: the result is \<open>Inr\<close> of the value or \<open>Inl\<close> of the
  error, and the state is returned in both cases, because Go code that returns an error keeps the
  changes it has made so far. Logging calls are not modelled: they change no state the program
  reads. The combinators follow the idioms of the source:

  \<^item> \<open>bindIO m f\<close> is \<^verbatim>\<open>x, err := m(); if err != nil { return err }; f(x)\<close>;
  \<^item> \<open>thenIO m k\<close> is the same for a call that returns only an error;
  \<^item> \<open>ignoreIO m\<close> is \<^verbatim>\<open>_ = m()\<close>;
  \<^item> \<open>okIO d m\<close> is \<^verbatim>\<open>x, _ := m()\<close>, where \<open>d\<close> is the value the call returns beside an error;
  \<^item> \<open>tryIO m\<close> is \<^verbatim>\<open>err = m()\<close>: the error becomes a value (\<open>None\<close> is nil);
  \<^item> \<open>sumIO r\<close> is the result \<open>r\<close> of a function without effects;
  \<^item> \<open>finallyIO m d\<close> runs the deferred function \<open>d\<close>, which sees the error of \<open>m\<close> and returns
    the error to report in its place, if any (\<open>None\<close> leaves the result of \<open>m\<close> as it is);
  \<^item> \<open>onErrorIO m c\<close> runs \<open>c\<close> when \<open>m\<close> has failed, and drops what \<open>c\<close> returns.
\<close>

text \<open>
  Errors. The constructors are the cases the program tells apart: \<^verbatim>\<open>os.IsNotExist\<close>,
  \<^verbatim>\<open>os.IsExist\<close>, other system errors (\<open>EFault\<close>: the environment refused the call), an error the
  program makes itself with \<^verbatim>\<open>fmt.Errorf\<close>, the aggregate of \<^verbatim>\<open>hashicorp/go-multierror\<close>,
  an error with an exit code (pkg/error), a \<^verbatim>\<open>yaml.TypeError\<close>, the sentinel values \<^verbatim>\<open>io.EOF\<close> and
  \<^verbatim>\<open>filepath.SkipDir\<close>, and a run-time panic (a nil dereference or a read out of range).
\<close>

datatype err =
    ENOENT
  | EEXIST
  | ENOTDIR
  | EFault
  | Errorf string
  | Multi "err list"
  | Coded err nat
  | EOF
  | YamlTypeError
  | SkipDir
  | Panic

type_synonym ('s, 'a) io = "'s \<Rightarrow> (err + 'a) \<times> 's"

named_theorems io_simps \<open>evaluation of the effect combinators on a known result\<close>
named_theorems keeps_intros \<open>operations that keep a relation between the old and the new state\<close>

definition retIO :: "'a \<Rightarrow> ('s, 'a) io" where
  "retIO x = (\<lambda>s. (Inr x, s))"

definition failIO :: "err \<Rightarrow> ('s, 'a) io" where
  "failIO e = (\<lambda>s. (Inl e, s))"

definition bindIO :: "('s, 'a) io \<Rightarrow> ('a \<Rightarrow> ('s, 'b) io) \<Rightarrow> ('s, 'b) io" where
  "bindIO m f = (\<lambda>s. case m s of (Inl e, s') \<Rightarrow> (Inl e, s') | (Inr x, s') \<Rightarrow> f x s')"

definition thenIO :: "('s, unit) io \<Rightarrow> ('s, 'b) io \<Rightarrow> ('s, 'b) io" where
  "thenIO m k = bindIO m (\<lambda>_. k)"

definition getIO :: "('s, 's) io" where
  "getIO = (\<lambda>s. (Inr s, s))"

definition modIO :: "('s \<Rightarrow> 's) \<Rightarrow> ('s, unit) io" where
  "modIO f = (\<lambda>s. (Inr (), f s))"

definition tryIO :: "('s, unit) io \<Rightarrow> ('s, err option) io" where
  "tryIO m = (\<lambda>s. case m s of (Inl e, s') \<Rightarrow> (Inr (Some e), s') | (Inr _, s') \<Rightarrow> (Inr None, s'))"

definition ignoreIO :: "('s, 'a) io \<Rightarrow> ('s, unit) io" where
  "ignoreIO m = (\<lambda>s. (Inr (), snd (m s)))"

definition okIO :: "'a \<Rightarrow> ('s, 'a) io \<Rightarrow> ('s, 'a) io" where
  "okIO d m = (\<lambda>s. case m s of (Inl _, s') \<Rightarrow> (Inr d, s') | (Inr x, s') \<Rightarrow> (Inr x, s'))"

definition whenIO :: "bool \<Rightarrow> ('s, unit) io \<Rightarrow> ('s, unit) io" where
  "whenIO b m = (if b then m else retIO ())"

definition raiseIO :: "err option \<Rightarrow> ('s, unit) io" where
  "raiseIO eo = (case eo of None \<Rightarrow> retIO () | Some e \<Rightarrow> failIO e)"

definition sumIO :: "err + 'a \<Rightarrow> ('s, 'a) io" where
  "sumIO r = (\<lambda>s. (r, s))"

definition finallyIO ::
  "('s, 'a) io \<Rightarrow> (err option \<Rightarrow> ('s, err option) io) \<Rightarrow> ('s, 'a) io" where
  "finallyIO m d = (\<lambda>s. case m s of
       (Inl e, s') \<Rightarrow> (case d (Some e) s' of
            (Inl e', s'') \<Rightarrow> (Inl e', s'')
          | (Inr eo, s'') \<Rightarrow> (case eo of None \<Rightarrow> (Inl e, s'') | Some e' \<Rightarrow> (Inl e', s'')))
     | (Inr x, s') \<Rightarrow> (case d None s' of
            (Inl e', s'') \<Rightarrow> (Inl e', s'')
          | (Inr eo, s'') \<Rightarrow> (case eo of None \<Rightarrow> (Inr x, s'') | Some e' \<Rightarrow> (Inl e', s''))))"

definition onErrorIO :: "('s, 'a) io \<Rightarrow> ('s, unit) io \<Rightarrow> ('s, 'a) io" where
  "onErrorIO m c = (\<lambda>s. case m s of
       (Inl e, s') \<Rightarrow> (Inl e, snd (c s'))
     | (Inr x, s') \<Rightarrow> (Inr x, s'))"

fun forIO :: "'a list \<Rightarrow> ('a \<Rightarrow> ('s, unit) io) \<Rightarrow> ('s, unit) io" where
  "forIO [] f = retIO ()"
| "forIO (x # xs) f = thenIO (f x) (forIO xs f)"

fun foldIO :: "'a list \<Rightarrow> 'b \<Rightarrow> ('b \<Rightarrow> 'a \<Rightarrow> ('s, 'b) io) \<Rightarrow> ('s, 'b) io" where
  "foldIO [] acc f = retIO acc"
| "foldIO (x # xs) acc f = bindIO (f acc x) (\<lambda>acc'. foldIO xs acc' f)"

text \<open>
  \<^verbatim>\<open>multierror.Append(errs, err)\<close>: aggregates flatten, so the result lists plain errors in the
  order they occurred.
\<close>

fun flat_err :: "err \<Rightarrow> err list" where
  "flat_err (Multi es) = es"
| "flat_err e = [e]"

definition multierror_Append :: "err option \<Rightarrow> err \<Rightarrow> err" where
  "multierror_Append errs e =
     Multi ((case errs of None \<Rightarrow> [] | Some es \<Rightarrow> flat_err es) @ flat_err e)"

subsection \<open>Evaluation of the combinators\<close>

lemma io_eval [io_simps]:
  "retIO x s = (Inr x, s)"
  "failIO e s = (Inl e, s)"
  "getIO s = (Inr s, s)"
  "modIO h s = (Inr (), h s)"
  "m s = (Inl e, s') \<Longrightarrow> bindIO m f s = (Inl e, s')"
  "m s = (Inr x, s') \<Longrightarrow> bindIO m f s = f x s'"
  by (simp_all add: retIO_def failIO_def getIO_def modIO_def bindIO_def)

lemma bindIO_assoc: "bindIO (bindIO m f) g = bindIO m (\<lambda>x. bindIO (f x) g)"
  by (rule ext) (simp add: bindIO_def split: prod.splits sum.splits)

lemma bindIO_retIO: "bindIO (retIO x) f = f x"
  by (rule ext) (simp add: bindIO_def retIO_def)

lemma bindIO_Inr_iff:
  "bindIO m f s = (Inr y, t) \<longleftrightarrow> (\<exists>x s'. m s = (Inr x, s') \<and> f x s' = (Inr y, t))"
  by (auto simp: bindIO_def split: prod.splits sum.splits)

lemma bindIO_Inl_iff:
  "bindIO m f s = (Inl e, t) \<longleftrightarrow>
     m s = (Inl e, t) \<or> (\<exists>x s'. m s = (Inr x, s') \<and> f x s' = (Inl e, t))"
  by (auto simp: bindIO_def split: prod.splits sum.splits)

lemma thenIO_Inr_iff:
  "thenIO m k s = (Inr y, t) \<longleftrightarrow> (\<exists>s'. m s = (Inr (), s') \<and> k s' = (Inr y, t))"
  by (auto simp: thenIO_def bindIO_Inr_iff)

lemma thenIO_Inl_iff:
  "thenIO m k s = (Inl e, t) \<longleftrightarrow>
     m s = (Inl e, t) \<or> (\<exists>s'. m s = (Inr (), s') \<and> k s' = (Inl e, t))"
  by (auto simp: thenIO_def bindIO_Inl_iff)

lemmas returns_iff = bindIO_Inr_iff thenIO_Inr_iff

lemma finallyIO_cases:
  assumes "finallyIO m d s = (r, t)"
  obtains r1 s1 dr where "m s = (r1, s1)"
    "d (case r1 of Inl e \<Rightarrow> Some e | Inr _ \<Rightarrow> None) s1 = (dr, t)"
    "\<And>x. r = Inr x \<Longrightarrow> r1 = Inr x \<and> dr = Inr None"
proof (cases "m s")
  case (Pair r1 s1)
  let ?e = "case r1 of Inl e \<Rightarrow> Some e | Inr _ \<Rightarrow> None"
  obtain dr u where d: "d ?e s1 = (dr, u)" by fastforce
  have "u = t \<and> (\<forall>x. r = Inr x \<longrightarrow> r1 = Inr x \<and> dr = Inr None)"
    using assms Pair d by (cases r1; cases dr) (auto simp: finallyIO_def split: option.splits)
  then show ?thesis using that[OF Pair] d by blast
qed

lemma onErrorIO_cases:
  assumes "onErrorIO m c s = (r, t)"
  obtains (ok) x where "r = Inr x" "m s = (Inr x, t)"
    | (undone) e s' cr where "r = Inl e" "m s = (Inl e, s')" "c s' = (cr, t)"
proof (cases "m s")
  case (Pair r1 s')
  obtain cr u where c: "c s' = (cr, u)" by fastforce
  show ?thesis using Pair assms c ok undone by (cases r1) (auto simp: onErrorIO_def)
qed

subsection \<open>Relations an operation keeps\<close>

text \<open>
  \<open>keeps R m\<close>: whatever \<open>m\<close> does, successful or not, its final state is related to its initial
  state by \<open>R\<close>. For a reflexive and transitive \<open>R\<close> this composes along every combinator, so a
  frame property of a handler follows from the frame properties of the calls it makes.
\<close>

definition keeps :: "('s \<Rightarrow> 's \<Rightarrow> bool) \<Rightarrow> ('s, 'a) io \<Rightarrow> bool" where
  "keeps R m \<longleftrightarrow> (\<forall>s. R s (snd (m s)))"

lemma keepsD: "keeps R m \<Longrightarrow> m s = (r, t) \<Longrightarrow> R s t"
  by (metis keeps_def snd_conv)

lemma keepsI: "(\<And>s r t. m s = (r, t) \<Longrightarrow> R s t) \<Longrightarrow> keeps R m"
  by (metis keeps_def prod.exhaust_sel)

locale state_frame =
  fixes R :: "'s \<Rightarrow> 's \<Rightarrow> bool"
  assumes refl: "R s s"
    and trans: "R s t \<Longrightarrow> R t u \<Longrightarrow> R s u"
begin

lemma keeps_ret [keeps_intros]: "keeps R (retIO x)"
  by (simp add: keeps_def retIO_def refl)

lemma keeps_fail [keeps_intros]: "keeps R (failIO e)"
  by (simp add: keeps_def failIO_def refl)

lemma keeps_sum [keeps_intros]: "keeps R (sumIO r)"
  by (simp add: keeps_def sumIO_def refl)

lemma keeps_get [keeps_intros]: "keeps R getIO"
  by (simp add: keeps_def getIO_def refl)

lemma keeps_bind [keeps_intros]:
  assumes "keeps R m" and "\<And>x. keeps R (f x)"
  shows "keeps R (bindIO m f)"
proof -
  have "R s (snd (bindIO m f s))" for s
  proof (cases "m s")
    case (Pair r s')
    with assms(1) have s': "R s s'" by (auto dest: keepsD)
    show ?thesis
      using assms(2) Pair s' by (cases r) (auto simp: bindIO_def keeps_def intro: trans)
  qed
  then show ?thesis by (simp add: keeps_def)
qed

lemma keeps_then [keeps_intros]: "keeps R m \<Longrightarrow> keeps R k \<Longrightarrow> keeps R (thenIO m k)"
  by (simp add: thenIO_def keeps_bind)

lemma keeps_try [keeps_intros]: "keeps R m \<Longrightarrow> keeps R (tryIO m)"
  by (rule keepsI) (auto simp: tryIO_def split: prod.splits sum.splits dest: keepsD)

lemma keeps_ignore [keeps_intros]: "keeps R m \<Longrightarrow> keeps R (ignoreIO m)"
  by (simp add: keeps_def ignoreIO_def)

lemma keeps_ok [keeps_intros]: "keeps R m \<Longrightarrow> keeps R (okIO d m)"
  by (rule keepsI) (auto simp: okIO_def split: prod.splits sum.splits dest: keepsD)

lemma keeps_when [keeps_intros]: "(b \<Longrightarrow> keeps R m) \<Longrightarrow> keeps R (whenIO b m)"
  by (simp add: whenIO_def keeps_ret)

lemma keeps_raise [keeps_intros]: "keeps R (raiseIO eo)"
  by (simp add: raiseIO_def keeps_ret keeps_fail split: option.splits)

lemma keeps_finally [keeps_intros]:
  assumes "keeps R m" and "\<And>eo. keeps R (d eo)"
  shows "keeps R (finallyIO m d)"
proof -
  have "R s (snd (finallyIO m d s))" for s
  proof (cases "m s")
    case (Pair r s')
    with assms(1) have s': "R s s'" by (auto dest: keepsD)
    have "R s (snd (d eo s'))" for eo
      using assms(2) s' by (auto simp: keeps_def intro: trans)
    then show ?thesis
      using Pair by (cases r) (auto simp: finallyIO_def split: prod.splits sum.splits option.splits,
        (metis snd_conv)+)
  qed
  then show ?thesis by (simp add: keeps_def)
qed

lemma keeps_onError [keeps_intros]:
  assumes "keeps R m" and "keeps R c"
  shows "keeps R (onErrorIO m c)"
proof -
  have "R s (snd (onErrorIO m c s))" for s
  proof (cases "m s")
    case (Pair r s')
    with assms(1) have "R s s'" by (auto dest: keepsD)
    then show ?thesis
      using assms(2) Pair by (cases r) (auto simp: onErrorIO_def keeps_def intro: trans)
  qed
  then show ?thesis by (simp add: keeps_def)
qed

lemma keeps_for: "(\<And>x. x \<in> set xs \<Longrightarrow> keeps R (f x)) \<Longrightarrow> keeps R (forIO xs f)"
  by (induction xs) (auto intro: keeps_ret keeps_then)

lemma keeps_fold:
  "(\<And>acc x. x \<in> set xs \<Longrightarrow> keeps R (f acc x)) \<Longrightarrow> keeps R (foldIO xs acc f)"
  by (induction xs arbitrary: acc) (auto intro: keeps_ret keeps_bind)

end

subsection \<open>What a successful run ends with\<close>

text \<open>\<open>returns Q m\<close>: whenever \<open>m\<close> succeeds, its value and its final state satisfy \<open>Q\<close>.\<close>

definition returns :: "('a \<Rightarrow> 's \<Rightarrow> bool) \<Rightarrow> ('s, 'a) io \<Rightarrow> bool" where
  "returns Q m \<longleftrightarrow> (\<forall>s x t. m s = (Inr x, t) \<longrightarrow> Q x t)"

lemma returnsD: "returns Q m \<Longrightarrow> m s = (Inr x, t) \<Longrightarrow> Q x t"
  by (simp add: returns_def)

lemma returns_bind: "(\<And>x. returns Q (f x)) \<Longrightarrow> returns Q (bindIO m f)"
  by (auto simp: returns_def bindIO_Inr_iff)

lemma returns_then: "returns Q k \<Longrightarrow> returns Q (thenIO m k)"
  by (auto simp: returns_def thenIO_Inr_iff)

lemma returns_fail: "returns Q (failIO e)"
  by (simp add: returns_def failIO_def)

lemma returns_if: "(b \<Longrightarrow> returns Q m) \<Longrightarrow> (\<not> b \<Longrightarrow> returns Q n) \<Longrightarrow> returns Q (if b then m else n)"
  by simp

subsection \<open>Lists\<close>

lemma take_snoc_nth: "n < length xs \<Longrightarrow> take (Suc n) xs = take n xs @ [xs ! n]"
  by (simp add: take_Suc_conv_app_nth)

lemma find_append: "find P (xs @ ys) = (case find P xs of Some x \<Rightarrow> Some x | None \<Rightarrow> find P ys)"
  by (induction xs) auto

lemma find_SomeD: "find P xs = Some x \<Longrightarrow> x \<in> set xs \<and> P x"
  by (auto simp: find_Some_iff)

end
