(* ===== verification/Clean_Stack.thy ===== *)
theory Clean_Stack
  imports Elemental_Prelude
begin

section \<open>The cleanup stack (pkg/utils/cleanstack.go)\<close>

text \<open>
  Every action of the program pushes the jobs that undo its work on a \<open>CleanStack\<close> and runs the
  stack when it leaves. The implementation keeps an array and a counter; the specification is a
  list with the top job first. The definitions come first, then the interface (a locale whose laws
  are those of a LIFO stack), its interpretation on the array, and the behaviour of \<open>Cleanup\<close>.
\<close>

definition errorOnly :: nat where "errorOnly = 0"
definition successOnly :: nat where "successOnly = 1"
definition always :: nat where "always = 2"

record 's CleanJob =
  cleanFunc :: "('s, unit) io"
  jobType :: nat

record 's CleanStack =
  jobs :: "'s CleanJob list"
  count :: nat

definition CleanJob_Run :: "'s CleanJob \<Rightarrow> ('s, unit) io" where
  "CleanJob_Run cj = cleanFunc cj"

definition CleanJob_Type :: "'s CleanJob \<Rightarrow> nat" where
  "CleanJob_Type cj = jobType cj"

definition NewCleanStack :: "'s CleanStack" where
  "NewCleanStack = \<lparr>jobs = [], count = 0\<rparr>"

definition Push :: "('s, unit) io \<Rightarrow> 's CleanStack \<Rightarrow> 's CleanStack" where
  "Push cFunc clean = clean\<lparr>
     jobs := take (count clean) (jobs clean) @ [\<lparr>cleanFunc = cFunc, jobType = always\<rparr>],
     count := count clean + 1\<rparr>"

definition PushErrorOnly :: "('s, unit) io \<Rightarrow> 's CleanStack \<Rightarrow> 's CleanStack" where
  "PushErrorOnly cFunc clean = clean\<lparr>
     jobs := take (count clean) (jobs clean) @ [\<lparr>cleanFunc = cFunc, jobType = errorOnly\<rparr>],
     count := count clean + 1\<rparr>"

definition PushSuccessOnly :: "('s, unit) io \<Rightarrow> 's CleanStack \<Rightarrow> 's CleanStack" where
  "PushSuccessOnly cFunc clean = clean\<lparr>
     jobs := take (count clean) (jobs clean) @ [\<lparr>cleanFunc = cFunc, jobType = successOnly\<rparr>],
     count := count clean + 1\<rparr>"

text \<open>\<open>Pop\<close> returns nil on an empty stack; the array keeps the popped job, only the counter moves.\<close>

definition Pop :: "'s CleanStack \<Rightarrow> 's CleanJob option \<times> 's CleanStack" where
  "Pop clean =
     (if count clean = 0 then (None, clean)
      else (let c = count clean - 1 in (Some (jobs clean ! c), clean\<lparr>count := c\<rparr>)))"

definition runCleanJob :: "'s CleanJob \<Rightarrow> err option \<Rightarrow> 's \<Rightarrow> err option \<times> 's" where
  "runCleanJob job errs s =
     (case CleanJob_Run job s of
        (Inl e, s') \<Rightarrow> (Some (multierror_Append errs e), s')
      | (Inr _, s') \<Rightarrow> (errs, s'))"

text \<open>The body of the loop of \<open>Cleanup\<close>: the switch on the job's type.\<close>

definition cleanupStep :: "'s CleanJob \<Rightarrow> err option \<Rightarrow> 's \<Rightarrow> err option \<times> 's" where
  "cleanupStep job errs s =
     (if CleanJob_Type job = successOnly then
        (if errs = None then runCleanJob job errs s else (errs, s))
      else if CleanJob_Type job = errorOnly then
        (if errs \<noteq> None then runCleanJob job errs s else (errs, s))
      else runCleanJob job errs s)"

lemma Pop_count_less: "count clean > 0 \<Longrightarrow> Pop clean = (j, clean') \<Longrightarrow> count clean' < count clean"
  by (auto simp: Pop_def Let_def)

function cleanupLoop ::
  "'s CleanStack \<Rightarrow> err option \<Rightarrow> 's \<Rightarrow> err option \<times> 's \<times> 's CleanStack" where
  "cleanupLoop clean errs s =
     (if count clean > 0 then
        (case Pop clean of
           (None, clean') \<Rightarrow> (errs, s, clean')
         | (Some job, clean') \<Rightarrow>
             (case cleanupStep job errs s of (errs', s') \<Rightarrow> cleanupLoop clean' errs' s'))
      else (errs, s, clean))"
  by pat_completeness auto
termination
  by (relation "measure (\<lambda>(clean, errs, s). count clean)")
    (auto intro: Pop_count_less[OF _ sym])

declare cleanupLoop.simps [simp del]

definition Cleanup ::
  "'s CleanStack \<Rightarrow> err option \<Rightarrow> 's \<Rightarrow> err option \<times> 's \<times> 's CleanStack" where
  "Cleanup clean err s =
     (let errs = (case err of None \<Rightarrow> None | Some e \<Rightarrow> Some (multierror_Append None e))
      in cleanupLoop clean errs s)"

subsection \<open>Interface: a LIFO stack\<close>

text \<open>The array view: the live jobs are the first \<open>count\<close>, the last one on top.\<close>

definition stack_wf :: "'s CleanStack \<Rightarrow> bool" where
  "stack_wf clean \<longleftrightarrow> count clean \<le> length (jobs clean)"

definition stack_list :: "'s CleanStack \<Rightarrow> 's CleanJob list" where
  "stack_list clean = rev (take (count clean) (jobs clean))"

locale lifo_stack =
  fixes empty :: 'q
    and push :: "'j \<Rightarrow> 'q \<Rightarrow> 'q"
    and pop :: "'q \<Rightarrow> 'j option \<times> 'q"
    and wf :: "'q \<Rightarrow> bool"
    and contents :: "'q \<Rightarrow> 'j list"
  assumes wf_empty: "wf empty"
    and contents_empty: "contents empty = []"
    and wf_push: "wf q \<Longrightarrow> wf (push j q)"
    and contents_push: "wf q \<Longrightarrow> contents (push j q) = j # contents q"
    and wf_pop: "wf q \<Longrightarrow> wf (snd (pop q))"
    and pop_nil: "wf q \<Longrightarrow> contents q = [] \<Longrightarrow> pop q = (None, q)"
    and pop_cons: "wf q \<Longrightarrow> contents q = j # js \<Longrightarrow>
       fst (pop q) = Some j \<and> contents (snd (pop q)) = js"
begin

lemma push_pop: "wf q \<Longrightarrow> fst (pop (push j q)) = Some j \<and> contents (snd (pop (push j q))) = contents q"
  by (simp add: wf_push contents_push pop_cons)

fun push_all :: "'j list \<Rightarrow> 'q \<Rightarrow> 'q" where
  "push_all [] q = q"
| "push_all (j # js) q = push_all js (push j q)"

lemma push_all_contents: "wf q \<Longrightarrow> wf (push_all js q) \<and> contents (push_all js q) = rev js @ contents q"
  by (induction js arbitrary: q) (simp_all add: wf_push contents_push)

end

definition pushJob :: "'s CleanJob \<Rightarrow> 's CleanStack \<Rightarrow> 's CleanStack" where
  "pushJob j clean = clean\<lparr>jobs := take (count clean) (jobs clean) @ [j], count := count clean + 1\<rparr>"

lemma Push_pushJob:
  "Push f clean = pushJob \<lparr>cleanFunc = f, jobType = always\<rparr> clean"
  "PushErrorOnly f clean = pushJob \<lparr>cleanFunc = f, jobType = errorOnly\<rparr> clean"
  "PushSuccessOnly f clean = pushJob \<lparr>cleanFunc = f, jobType = successOnly\<rparr> clean"
  by (simp_all add: Push_def PushErrorOnly_def PushSuccessOnly_def pushJob_def)

lemma stack_list_Cons_count: "stack_list clean = j # js \<Longrightarrow> count clean > 0"
  by (cases "count clean") (auto simp: stack_list_def)

lemma stack_list_pop:
  assumes "stack_wf clean" and "stack_list clean = j # js"
  shows "Pop clean = (Some j, clean\<lparr>count := count clean - 1\<rparr>)"
    and "stack_list (clean\<lparr>count := count clean - 1\<rparr>) = js"
proof -
  from assms(2) have pos: "count clean > 0" by (rule stack_list_Cons_count)
  with assms(1) have lt: "count clean - 1 < length (jobs clean)" by (auto simp: stack_wf_def)
  have "take (count clean) (jobs clean) =
      take (count clean - 1) (jobs clean) @ [jobs clean ! (count clean - 1)]"
    using take_snoc_nth[OF lt] pos by simp
  then have eq: "jobs clean ! (count clean - 1) # rev (take (count clean - 1) (jobs clean)) = j # js"
    using assms(2) by (simp add: stack_list_def)
  show "Pop clean = (Some j, clean\<lparr>count := count clean - 1\<rparr>)"
    using eq pos by (simp add: Pop_def Let_def)
  show "stack_list (clean\<lparr>count := count clean - 1\<rparr>) = js"
    using eq by (simp add: stack_list_def)
qed

interpretation cs: lifo_stack NewCleanStack pushJob Pop stack_wf stack_list
proof unfold_locales
  show "stack_wf NewCleanStack" "stack_list NewCleanStack = []"
    by (simp_all add: stack_wf_def stack_list_def NewCleanStack_def)
next
  fix q :: "'a CleanStack" and j
  assume wf: "stack_wf q"
  show "stack_wf (pushJob j q)" "stack_list (pushJob j q) = j # stack_list q"
    using wf by (simp_all add: stack_wf_def pushJob_def stack_list_def)
  show "stack_wf (snd (Pop q))"
    using wf by (auto simp: stack_wf_def Pop_def Let_def)
next
  fix q :: "'a CleanStack"
  assume "stack_wf q" "stack_list q = []"
  then show "Pop q = (None, q)" by (auto simp: stack_list_def stack_wf_def Pop_def)
next
  fix q :: "'a CleanStack" and j js
  assume "stack_wf q" "stack_list q = j # js"
  then show "fst (Pop q) = Some j \<and> stack_list (snd (Pop q)) = js"
    using stack_list_pop[of q j js] by simp
qed

subsection \<open>What \<open>Cleanup\<close> computes\<close>

text \<open>The specification: the jobs of a list, top first, each deciding on the errors so far.\<close>

fun cleanup_spec :: "'s CleanJob list \<Rightarrow> err option \<Rightarrow> 's \<Rightarrow> err option \<times> 's" where
  "cleanup_spec [] errs s = (errs, s)"
| "cleanup_spec (j # js) errs s =
     (case cleanupStep j errs s of (errs', s') \<Rightarrow> cleanup_spec js errs' s')"

lemma cleanupLoop_spec:
  assumes "stack_wf clean"
  shows "cleanupLoop clean errs s =
     (fst (cleanup_spec (stack_list clean) errs s), snd (cleanup_spec (stack_list clean) errs s),
      clean\<lparr>count := 0\<rparr>)"
  using assms
proof (induction "stack_list clean" arbitrary: clean errs s)
  case Nil
  then have "count clean = 0" by (auto simp: stack_list_def stack_wf_def)
  with Nil show ?case by (simp add: cleanupLoop.simps[of clean])
next
  case (Cons j js)
  let ?c = "clean\<lparr>count := count clean - 1\<rparr>"
  from Cons have pop: "Pop clean = (Some j, ?c)" and js: "stack_list ?c = js"
    using stack_list_pop[of clean j js] by auto
  from Cons have "stack_wf ?c" by (auto simp: stack_wf_def)
  moreover from Cons(2) have "count clean > 0" by (metis stack_list_Cons_count)
  ultimately show ?case
    using Cons(1)[of ?c] Cons(2)[symmetric] js pop
    by (simp add: cleanupLoop.simps[of clean] split: prod.splits)
qed

text \<open>The jobs that run when no job fails, for a start without or with an error.\<close>

definition runs_on_success :: "'s CleanJob \<Rightarrow> bool" where
  "runs_on_success j \<longleftrightarrow> jobType j \<noteq> errorOnly"

definition runs_on_error :: "'s CleanJob \<Rightarrow> bool" where
  "runs_on_error j \<longleftrightarrow> jobType j \<noteq> successOnly"

lemmas cleanup_defs = cleanupStep_def runCleanJob_def CleanJob_Run_def CleanJob_Type_def
  errorOnly_def successOnly_def always_def runs_on_success_def runs_on_error_def

lemma cleanupStep_error:
  assumes "runs_on_error j" and "cleanFunc j s = (r, s')"
  shows "cleanupStep j (Some (Multi es)) s =
     (Some (Multi (es @ (case r of Inl e \<Rightarrow> flat_err e | Inr _ \<Rightarrow> []))), s')"
  using assms by (cases r) (simp_all add: cleanup_defs multierror_Append_def split: if_splits)

lemma cleanup_spec_error:
  "\<exists>es. cleanup_spec js (Some (Multi (e # ds))) s =
     (Some (Multi (e # es)), snd (cleanup_spec js (Some (Multi (e # ds))) s)) \<and>
     snd (cleanup_spec js (Some (Multi (e # ds))) s) =
       fold (\<lambda>j s. snd (cleanFunc j s)) (filter runs_on_error js) s"
proof (induction js arbitrary: ds s)
  case Nil
  then show ?case by simp
next
  case (Cons j js)
  show ?case
  proof (cases "runs_on_error j")
    case False
    with Cons[of ds s] show ?thesis by (auto simp: cleanup_defs)
  next
    case True
    obtain r s' where r: "cleanFunc j s = (r, s')" by fastforce
    obtain ds' where "cleanupStep j (Some (Multi (e # ds))) s = (Some (Multi (e # ds')), s')"
      using cleanupStep_error[OF True r] by auto
    with Cons[of ds' s'] True r show ?thesis by auto
  qed
qed

lemma cleanup_spec_success:
  assumes "\<And>j s. j \<in> set js \<Longrightarrow> jobType j \<noteq> errorOnly \<Longrightarrow> \<exists>s'. cleanFunc j s = (Inr (), s')"
  shows "cleanup_spec js None s =
     (None, fold (\<lambda>j s. snd (cleanFunc j s)) (filter runs_on_success js) s)"
  using assms
proof (induction js arbitrary: s)
  case Nil
  then show ?case by simp
next
  case (Cons j js)
  show ?case
  proof (cases "runs_on_success j")
    case False
    with Cons show ?thesis by (auto simp: cleanup_defs)
  next
    case True
    then obtain s' where "cleanFunc j s = (Inr (), s')"
      using Cons.prems[of j s] by (auto simp: runs_on_success_def)
    with True Cons show ?thesis by (auto simp: cleanup_defs)
  qed
qed

subsection \<open>Stacks of the program\<close>

text \<open>A stack as the actions make it: from an empty one by pushes, pops and clean-ups.\<close>

inductive built :: "'s CleanStack \<Rightarrow> bool" where
  new: "built NewCleanStack"
| push: "built c \<Longrightarrow> built (Push f c)"
| pushError: "built c \<Longrightarrow> built (PushErrorOnly f c)"
| pushSuccess: "built c \<Longrightarrow> built (PushSuccessOnly f c)"
| pop: "built c \<Longrightarrow> built (snd (Pop c))"
| cleaned: "built c \<Longrightarrow> Cleanup c e s = (e', s', c') \<Longrightarrow> built c'"

inductive_cases built_newE: "built NewCleanStack"

lemma Cleanup_spec:
  assumes "stack_wf c"
  shows "Cleanup c e s = (let (e', s') = cleanup_spec (stack_list c) (map_option (multierror_Append None) e) s
     in (e', s', c\<lparr>count := 0\<rparr>))"
  by (cases e) (simp_all add: Cleanup_def cleanupLoop_spec[OF assms] Let_def case_prod_unfold)

lemma built_wf: "built c \<Longrightarrow> stack_wf c"
proof (induction rule: built.induct)
  case (cleaned c e s e' s' c')
  then have "c' = c\<lparr>count := 0\<rparr>" by (simp add: Cleanup_spec case_prod_unfold Let_def)
  then show ?case by (simp add: stack_wf_def)
qed (simp_all add: cs.wf_empty cs.wf_push cs.wf_pop Push_pushJob)

text \<open>
  Property C12. \<open>Cleanup\<close> on a stack the program can build does what the list of its jobs, latest first,
  specifies, and leaves the stack empty: the array and the counter implement a LIFO stack.
\<close>

theorem Cleanup_refines:
  assumes "built c"
  shows "(case Cleanup c e s of (e', s', c') \<Rightarrow>
      (e', s') = cleanup_spec (stack_list c) (map_option (multierror_Append None) e) s \<and> stack_list c' = [])"
  using Cleanup_spec[OF built_wf[OF assms], of e s]
  by (simp add: Let_def case_prod_unfold stack_list_def)

text \<open>Jobs for examples: they write a letter to the state, and the last one fails.\<close>

definition demoStack :: "string CleanStack" where
  "demoStack = PushSuccessOnly (\<lambda>s. (Inr (), s @ ''c'')) (PushErrorOnly (\<lambda>s. (Inl EFault, s @ ''b''))
     (Push (\<lambda>s. (Inr (), s @ ''a'')) NewCleanStack))"

theorem Cleanup_refines_witness:
  "(case Cleanup demoStack None [] of (e', s', c') \<Rightarrow>
      (e', s') = cleanup_spec (stack_list demoStack) None [] \<and> stack_list c' = []) \<and>
   fst (snd (Cleanup demoStack None [])) = ''ca''"
proof -
  have "built demoStack" unfolding demoStack_def by (intro built.intros)
  from Cleanup_refines[OF this, of None "[]"]
  have "(case Cleanup demoStack None [] of (e', s', c') \<Rightarrow>
      (e', s') = cleanup_spec (stack_list demoStack) None [] \<and> stack_list c' = [])" by simp
  moreover have "fst (snd (Cleanup demoStack None [])) = ''ca''" by code_simp
  ultimately show ?thesis by blast
qed

text \<open>
  Property C19. When an action has failed, \<open>Cleanup\<close> runs every job that is not for success only, in LIFO
  order and each of them even if an earlier one fails, and the error of the action stays the first one of the
  reported list.
\<close>

theorem Cleanup_on_error:
  assumes "built c" and "flat_err e = x # xs"
  shows "\<exists>es. Cleanup c (Some e) s = (Some (Multi (x # es)),
      fold (\<lambda>j s. snd (cleanFunc j s)) (filter runs_on_error (stack_list c)) s, c\<lparr>count := 0\<rparr>)"
proof -
  obtain es where "cleanup_spec (stack_list c) (Some (Multi (x # xs))) s =
      (Some (Multi (x # es)), fold (\<lambda>j s. snd (cleanFunc j s)) (filter runs_on_error (stack_list c)) s)"
    using cleanup_spec_error[of "stack_list c" x xs s] by auto
  then show ?thesis
    using assms(2) Cleanup_spec[OF built_wf[OF assms(1)], of "Some e" s]
    by (simp add: multierror_Append_def)
qed

theorem Cleanup_on_error_witness:
  "\<exists>es. Cleanup demoStack (Some ENOENT) [] = (Some (Multi (ENOENT # es)), ''ba'', demoStack\<lparr>count := 0\<rparr>)"
proof -
  have "built demoStack" unfolding demoStack_def by (intro built.intros)
  from Cleanup_on_error[OF this, of ENOENT ENOENT "[]" "[]"]
  obtain es where "Cleanup demoStack (Some ENOENT) [] = (Some (Multi (ENOENT # es)),
      fold (\<lambda>j s. snd (cleanFunc j s)) (filter runs_on_error (stack_list demoStack)) [], demoStack\<lparr>count := 0\<rparr>)"
    by auto
  moreover have "fold (\<lambda>j s. snd (cleanFunc j s)) (filter runs_on_error (stack_list demoStack)) [] = ''ba''"
    by code_simp
  ultimately show ?thesis by simp
qed

text \<open>
  When an action has succeeded and no job fails, \<open>Cleanup\<close> reports no error and has run exactly
  the jobs that are not for errors only, in LIFO order.
\<close>

theorem Cleanup_on_success:
  assumes "built c" and "\<And>j s. j \<in> set (stack_list c) \<Longrightarrow> runs_on_success j \<Longrightarrow> \<exists>s'. cleanFunc j s = (Inr (), s')"
  shows "Cleanup c None s =
     (None, fold (\<lambda>j s. snd (cleanFunc j s)) (filter runs_on_success (stack_list c)) s, c\<lparr>count := 0\<rparr>)"
proof -
  have "cleanup_spec (stack_list c) None s =
      (None, fold (\<lambda>j s. snd (cleanFunc j s)) (filter runs_on_success (stack_list c)) s)"
    using assms(2) by (intro cleanup_spec_success) (simp add: runs_on_success_def)
  then show ?thesis using Cleanup_spec[OF built_wf[OF assms(1)], of None s] by simp
qed

theorem Cleanup_on_success_witness:
  "Cleanup demoStack None [] = (None, ''ca'', demoStack\<lparr>count := 0\<rparr>)"
proof -
  have built: "built demoStack" unfolding demoStack_def by (intro built.intros)
  have "\<exists>s'. cleanFunc j s = (Inr (), s')" if "j \<in> set (stack_list demoStack)" "runs_on_success j" for j s
    using that by (auto simp: demoStack_def stack_list_def PushSuccessOnly_def PushErrorOnly_def Push_def
        NewCleanStack_def runs_on_success_def)
  from Cleanup_on_success[OF built this, of "[]"]
  have "Cleanup demoStack None [] = (None,
      fold (\<lambda>j s. snd (cleanFunc j s)) (filter runs_on_success (stack_list demoStack)) [], demoStack\<lparr>count := 0\<rparr>)" by blast
  moreover have "fold (\<lambda>j s. snd (cleanFunc j s)) (filter runs_on_success (stack_list demoStack)) [] = ''ca''"
    by code_simp
  ultimately show ?thesis by simp
qed

end
