(* ===== verification/Go_Lib.thy ===== *)
theory Go_Lib
  imports Elemental_Prelude "HOL-Library.Char_ord" "HOL-Library.List_Lexorder" "HOL-Library.Sublist"
begin

section \<open>The Go standard library functions the program uses\<close>

text \<open>
  Executable models of the functions of \<^verbatim>\<open>strings\<close>, \<^verbatim>\<open>strconv\<close>, \<^verbatim>\<open>bufio\<close> and
  \<^verbatim>\<open>path/filepath\<close> that the components call, on byte strings. A Go \<^verbatim>\<open>int\<close> has 64 bits here
  (the supported platforms are amd64, arm64 and riscv64): it is an \<open>int\<close> with the wrap-around of
  \<open>wrap_int\<close> written where the program does arithmetic that can leave the range, and a
  \<^verbatim>\<open>uint\<close> is a \<open>64 word\<close>.
\<close>

type_synonym uint = "64 word"

definition max_int :: int where "max_int = 9223372036854775807"
definition min_int :: int where "min_int = - 9223372036854775808"

definition int_range :: "int \<Rightarrow> bool" where
  "int_range i \<longleftrightarrow> min_int \<le> i \<and> i \<le> max_int"

definition wrap_int :: "int \<Rightarrow> int" where
  "wrap_int i = (i + 9223372036854775808) mod 18446744073709551616 - 9223372036854775808"

subsection \<open>strings\<close>

fun splitOn :: "char \<Rightarrow> string \<Rightarrow> string list" where
  "splitOn c [] = [[]]"
| "splitOn c (x # xs) =
     (if x = c then [] # splitOn c xs
      else (case splitOn c xs of [] \<Rightarrow> [[x]] | y # ys \<Rightarrow> (x # y) # ys))"

fun strings_Join :: "string list \<Rightarrow> string \<Rightarrow> string" where
  "strings_Join [] sep = []"
| "strings_Join [x] sep = x"
| "strings_Join (x # y # ys) sep = x @ sep @ strings_Join (y # ys) sep"

definition is_space :: "char \<Rightarrow> bool" where
  "is_space c \<longleftrightarrow> c \<in> {CHR '' '', CHR 0x09, CHR 0x0A, CHR 0x0B, CHR 0x0C, CHR 0x0D}"

definition TrimSpace :: "string \<Rightarrow> string" where
  "TrimSpace s = rev (dropWhile is_space (rev (dropWhile is_space s)))"

fun fields_aux :: "string \<Rightarrow> string \<Rightarrow> string list" where
  "fields_aux acc [] = (if acc = [] then [] else [rev acc])"
| "fields_aux acc (c # cs) =
     (if is_space c then (if acc = [] then fields_aux [] cs else rev acc # fields_aux [] cs)
      else fields_aux (c # acc) cs)"

definition Fields :: "string \<Rightarrow> string list" where
  "Fields s = fields_aux [] s"

definition HasPrefix :: "string \<Rightarrow> string \<Rightarrow> bool" where
  "HasPrefix s p \<longleftrightarrow> take (length p) s = p"

definition HasSuffix :: "string \<Rightarrow> string \<Rightarrow> bool" where
  "HasSuffix s p \<longleftrightarrow> take (length p) (rev s) = rev p"

fun Contains :: "string \<Rightarrow> string \<Rightarrow> bool" where
  "Contains [] p = (p = [])"
| "Contains (c # cs) p = (HasPrefix (c # cs) p \<or> Contains cs p)"

text \<open>\<^verbatim>\<open>strings.Index\<close> and \<^verbatim>\<open>strings.LastIndex\<close>; \<open>None\<close> is -1.\<close>

fun strings_Index :: "string \<Rightarrow> string \<Rightarrow> nat option" where
  "strings_Index [] p = (if p = [] then Some 0 else None)"
| "strings_Index (c # s) p = (if HasPrefix (c # s) p then Some 0 else map_option Suc (strings_Index s p))"

fun LastIndexByte :: "string \<Rightarrow> char \<Rightarrow> nat option" where
  "LastIndexByte [] x = None"
| "LastIndexByte (c # s) x =
     (case LastIndexByte s x of Some n \<Rightarrow> Some (Suc n) | None \<Rightarrow> if c = x then Some 0 else None)"

text \<open>\<^verbatim>\<open>strings.ReplaceAll\<close> for single characters.\<close>

definition ReplaceAll :: "string \<Rightarrow> char \<Rightarrow> char \<Rightarrow> string" where
  "ReplaceAll s x y = map (\<lambda>c. if c = x then y else c) s"

definition TrimPrefix :: "string \<Rightarrow> string \<Rightarrow> string" where
  "TrimPrefix s p = (if HasPrefix s p then drop (length p) s else s)"

definition TrimSuffix :: "string \<Rightarrow> string \<Rightarrow> string" where
  "TrimSuffix s p = (if HasSuffix s p then take (length s - length p) s else s)"

definition Count_char :: "string \<Rightarrow> char \<Rightarrow> nat" where
  "Count_char s c = length (filter (\<lambda>x. x = c) s)"

definition ToLower_char :: "char \<Rightarrow> char" where
  "ToLower_char c =
     (let n = (of_char c :: nat) in if 65 \<le> n \<and> n \<le> 90 then char_of (n + 32) else c)"

definition ToLower :: "string \<Rightarrow> string" where
  "ToLower s = map ToLower_char s"

text \<open>\<^verbatim>\<open>bufio.ScanLines\<close>: a trailing carriage return is dropped, and so is a final empty line.\<close>

definition dropCR :: "string \<Rightarrow> string" where
  "dropCR l = (if l \<noteq> [] \<and> last l = CHR 0x0D then butlast l else l)"

definition ScanLines :: "string \<Rightarrow> string list" where
  "ScanLines s =
     (let ls = splitOn (CHR 0x0A) s
      in map dropCR (if last ls = [] then butlast ls else ls))"

subsection \<open>strconv\<close>

definition digit_char :: "nat \<Rightarrow> char" where
  "digit_char d = char_of (48 + d)"

definition is_digit :: "char \<Rightarrow> bool" where
  "is_digit c \<longleftrightarrow> (let n = (of_char c :: nat) in 48 \<le> n \<and> n \<le> 57)"

definition digit_val :: "char \<Rightarrow> nat" where
  "digit_val c = of_char c - 48"

fun nat_str :: "nat \<Rightarrow> string" where
  "nat_str n = (if n < 10 then [digit_char n] else nat_str (n div 10) @ [digit_char (n mod 10)])"

declare nat_str.simps [simp del]

definition Itoa :: "int \<Rightarrow> string" where
  "Itoa i = (if i < 0 then CHR ''-'' # nat_str (nat (- i)) else nat_str (nat i))"

definition str_nat :: "string \<Rightarrow> nat" where
  "str_nat s = foldl (\<lambda>a c. 10 * a + digit_val c) 0 s"

definition all_digits :: "string \<Rightarrow> bool" where
  "all_digits s \<longleftrightarrow> s \<noteq> [] \<and> list_all is_digit s"

definition Atoi :: "string \<Rightarrow> err + int" where
  "Atoi s =
     (let (neg, ds) = (case s of [] \<Rightarrow> (False, s)
        | c # cs \<Rightarrow> if c = CHR ''-'' then (True, cs) else if c = CHR ''+'' then (False, cs) else (False, s))
      in if \<not> all_digits ds then Inl (Errorf ''invalid syntax'')
         else (let v = (if neg then - int (str_nat ds) else int (str_nat ds))
               in if int_range v then Inr v else Inl (Errorf ''value out of range'')))"

text \<open>\<^verbatim>\<open>strconv.ParseUint(s, 10, 0)\<close>: on overflow the largest value is returned beside the error.\<close>

definition ParseUint :: "string \<Rightarrow> err option \<times> uint" where
  "ParseUint s =
     (if \<not> all_digits s then (Some (Errorf ''invalid syntax''), 0)
      else if str_nat s < 2 ^ 64 then (None, of_nat (str_nat s))
      else (Some (Errorf ''value out of range''), - 1))"

definition uint_str :: "uint \<Rightarrow> string" where
  "uint_str w = nat_str (unat w)"

subsection \<open>path/filepath\<close>

abbreviation slash :: char where "slash \<equiv> CHR ''/''"

text \<open>
  One step of the lexical cleaning of \<^verbatim>\<open>filepath.Clean\<close>: the accumulator is the list of kept
  components, last first. Empty components and \<^verbatim>\<open>.\<close> vanish; \<^verbatim>\<open>..\<close> drops the component before
  it, stays at the front of a relative path and vanishes at the root.
\<close>

definition clean_step :: "bool \<Rightarrow> string list \<Rightarrow> string \<Rightarrow> string list" where
  "clean_step rooted acc c =
     (if c = [] \<or> c = ''.'' then acc
      else if c = ''..'' then
        (case acc of [] \<Rightarrow> (if rooted then [] else [c])
         | a # as \<Rightarrow> (if a = ''..'' then c # acc else as))
      else c # acc)"

definition clean_comps :: "bool \<Rightarrow> string \<Rightarrow> string list" where
  "clean_comps rooted p = rev (foldl (clean_step rooted) [] (splitOn slash p))"

definition IsAbs :: "string \<Rightarrow> bool" where
  "IsAbs p \<longleftrightarrow> p \<noteq> [] \<and> hd p = slash"

definition Clean :: "string \<Rightarrow> string" where
  "Clean p =
     (if p = [] then ''.''
      else (let cs = clean_comps (IsAbs p) p
            in if IsAbs p then slash # strings_Join cs ''/''
               else if cs = [] then ''.'' else strings_Join cs ''/''))"

definition Join :: "string list \<Rightarrow> string" where
  "Join elems =
     (case dropWhile (\<lambda>e. e = []) elems of
        [] \<Rightarrow> []
      | es \<Rightarrow> Clean (strings_Join es ''/''))"

definition Dir :: "string \<Rightarrow> string" where
  "Dir p = Clean (rev (dropWhile (\<lambda>c. c \<noteq> slash) (rev p)))"

definition Base :: "string \<Rightarrow> string" where
  "Base p =
     (if p = [] then ''.''
      else (let q = dropWhile (\<lambda>c. c = slash) (rev p)
            in if q = [] then ''/'' else rev (takeWhile (\<lambda>c. c \<noteq> slash) q)))"

text \<open>\<^verbatim>\<open>filepath.Ext\<close>: the suffix from the last dot of the last element, or empty.\<close>

definition Ext :: "string \<Rightarrow> string" where
  "Ext p =
     (let r = takeWhile (\<lambda>c. c \<noteq> slash) (rev p)
      in if CHR ''.'' \<in> set r then CHR ''.'' # rev (takeWhile (\<lambda>c. c \<noteq> CHR ''.'') r) else [])"

text \<open>The position a path names in the file system tree: its components from the root.\<close>

definition pathOf :: "string \<Rightarrow> string list" where
  "pathOf p = clean_comps True p"

definition plain :: "string \<Rightarrow> bool" where
  "plain c \<longleftrightarrow> c \<noteq> [] \<and> c \<noteq> ''.'' \<and> c \<noteq> ''..'' \<and> slash \<notin> set c"

subsection \<open>Lemmas\<close>

lemma splitOn_nonempty [simp]: "splitOn c s \<noteq> []"
  by (induction s) (auto split: list.splits)

lemma splitOn_append: "splitOn c (a @ c # b) = splitOn c a @ splitOn c b"
  by (induction a) (auto split: list.splits)

lemma splitOn_single: "c \<notin> set s \<Longrightarrow> splitOn c s = [s]"
  by (induction s) auto

lemma splitOn_set: "x \<in> set (splitOn c s) \<Longrightarrow> c \<notin> set x"
  by (induction s arbitrary: x) (auto split: if_splits list.splits)

lemma splitOn_Join:
  "xs \<noteq> [] \<Longrightarrow> \<forall>x \<in> set xs. c \<notin> set x \<Longrightarrow> splitOn c (strings_Join xs [c]) = xs"
proof (induction xs "[c]" rule: strings_Join.induct)
  case (3 x y ys)
  then have "splitOn c (strings_Join (y # ys) [c]) = y # ys" by simp
  moreover have "splitOn c (strings_Join (x # y # ys) [c]) =
      splitOn c x @ splitOn c (strings_Join (y # ys) [c])"
    by (simp add: splitOn_append)
  ultimately show ?case using 3 by (simp add: splitOn_single)
qed (auto simp: splitOn_single)

lemma Join_splitOn: "strings_Join (splitOn c s) [c] = s"
proof (induction s)
  case (Cons x xs)
  obtain y ys where y: "splitOn c xs = y # ys" by (cases "splitOn c xs") auto
  then show ?case using Cons by (cases ys) auto
qed simp

lemma splitOn_strings_Join_concat:
  "xs \<noteq> [] \<Longrightarrow> splitOn c (strings_Join xs [c]) = concat (map (splitOn c) xs)"
  by (induction xs "[c]" rule: strings_Join.induct) (auto simp: splitOn_append)

lemma dropWhile_hd: "s \<noteq> [] \<Longrightarrow> \<not> P (hd s) \<Longrightarrow> dropWhile P s = s"
  by (cases s) auto

lemma TrimSpace_id: "s \<noteq> [] \<Longrightarrow> \<not> is_space (hd s) \<Longrightarrow> \<not> is_space (last s) \<Longrightarrow> TrimSpace s = s"
  by (simp add: TrimSpace_def dropWhile_hd hd_rev)

lemma TrimSpace_newline:
  "s \<noteq> [] \<Longrightarrow> \<not> is_space (hd s) \<Longrightarrow> \<not> is_space (last s) \<Longrightarrow> is_space c \<Longrightarrow> TrimSpace (s @ [c]) = s"
  by (simp add: TrimSpace_def dropWhile_hd hd_rev)

lemma HasPrefix_iff: "HasPrefix s p \<longleftrightarrow> prefix p s"
proof
  assume "HasPrefix s p"
  then have "p = take (length p) s" by (simp add: HasPrefix_def)
  then show "prefix p s" by (metis take_is_prefix)
qed (auto simp: HasPrefix_def prefix_def)

lemma Contains_iff: "Contains s p \<longleftrightarrow> (\<exists>a b. s = a @ p @ b)"
proof (induction s)
  case Nil
  then show ?case by auto
next
  case IH: (Cons c cs)
  show ?case
  proof
    assume "Contains (c # cs) p"
    then consider "prefix p (c # cs)" | "Contains cs p" by (auto simp: HasPrefix_iff)
    then show "\<exists>a b. c # cs = a @ p @ b"
    proof cases
      case 1
      then show ?thesis by (metis append_Nil prefixE)
    next
      case 2
      then show ?thesis using IH by (metis append_Cons)
    qed
  next
    assume "\<exists>a b. c # cs = a @ p @ b"
    then obtain a b where ab: "c # cs = a @ p @ b" by blast
    show "Contains (c # cs) p"
    proof (cases a)
      case Nil
      with ab have "prefix p (c # cs)" by simp
      then show ?thesis by (simp add: HasPrefix_iff)
    next
      case (Cons d ds)
      with ab have "cs = ds @ p @ b" by simp
      with IH show ?thesis by auto
    qed
  qed
qed

lemma HasSuffix_iff: "HasSuffix s p \<longleftrightarrow> (\<exists>a. s = a @ p)"
proof
  assume "HasSuffix s p"
  then have "prefix (rev p) (rev s)" by (metis HasPrefix_def HasPrefix_iff HasSuffix_def length_rev)
  then obtain z where "rev s = rev p @ z" by (auto simp: prefix_def)
  then have "s = rev z @ p" by (metis rev_append rev_rev_ident)
  then show "\<exists>a. s = a @ p" by blast
qed (auto simp: HasSuffix_def)

paragraph \<open>Decimal numbers\<close>

lemma digit_char_props:
  assumes "d < 10"
  shows "is_digit (digit_char d)" and "digit_val (digit_char d) = d"
  using assms by (auto simp: is_digit_def digit_char_def digit_val_def Let_def)

lemma nat_str_digits: "all_digits (nat_str n)"
proof (induction n rule: nat_str.induct)
  case (1 n)
  show ?case
  proof (cases "n < 10")
    case True
    then show ?thesis by (subst nat_str.simps) (simp add: all_digits_def digit_char_props)
  next
    case False
    with 1 show ?thesis by (subst nat_str.simps) (simp add: all_digits_def digit_char_props)
  qed
qed

lemma str_nat_snoc: "str_nat (s @ [c]) = 10 * str_nat s + digit_val c"
  by (simp add: str_nat_def)

lemma str_nat_nat_str: "str_nat (nat_str n) = n"
proof (induction n rule: nat_str.induct)
  case (1 n)
  show ?case
  proof (cases "n < 10")
    case True
    then show ?thesis by (subst nat_str.simps) (simp add: str_nat_def digit_char_props)
  next
    case False
    with 1 have "str_nat (nat_str n) = 10 * (n div 10) + n mod 10"
      by (subst nat_str.simps) (simp add: str_nat_snoc digit_char_props)
    then show ?thesis by simp
  qed
qed

lemma nat_str_inj: "nat_str m = nat_str n \<longleftrightarrow> m = n"
  by (metis str_nat_nat_str)

lemma digit_not_special: "is_digit c \<Longrightarrow> c \<noteq> CHR ''-'' \<and> c \<noteq> CHR ''+'' \<and> c \<noteq> slash \<and> c \<noteq> CHR ''.'' \<and> \<not> is_space c"
  by (auto simp: is_digit_def is_space_def Let_def)

lemma all_digits_cases: "all_digits s \<Longrightarrow> \<exists>c cs. s = c # cs \<and> c \<noteq> CHR ''-'' \<and> c \<noteq> CHR ''+''"
  by (cases s) (auto simp: all_digits_def dest: digit_not_special)

lemma Atoi_digits:
  "all_digits s \<Longrightarrow>
     Atoi s = (if int_range (int (str_nat s)) then Inr (int (str_nat s)) else Inl (Errorf ''value out of range''))"
  using all_digits_cases[of s] by (auto simp: Atoi_def Let_def)

lemma Atoi_Itoa: "int_range i \<Longrightarrow> Atoi (Itoa i) = Inr i"
proof (cases "i < 0")
  case True
  assume r: "int_range i"
  have "Atoi (Itoa i) = Atoi (CHR ''-'' # nat_str (nat (- i)))" using True by (simp add: Itoa_def)
  also have "\<dots> = Inr i"
    using True r nat_str_digits[of "nat (- i)"] by (simp add: Atoi_def Let_def str_nat_nat_str)
  finally show ?thesis .
next
  case False
  assume "int_range i"
  with False show ?thesis
    using Atoi_digits[OF nat_str_digits[of "nat i"]] by (simp add: Itoa_def str_nat_nat_str)
qed

lemma Itoa_nonneg_digits: "i \<ge> 0 \<Longrightarrow> all_digits (Itoa i)"
  by (simp add: Itoa_def nat_str_digits)

lemma all_digits_plain: "all_digits s \<Longrightarrow> plain s"
proof -
  assume "all_digits s"
  then have ne: "s \<noteq> []" and dg: "\<forall>c \<in> set s. c \<noteq> slash \<and> c \<noteq> CHR ''.''"
    by (auto simp: all_digits_def list_all_iff dest: digit_not_special)
  have "s \<noteq> ''.''" "s \<noteq> ''..''"
    using dg list.set_intros(1)[of "CHR ''.''"] by metis+
  with ne dg show ?thesis unfolding plain_def by blast
qed

lemma Itoa_plain: "i \<ge> 0 \<Longrightarrow> plain (Itoa i)"
  by (simp add: Itoa_nonneg_digits all_digits_plain)

lemma Itoa_inj: "i \<ge> 0 \<Longrightarrow> j \<ge> 0 \<Longrightarrow> Itoa i = Itoa j \<longleftrightarrow> i = j"
  by (auto simp: Itoa_def nat_str_inj)

lemma ParseUint_uint_str: "ParseUint (uint_str w) = (None, w)"
proof -
  have "unat w < 2 ^ 64" using unsigned_less[of w, where 'a = nat] by simp
  then show ?thesis
    using nat_str_digits[of "unat w"] by (simp add: ParseUint_def uint_str_def str_nat_nat_str)
qed

lemma wrap_int_id: "int_range i \<Longrightarrow> wrap_int i = i"
  by (simp add: wrap_int_def int_range_def min_int_def max_int_def)

lemma wrap_int_range: "int_range (wrap_int i)"
proof -
  have "0 \<le> (i + 9223372036854775808) mod 18446744073709551616"
    and "(i + 9223372036854775808) mod 18446744073709551616 < 18446744073709551616"
    by simp_all
  then show ?thesis by (simp add: wrap_int_def int_range_def min_int_def max_int_def)
qed

paragraph \<open>Paths\<close>

lemma clean_step_plain: "plain c \<Longrightarrow> clean_step r acc c = c # acc"
  by (simp add: clean_step_def plain_def)

lemma foldl_clean_plain: "\<forall>c \<in> set cs. plain c \<Longrightarrow> foldl (clean_step r) acc cs = rev cs @ acc"
  by (induction cs arbitrary: acc) (simp_all add: clean_step_plain)

lemma clean_comps_rooted_plain: "c \<in> set (clean_comps True p) \<Longrightarrow> plain c"
proof -
  have step: "\<forall>c \<in> set (clean_step True acc x). plain c"
    if acc: "\<forall>c \<in> set acc. plain c" and x: "slash \<notin> set x" for acc x
  proof -
    consider "x = [] \<or> x = ''.''" | "x = ''..''" | "plain x" using x by (auto simp: plain_def)
    then show ?thesis
    proof cases
      case 1
      then show ?thesis using acc by (simp add: clean_step_def)
    next
      case 2
      then show ?thesis
        using acc by (cases acc) (simp_all add: clean_step_def plain_def)
    next
      case 3
      then show ?thesis using acc by (simp add: clean_step_plain)
    qed
  qed
  have "\<forall>c \<in> set (foldl (clean_step True) acc xs). plain c"
    if "\<forall>c \<in> set acc. plain c" and "\<forall>x \<in> set xs. slash \<notin> set x" for acc xs
    using that
  proof (induction xs arbitrary: acc)
    case (Cons x xs)
    then have "\<forall>c \<in> set (clean_step True acc x). plain c" by (intro step) auto
    with Cons show ?case by simp
  qed simp
  from this[of "[]" "splitOn slash p"] show "c \<in> set (clean_comps True p) \<Longrightarrow> plain c"
    by (auto simp: clean_comps_def dest: splitOn_set)
qed

lemma clean_comps_of_clean:
  assumes "\<forall>c \<in> set cs. plain c"
  shows "clean_comps True (slash # strings_Join cs ''/'') = cs"
proof (cases cs)
  case Nil
  then show ?thesis by (simp add: clean_comps_def clean_step_def)
next
  case (Cons c' cs')
  with assms have "splitOn slash (strings_Join cs ''/'') = cs"
    by (intro splitOn_Join) (auto simp: plain_def)
  then show ?thesis
    using assms by (simp add: clean_comps_def clean_step_def foldl_clean_plain)
qed

lemma pathOf_Clean: "IsAbs p \<Longrightarrow> pathOf (Clean p) = pathOf p"
  by (auto simp: Clean_def pathOf_def Let_def IsAbs_def intro!: clean_comps_of_clean
      dest: clean_comps_rooted_plain)

lemma IsAbs_strings_Join: "IsAbs r \<Longrightarrow> IsAbs (strings_Join (r # ps) sep)"
  by (cases ps) (auto simp: IsAbs_def)

lemma pathOf_Join:
  assumes "IsAbs r"
  shows "pathOf (Join (r # ps)) =
     rev (foldl (clean_step True) (rev (pathOf r)) (concat (map (splitOn slash) ps)))"
proof -
  have "r \<noteq> []" using assms by (simp add: IsAbs_def)
  then have "pathOf (Join (r # ps)) = pathOf (strings_Join (r # ps) [slash])"
    using pathOf_Clean[OF IsAbs_strings_Join[OF assms]] by (simp add: Join_def)
  also have "\<dots> = rev (foldl (clean_step True) [] (splitOn slash r @ concat (map (splitOn slash) ps)))"
    using splitOn_strings_Join_concat[of "r # ps" slash] by (simp add: pathOf_def clean_comps_def)
  finally show ?thesis by (simp add: pathOf_def clean_comps_def)
qed

lemma pathOf_Join_plain:
  assumes "IsAbs r" and "\<forall>c \<in> set ps. plain c"
  shows "pathOf (Join (r # ps)) = pathOf r @ ps"
proof -
  have "concat (map (splitOn slash) ps) = ps"
    using assms(2) by (induction ps) (auto simp: splitOn_single plain_def)
  then show ?thesis using assms by (simp add: pathOf_Join foldl_clean_plain)
qed

lemma IsAbs_Join: "IsAbs r \<Longrightarrow> IsAbs (Join (r # ps))"
  using IsAbs_strings_Join[of r ps "''/''"]
  by (auto simp: Join_def Clean_def IsAbs_def Let_def)

lemma pathOf_plain: "c \<in> set (pathOf p) \<Longrightarrow> plain c"
  by (simp add: pathOf_def clean_comps_rooted_plain)

end
