(* ===== verification/World.thy ===== *)
theory World
  imports Go_Lib "HOL-Library.AList"
begin

section \<open>The system the program runs on: file tree, mounts, failures\<close>

text \<open>
  The program reaches the system through the interfaces \<^verbatim>\<open>types.FS\<close> (pkg/types/fs.go) and
  \<^verbatim>\<open>types.Mounter\<close> (pkg/types/mounter.go). Their implementations are the operating system and
  third-party packages; this theory is the environment the components are proved against:

  \<^item> the file tree is an association list from a position (the components of the cleaned path) to a
    node; the root directory always exists; a symbolic link is followed in the last component of a
    path only;
  \<^item> the mount table is the list of the mounts made so far, the latest first; a mount does not
    change what the file tree shows;
  \<^item> every call first asks \<open>faults\<close> whether it fails: an arbitrary function of the
    number of calls made so far, so a theorem that quantifies over the world covers every pattern of
    failing calls. A call that fails this way changes nothing but the call counter: a removal of a tree that stops half way is
    not among the failures;
  \<^item> the working directory and the root directory of the process are strings that \<^verbatim>\<open>Chdir\<close> and
    \<^verbatim>\<open>Chroot\<close> set, read from the real root; positions in the file tree are always read from the real root.
\<close>

datatype node =
    NDir nat
  | NFile nat string
  | NLink string

record mount =
  mSource :: string
  mTarget :: string
  mType :: string
  mOpts :: "string list"

record world =
  files :: "(string list \<times> node) list"
  mounts :: "mount list"
  cmds :: "(string \<times> string list) list"
  faults :: "nat \<Rightarrow> bool"
  ticks :: nat
  randSeed :: "32 word"
  clock :: "32 word"
  curDir :: string
  curRoot :: string

subsection \<open>The file tree\<close>

definition fs_lookup :: "world \<Rightarrow> string list \<Rightarrow> node option" where
  "fs_lookup w p = (if p = [] then Some (NDir 0) else map_of (files w) p)"

definition fs_set :: "string list \<Rightarrow> node \<Rightarrow> world \<Rightarrow> world" where
  "fs_set p n w = w\<lparr>files := AList.update p n (files w)\<rparr>"

definition is_below :: "string list \<Rightarrow> string list \<Rightarrow> bool" where
  "is_below d p \<longleftrightarrow> take (length d) p = d"

definition fs_del :: "string list \<Rightarrow> world \<Rightarrow> world" where
  "fs_del d w = w\<lparr>files := filter (\<lambda>(p, _). \<not> is_below d p) (files w)\<rparr>"

definition children :: "world \<Rightarrow> string list \<Rightarrow> string list" where
  "children w d = sort (remdups (map (\<lambda>(p, _). last p)
     (filter (\<lambda>(p, _). p \<noteq> [] \<and> butlast p = d) (files w))))"

text \<open>Where a link that stands at position \<open>p\<close> with target \<open>t\<close> points to.\<close>

definition link_target :: "string list \<Rightarrow> string \<Rightarrow> string list" where
  "link_target p t =
     (if IsAbs t then pathOf t
      else rev (foldl (clean_step True) (rev (butlast p)) (splitOn slash t)))"

fun follow :: "nat \<Rightarrow> world \<Rightarrow> string list \<Rightarrow> string list option" where
  "follow 0 w p = None"
| "follow (Suc n) w p =
     (case fs_lookup w p of Some (NLink t) \<Rightarrow> follow n w (link_target p t) | _ \<Rightarrow> Some p)"

text \<open>The kernel gives up after 40 nested links.\<close>

definition resolve :: "world \<Rightarrow> string list \<Rightarrow> string list option" where
  "resolve w p = follow (Suc 40) w p"

definition is_dir_at :: "world \<Rightarrow> string list \<Rightarrow> bool" where
  "is_dir_at w p = (case fs_lookup w p of Some (NDir _) \<Rightarrow> True | _ \<Rightarrow> False)"

subsection \<open>Calls\<close>

definition sysIO :: "(world, 'a) io \<Rightarrow> (world, 'a) io" where
  "sysIO m = (\<lambda>w. let w' = w\<lparr>ticks := Suc (ticks w)\<rparr>
     in if faults w (ticks w) then (Inl EFault, w') else m w')"

definition fs_Lstat :: "string \<Rightarrow> (world, node) io" where
  "fs_Lstat p = sysIO (\<lambda>w. case fs_lookup w (pathOf p) of
     None \<Rightarrow> (Inl ENOENT, w) | Some n \<Rightarrow> (Inr n, w))"

definition fs_Stat :: "string \<Rightarrow> (world, node) io" where
  "fs_Stat p = sysIO (\<lambda>w. case resolve w (pathOf p) of
     None \<Rightarrow> (Inl EFault, w)
   | Some q \<Rightarrow> (case fs_lookup w q of None \<Rightarrow> (Inl ENOENT, w) | Some n \<Rightarrow> (Inr n, w)))"

definition fs_Readlink :: "string \<Rightarrow> (world, string) io" where
  "fs_Readlink p = sysIO (\<lambda>w. case fs_lookup w (pathOf p) of
     None \<Rightarrow> (Inl ENOENT, w) | Some (NLink t) \<Rightarrow> (Inr t, w) | Some _ \<Rightarrow> (Inl EFault, w))"

definition entries :: "world \<Rightarrow> string list \<Rightarrow> (string \<times> node) list" where
  "entries w d = List.map_filter (\<lambda>c. map_option (\<lambda>n. (c, n)) (fs_lookup w (d @ [c]))) (children w d)"

definition fs_ReadDir :: "string \<Rightarrow> (world, (string \<times> node) list) io" where
  "fs_ReadDir p = sysIO (\<lambda>w. case resolve w (pathOf p) of
     None \<Rightarrow> (Inl EFault, w)
   | Some q \<Rightarrow> (case fs_lookup w q of
        None \<Rightarrow> (Inl ENOENT, w)
      | Some (NDir _) \<Rightarrow> (Inr (entries w q), w)
      | Some _ \<Rightarrow> (Inl ENOTDIR, w)))"

definition fs_ReadFile :: "string \<Rightarrow> (world, string) io" where
  "fs_ReadFile p = sysIO (\<lambda>w. case resolve w (pathOf p) of
     None \<Rightarrow> (Inl EFault, w)
   | Some q \<Rightarrow> (case fs_lookup w q of
        None \<Rightarrow> (Inl ENOENT, w)
      | Some (NFile _ d) \<Rightarrow> (Inr d, w)
      | Some _ \<Rightarrow> (Inl EFault, w)))"

text \<open>Writing a file truncates an existing one and keeps its mode; the directory must exist.\<close>

definition fs_WriteFile :: "string \<Rightarrow> string \<Rightarrow> nat \<Rightarrow> (world, unit) io" where
  "fs_WriteFile p d mode = sysIO (\<lambda>w. case resolve w (pathOf p) of
     None \<Rightarrow> (Inl EFault, w)
   | Some q \<Rightarrow> (case fs_lookup w q of
        Some (NDir _) \<Rightarrow> (Inl EFault, w)
      | Some (NFile m _) \<Rightarrow> (Inr (), fs_set q (NFile m d) w)
      | _ \<Rightarrow> (if is_dir_at w (butlast q) then (Inr (), fs_set q (NFile mode d) w)
              else (Inl ENOENT, w))))"

definition fs_Create :: "string \<Rightarrow> (world, unit) io" where
  "fs_Create p = fs_WriteFile p [] 438"

definition fs_Chmod :: "string \<Rightarrow> nat \<Rightarrow> (world, unit) io" where
  "fs_Chmod p mode = sysIO (\<lambda>w. case resolve w (pathOf p) of
     None \<Rightarrow> (Inl EFault, w)
   | Some q \<Rightarrow> (case fs_lookup w q of
        None \<Rightarrow> (Inl ENOENT, w)
      | Some (NDir _) \<Rightarrow> (Inr (), if q = [] then w else fs_set q (NDir mode) w)
      | Some (NFile _ d) \<Rightarrow> (Inr (), fs_set q (NFile mode d) w)
      | Some (NLink _) \<Rightarrow> (Inl EFault, w)))"

definition fs_Remove :: "string \<Rightarrow> (world, unit) io" where
  "fs_Remove p = sysIO (\<lambda>w. let q = pathOf p in
     (case fs_lookup w q of
        None \<Rightarrow> (Inl ENOENT, w)
      | Some (NDir _) \<Rightarrow> (if q = [] \<or> children w q \<noteq> [] then (Inl EFault, w) else (Inr (), fs_del q w))
      | Some _ \<Rightarrow> (Inr (), fs_del q w)))"

text \<open>\<^verbatim>\<open>os.RemoveAll\<close> ignores the empty path.\<close>

definition fs_RemoveAll :: "string \<Rightarrow> (world, unit) io" where
  "fs_RemoveAll p = sysIO (\<lambda>w. (Inr (), if p = [] then w else fs_del (pathOf p) w))"

definition fs_Symlink :: "string \<Rightarrow> string \<Rightarrow> (world, unit) io" where
  "fs_Symlink target p = sysIO (\<lambda>w. let q = pathOf p in
     if fs_lookup w q \<noteq> None then (Inl EEXIST, w)
     else if is_dir_at w (butlast q) then (Inr (), fs_set q (NLink target) w)
     else (Inl ENOENT, w))"

definition fs_Link :: "string \<Rightarrow> string \<Rightarrow> (world, unit) io" where
  "fs_Link old p = sysIO (\<lambda>w. let q = pathOf p in
     (case fs_lookup w (pathOf old) of
        None \<Rightarrow> (Inl ENOENT, w)
      | Some (NDir _) \<Rightarrow> (Inl EFault, w)
      | Some n \<Rightarrow>
          (if fs_lookup w q \<noteq> None then (Inl EEXIST, w)
           else if is_dir_at w (butlast q) then (Inr (), fs_set q n w)
           else (Inl ENOENT, w))))"

text \<open>
  Renaming moves the whole tree. It replaces a file or link by a file or link and an empty directory by a directory;
  other things in the way make it fail.
\<close>

definition move_path :: "string list \<Rightarrow> string list \<Rightarrow> string list \<Rightarrow> string list" where
  "move_path src dst p = (if is_below src p then dst @ drop (length src) p else p)"

definition fs_Rename :: "string \<Rightarrow> string \<Rightarrow> (world, unit) io" where
  "fs_Rename old new = sysIO (\<lambda>w. let src = pathOf old; dst = pathOf new in
     if src = [] \<or> fs_lookup w src = None then (Inl ENOENT, w)
     else if dst = [] \<or> \<not> is_dir_at w (butlast dst) then (Inl ENOENT, w)
     else if is_below src dst \<and> src \<noteq> dst then (Inl EFault, w)
     else if src = dst then (Inr (), w)
     else if fs_lookup w dst \<noteq> None \<and> (is_dir_at w src \<noteq> is_dir_at w dst \<or> is_dir_at w dst \<and> children w dst \<noteq> [])
     then (Inl EFault, w)
     else (Inr (), w\<lparr>files := map (\<lambda>(p, n). (move_path src dst p, n))
             (files (fs_del dst w))\<rparr>))"

text \<open>\<^verbatim>\<open>os.MkdirAll\<close>: every prefix of the path becomes a directory; a file or a link in the way fails.\<close>

fun mkdirs :: "string list \<Rightarrow> string list \<Rightarrow> nat \<Rightarrow> world \<Rightarrow> (err + unit) \<times> world" where
  "mkdirs d [] mode w = (Inr (), w)"
| "mkdirs d (c # cs) mode w =
     (let q = d @ [c] in
      case fs_lookup w q of
        None \<Rightarrow> mkdirs q cs mode (fs_set q (NDir mode) w)
      | Some (NDir _) \<Rightarrow> mkdirs q cs mode w
      | Some _ \<Rightarrow> (Inl ENOTDIR, w))"

definition os_MkdirAll :: "string \<Rightarrow> nat \<Rightarrow> (world, unit) io" where
  "os_MkdirAll p mode = sysIO (mkdirs [] (pathOf p) mode)"

subsection \<open>Mounts\<close>

definition mounted_at :: "world \<Rightarrow> string list \<Rightarrow> bool" where
  "mounted_at w p \<longleftrightarrow> (\<exists>m \<in> set (mounts w). pathOf (mTarget m) = p)"

definition mnt_Mount :: "string \<Rightarrow> string \<Rightarrow> string \<Rightarrow> string list \<Rightarrow> (world, unit) io" where
  "mnt_Mount src target fstype opts = sysIO (\<lambda>w.
     (Inr (), w\<lparr>mounts := \<lparr>mSource = src, mTarget = target, mType = fstype, mOpts = opts\<rparr> # mounts w\<rparr>))"

fun remove_mount :: "string list \<Rightarrow> mount list \<Rightarrow> mount list option" where
  "remove_mount p [] = None"
| "remove_mount p (m # ms) =
     (if pathOf (mTarget m) = p then Some ms else map_option (\<lambda>r. m # r) (remove_mount p ms))"

definition mnt_Unmount :: "string \<Rightarrow> (world, unit) io" where
  "mnt_Unmount target = sysIO (\<lambda>w. case remove_mount (pathOf target) (mounts w) of
     None \<Rightarrow> (Inl EFault, w) | Some ms \<Rightarrow> (Inr (), w\<lparr>mounts := ms\<rparr>))"

text \<open>\<^verbatim>\<open>IsLikelyNotMountPoint\<close> stats the path first and returns true beside the error.\<close>

definition mnt_IsLikelyNotMountPoint :: "string \<Rightarrow> (world, bool) io" where
  "mnt_IsLikelyNotMountPoint p =
     bindIO (fs_Stat p) (\<lambda>_. \<lambda>w. (Inr (\<not> mounted_at w (pathOf p)), w))"

subsection \<open>The process\<close>

definition os_Getwd :: "(world, string) io" where
  "os_Getwd = sysIO (\<lambda>w. (Inr (curDir w), w))"

definition sys_Chdir :: "string \<Rightarrow> (world, unit) io" where
  "sys_Chdir p = sysIO (\<lambda>w. (Inr (), w\<lparr>curDir := p\<rparr>))"

text \<open>The path \<^verbatim>\<open>.\<close> is the working directory; the program passes no other relative path.\<close>

definition sys_Chroot :: "string \<Rightarrow> (world, unit) io" where
  "sys_Chroot p = sysIO (\<lambda>w. (Inr (), w\<lparr>curRoot := (if p = ''.'' then curDir w else p)\<rparr>))"

subsection \<open>Objects with methods\<close>

text \<open>
  A method of a Go object with a pointer receiver works on the object and the world: its state is the
  pair of both. \<open>liftW\<close> is a call that does not touch the object.
\<close>

definition liftW :: "(world, 'a) io \<Rightarrow> ('o \<times> world, 'a) io" where
  "liftW m = (\<lambda>(obj, w). case m w of (r, w') \<Rightarrow> (r, (obj, w')))"

definition getO :: "('o \<times> world, 'o) io" where
  "getO = (\<lambda>(obj, w). (Inr obj, (obj, w)))"

definition modO :: "('o \<Rightarrow> 'o) \<Rightarrow> ('o \<times> world, unit) io" where
  "modO f = (\<lambda>(obj, w). (Inr (), (f obj, w)))"

text \<open>A method of an object that is a field of another one.\<close>

definition zoom :: "('o \<Rightarrow> 'p) \<Rightarrow> ('p \<Rightarrow> 'o \<Rightarrow> 'o) \<Rightarrow> ('p \<times> world, 'a) io \<Rightarrow> ('o \<times> world, 'a) io" where
  "zoom get put m = (\<lambda>(obj, w). case m (get obj, w) of (r, (p, w')) \<Rightarrow> (r, (put p obj, w')))"

lemma zoom_iff: "zoom get put m (obj, w) = (r, (obj', w')) \<longleftrightarrow> (\<exists>p. m (get obj, w) = (r, (p, w')) \<and> obj' = put p obj)"
  by (auto simp: zoom_def split: prod.splits)

lemma objIO_eval [io_simps]:
  "liftW m (obj, w) = (fst (m w), (obj, snd (m w)))"
  "getO (obj, w) = (Inr obj, (obj, w))"
  "modO f (obj, w) = (Inr (), (f obj, w))"
  by (simp_all add: liftW_def getO_def modO_def split: prod.splits)

lemma objIO_bind [io_simps]:
  "bindIO getO f (obj, w) = f obj (obj, w)"
  "thenIO (modO g) k (obj, w) = k (g obj, w)"
  by (simp_all add: bindIO_def thenIO_def getO_def modO_def)

lemma liftW_bind [io_simps]:
  "bindIO (liftW m) f (obj, w) = (case m w of (Inl e, w') \<Rightarrow> (Inl e, (obj, w')) | (Inr x, w') \<Rightarrow> f x (obj, w'))"
  "thenIO (liftW n) k (obj, w) = (case n w of (Inl e, w') \<Rightarrow> (Inl e, (obj, w')) | (Inr _, w') \<Rightarrow> k (obj, w'))"
  by (simp_all add: bindIO_def thenIO_def liftW_def split: prod.splits sum.splits)

lemma liftW_iff: "liftW m (obj, w) = (r, (obj', w')) \<longleftrightarrow> obj' = obj \<and> m w = (r, w')"
  by (auto simp: liftW_def split: prod.splits)

subsection \<open>Lemmas on the file tree\<close>

lemma is_below_refl [simp]: "is_below d d"
  by (simp add: is_below_def)

lemma is_below_append [simp]: "is_below d (d @ p)"
  by (simp add: is_below_def)

lemma is_below_iff: "is_below d p \<longleftrightarrow> (\<exists>q. p = d @ q)"
  by (metis append_eq_conv_conj append_take_drop_id is_below_def)

lemma is_below_trans: "is_below a b \<Longrightarrow> is_below b c \<Longrightarrow> is_below a c"
  by (auto simp: is_below_iff)

lemma fs_lookup_root [simp]: "fs_lookup w [] = Some (NDir 0)"
  by (simp add: fs_lookup_def)

lemma fs_lookup_set: "q \<noteq> [] \<Longrightarrow> fs_lookup (fs_set q n w) p = (if p = q then Some n else fs_lookup w p)"
  by (simp add: fs_lookup_def fs_set_def update_conv')

lemma map_of_filter_key: "map_of (filter (\<lambda>(k, _). P k) xs) k = (if P k then map_of xs k else None)"
  by (induction xs) auto

lemma fs_lookup_del:
  "fs_lookup (fs_del d w) p = (if p \<noteq> [] \<and> is_below d p then None else fs_lookup w p)"
  by (simp add: fs_lookup_def fs_del_def map_of_filter_key)

lemma world_frame [simp]:
  "fs_lookup (w\<lparr>ticks := t\<rparr>) p = fs_lookup w p"
  "fs_lookup (w\<lparr>mounts := ms\<rparr>) p = fs_lookup w p"
  "fs_lookup (w\<lparr>cmds := cs\<rparr>) p = fs_lookup w p"
  "children (w\<lparr>ticks := t\<rparr>) p = children w p"
  "children (w\<lparr>mounts := ms\<rparr>) p = children w p"
  "children (w\<lparr>cmds := cs\<rparr>) p = children w p"
  "mounts (fs_set q n w) = mounts w"
  "mounts (fs_del q w) = mounts w"
  "faults (fs_set q n w) = faults w"
  "faults (fs_del q w) = faults w"
  "ticks (fs_set q n w) = ticks w"
  "ticks (fs_del q w) = ticks w"
  "cmds (fs_set q n w) = cmds w"
  "cmds (fs_del q w) = cmds w"
  by (simp_all add: fs_lookup_def children_def fs_set_def fs_del_def)

lemma set_children:
  "set (children w d) = {c. \<exists>n. fs_lookup w (d @ [c]) = Some n}"
proof -
  have "c \<in> set (children w d) \<longleftrightarrow> (\<exists>n. (d @ [c], n) \<in> set (files w))" for c
  proof
    assume "c \<in> set (children w d)"
    then obtain p n where "(p, n) \<in> set (files w)" "p \<noteq> []" "butlast p = d" "c = last p"
      by (auto simp: children_def)
    then show "\<exists>n. (d @ [c], n) \<in> set (files w)" using append_butlast_last_id by metis
  next
    assume "\<exists>n. (d @ [c], n) \<in> set (files w)"
    then obtain n where "(d @ [c], n) \<in> set (files w)" ..
    then have "last (d @ [c]) \<in> set (children w d)"
      unfolding children_def by (force simp del: last_snoc)
    then show "c \<in> set (children w d)" by simp
  qed
  moreover have "(\<exists>n. (d @ [c], n) \<in> set (files w)) \<longleftrightarrow> (\<exists>n. fs_lookup w (d @ [c]) = Some n)" for c
    by (metis append_is_Nil_conv fs_lookup_def list.distinct(1) map_of_SomeD weak_map_of_SomeI)
  ultimately show ?thesis by auto
qed

lemma children_distinct_sorted: "distinct (children w d) \<and> sorted (children w d)"
  by (simp add: children_def)

lemma entries_names: "map fst (entries w d) = children w d"
proof -
  have "map fst (List.map_filter (\<lambda>c. map_option (\<lambda>n. (c, n)) (fs_lookup w (d @ [c]))) cs) = cs"
    if "\<forall>c \<in> set cs. \<exists>n. fs_lookup w (d @ [c]) = Some n" for cs
    using that by (induction cs) auto
  from this[of "children w d"] show ?thesis by (simp add: entries_def set_children)
qed

lemma sysIO_cases:
  assumes "sysIO m w = (r, w')"
  obtains (fault) "r = Inl EFault" "w' = w\<lparr>ticks := Suc (ticks w)\<rparr>"
    | (ran) "\<not> faults w (ticks w)" "m (w\<lparr>ticks := Suc (ticks w)\<rparr>) = (r, w')"
  using assms by (auto simp: sysIO_def Let_def split: if_splits)

subsection \<open>File contents\<close>

text \<open>What reading the file \<open>p\<close> gives, links followed.\<close>

definition contentAt :: "world \<Rightarrow> string \<Rightarrow> string option" where
  "contentAt w p = (case resolve w (pathOf p) of
     None \<Rightarrow> None
   | Some q \<Rightarrow> (case fs_lookup w q of Some (NFile _ d) \<Rightarrow> Some d | _ \<Rightarrow> None))"

lemma follow_not_link: "follow n w p = Some q \<Longrightarrow> fs_lookup w q \<noteq> Some (NLink t)"
  by (induction n w p rule: follow.induct) (auto split: option.splits node.splits)

lemma follow_set:
  assumes "follow n w p = Some q" "q \<noteq> []"
  shows "follow n (fs_set q (NFile m d) w) p = Some q"
  using assms(1)
proof (induction n arbitrary: p)
  case (Suc n)
  show ?case
  proof (cases "\<exists>t. fs_lookup w p = Some (NLink t)")
    case True
    then obtain t where t: "fs_lookup w p = Some (NLink t)" ..
    then have "p \<noteq> q" using follow_not_link[OF Suc.prems] by auto
    then show ?thesis using t Suc fs_lookup_set[OF assms(2)] by simp
  next
    case False
    then have "p = q" using Suc.prems by (auto split: option.splits node.splits)
    then show ?thesis using fs_lookup_set[OF assms(2)] by simp
  qed
qed simp

lemma follow_ticks [simp]: "follow n (w\<lparr>ticks := k\<rparr>) p = follow n w p"
  by (induction n arbitrary: p) (auto split: option.splits node.splits)

lemma resolve_ticks [simp]: "resolve (w\<lparr>ticks := k\<rparr>) p = resolve w p"
  by (simp add: resolve_def)

lemma ReadFile_content:
  "fs_ReadFile p w = (Inr d, w') \<Longrightarrow> contentAt w p = Some d \<and> w' = w\<lparr>ticks := Suc (ticks w)\<rparr>"
  by (auto simp: fs_ReadFile_def sysIO_def Let_def contentAt_def split: if_splits option.splits node.splits)

lemma content_ReadFile:
  "contentAt w p = Some d \<Longrightarrow> \<not> faults w (ticks w) \<Longrightarrow> fs_ReadFile p w = (Inr d, w\<lparr>ticks := Suc (ticks w)\<rparr>)"
  by (auto simp: fs_ReadFile_def sysIO_def Let_def contentAt_def split: option.splits node.splits)

lemma content_ticks [simp]: "contentAt (w\<lparr>ticks := k\<rparr>) p = contentAt w p"
  by (simp add: contentAt_def split: option.split)

lemma content_set:
  "resolve w (pathOf p) = Some q \<Longrightarrow> q \<noteq> [] \<Longrightarrow> contentAt (fs_set q (NFile m d) w) p = Some d"
  using follow_set[of "Suc 40" w "pathOf p" q] by (simp add: contentAt_def resolve_def fs_lookup_set del: follow.simps)

lemma WriteFile_content:
  assumes "fs_WriteFile p d mode w = (Inr (), w')"
  shows "contentAt w' p = Some d" and "faults w' = faults w"
proof -
  from assms obtain q where q: "resolve w (pathOf p) = Some q" "\<forall>m. fs_lookup w q \<noteq> Some (NDir m)"
    and w': "\<exists>m. w' = fs_set q (NFile m d) (w\<lparr>ticks := Suc (ticks w)\<rparr>)"
    by (auto simp: fs_WriteFile_def sysIO_def Let_def split: if_splits option.splits node.splits)
  then have "q \<noteq> []" by auto
  with q(1) w' show "contentAt w' p = Some d" and "faults w' = faults w"
    using content_set[of "w\<lparr>ticks := Suc (ticks w)\<rparr>" p q] by auto
qed

lemma content_WriteFile:
  assumes "contentAt w p = Some d0" "\<not> faults w (ticks w)"
  shows "\<exists>w'. fs_WriteFile p d mode w = (Inr (), w')"
  using assms by (auto simp: fs_WriteFile_def sysIO_def Let_def contentAt_def split: option.splits node.splits)

subsection \<open>Calls that leave the mount table and the root alone\<close>

definition sameMounts :: "world \<Rightarrow> world \<Rightarrow> bool" where
  "sameMounts s t \<longleftrightarrow> mounts t = mounts s \<and> curRoot t = curRoot s"

interpretation mnts: state_frame sameMounts
  by unfold_locales (auto simp: sameMounts_def)

lemma fs_set_frame [simp]:
  "curRoot (fs_set q n w) = curRoot w" "curRoot (fs_del q w) = curRoot w"
  by (simp_all add: fs_set_def fs_del_def)

lemma keeps_sysIO:
  assumes "\<And>w. sameMounts w (snd (m w))"
  shows "keeps sameMounts (sysIO m)"
proof (rule keepsI)
  fix s r t
  assume "sysIO m s = (r, t)"
  then show "sameMounts s t"
  proof (cases rule: sysIO_cases)
    case fault
    then show ?thesis by (simp add: sameMounts_def)
  next
    case ran
    then show ?thesis using assms[of "s\<lparr>ticks := Suc (ticks s)\<rparr>"] by (simp add: sameMounts_def)
  qed
qed

lemma mkdirs_sameMounts: "sameMounts w (snd (mkdirs d cs mode w))"
  by (induction d cs mode w rule: mkdirs.induct)
    (auto simp: sameMounts_def Let_def split: option.splits node.splits)

lemma keeps_fs [keeps_intros]:
  "keeps sameMounts (fs_Lstat p)" "keeps sameMounts (fs_Stat p)" "keeps sameMounts (fs_Readlink p)"
  "keeps sameMounts (fs_ReadDir p)" "keeps sameMounts (fs_ReadFile p)"
  "keeps sameMounts (fs_WriteFile p d mode)" "keeps sameMounts (fs_Create p)"
  "keeps sameMounts (fs_Chmod p mode)" "keeps sameMounts (fs_Remove p)"
  "keeps sameMounts (fs_RemoveAll p)" "keeps sameMounts (fs_Symlink q p)"
  "keeps sameMounts (fs_Link q p)" "keeps sameMounts (fs_Rename q p)"
  "keeps sameMounts (os_MkdirAll p mode)" "keeps sameMounts os_Getwd" "keeps sameMounts (sys_Chdir p)"
  unfolding fs_Lstat_def fs_Stat_def fs_Readlink_def fs_ReadDir_def fs_ReadFile_def fs_WriteFile_def
    fs_Create_def fs_Chmod_def fs_Remove_def fs_RemoveAll_def fs_Symlink_def fs_Link_def fs_Rename_def
    os_MkdirAll_def os_Getwd_def sys_Chdir_def
  by (rule keeps_sysIO, auto simp: sameMounts_def Let_def mkdirs_sameMounts[unfolded sameMounts_def]
        split: option.splits node.splits)+

subsection \<open>Renaming\<close>

lemma below_append_cases: "is_below d (s @ r) \<Longrightarrow> is_below d s \<or> is_below s d"
  by (auto simp: is_below_iff append_eq_append_conv2)

lemma map_of_move:
  assumes "\<not> is_below src dst" "\<not> is_below dst src"
  shows "map_of (map (\<lambda>(p, n). (move_path src dst p, n)) (filter (\<lambda>(p, _). \<not> is_below dst p) xs)) q =
    (if is_below dst q then map_of xs (src @ drop (length dst) q) else if is_below src q then None else map_of xs q)"
proof (induction xs)
  case (Cons x xs)
  obtain p n where x: "x = (p, n)" by fastforce
  have apart: "\<not> is_below dst (src @ r)" "\<not> is_below src (dst @ r)" for r
    using below_append_cases assms by blast+
  consider "is_below dst p" | (src) r where "p = src @ r" | "\<not> is_below dst p" "\<not> is_below src p"
    using is_below_iff by blast
  then show ?case
  proof cases
    case src
    then have "move_path src dst p = dst @ r" by (simp add: move_path_def)
    then show ?thesis using Cons src apart by (auto simp: x is_below_iff)
  qed (use Cons apart in \<open>auto simp: x move_path_def is_below_iff\<close>)
qed auto

lemma Rename_Inr:
  assumes "fs_Rename old new w = (Inr (), w')" "\<not> is_below (pathOf old) (pathOf new)" "\<not> is_below (pathOf new) (pathOf old)"
  shows "fs_lookup w' (pathOf new @ p) = fs_lookup w (pathOf old @ p)"
    and "\<not> is_below (pathOf old) q \<Longrightarrow> \<not> is_below (pathOf new) q \<Longrightarrow> fs_lookup w' q = fs_lookup w q"
    and "fs_lookup w' (pathOf old @ p) = None"
proof -
  let ?src = "pathOf old" and ?dst = "pathOf new"
  have ne: "?src \<noteq> []" "?dst \<noteq> []" "?src \<noteq> ?dst" using assms(2,3) by (auto simp: is_below_def)
  have f: "files w' = map (\<lambda>(p, n). (move_path ?src ?dst p, n)) (filter (\<lambda>(p, _). \<not> is_below ?dst p) (files w))"
    using assms(1) ne by (auto simp: fs_Rename_def sysIO_def Let_def fs_del_def split: if_splits)
  have look: "fs_lookup w' q = (if is_below ?dst q then fs_lookup w (?src @ drop (length ?dst) q)
      else if is_below ?src q then None else fs_lookup w q)" if "q \<noteq> []" for q
    using that ne map_of_move[OF assms(2,3), of "files w" q] by (simp add: fs_lookup_def f)
  show "fs_lookup w' (?dst @ p) = fs_lookup w (?src @ p)" using look[of "?dst @ p"] ne by simp
  show "fs_lookup w' q = fs_lookup w q" if "\<not> is_below ?src q" "\<not> is_below ?dst q"
    using look[of q] that by (cases "q = []") simp_all
  have "\<not> is_below ?dst (?src @ p)" using below_append_cases assms(2,3) by blast
  then show "fs_lookup w' (?src @ p) = None" using look[of "?src @ p"] ne by simp
qed

lemma Rename_Inl: "fs_Rename old new w = (Inl e, w') \<Longrightarrow> fs_lookup w' q = fs_lookup w q"
  by (auto simp: fs_Rename_def sysIO_def Let_def split: if_splits)

end
