(* ===== verification/Types_Base.thy ===== *)
theory Types_Base
  imports World
begin

section \<open>Platforms, image sources and partitions (pkg/types)\<close>

text \<open>
  The data of pkg/types that the other components share, with their methods: \<open>Platform\<close>
  (platform.go), \<open>ImageSource\<close> (common.go), \<open>Partition\<close>, \<open>PartitionList\<close> and
  \<open>ElementalPartitions\<close> (config.go). A Go pointer that may be nil is an option. Code that compares
  two \<^verbatim>\<open>*Partition\<close> compares addresses: the field \<open>p_ref\<close> stands for the address of the
  object, and every update of a partition keeps it. The names of the constants are those of
  pkg/constants/constants.go.
\<close>

definition BiosPartName :: string where "BiosPartName = ''bios''"
definition BootLabel :: string where "BootLabel = ''COS_GRUB''"
definition BootPartName :: string where "BootPartName = ''efi''"
definition SystemLabel :: string where "SystemLabel = ''COS_SYSTEM''"
definition RecoveryLabel :: string where "RecoveryLabel = ''COS_RECOVERY''"
definition RecoveryPartName :: string where "RecoveryPartName = ''recovery''"
definition StateLabel :: string where "StateLabel = ''COS_STATE''"
definition StatePartName :: string where "StatePartName = ''state''"
definition PersistentLabel :: string where "PersistentLabel = ''COS_PERSISTENT''"
definition PersistentPartName :: string where "PersistentPartName = ''persistent''"
definition OEMLabel :: string where "OEMLabel = ''COS_OEM''"
definition OEMPartName :: string where "OEMPartName = ''oem''"
definition SquashFs :: string where "SquashFs = ''squashfs''"
definition MinPartSize :: uint where "MinPartSize = 64"
definition BiosSize :: uint where "BiosSize = 1"

lemmas part_names = BiosPartName_def BootPartName_def RecoveryPartName_def StatePartName_def
  PersistentPartName_def OEMPartName_def

lemmas part_labels = BootLabel_def RecoveryLabel_def StateLabel_def PersistentLabel_def OEMLabel_def
  SystemLabel_def

subsection \<open>Platform\<close>

record Platform =
  pl_OS :: string
  pl_Arch :: string
  pl_GolangArch :: string

definition errInvalidArch :: err where "errInvalidArch = Errorf ''invalid arch''"

definition archToGolangArch :: "string \<Rightarrow> err + string" where
  "archToGolangArch arch =
     (let a = ToLower arch in
      if a = ''amd64'' then Inr ''amd64''
      else if a = ''x86_64'' then Inr ''amd64''
      else if a = ''arm64'' then Inr ''arm64''
      else if a = ''aarch64'' then Inr ''arm64''
      else if a = ''riscv64'' then Inr ''riscv64''
      else Inl errInvalidArch)"

definition golangArchToArch :: "string \<Rightarrow> err + string" where
  "golangArchToArch arch =
     (let a = ToLower arch in
      if a = ''x86_64'' then Inr ''x86_64''
      else if a = ''amd64'' then Inr ''x86_64''
      else if a = ''arm64'' then Inr ''arm64''
      else if a = ''aarch64'' then Inr ''arm64''
      else if a = ''riscv64'' then Inr ''riscv64''
      else Inl errInvalidArch)"

definition NewPlatform :: "string \<Rightarrow> string \<Rightarrow> err + Platform" where
  "NewPlatform os arch =
     (case archToGolangArch arch of
        Inl e \<Rightarrow> Inl e
      | Inr golangArch \<Rightarrow>
          (case golangArchToArch arch of
             Inl e \<Rightarrow> Inl e
           | Inr arch' \<Rightarrow> Inr \<lparr>pl_OS = os, pl_Arch = arch', pl_GolangArch = golangArch\<rparr>))"

definition NewPlatformFromArch :: "string \<Rightarrow> err + Platform" where
  "NewPlatformFromArch arch = NewPlatform ''linux'' arch"

definition Platform_String :: "Platform option \<Rightarrow> string" where
  "Platform_String po = (case po of None \<Rightarrow> [] | Some p \<Rightarrow> pl_OS p @ ''/'' @ pl_GolangArch p)"

subsection \<open>ImageSource\<close>

record ImageSource =
  src_source :: string
  src_srcType :: string
  src_digest :: string

definition NewEmptySrc :: ImageSource where
  "NewEmptySrc = \<lparr>src_source = [], src_srcType = [], src_digest = []\<rparr>"

definition NewDockerSrc :: "string \<Rightarrow> ImageSource" where
  "NewDockerSrc src = \<lparr>src_source = src, src_srcType = ''oci'', src_digest = []\<rparr>"

definition NewFileSrc :: "string \<Rightarrow> ImageSource" where
  "NewFileSrc src = \<lparr>src_source = src, src_srcType = ''file'', src_digest = []\<rparr>"

definition NewDirSrc :: "string \<Rightarrow> ImageSource" where
  "NewDirSrc src = \<lparr>src_source = src, src_srcType = ''dir'', src_digest = []\<rparr>"

definition IsImage :: "ImageSource \<Rightarrow> bool" where
  "IsImage i \<longleftrightarrow> src_srcType i = ''oci''"

definition src_IsDir :: "ImageSource \<Rightarrow> bool" where
  "src_IsDir i \<longleftrightarrow> src_srcType i = ''dir''"

definition IsFile :: "ImageSource \<Rightarrow> bool" where
  "IsFile i \<longleftrightarrow> src_srcType i = ''file''"

definition IsEmpty :: "ImageSource \<Rightarrow> bool" where
  "IsEmpty i = (if src_srcType i = [] then True else if src_source i = [] then True else False)"

definition ImageSource_String :: "ImageSource \<Rightarrow> string" where
  "ImageSource_String i = (if IsEmpty i then [] else src_srcType i @ ''://'' @ src_source i)"

text \<open>The methods have value receivers: a call through a nil pointer panics.\<close>

definition ptr_IsEmpty :: "ImageSource option \<Rightarrow> err + bool" where
  "ptr_IsEmpty po = (case po of None \<Rightarrow> Inl Panic | Some i \<Rightarrow> Inr (IsEmpty i))"

subsection \<open>Partitions\<close>

record Partition =
  p_ref :: nat
  p_Name :: string
  p_FilesystemLabel :: string
  p_Size :: uint
  p_FS :: string
  p_Flags :: "string list"
  p_MountPoint :: string
  p_Path :: string
  p_Disk :: string

record Image =
  img_File :: string
  img_Label :: string
  img_Size :: uint
  img_FS :: string
  img_Source :: "ImageSource option"
  img_MountPoint :: string
  img_LoopDevice :: string

definition ToImage :: "Partition \<Rightarrow> Image" where
  "ToImage p = \<lparr>img_File = p_Path p, img_Label = p_FilesystemLabel p, img_Size = p_Size p,
     img_FS = p_FS p, img_Source = Some NewEmptySrc, img_MountPoint = p_MountPoint p,
     img_LoopDevice = []\<rparr>"

fun getBy :: "(Partition \<Rightarrow> bool) \<Rightarrow> Partition list \<Rightarrow> Partition option \<Rightarrow> Partition option" where
  "getBy sel [] part = part"
| "getBy sel (p # pl) part =
     (if sel p then (if p_MountPoint p \<noteq> [] then Some p else getBy sel pl (Some p))
      else getBy sel pl part)"

definition GetByName :: "Partition list \<Rightarrow> string \<Rightarrow> Partition option" where
  "GetByName pl name = getBy (\<lambda>p. p_Name p = name) pl None"

definition GetByLabel :: "Partition list \<Rightarrow> string \<Rightarrow> Partition option" where
  "GetByLabel pl label = getBy (\<lambda>p. p_FilesystemLabel p = label) pl None"

definition GetByNameOrLabel :: "Partition list \<Rightarrow> string \<Rightarrow> string \<Rightarrow> Partition option" where
  "GetByNameOrLabel pl name label =
     (case GetByName pl name of None \<Rightarrow> GetByLabel pl label | Some p \<Rightarrow> Some p)"

record ElementalPartitions =
  ep_BIOS :: "Partition option"
  ep_Boot :: "Partition option"
  ep_OEM :: "Partition option"
  ep_Recovery :: "Partition option"
  ep_State :: "Partition option"
  ep_Persistent :: "Partition option"

definition GetConfigStorage :: "ElementalPartitions \<Rightarrow> string" where
  "GetConfigStorage ep = (case ep_OEM ep of Some p \<Rightarrow> p_MountPoint p | None \<Rightarrow> [])"

text \<open>\<open>newRef\<close> is the address of the partition object the function allocates.\<close>

definition biosPartition :: "nat \<Rightarrow> Partition" where
  "biosPartition newRef = \<lparr>p_ref = newRef, p_Name = BiosPartName, p_FilesystemLabel = [],
     p_Size = BiosSize, p_FS = [], p_Flags = [''bios_grub''], p_MountPoint = [], p_Path = [],
     p_Disk = []\<rparr>"

definition SetFirmwarePartitions ::
  "nat \<Rightarrow> string \<Rightarrow> string \<Rightarrow> ElementalPartitions \<Rightarrow> err option \<times> ElementalPartitions" where
  "SetFirmwarePartitions newRef firmware partTable ep =
     (if firmware = ''efi'' \<and> partTable = ''gpt'' then
        (if ep_Boot ep = None then (Some (Errorf ''nil efi partition''), ep)
         else (None, ep\<lparr>ep_BIOS := None\<rparr>))
      else if firmware = ''bios'' \<and> partTable = ''gpt'' then
        (None, ep\<lparr>ep_BIOS := Some (biosPartition newRef), ep_Boot := None\<rparr>)
      else
        (case ep_State ep of
           None \<Rightarrow> (Some (Errorf ''nil state partition''), ep)
         | Some st \<Rightarrow>
             (None, ep\<lparr>ep_State := Some (st\<lparr>p_Flags := [''boot'']\<rparr>), ep_Boot := None, ep_BIOS := None\<rparr>)))"

definition inExcludes :: "Partition \<Rightarrow> Partition option list \<Rightarrow> bool" where
  "inExcludes part excludes =
     list_ex (\<lambda>po. case po of None \<Rightarrow> False | Some p \<Rightarrow> p_ref part = p_ref p) excludes"

definition keepPart :: "Partition option list \<Rightarrow> Partition option \<Rightarrow> Partition list" where
  "keepPart excludes po =
     (case po of None \<Rightarrow> [] | Some p \<Rightarrow> (if inExcludes p excludes then [] else [p]))"

text \<open>The loop over the extra partitions: state is the list so far and the partition to put last.\<close>

fun addExtra ::
  "Partition list \<Rightarrow> Partition list \<Rightarrow> Partition option \<Rightarrow> Partition list \<times> Partition option" where
  "addExtra [] partitions lastPartition = (partitions, lastPartition)"
| "addExtra (p # ps) partitions lastPartition =
     (if p_Size p = 0 then
        (if lastPartition \<noteq> None then addExtra ps partitions lastPartition
         else addExtra ps partitions (Some p))
      else addExtra ps (partitions @ [p]) lastPartition)"

definition PartitionsByInstallOrder ::
  "ElementalPartitions \<Rightarrow> Partition list \<Rightarrow> Partition option list \<Rightarrow> Partition list" where
  "PartitionsByInstallOrder ep extraPartitions excludes =
     (let fixed = keepPart excludes (ep_BIOS ep) @ keepPart excludes (ep_Boot ep)
            @ keepPart excludes (ep_OEM ep) @ keepPart excludes (ep_Recovery ep)
            @ keepPart excludes (ep_State ep);
          (partitions, lastPartition) =
            (case ep_Persistent ep of
               None \<Rightarrow> (fixed, None)
             | Some p \<Rightarrow>
                 (if inExcludes p excludes then (fixed, None)
                  else if p_Size p = 0 then (fixed, Some p) else (fixed @ [p], None)));
          (partitions', lastPartition') = addExtra extraPartitions partitions lastPartition
      in case lastPartition' of None \<Rightarrow> partitions' | Some p \<Rightarrow> partitions' @ [p])"

definition PartitionsByMountPoint ::
  "ElementalPartitions \<Rightarrow> bool \<Rightarrow> Partition option list \<Rightarrow> Partition list" where
  "PartitionsByMountPoint ep descending excludes =
     (let ps = filter (\<lambda>p. p_MountPoint p \<noteq> []) (PartitionsByInstallOrder ep [] excludes);
          mountPointKeys = fold (\<lambda>p m. m(p_MountPoint p \<mapsto> p)) ps Map.empty;
          mountPoints = sort (map p_MountPoint ps)
      in List.map_filter mountPointKeys (if descending then rev mountPoints else mountPoints))"

subsection \<open>Lemmas: platforms\<close>

lemma NewPlatform_ok_iff:
  "(\<exists>p. NewPlatform os arch = Inr p) \<longleftrightarrow>
     ToLower arch \<in> {''amd64'', ''x86_64'', ''arm64'', ''aarch64'', ''riscv64''}"
proof -
  have "archToGolangArch arch = Inl errInvalidArch" if "ToLower arch \<notin> {''amd64'', ''x86_64'', ''arm64'', ''aarch64'', ''riscv64''}"
    using that by (simp add: archToGolangArch_def Let_def)
  moreover have "(\<exists>g. archToGolangArch arch = Inr g) \<and> (\<exists>g. golangArchToArch arch = Inr g)"
    if "ToLower arch \<in> {''amd64'', ''x86_64'', ''arm64'', ''aarch64'', ''riscv64''}"
    unfolding archToGolangArch_def golangArchToArch_def Let_def using that by (simp split: if_split) blast
  ultimately show ?thesis
    by (cases "ToLower arch \<in> {''amd64'', ''x86_64'', ''arm64'', ''aarch64'', ''riscv64''}")
      (fastforce simp: NewPlatform_def)+
qed

subsection \<open>Lemmas: looking partitions up\<close>

lemma getBy_spec:
  "getBy sel pl part =
     (case find (\<lambda>p. sel p \<and> p_MountPoint p \<noteq> []) pl of
        Some p \<Rightarrow> Some p
      | None \<Rightarrow> (if filter sel pl = [] then part else Some (last (filter sel pl))))"
  by (induction pl arbitrary: part) (auto split: option.splits)

lemma getBy_None_iff: "getBy sel pl None = None \<longleftrightarrow> (\<forall>p \<in> set pl. \<not> sel p)"
proof -
  have "find (\<lambda>p. sel p \<and> p_MountPoint p \<noteq> []) pl \<noteq> None \<Longrightarrow> \<exists>p \<in> set pl. sel p"
    by (auto simp: find_None_iff)
  then show ?thesis
    by (auto simp: getBy_spec filter_empty_conv split: option.splits)
qed

lemma getBy_Some:
  assumes "getBy sel pl None = Some p"
  shows "p \<in> set pl" and "sel p"
    and "p_MountPoint p = [] \<Longrightarrow> q \<in> set pl \<Longrightarrow> sel q \<Longrightarrow> p_MountPoint q = []"
proof -
  consider (found) "find (\<lambda>p. sel p \<and> p_MountPoint p \<noteq> []) pl = Some p"
    | (none) "find (\<lambda>p. sel p \<and> p_MountPoint p \<noteq> []) pl = None" "filter sel pl \<noteq> []"
        "p = last (filter sel pl)"
    using assms by (auto simp: getBy_spec split: option.splits if_splits)
  then have "p \<in> set pl \<and> sel p \<and>
      (p_MountPoint p = [] \<longrightarrow> q \<in> set pl \<longrightarrow> sel q \<longrightarrow> p_MountPoint q = [])"
  proof cases
    case found
    then show ?thesis by (auto simp: find_Some_iff)
  next
    case none
    then have "p \<in> set (filter sel pl)" using last_in_set by blast
    then have "p \<in> set pl \<and> sel p" by simp
    with none(1) show ?thesis by (auto simp: find_None_iff)
  qed
  then show "p \<in> set pl" and "sel p"
    and "p_MountPoint p = [] \<Longrightarrow> q \<in> set pl \<Longrightarrow> sel q \<Longrightarrow> p_MountPoint q = []"
    by blast+
qed

subsection \<open>Lemmas: install order\<close>

lemma addExtra_spec:
  "addExtra ps parts l =
     (parts @ filter (\<lambda>p. p_Size p \<noteq> 0) ps,
      (case l of Some x \<Rightarrow> Some x | None \<Rightarrow> find (\<lambda>p. p_Size p = 0) ps))"
  by (induction ps arbitrary: parts l) (auto split: option.splits)

definition fixedParts :: "ElementalPartitions \<Rightarrow> Partition option list \<Rightarrow> Partition list" where
  "fixedParts ep excludes =
     concat (map (keepPart excludes)
       [ep_BIOS ep, ep_Boot ep, ep_OEM ep, ep_Recovery ep, ep_State ep])"

definition growParts ::
  "ElementalPartitions \<Rightarrow> Partition list \<Rightarrow> Partition option list \<Rightarrow> Partition list" where
  "growParts ep extra excludes = keepPart excludes (ep_Persistent ep) @ extra"

lemma keepPart_simps:
  "keepPart excludes None = []"
  "keepPart excludes (Some p) = (if inExcludes p excludes then [] else [p])"
  by (simp_all add: keepPart_def)

lemma PartitionsByInstallOrder_eq:
  "PartitionsByInstallOrder ep extra excludes =
     fixedParts ep excludes @ filter (\<lambda>p. p_Size p \<noteq> 0) (growParts ep extra excludes) @
     (case find (\<lambda>p. p_Size p = 0) (growParts ep extra excludes) of None \<Rightarrow> [] | Some p \<Rightarrow> [p])"
proof -
  let ?fixed = "keepPart excludes (ep_BIOS ep) @ keepPart excludes (ep_Boot ep)
     @ keepPart excludes (ep_OEM ep) @ keepPart excludes (ep_Recovery ep) @ keepPart excludes (ep_State ep)"
  have fixed: "fixedParts ep excludes = ?fixed" by (simp add: fixedParts_def)
  show ?thesis
    by (cases "ep_Persistent ep")
      (simp_all add: PartitionsByInstallOrder_def fixed growParts_def Let_def addExtra_spec
        keepPart_simps split: option.split)
qed

lemma find_filter_le_one:
  "length (filter P xs) \<le> 1 \<Longrightarrow>
     set (case find P xs of None \<Rightarrow> [] | Some x \<Rightarrow> [x]) = {x \<in> set xs. P x}"
proof (induction xs)
  case (Cons x xs)
  show ?case
  proof (cases "P x")
    case True
    with Cons.prems have "filter P xs = []" by simp
    with True show ?thesis by (auto simp: filter_empty_conv)
  next
    case False
    with Cons show ?thesis by auto
  qed
qed simp

lemma PartitionsByInstallOrder_set:
  assumes "length (filter (\<lambda>p. p_Size p = 0) (growParts ep extra excludes)) \<le> 1"
  shows "set (PartitionsByInstallOrder ep extra excludes) =
     set (fixedParts ep excludes) \<union> set (growParts ep extra excludes)"
  using find_filter_le_one[OF assms] by (auto simp: PartitionsByInstallOrder_eq)

subsection \<open>Lemmas: mount point order\<close>

lemma fold_map_upd_dom:
  "fold (\<lambda>p m. m(f p \<mapsto> p)) ps m k = (case find (\<lambda>p. f p = k) (rev ps) of Some p \<Rightarrow> Some p | None \<Rightarrow> m k)"
  by (induction ps arbitrary: m) (auto simp: find_append split: option.splits)

lemma fold_map_upd_mem:
  assumes "p \<in> set ps" and "distinct (map f ps)"
  shows "fold (\<lambda>p m. m(f p \<mapsto> p)) ps Map.empty (f p) = Some p"
proof -
  have "find (\<lambda>q. f q = f p) (rev ps) \<noteq> None" using assms(1) by (auto simp: find_None_iff)
  then obtain q where q: "find (\<lambda>q. f q = f p) (rev ps) = Some q" by blast
  then have "q \<in> set ps" and "f q = f p" by (auto dest: find_SomeD)
  with assms have "q = p" by (metis distinct_map inj_onD)
  with q show ?thesis by (simp add: fold_map_upd_dom)
qed

end
