(* ===== verification/Go_Time.thy ===== *)
theory Go_Time
  imports Go_Lib
begin

section \<open>Wall clock times of the Go standard library\<close>

text \<open>
  A \<^verbatim>\<open>time.Time\<close> as the program uses it: it is read from the clock, printed with the layouts
  \<^verbatim>\<open>2006-01-02 15:04:05\<close> (the dates of snapper) and RFC 3339 (the installation state), and parsed with the
  first layout. Neither layout prints fractions of a second, and only RFC 3339 prints the zone. \<open>parseDate\<close> follows \<^verbatim>\<open>time.Parse\<close>: two digits
  everywhere but in the hour, where one is enough, any number of blanks between date and time, an optional fraction
  of the seconds, and the range checks, the length of the month included.
\<close>

record Time =
  tm_year :: nat
  tm_month :: nat
  tm_day :: nat
  tm_hour :: nat
  tm_min :: nat
  tm_sec :: nat
  tm_nano :: nat
  tm_zone :: string

definition pad :: "nat \<Rightarrow> nat \<Rightarrow> string" where
  "pad n v = (let s = nat_str v in replicate (n - length s) (CHR ''0'') @ s)"

definition formatDate :: "Time \<Rightarrow> string" where
  "formatDate t = pad 4 (tm_year t) @ ''-'' @ pad 2 (tm_month t) @ ''-'' @ pad 2 (tm_day t) @ '' '' @
     pad 2 (tm_hour t) @ '':'' @ pad 2 (tm_min t) @ '':'' @ pad 2 (tm_sec t)"

definition formatRFC3339 :: "Time \<Rightarrow> string" where
  "formatRFC3339 t = pad 4 (tm_year t) @ ''-'' @ pad 2 (tm_month t) @ ''-'' @ pad 2 (tm_day t) @ ''T'' @
     pad 2 (tm_hour t) @ '':'' @ pad 2 (tm_min t) @ '':'' @ pad 2 (tm_sec t) @ tm_zone t"

definition isLeap :: "nat \<Rightarrow> bool" where
  "isLeap y \<longleftrightarrow> y mod 4 = 0 \<and> (y mod 100 \<noteq> 0 \<or> y mod 400 = 0)"

definition daysIn :: "nat \<Rightarrow> nat \<Rightarrow> nat" where
  "daysIn m y = (if m = 2 then (if isLeap y then 29 else 28) else if m \<in> {4, 6, 9, 11} then 30 else 31)"

definition getnum :: "bool \<Rightarrow> string \<Rightarrow> (nat \<times> string) option" where
  "getnum fixed s = (case s of
     [] \<Rightarrow> None
   | [a] \<Rightarrow> (if is_digit a \<and> \<not> fixed then Some (digit_val a, []) else None)
   | a # b # r \<Rightarrow>
       (if \<not> is_digit a then None
        else if is_digit b then Some (10 * digit_val a + digit_val b, r)
        else if fixed then None else Some (digit_val a, b # r)))"

definition getyear :: "string \<Rightarrow> (nat \<times> string) option" where
  "getyear s = (if length s < 4 \<or> \<not> all_digits (take 4 s) then None else Some (str_nat (take 4 s), drop 4 s))"

definition skipChar :: "char \<Rightarrow> string \<Rightarrow> string option" where
  "skipChar c s = (case s of [] \<Rightarrow> None | a # r \<Rightarrow> if a = c then Some r else None)"

definition skipBlank :: "string \<Rightarrow> string option" where
  "skipBlank s = (case s of [] \<Rightarrow> Some [] | a # _ \<Rightarrow> if a = CHR '' '' then Some (dropWhile (\<lambda>c. c = CHR '' '') s) else None)"

text \<open>The fraction of the seconds, in nanoseconds: nine digits count, the others are skipped.\<close>

definition fraction :: "string \<Rightarrow> nat \<times> string" where
  "fraction s = (case s of
     a # b # r \<Rightarrow> (if (a = CHR ''.'' \<or> a = CHR '','') \<and> is_digit b
       then (let ds = take 9 (b # takeWhile is_digit r) in (str_nat ds * 10 ^ (9 - length ds), dropWhile is_digit r)) else (0, s))
   | _ \<Rightarrow> (0, s))"

definition validTime :: "Time \<Rightarrow> bool" where
  "validTime t \<longleftrightarrow> tm_year t < 10000 \<and> 1 \<le> tm_month t \<and> tm_month t \<le> 12 \<and> 1 \<le> tm_day t \<and>
     tm_day t \<le> daysIn (tm_month t) (tm_year t) \<and> tm_hour t < 24 \<and> tm_min t < 60 \<and> tm_sec t < 60"

definition parseDate :: "string \<Rightarrow> Time option" where
  "parseDate s0 =
     Option.bind (getyear s0) (\<lambda>(y, s1). Option.bind (skipChar (CHR ''-'') s1) (\<lambda>s2.
     Option.bind (getnum True s2) (\<lambda>(mo, s3). Option.bind (skipChar (CHR ''-'') s3) (\<lambda>s4.
     Option.bind (getnum True s4) (\<lambda>(d, s5). Option.bind (skipBlank s5) (\<lambda>s6.
     Option.bind (getnum False s6) (\<lambda>(h, s7). Option.bind (skipChar (CHR '':'') s7) (\<lambda>s8.
     Option.bind (getnum True s8) (\<lambda>(mi, s9). Option.bind (skipChar (CHR '':'') s9) (\<lambda>s10.
     Option.bind (getnum True s10) (\<lambda>(se, s11).
       let (ns, s12) = fraction s11;
           t = \<lparr>tm_year = y, tm_month = mo, tm_day = d, tm_hour = h, tm_min = mi, tm_sec = se, tm_nano = ns, tm_zone = ''Z''\<rparr> in
       if s12 = [] \<and> validTime t then Some t else None)))))))))))"

subsection \<open>Printing and parsing\<close>

lemma length_nat_str: "n < 10 ^ Suc k \<Longrightarrow> length (nat_str n) \<le> Suc k"
proof (induction k arbitrary: n)
  case 0
  then show ?case by (simp add: nat_str.simps[of n])
next
  case (Suc k)
  then have "n div 10 < 10 ^ Suc k" by (simp add: less_mult_imp_div_less mult.commute)
  from Suc.IH[OF this] show ?case by (simp add: nat_str.simps[of n])
qed

lemma pad_digits: "all_digits (pad n v)"
proof -
  have "is_digit (CHR ''0'')" by (simp add: is_digit_def)
  then show ?thesis using nat_str_digits[of v] by (auto simp: pad_def Let_def all_digits_def list_all_iff)
qed

lemma str_nat_zeros: "str_nat (replicate n (CHR ''0'') @ s) = str_nat s"
proof (induction n)
  case (Suc n)
  have "str_nat (CHR ''0'' # t) = str_nat t" for t
    by (simp add: str_nat_def digit_val_def)
  with Suc show ?case by simp
qed simp

lemma pad_value: "str_nat (pad n v) = v"
  by (simp add: pad_def Let_def str_nat_zeros str_nat_nat_str)

lemma pad_length: "v < 10 ^ Suc k \<Longrightarrow> length (pad (Suc k) v) = Suc k"
  using length_nat_str[of v k] by (simp add: pad_def Let_def)

lemma getnum_pad:
  assumes "v < 100"
  shows "getnum fixed (pad 2 v @ s) = Some (v, s)"
proof -
  have "length (pad 2 v) = 2" using pad_length[of v 1] assms by (simp add: numeral_2_eq_2)
  then obtain a b where ab: "pad 2 v = [a, b]" by (auto simp: numeral_2_eq_2 length_Suc_conv)
  have "is_digit a" "is_digit b" using pad_digits[of 2 v] by (simp_all add: ab all_digits_def)
  moreover have "10 * digit_val a + digit_val b = v" using pad_value[of 2 v] by (simp add: ab str_nat_def)
  ultimately show ?thesis by (simp add: getnum_def ab)
qed

lemma getyear_pad:
  assumes "v < 10000"
  shows "getyear (pad 4 v @ s) = Some (v, s)"
proof -
  have "length (pad (Suc 3) v) = Suc 3" using assms by (intro pad_length) simp
  then have "length (pad 4 v) = 4" by simp
  then show ?thesis using pad_digits[of 4 v] pad_value[of 4 v] by (simp add: getyear_def)
qed

lemma skipBlank_pad: "skipBlank (CHR '' '' # pad n v @ s) = Some (pad n v @ s)"
proof -
  have "\<not> is_digit (CHR '' '')" by (simp add: is_digit_def)
  then obtain c cs where "pad n v = c # cs" "c \<noteq> CHR '' ''"
    using pad_digits[of n v] by (cases "pad n v") (auto simp: all_digits_def)
  then show ?thesis by (simp add: skipBlank_def)
qed

lemma daysIn_le: "daysIn m y \<le> 31"
  by (simp add: daysIn_def)

lemma parseDate_formatDate:
  assumes "validTime t"
  shows "parseDate (formatDate t) = Some (t\<lparr>tm_nano := 0, tm_zone := ''Z''\<rparr>)"
proof -
  have "tm_day t < 100" using assms daysIn_le[of "tm_month t" "tm_year t"] unfolding validTime_def by linarith
  moreover have "getnum True (pad 2 (tm_sec t)) = Some (tm_sec t, [])"
    using getnum_pad[of "tm_sec t" True "[]"] assms by (simp add: validTime_def)
  ultimately show ?thesis using assms
    by (simp add: parseDate_def formatDate_def getnum_pad getyear_pad skipBlank_pad skipChar_def fraction_def
        validTime_def)
qed

lemma formatDate_plain: "c \<in> set (formatDate t) \<Longrightarrow> is_digit c \<or> c \<in> {CHR ''-'', CHR '':'', CHR '' ''}"
proof -
  have "x \<in> set (pad n v) \<Longrightarrow> is_digit x" for x n v
    using pad_digits[of n v] by (simp add: all_digits_def list_all_iff)
  then show "c \<in> set (formatDate t) \<Longrightarrow> ?thesis" by (auto simp: formatDate_def)
qed

end
