(* ===== verification/Types_Config.thy ===== *)
theory Types_Config
  imports Types_Base Go_Time
begin

section \<open>Configuration, specifications and the installation state (pkg/types/config.go, snapshotter.go)\<close>

text \<open>
  \<open>Config\<close> holds the interfaces the components call and the basic settings. The interfaces whose
  implementation is outside the repository are function fields: the command runner, the image
  extractor, the HTTP client, the cloud-init runner (its first argument says whether the dot notation modifier is set),
  the parser and printer of environment files, the clock and the list of block devices. The specification
  types follow with their \<open>Sanitize\<close> methods: each returns the error, if any, together with the
  updated receiver, because the Go methods change the receiver in place and keep the changes made
  before an error. The YAML and mapstructure decoders are arguments of the functions that use them.
\<close>

definition MaxLinkDepth :: nat where "MaxLinkDepth = 4"
definition LoopDeviceMaxSnaps :: int where "LoopDeviceMaxSnaps = 2"
definition BtrfsMaxSnaps :: int where "BtrfsMaxSnaps = 4"
definition LoopDeviceSnapshotterType :: string where "LoopDeviceSnapshotterType = ''loopdevice''"
definition BtrfsSnapshotterType :: string where "BtrfsSnapshotterType = ''btrfs''"
definition RunningStateDir :: string where "RunningStateDir = ''/run/initramfs/elemental-state''"
definition LegacyStateDir :: string where "LegacyStateDir = ''/run/initramfs/cos-state''"
definition InstallStateFile :: string where "InstallStateFile = ''state.yaml''"
definition DirPerm :: nat where "DirPerm = 511"
definition FilePerm :: nat where "FilePerm = 438"

definition GetCloudInitPaths :: "string list" where
  "GetCloudInitPaths = [''/system/oem'', ''/oem/'', ''/usr/local/cloud-config/'']"

definition GetSquashfsNoCompressionOptions :: "string list" where
  "GetSquashfsNoCompressionOptions = [''-no-compression'']"

record Config =
  cfg_Run :: "string \<Rightarrow> string list \<Rightarrow> world \<Rightarrow> (err option \<times> string) \<times> world"
  cfg_CommandExists :: "string \<Rightarrow> bool"
  cfg_ExtractImage :: "string \<Rightarrow> string \<Rightarrow> string \<Rightarrow> bool \<Rightarrow> bool \<Rightarrow> (world, string) io"
  cfg_GetURL :: "string \<Rightarrow> string \<Rightarrow> (world, unit) io"
  cfg_CloudInitRun :: "bool \<Rightarrow> string \<Rightarrow> string list \<Rightarrow> (world, unit) io"
  cfg_ParseEnv :: "string \<Rightarrow> err + (string \<times> string) list"
  cfg_PrintEnv :: "(string \<times> string) list \<Rightarrow> err + string"
  cfg_Now :: "world \<Rightarrow> Time"
  cfg_ParseNamed :: "string \<Rightarrow> bool"
  cfg_ParseNormalizedNamed :: "string \<Rightarrow> bool option"
  cfg_Getenv :: "string \<Rightarrow> string"
  cfg_Debug :: bool
  cfg_AllPartitions :: "(world, Partition list) io"
  cfg_Platform :: "Platform option"
  cfg_Cosign :: bool
  cfg_Verify :: bool
  cfg_TLSVerify :: bool
  cfg_CosignPubKey :: string
  cfg_LocalImage :: bool
  cfg_Arch :: string
  cfg_SquashFsCompressionConfig :: "string list"
  cfg_SquashFsNoCompression :: bool
  cfg_CloudInitPaths :: "string list"
  cfg_Strict :: bool

subsection \<open>Running commands\<close>

text \<open>
  \<^verbatim>\<open>Runner.Run\<close> returns the output beside the error. Every command is appended to the log \<open>cmds\<close>
  before the runner gets it. \<open>RunE\<close> is the usual use, which returns on error.
\<close>

definition Run :: "Config \<Rightarrow> string \<Rightarrow> string list \<Rightarrow> (world, err option \<times> string) io" where
  "Run cfg c args = (\<lambda>w. case cfg_Run cfg c args (w\<lparr>cmds := cmds w @ [(c, args)]\<rparr>) of
     (r, w') \<Rightarrow> (Inr r, w'))"

definition RunE :: "Config \<Rightarrow> string \<Rightarrow> string list \<Rightarrow> (world, string) io" where
  "RunE cfg c args = bindIO (Run cfg c args)
     (\<lambda>(e, out). case e of None \<Rightarrow> retIO out | Some e' \<Rightarrow> failIO e')"

subsection \<open>Config and RunConfig\<close>

definition Config_Sanitize :: "string \<Rightarrow> Config \<Rightarrow> err option \<times> Config" where
  "Config_Sanitize goarch c =
     (let c1 = (if cfg_SquashFsNoCompression c
                then c\<lparr>cfg_SquashFsCompressionConfig := GetSquashfsNoCompressionOptions\<rparr> else c);
          (e, c2) = (if cfg_Arch c1 \<noteq> [] then
             (case NewPlatformFromArch (cfg_Arch c1) of
                Inl e \<Rightarrow> (Some e, c1) | Inr p \<Rightarrow> (None, c1\<lparr>cfg_Platform := Some p\<rparr>))
             else (None, c1))
      in if e \<noteq> None then (e, c2)
         else if cfg_Platform c2 = None then
           (case NewPlatformFromArch goarch of
              Inl e \<Rightarrow> (Some e, c2) | Inr p \<Rightarrow> (None, c2\<lparr>cfg_Platform := Some p\<rparr>))
         else (None, c2))"

text \<open>\<open>RunConfig\<close> and \<open>BuildConfig\<close> embed a \<open>Config\<close> and prepend the default cloud-init paths.\<close>

definition RunConfig_Sanitize :: "string \<Rightarrow> Config \<Rightarrow> err option \<times> Config" where
  "RunConfig_Sanitize goarch r =
     Config_Sanitize goarch (r\<lparr>cfg_CloudInitPaths := GetCloudInitPaths @ cfg_CloudInitPaths r\<rparr>)"

subsection \<open>Key/value pairs\<close>

text \<open>The dynamic values (\<^verbatim>\<open>interface{}\<close>) the decoders see.\<close>

datatype iface =
    INil
  | IStr string
  | IInt int
  | IBool bool
  | IList "iface list"
  | IMap "(string \<times> iface) list"

fun kvLoop :: "string list \<Rightarrow> (string \<times> string) list \<Rightarrow> err + (string \<times> string) list" where
  "kvLoop [] result = Inr result"
| "kvLoop (label # labels) result =
     (case splitOn (CHR ''='') label of
        [k, v] \<Rightarrow> kvLoop labels (AList.update k v result)
      | _ \<Rightarrow> Inl (Errorf (''can't unmarshal key/value pair '' @ label)))"

definition KeyValuePairFromData :: "iface \<Rightarrow> err + (string \<times> string) list" where
  "KeyValuePairFromData data =
     (case data of
        IStr str \<Rightarrow> kvLoop (splitOn (CHR '','') str) []
      | _ \<Rightarrow> Inl (Errorf ''can't unmarshal to a KeyValuePair type''))"

subsection \<open>The installation state\<close>

record LoopDeviceConfig =
  ld_Size :: uint
  ld_FS :: string

record BtrfsConfig =
  bt_Snapper :: bool

datatype SnapConf = NilConf | LoopConf LoopDeviceConfig | BtrfsConf BtrfsConfig | RawConf iface

record SnapshotterConfig =
  sc_Type :: string
  sc_MaxSnaps :: int
  sc_Config :: SnapConf

definition NewLoopDeviceConfig :: LoopDeviceConfig where
  "NewLoopDeviceConfig = \<lparr>ld_Size = 0, ld_FS = ''ext2''\<rparr>"

definition NewBtrfsConfig :: BtrfsConfig where
  "NewBtrfsConfig = \<lparr>bt_Snapper = True\<rparr>"

definition NewLoopDevice :: SnapshotterConfig where
  "NewLoopDevice = \<lparr>sc_Type = LoopDeviceSnapshotterType, sc_MaxSnaps = LoopDeviceMaxSnaps,
     sc_Config = LoopConf NewLoopDeviceConfig\<rparr>"

definition NewBtrfs :: SnapshotterConfig where
  "NewBtrfs = \<lparr>sc_Type = BtrfsSnapshotterType, sc_MaxSnaps = BtrfsMaxSnaps,
     sc_Config = BtrfsConf NewBtrfsConfig\<rparr>"

record SystemState =
  ss_Source :: "ImageSource option"
  ss_Digest :: string
  ss_Active :: bool
  ss_Label :: string
  ss_FS :: string
  ss_Labels :: "(string \<times> string) list"
  ss_Date :: string
  ss_FromAction :: string

record PartitionState =
  ps_FSLabel :: string
  ps_RecoveryImage :: "SystemState option"
  ps_Snapshots :: "(int \<times> SystemState) list"

record InstallState =
  is_Date :: string
  is_Partitions :: "string \<rightharpoonup> PartitionState"
  is_Snapshotter :: SnapshotterConfig

definition stateHeader :: string where
  "stateHeader = ''# Autogenerated file by elemental client, do not edit'' @ [CHR 0x0A, CHR 0x0A]"

definition WriteInstallState ::
  "(InstallState \<Rightarrow> err + string) \<Rightarrow> InstallState \<Rightarrow> string \<Rightarrow> string \<Rightarrow> (world, unit) io" where
  "WriteInstallState yaml_Marshal i statePath recoveryPath =
     (case yaml_Marshal i of
        Inl e \<Rightarrow> failIO e
      | Inr d \<Rightarrow>
          (let data = stateHeader @ d in
           thenIO (whenIO (statePath \<noteq> []) (fs_WriteFile statePath data FilePerm))
             (whenIO (recoveryPath \<noteq> []) (fs_WriteFile recoveryPath data FilePerm))))"

text \<open>Default labels for the state files of releases that did not store them.\<close>

definition defaultLabel :: "string \<Rightarrow> string \<Rightarrow> InstallState \<Rightarrow> InstallState" where
  "defaultLabel part label st =
     (case is_Partitions st part of
        Some ps \<Rightarrow> (if ps_FSLabel ps = []
           then st\<lparr>is_Partitions := (is_Partitions st)(part \<mapsto> ps\<lparr>ps_FSLabel := label\<rparr>)\<rparr> else st)
      | None \<Rightarrow> st)"

definition defaultRecovery :: "InstallState \<Rightarrow> err + InstallState" where
  "defaultRecovery st =
     (case is_Partitions st RecoveryPartName of
        Some ps \<Rightarrow>
          (if ps_FSLabel ps = [] then
             (case ps_RecoveryImage ps of
                None \<Rightarrow> Inl Panic
              | Some img \<Rightarrow>
                  (let img1 = (if ss_FS img = [] then img\<lparr>ss_FS := SquashFs\<rparr> else img);
                       img2 = (if ss_Label img1 = [] \<and> ss_FS img1 \<noteq> SquashFs
                               then img1\<lparr>ss_Label := SystemLabel\<rparr> else img1)
                   in Inr (st\<lparr>is_Partitions := (is_Partitions st)
                        (RecoveryPartName \<mapsto> ps\<lparr>ps_FSLabel := RecoveryLabel, ps_RecoveryImage := Some img2\<rparr>)\<rparr>)))
           else Inr st)
      | None \<Rightarrow> Inr st)"

definition LoadInstallState ::
  "(string \<Rightarrow> InstallState \<Rightarrow> err + InstallState) \<Rightarrow> (world, InstallState) io" where
  "LoadInstallState yaml_Unmarshal =
     bindIO (\<lambda>w. case fs_ReadFile (Join [RunningStateDir, InstallStateFile]) w of
               (Inr data, w') \<Rightarrow> (Inr data, w')
             | (Inl _, w') \<Rightarrow> fs_ReadFile (Join [LegacyStateDir, InstallStateFile]) w')
       (\<lambda>data. case yaml_Unmarshal data
                  \<lparr>is_Date = [], is_Partitions = Map.empty, is_Snapshotter = NewLoopDevice\<rparr> of
          Inl e \<Rightarrow> failIO e
        | Inr st \<Rightarrow>
            (case defaultRecovery (defaultLabel OEMPartName OEMLabel (defaultLabel BootPartName BootLabel st)) of
               Inl e \<Rightarrow> failIO e
             | Inr st' \<Rightarrow> retIO (defaultLabel PersistentPartName PersistentLabel
                 (defaultLabel StatePartName StateLabel st'))))"

text \<open>Partition labels of the installed system, with the defaults for partitions the state lacks.\<close>

definition labelFor :: "InstallState option \<Rightarrow> string \<Rightarrow> string \<Rightarrow> string" where
  "labelFor st part label =
     (case st of None \<Rightarrow> label
      | Some s \<Rightarrow> (case is_Partitions s part of None \<Rightarrow> label | Some ps \<Rightarrow> ps_FSLabel ps))"

definition NewElementalPartitionsFromList ::
  "Partition list \<Rightarrow> InstallState option \<Rightarrow> ElementalPartitions" where
  "NewElementalPartitionsFromList pl st =
     \<lparr>ep_BIOS = GetByName pl BiosPartName,
      ep_Boot = GetByNameOrLabel pl BootPartName (labelFor st BootPartName BootLabel),
      ep_OEM = GetByNameOrLabel pl OEMPartName (labelFor st OEMPartName OEMLabel),
      ep_Recovery = GetByNameOrLabel pl RecoveryPartName (labelFor st RecoveryPartName RecoveryLabel),
      ep_State = GetByNameOrLabel pl StatePartName (labelFor st StatePartName StateLabel),
      ep_Persistent = GetByNameOrLabel pl PersistentPartName (labelFor st PersistentPartName PersistentLabel)\<rparr>"

subsection \<open>Specifications of the actions\<close>

record InstallSpec =
  ins_Target :: string
  ins_Firmware :: string
  ins_PartTable :: string
  ins_Partitions :: ElementalPartitions
  ins_ExtraPartitions :: "Partition list"
  ins_NoFormat :: bool
  ins_Force :: bool
  ins_CloudInit :: "string list"
  ins_Iso :: string
  ins_GrubDefEntry :: string
  ins_System :: "ImageSource option"
  ins_RecoverySystem :: Image
  ins_DisableBootEntry :: bool
  ins_SnapshotLabels :: "(string \<times> string) list"

text \<open>The label of the recovery image: none for a squashfs image, a default for the others.\<close>

definition defaultRecoveryLabel :: "Image \<Rightarrow> Image" where
  "defaultRecoveryLabel img =
     (if img_FS img \<noteq> SquashFs \<and> img_Label img = [] then img\<lparr>img_Label := SystemLabel\<rparr>
      else if img_FS img = SquashFs then img\<lparr>img_Label := []\<rparr> else img)"

definition undefinedPart :: "Partition option \<Rightarrow> bool" where
  "undefinedPart po = (case po of None \<Rightarrow> True | Some p \<Rightarrow> p_MountPoint p = [])"

definition InstallSpec_Sanitize :: "nat \<Rightarrow> InstallSpec \<Rightarrow> err option \<times> InstallSpec" where
  "InstallSpec_Sanitize newRef i =
     (case ptr_IsEmpty (ins_System i) of
        Inl e \<Rightarrow> (Some e, i)
      | Inr sysEmpty \<Rightarrow>
     if sysEmpty \<and> ins_Iso i = [] then (Some (Errorf ''undefined system source to install''), i)
     else if undefinedPart (ep_State (ins_Partitions i)) then (Some (Errorf ''undefined state partition''), i)
     else case ptr_IsEmpty (img_Source (ins_RecoverySystem i)) of
        Inl e \<Rightarrow> (Some e, i)
      | Inr recEmpty \<Rightarrow>
     let rs1 = (if recEmpty then (ins_RecoverySystem i)\<lparr>img_Source := ins_System i\<rparr> else ins_RecoverySystem i);
         i1 = i\<lparr>ins_RecoverySystem := defaultRecoveryLabel rs1\<rparr>;
         extraPartsSizeCheck = length (filter (\<lambda>p. p_Size p = 0) (ins_ExtraPartitions i1))
     in if extraPartsSizeCheck > 1 then (Some (Errorf ''more than one extra partition has its size set to 0''), i1)
     else case (if extraPartsSizeCheck = 1 then
                  (case ep_Persistent (ins_Partitions i1) of None \<Rightarrow> Inl Panic | Some p \<Rightarrow> Inr (p_Size p = 0))
                else Inr False) of
        Inl e \<Rightarrow> (Some e, i1)
      | Inr True \<Rightarrow> (Some (Errorf ''both persistent partition and extra partitions have size set to 0''), i1)
      | Inr False \<Rightarrow>
          (case SetFirmwarePartitions newRef (ins_Firmware i1) (ins_PartTable i1) (ins_Partitions i1) of
             (e, ep) \<Rightarrow> (e, i1\<lparr>ins_Partitions := ep\<rparr>)))"

record ResetSpec =
  rst_FormatPersistent :: bool
  rst_FormatOEM :: bool
  rst_CloudInit :: "string list"
  rst_GrubDefEntry :: string
  rst_System :: "ImageSource option"
  rst_Partitions :: ElementalPartitions
  rst_Target :: string
  rst_Efi :: bool
  rst_State :: "InstallState option"
  rst_DisableBootEntry :: bool
  rst_SnapshotLabels :: "(string \<times> string) list"

definition ResetSpec_Sanitize :: "ResetSpec \<Rightarrow> err option" where
  "ResetSpec_Sanitize r =
     (case ptr_IsEmpty (rst_System r) of
        Inl e \<Rightarrow> Some e
      | Inr True \<Rightarrow> Some (Errorf ''undefined system source to reset to'')
      | Inr False \<Rightarrow>
          (if undefinedPart (ep_State (rst_Partitions r)) then Some (Errorf ''undefined state partition'')
           else None))"

record UpgradeSpec =
  upg_RecoveryUpgrade :: bool
  upg_System :: "ImageSource option"
  upg_RecoverySystem :: Image
  upg_GrubDefEntry :: string
  upg_BootloaderUpgrade :: bool
  upg_SnapshotLabels :: "(string \<times> string) list"
  upg_Partitions :: ElementalPartitions
  upg_State :: "InstallState option"

definition UpgradeSpec_Sanitize :: "UpgradeSpec \<Rightarrow> err option \<times> UpgradeSpec" where
  "UpgradeSpec_Sanitize u =
     (if undefinedPart (ep_State (upg_Partitions u)) then (Some (Errorf ''undefined state partition''), u)
      else case ptr_IsEmpty (upg_System u) of
        Inl e \<Rightarrow> (Some e, u)
      | Inr True \<Rightarrow> (Some (Errorf ''undefined upgrade source''), u)
      | Inr False \<Rightarrow>
     case (if upg_RecoveryUpgrade u then
             (if undefinedPart (ep_Recovery (upg_Partitions u)) then Inl (Errorf ''undefined recovery partition'')
              else (case ptr_IsEmpty (img_Source (upg_RecoverySystem u)) of
                 Inl e \<Rightarrow> Inl e
               | Inr True \<Rightarrow> Inr (u\<lparr>upg_RecoverySystem := (upg_RecoverySystem u)\<lparr>img_Source := upg_System u\<rparr>\<rparr>)
               | Inr False \<Rightarrow> Inr u))
           else Inr u) of
        Inl e \<Rightarrow> (Some e, u)
      | Inr u1 \<Rightarrow>
     if upg_BootloaderUpgrade u1 \<and> undefinedPart (ep_Boot (upg_Partitions u1))
     then (Some (Errorf ''undefined Bootloader partition''), u1)
     else (None, u1\<lparr>upg_RecoverySystem := defaultRecoveryLabel (upg_RecoverySystem u1)\<rparr>))"

definition SanitizeForRecoveryOnly :: "UpgradeSpec \<Rightarrow> err option \<times> UpgradeSpec" where
  "SanitizeForRecoveryOnly u =
     (if undefinedPart (ep_State (upg_Partitions u)) then (Some (Errorf ''undefined state partition''), u)
      else if undefinedPart (ep_Recovery (upg_Partitions u)) then (Some (Errorf ''undefined recovery partition''), u)
      else case ptr_IsEmpty (img_Source (upg_RecoverySystem u)) of
        Inl e \<Rightarrow> (Some e, u)
      | Inr True \<Rightarrow> (Some (Errorf ''undefined upgrade-recovery source''), u)
      | Inr False \<Rightarrow> (None, u\<lparr>upg_RecoverySystem := defaultRecoveryLabel (upg_RecoverySystem u)\<rparr>))"

end
