(* ===== verification/Types_Spec.thy ===== *)
theory Types_Spec
  imports Types_Config "HOL-Library.Multiset"
begin

section \<open>The remaining specifications and the properties of pkg/types\<close>

text \<open>
  \<open>MountSpec\<close>, \<open>DiskSpec\<close> and \<open>LiveISO\<close> of pkg/types/config.go with their \<open>Sanitize\<close>
  methods, the decoding of the snapshotter settings (pkg/types/snapshotter.go), and the properties
  of the types: what a specification that passes \<open>Sanitize\<close> satisfies, the order in which partitions
  are created and mounted, and the round trips of the key/value pairs and of the state file.
  \<^verbatim>\<open>sort.Slice\<close> is \<open>sort_key\<close>, an insertion sort as Go uses on short slices.
\<close>

record VolumeMount =
  vm_Mountpoint :: string
  vm_Device :: string
  vm_Options :: "string list"
  vm_FSType :: string

record PersistentMounts =
  pm_Mode :: string
  pm_Paths :: "string list"
  pm_Volume :: VolumeMount

record EphemeralMounts =
  em_Type :: string
  em_Device :: string
  em_Size :: string
  em_Paths :: "string list"

record MountSpec =
  ms_WriteFstab :: bool
  ms_Disable :: bool
  ms_Sysroot :: string
  ms_Mode :: string
  ms_SelinuxRelabel :: bool
  ms_Volumes :: "VolumeMount list"
  ms_Ephemeral :: EphemeralMounts
  ms_Persistent :: PersistentMounts

definition sanitizePaths :: "string list \<Rightarrow> string list" where
  "sanitizePaths paths = sort_key (\<lambda>p. Count_char p slash) (filter (\<lambda>s. s \<noteq> []) paths)"

definition MountSpec_Sanitize :: "MountSpec \<Rightarrow> err option \<times> MountSpec" where
  "MountSpec_Sanitize spec =
     (if pm_Mode (ms_Persistent spec) \<notin> {''bind'', ''overlay''}
      then (Some (Errorf ''unknown persistent mode''), spec)
      else let spec1 = spec\<lparr>ms_Persistent := (ms_Persistent spec)\<lparr>pm_Paths := sanitizePaths (pm_Paths (ms_Persistent spec))\<rparr>\<rparr>
      in if em_Type (ms_Ephemeral spec1) \<notin> {''tmpfs'', ''block''}
      then (Some (Errorf ''unknown overlay type''), spec1)
      else (None, spec1\<lparr>ms_Ephemeral := (ms_Ephemeral spec1)\<lparr>em_Paths := sanitizePaths (em_Paths (ms_Ephemeral spec1))\<rparr>\<rparr>))"

definition HasPersistent :: "MountSpec \<Rightarrow> bool" where
  "HasPersistent spec \<longleftrightarrow> ms_Mode spec \<noteq> ''recovery'' \<and>
     vm_Device (pm_Volume (ms_Persistent spec)) \<noteq> [] \<and> vm_Mountpoint (pm_Volume (ms_Persistent spec)) \<noteq> []"

record DiskSpec =
  dsk_Size :: uint
  dsk_Partitions :: ElementalPartitions
  dsk_Expandable :: bool
  dsk_System :: "ImageSource option"
  dsk_RecoverySystem :: Image
  dsk_GrubConf :: string
  dsk_CloudInit :: "string list"
  dsk_GrubDefEntry :: string
  dsk_Type :: string
  dsk_DeployCmd :: "string list"

definition MinDiskSize :: "DiskSpec \<Rightarrow> uint" where
  "MinDiskSize d =
     foldl (\<lambda>m part. if p_Size part = 0 then m + MinPartSize else m + p_Size part) 2
       (PartitionsByInstallOrder (dsk_Partitions d) [] [])"

definition DiskSpec_Sanitize :: "DiskSpec \<Rightarrow> err option \<times> DiskSpec" where
  "DiskSpec_Sanitize d =
     (case ptr_IsEmpty (dsk_System d) of
        Inl e \<Rightarrow> (Some e, d)
      | Inr True \<Rightarrow> (Some (Errorf ''undefined image source''), d)
      | Inr False \<Rightarrow>
     case ptr_IsEmpty (img_Source (dsk_RecoverySystem d)) of
        Inl e \<Rightarrow> (Some e, d)
      | Inr recEmpty \<Rightarrow>
     let rs = (if recEmpty then (dsk_RecoverySystem d)\<lparr>img_Source := dsk_System d\<rparr> else dsk_RecoverySystem d);
         d1 = d\<lparr>dsk_RecoverySystem :=
                (if img_FS rs = SquashFs then rs\<lparr>img_Label := []\<rparr>
                 else if img_Label rs = [] then rs\<lparr>img_Label := SystemLabel\<rparr> else rs)\<rparr>;
         minSize = MinDiskSize d1
     in if dsk_Size d1 \<noteq> 0 \<and> \<not> dsk_Expandable d1 \<and> dsk_Size d1 \<le> minSize
        then (Some (Errorf ''Requested disk size is not enough''), d1)
        else (None, d1))"

record LiveISO =
  iso_RootFS :: "ImageSource option list"
  iso_UEFI :: "ImageSource option list"
  iso_Image :: "ImageSource option list"
  iso_Label :: string
  iso_GrubEntry :: string
  iso_BootloaderInRootFs :: bool
  iso_Firmware :: string
  iso_ExtraCmdline :: string

definition LiveISO_Sanitize :: "LiveISO \<Rightarrow> err option" where
  "LiveISO_Sanitize i =
     (if None \<in> set (iso_RootFS i) then Some (Errorf ''wrong name of source package for rootfs'')
      else if None \<in> set (iso_UEFI i) then Some (Errorf ''wrong name of source package for uefi'')
      else if None \<in> set (iso_Image i) then Some (Errorf ''wrong name of source package for image'')
      else None)"

subsection \<open>Decoding the snapshotter settings\<close>

text \<open>
  \<open>decL\<close> and \<open>decB\<close> stand for the mapstructure decoder on the two configuration types: they get the
  default configuration and the map.
\<close>

definition newLoopDeviceConfig ::
  "(LoopDeviceConfig \<Rightarrow> (string \<times> iface) list \<Rightarrow> err + LoopDeviceConfig) \<Rightarrow> SnapConf \<Rightarrow> iface \<Rightarrow> err + SnapConf" where
  "newLoopDeviceConfig decL defConfig data =
     (let cfg = (case defConfig of LoopConf c \<Rightarrow> c | _ \<Rightarrow> NewLoopDeviceConfig)
      in case data of
           INil \<Rightarrow> Inr (LoopConf cfg)
         | IMap confMap \<Rightarrow> (case decL cfg confMap of
              Inl e \<Rightarrow> Inl (Errorf ''failed to decode snapshotter configuration, invalid format'')
            | Inr c \<Rightarrow> Inr (LoopConf c))
         | _ \<Rightarrow> Inl (Errorf ''invalid config format for loopdevice type''))"

definition newBtrfsConfig ::
  "(BtrfsConfig \<Rightarrow> (string \<times> iface) list \<Rightarrow> err + BtrfsConfig) \<Rightarrow> SnapConf \<Rightarrow> iface \<Rightarrow> err + SnapConf" where
  "newBtrfsConfig decB defConfig data =
     (let cfg = (case defConfig of BtrfsConf c \<Rightarrow> c | _ \<Rightarrow> NewBtrfsConfig)
      in case data of
           INil \<Rightarrow> Inr (BtrfsConf cfg)
         | IMap confMap \<Rightarrow> (case decB cfg confMap of
              Inl e \<Rightarrow> Inl (Errorf ''failed to decode snapshotter configuration, invalid format'')
            | Inr c \<Rightarrow> Inr (BtrfsConf c))
         | _ \<Rightarrow> Inl (Errorf ''invalid config format for loopdevice type''))"

definition mget :: "(string \<times> iface) list \<Rightarrow> string \<Rightarrow> iface" where
  "mget m k = (case map_of m k of None \<Rightarrow> INil | Some v \<Rightarrow> v)"

definition maxSnapsFrom :: "iface \<Rightarrow> err + int" where
  "maxSnapsFrom v =
     (case v of
        IInt n \<Rightarrow> Inr n
      | IStr s \<Rightarrow> (case Atoi s of Inl e \<Rightarrow> Inl (Errorf ''converting max-snap from string input to integer type'') | Inr n \<Rightarrow> Inr n)
      | _ \<Rightarrow> Inl (Errorf ''max-snap must be of integer type''))"

definition CustomUnmarshal ::
  "(LoopDeviceConfig \<Rightarrow> (string \<times> iface) list \<Rightarrow> err + LoopDeviceConfig) \<Rightarrow>
   (BtrfsConfig \<Rightarrow> (string \<times> iface) list \<Rightarrow> err + BtrfsConfig) \<Rightarrow>
   iface \<Rightarrow> SnapshotterConfig \<Rightarrow> err option \<times> SnapshotterConfig" where
  "CustomUnmarshal decL decB data c =
     (case data of
        IMap mData \<Rightarrow>
          (if mData = [] then (None, c)
           else (case mget mData ''type'' of
              IStr t \<Rightarrow>
                (if t = [] then (Some (Errorf ''type is a required field for snapshotter setup''), c)
                 else let c1 = c\<lparr>sc_Type := t\<rparr> in
                 case (if mget mData ''max-snaps'' \<noteq> INil then
                         (case maxSnapsFrom (mget mData ''max-snaps'') of
                            Inl e \<Rightarrow> Inl e | Inr n \<Rightarrow> Inr (c1\<lparr>sc_MaxSnaps := n\<rparr>))
                       else if sc_Type c1 = BtrfsSnapshotterType then Inr (c1\<lparr>sc_MaxSnaps := BtrfsMaxSnaps\<rparr>)
                       else Inr c1) of
                   Inl e \<Rightarrow> (Some e, c1)
                 | Inr c2 \<Rightarrow>
                     (let factory = (if sc_Type c2 = LoopDeviceSnapshotterType
                                     then Some (newLoopDeviceConfig decL (sc_Config c2) (mget mData ''config''))
                                     else if sc_Type c2 = BtrfsSnapshotterType
                                     then Some (newBtrfsConfig decB (sc_Config c2) (mget mData ''config''))
                                     else None)
                      in case factory of
                           None \<Rightarrow> (Some (Errorf ''failed to load snapshotter configuration''), c2)
                         | Some (Inl e) \<Rightarrow> (Some (Errorf ''failed decoding snapshotter configuration''), c2)
                         | Some (Inr conf) \<Rightarrow> (None, c2\<lparr>sc_Config := conf\<rparr>)))
            | _ \<Rightarrow> (Some (Errorf ''type is a required field for snapshotter setup''), c)))
      | _ \<Rightarrow> (None, c))"

subsection \<open>Lemmas\<close>

lemma SetFirmwarePartitions_None:
  assumes "SetFirmwarePartitions r fw pt ep = (None, ep')"
  shows "ep_Persistent ep' = ep_Persistent ep" and "ep_OEM ep' = ep_OEM ep"
    and "ep_Recovery ep' = ep_Recovery ep"
    and "undefinedPart (ep_State ep') = undefinedPart (ep_State ep)"
  using assms
  by (auto simp: SetFirmwarePartitions_def undefinedPart_def split: if_splits option.splits)

definition recoveryWithSource :: "InstallSpec \<Rightarrow> Image" where
  "recoveryWithSource i =
     (if ptr_IsEmpty (img_Source (ins_RecoverySystem i)) = Inr True
      then (ins_RecoverySystem i)\<lparr>img_Source := ins_System i\<rparr> else ins_RecoverySystem i)"

lemma InstallSpec_Sanitize_NoneD:
  assumes "InstallSpec_Sanitize r i = (None, i')"
  shows "\<exists>ep. i' = i\<lparr>ins_RecoverySystem := defaultRecoveryLabel (recoveryWithSource i), ins_Partitions := ep\<rparr> \<and>
       SetFirmwarePartitions r (ins_Firmware i) (ins_PartTable i) (ins_Partitions i) = (None, ep)"
    and "\<exists>b. ptr_IsEmpty (img_Source (ins_RecoverySystem i)) = Inr b"
    and "\<exists>b. ptr_IsEmpty (ins_System i) = Inr b \<and> \<not> (b \<and> ins_Iso i = [])"
    and "\<not> undefinedPart (ep_State (ins_Partitions i))"
    and "\<not> 1 < length (filter (\<lambda>p. p_Size p = 0) (ins_ExtraPartitions i)) \<and>
       (length (filter (\<lambda>p. p_Size p = 0) (ins_ExtraPartitions i)) = 1 \<longrightarrow>
         (\<exists>p. ep_Persistent (ins_Partitions i) = Some p \<and> p_Size p \<noteq> 0))"
  using assms
  by (auto simp: InstallSpec_Sanitize_def recoveryWithSource_def Let_def
      split: sum.splits if_splits option.splits bool.splits prod.splits)

lemma length_filter_zero: "\<not> Suc 0 < length xs \<Longrightarrow> length xs \<noteq> Suc 0 \<Longrightarrow> xs = []"
  by (cases xs) auto

lemma growParts_no_excludes:
  "growParts ep extra [] = (case ep_Persistent ep of None \<Rightarrow> [] | Some p \<Rightarrow> [p]) @ extra"
  by (simp add: growParts_def keepPart_def inExcludes_def split: option.splits)

lemma defaultRecoveryLabel_idem: "defaultRecoveryLabel (defaultRecoveryLabel img) = defaultRecoveryLabel img"
  by (simp add: defaultRecoveryLabel_def SystemLabel_def)

lemma defaultRecoveryLabel_Source: "img_Source (defaultRecoveryLabel img) = img_Source img"
  by (simp add: defaultRecoveryLabel_def)

lemma SetFirmwarePartitions_idem:
  assumes "SetFirmwarePartitions r fw pt ep = (None, ep')"
  shows "SetFirmwarePartitions r fw pt ep' = (None, ep')"
proof -
  define A where "A \<longleftrightarrow> fw = ''efi'' \<and> pt = ''gpt''"
  define B where "B \<longleftrightarrow> fw = ''bios'' \<and> pt = ''gpt''"
  note eq = SetFirmwarePartitions_def[of r fw pt, folded A_def B_def]
  show ?thesis
    using assms unfolding eq by (simp split: if_splits option.splits) auto
qed

lemma img_Source_same: "img_Source img = s \<Longrightarrow> img\<lparr>img_Source := s\<rparr> = img"
  by (cases img) simp

lemma sanitized_zero_sizes:
  assumes "InstallSpec_Sanitize r i = (None, i')"
  shows "length (filter (\<lambda>p. p_Size p = 0) (growParts (ins_Partitions i') (ins_ExtraPartitions i') [])) \<le> 1"
proof -
  from InstallSpec_Sanitize_NoneD(1)[OF assms] obtain ep where
    eq: "i' = i\<lparr>ins_RecoverySystem := defaultRecoveryLabel (recoveryWithSource i), ins_Partitions := ep\<rparr>"
    and fw: "SetFirmwarePartitions r (ins_Firmware i) (ins_PartTable i) (ins_Partitions i) = (None, ep)"
    by blast
  then have "growParts (ins_Partitions i') (ins_ExtraPartitions i') [] =
      growParts (ins_Partitions i) (ins_ExtraPartitions i) []"
    using SetFirmwarePartitions_None(1)[OF fw] by (simp add: growParts_no_excludes)
  then show ?thesis
    using InstallSpec_Sanitize_NoneD(5)[OF assms]
    by (cases "length (filter (\<lambda>p. p_Size p = 0) (ins_ExtraPartitions i)) = 1")
      (auto simp: growParts_no_excludes length_filter_zero split: option.splits)
qed

lemma kvLoop_pairs:
  assumes "\<forall>(k, v) \<in> set kvs. CHR ''='' \<notin> set k \<and> CHR ''='' \<notin> set v"
    and "distinct (map fst kvs)" and "fst ` set acc \<inter> fst ` set kvs = {}"
  shows "kvLoop (map (\<lambda>(k, v). k @ ''='' @ v) kvs) acc = Inr (acc @ kvs)"
  using assms
proof (induction kvs arbitrary: acc)
  case (Cons kv kvs)
  obtain k v where kv: "kv = (k, v)" by fastforce
  have split: "splitOn (CHR ''='') (k @ CHR ''='' # v) = [k, v]"
    using Cons.prems(1) kv by (simp add: splitOn_append splitOn_single)
  have upd: "AList.update k v acc = acc @ [(k, v)]"
    using Cons.prems(3) kv by (induction acc) auto
  have "kvLoop (map (\<lambda>(k, v). k @ ''='' @ v) kvs) (acc @ [(k, v)]) = Inr ((acc @ [(k, v)]) @ kvs)"
    using Cons.prems kv by (intro Cons.IH) auto
  then show ?case using kv split upd by simp
qed simp

lemma MinDiskSize_unat:
  assumes "unat m + (\<Sum>p\<leftarrow>ps. unat (if p_Size p = 0 then MinPartSize else p_Size p)) < 2 ^ 64"
  shows "unat (foldl (\<lambda>m part. if p_Size part = 0 then m + MinPartSize else m + p_Size part) m ps) =
     unat m + (\<Sum>p\<leftarrow>ps. unat (if p_Size p = 0 then MinPartSize else p_Size p))"
  using assms
proof (induction ps arbitrary: m)
  case (Cons p ps)
  let ?s = "if p_Size p = 0 then MinPartSize else p_Size p"
  have lt: "unat m + unat ?s < 2 ^ 64" using Cons.prems by simp
  then have un: "unat (m + ?s) = unat m + unat ?s"
    by (subst unat_word_ariths) simp
  have "foldl (\<lambda>m part. if p_Size part = 0 then m + MinPartSize else m + p_Size part) m (p # ps) =
      foldl (\<lambda>m part. if p_Size part = 0 then m + MinPartSize else m + p_Size part) (m + ?s) ps"
    by simp
  then show ?case using Cons.IH[of "m + ?s"] Cons.prems un by simp
qed simp

subsection \<open>Properties\<close>

lemma find_filter_one: "length (filter P xs) \<le> 1 \<Longrightarrow> (case find P xs of None \<Rightarrow> [] | Some x \<Rightarrow> [x]) = filter P xs"
  by (induction xs) auto

abbreviation present :: "Partition option list \<Rightarrow> Partition list" where
  "present os \<equiv> concat (map (\<lambda>po. case po of None \<Rightarrow> [] | Some p \<Rightarrow> [p]) os)"

lemma fixedParts_present: "fixedParts ep [] = present [ep_BIOS ep, ep_Boot ep, ep_OEM ep, ep_Recovery ep, ep_State ep]"
  by (simp add: fixedParts_def keepPart_def inExcludes_def split: option.split)

text \<open>
  Property C8. An installation specification that passes \<open>Sanitize\<close> yields a complete install order: first the partitions for firmware,
  OEM, recovery and state, in this order and whatever their size; then the persistent partition and the extra ones that have a
  size, in the order of the specification; then those of size zero, which grow to the rest of the disk. Of these there is at most one, so
  no partition of the specification is lost and the growing one is the last.
\<close>

theorem sanitized_install_order:
  assumes "InstallSpec_Sanitize r i = (None, i')"
  shows "let ep = ins_Partitions i'; later = present [ep_Persistent (ins_Partitions i)] @ ins_ExtraPartitions i
    in PartitionsByInstallOrder ep (ins_ExtraPartitions i') [] =
        present [ep_BIOS ep, ep_Boot ep, ep_OEM ep, ep_Recovery ep, ep_State ep] @
        filter (\<lambda>p. p_Size p \<noteq> 0) later @ filter (\<lambda>p. p_Size p = 0) later \<and>
      length (filter (\<lambda>p. p_Size p = 0) later) \<le> 1"
proof -
  define later where "later = present [ep_Persistent (ins_Partitions i)] @ ins_ExtraPartitions i"
  from InstallSpec_Sanitize_NoneD(1)[OF assms] obtain ep where
    eq: "i' = i\<lparr>ins_RecoverySystem := defaultRecoveryLabel (recoveryWithSource i), ins_Partitions := ep\<rparr>"
    and fw: "SetFirmwarePartitions r (ins_Firmware i) (ins_PartTable i) (ins_Partitions i) = (None, ep)"
    by blast
  have grow: "growParts (ins_Partitions i') (ins_ExtraPartitions i') [] = later"
    using eq SetFirmwarePartitions_None(1)[OF fw] by (simp add: growParts_no_excludes later_def)
  then have "length (filter (\<lambda>p. p_Size p = 0) later) \<le> 1"
    using sanitized_zero_sizes[OF assms] by simp
  then show ?thesis unfolding Let_def later_def[symmetric]
    by (simp add: PartitionsByInstallOrder_eq grow find_filter_one fixedParts_present)
qed

definition demoPart :: "nat \<Rightarrow> string \<Rightarrow> uint \<Rightarrow> string \<Rightarrow> Partition" where
  "demoPart r name sz mnt = \<lparr>p_ref = r, p_Name = name, p_FilesystemLabel = [], p_Size = sz, p_FS = ''ext4'',
     p_Flags = [], p_MountPoint = mnt, p_Path = [], p_Disk = []\<rparr>"

definition demoParts :: ElementalPartitions where
  "demoParts = \<lparr>ep_BIOS = None, ep_Boot = Some (demoPart 1 ''efi'' 64 ''/b''), ep_OEM = Some (demoPart 2 ''oem'' 64 ''/o''),
     ep_Recovery = Some (demoPart 3 ''recovery'' 4096 ''/r''), ep_State = Some (demoPart 4 ''state'' 8192 ''/s''),
     ep_Persistent = Some (demoPart 5 ''persistent'' 0 ''/p'')\<rparr>"

definition demoImage :: Image where
  "demoImage = \<lparr>img_File = ''f'', img_Label = [], img_Size = 0, img_FS = ''ext2'',
     img_Source = Some NewEmptySrc, img_MountPoint = [], img_LoopDevice = []\<rparr>"

definition demoInstall :: InstallSpec where
  "demoInstall = \<lparr>ins_Target = ''/dev/sda'', ins_Firmware = ''efi'', ins_PartTable = ''gpt'', ins_Partitions = demoParts,
     ins_ExtraPartitions = [demoPart 6 ''extra'' 100 []], ins_NoFormat = False, ins_Force = False, ins_CloudInit = [],
     ins_Iso = [], ins_GrubDefEntry = [], ins_System = Some (NewDirSrc ''/src''), ins_RecoverySystem = demoImage,
     ins_DisableBootEntry = False, ins_SnapshotLabels = []\<rparr>"

lemmas demo_defs = demoPart_def demoParts_def demoImage_def demoInstall_def NewDirSrc_def NewEmptySrc_def

lemma demo_sanitized:
  "InstallSpec_Sanitize 9 demoInstall = (None, demoInstall\<lparr>ins_RecoverySystem := demoImage
     \<lparr>img_Source := Some (NewDirSrc ''/src''), img_Label := SystemLabel\<rparr>\<rparr>)"
  by (simp add: InstallSpec_Sanitize_def demo_defs ptr_IsEmpty_def IsEmpty_def undefinedPart_def Let_def
      defaultRecoveryLabel_def SquashFs_def SetFirmwarePartitions_def)

theorem sanitized_install_order_witness:
  "map p_Name (PartitionsByInstallOrder demoParts [demoPart 6 ''extra'' 100 []] []) =
     [''efi'', ''oem'', ''recovery'', ''state'', ''extra'', ''persistent'']"
proof -
  have "ins_Partitions demoInstall = demoParts" "ins_ExtraPartitions demoInstall = [demoPart 6 ''extra'' 100 []]"
    by (simp_all add: demoInstall_def)
  with sanitized_install_order[OF demo_sanitized] show ?thesis by (simp add: demoParts_def demoPart_def)
qed

text \<open>A fixed partition of size zero keeps its place, although the comment of the method says that such a partition comes last.\<close>

lemma zero_state_not_last:
  "let i = demoInstall\<lparr>ins_Partitions := demoParts\<lparr>ep_State := Some (demoPart 4 ''state'' 0 ''/s'')\<rparr>\<rparr>
   in fst (InstallSpec_Sanitize 9 i) = None \<and>
      map p_Name (PartitionsByInstallOrder (ins_Partitions i) (ins_ExtraPartitions i) []) =
        [''efi'', ''oem'', ''recovery'', ''state'', ''extra'', ''persistent'']"
  by code_simp

text \<open>
  Property C30. \<open>InstallSpec.Sanitize\<close> is idempotent: a specification it has accepted is accepted again
  and not changed any more, so re-running the configuration step is harmless.
\<close>

theorem InstallSpec_Sanitize_idempotent:
  assumes "InstallSpec_Sanitize r i = (None, i')"
  shows "InstallSpec_Sanitize r i' = (None, i')"
proof -
  let ?rs = "recoveryWithSource i"
  from InstallSpec_Sanitize_NoneD(1)[OF assms] obtain ep where
    eq: "i' = i\<lparr>ins_RecoverySystem := defaultRecoveryLabel ?rs, ins_Partitions := ep\<rparr>"
    and fw: "SetFirmwarePartitions r (ins_Firmware i) (ins_PartTable i) (ins_Partitions i) = (None, ep)"
    by blast
  note D = InstallSpec_Sanitize_NoneD(2-)[OF assms]
  have src: "\<exists>b. ptr_IsEmpty (img_Source ?rs) = Inr b"
    and src2: "ptr_IsEmpty (img_Source ?rs) = Inr True \<Longrightarrow> ?rs\<lparr>img_Source := ins_System i\<rparr> = ?rs"
    using D(1,2) by (auto simp: recoveryWithSource_def split: if_splits)
  have lbl: "(defaultRecoveryLabel ?rs)\<lparr>img_Source := ins_System i\<rparr> = defaultRecoveryLabel ?rs"
    if "ptr_IsEmpty (img_Source ?rs) = Inr True"
  proof (rule img_Source_same)
    have "img_Source (?rs\<lparr>img_Source := ins_System i\<rparr>) = img_Source ?rs" using src2[OF that] by simp
    then show "img_Source (defaultRecoveryLabel ?rs) = ins_System i" by (simp add: defaultRecoveryLabel_Source)
  qed
  have st': "\<not> undefinedPart (ep_State ep)" and per: "ep_Persistent ep = ep_Persistent (ins_Partitions i)"
    using SetFirmwarePartitions_None[OF fw] D(3) by auto
  show ?thesis
    using D(2,4) src lbl st' SetFirmwarePartitions_idem[OF fw]
    by (auto simp: InstallSpec_Sanitize_def Let_def eq per defaultRecoveryLabel_idem defaultRecoveryLabel_Source)
qed

theorem InstallSpec_Sanitize_idempotent_witness:
  "InstallSpec_Sanitize 9 (demoInstall\<lparr>ins_RecoverySystem := demoImage
     \<lparr>img_Source := Some (NewDirSrc ''/src''), img_Label := SystemLabel\<rparr>\<rparr>) =
   (None, demoInstall\<lparr>ins_RecoverySystem := demoImage
     \<lparr>img_Source := Some (NewDirSrc ''/src''), img_Label := SystemLabel\<rparr>\<rparr>)"
  by (rule InstallSpec_Sanitize_idempotent[OF demo_sanitized])

text \<open>
  Property C28. The partition order for mounting: when no two partitions share a mount point, the
  ascending order lists exactly the partitions that have a mount point, sorted by it, so that a
  mount point always comes before the mount points below it; the descending order, used for
  unmounting, is its reverse.
\<close>

theorem PartitionsByMountPoint_sorted:
  assumes "distinct (map p_MountPoint (filter (\<lambda>p. p_MountPoint p \<noteq> []) (PartitionsByInstallOrder ep [] ex)))"
  shows "mset (PartitionsByMountPoint ep False ex) =
       mset (filter (\<lambda>p. p_MountPoint p \<noteq> []) (PartitionsByInstallOrder ep [] ex)) \<and>
     sorted (map p_MountPoint (PartitionsByMountPoint ep False ex)) \<and>
     PartitionsByMountPoint ep True ex = rev (PartitionsByMountPoint ep False ex)"
proof -
  define ps where "ps = filter (\<lambda>p. p_MountPoint p \<noteq> []) (PartitionsByInstallOrder ep [] ex)"
  define m where "m = fold (\<lambda>p m. m(p_MountPoint p \<mapsto> p)) ps Map.empty"
  have d: "distinct (map p_MountPoint ps)" using assms by (simp add: ps_def)
  have look: "m (p_MountPoint p) = Some p" if "p \<in> set ps" for p
    using that d by (simp add: m_def fold_map_upd_mem)
  have mf: "List.map_filter m (map p_MountPoint qs) = qs" if "set qs \<subseteq> set ps" for qs
    using that by (induction qs) (simp_all add: look)
  define qs where "qs = sort_key p_MountPoint ps"
  have srt: "sort (map p_MountPoint ps) = map p_MountPoint qs"
    by (rule properties_for_sort) (simp_all add: qs_def)
  have asc: "PartitionsByMountPoint ep False ex = qs"
    by (simp add: PartitionsByMountPoint_def ps_def[symmetric] m_def[symmetric] srt mf qs_def)
  have desc: "PartitionsByMountPoint ep True ex = rev qs"
    using mf[of "rev qs"]
    by (simp add: PartitionsByMountPoint_def ps_def[symmetric] m_def[symmetric] srt rev_map qs_def)
  show ?thesis using asc desc by (simp add: qs_def ps_def)
qed

theorem PartitionsByMountPoint_sorted_witness:
  "sorted (map p_MountPoint (PartitionsByMountPoint demoParts False [])) \<and>
   length (PartitionsByMountPoint demoParts False []) = 5"
proof -
  have po: "PartitionsByInstallOrder demoParts [] [] =
     [demoPart 1 ''efi'' 64 ''/b'', demoPart 2 ''oem'' 64 ''/o'', demoPart 3 ''recovery'' 4096 ''/r'',
      demoPart 4 ''state'' 8192 ''/s'', demoPart 5 ''persistent'' 0 ''/p'']"
    by (simp add: PartitionsByInstallOrder_def demoParts_def demoPart_def keepPart_def inExcludes_def)
  have "distinct (map p_MountPoint (filter (\<lambda>p. p_MountPoint p \<noteq> []) (PartitionsByInstallOrder demoParts [] [])))"
    by (simp add: po demoPart_def)
  note th = PartitionsByMountPoint_sorted[OF this]
  have "length (PartitionsByMountPoint demoParts False []) = 5"
    using th mset_eq_length by (fastforce simp: po demoPart_def)
  with th show ?thesis by blast
qed

text \<open>
  A disk specification that passes \<open>Sanitize\<close>, asks for a size and is not expandable has
  more space than its partitions need, and \<open>MinDiskSize\<close> is that need (two MiB of alignment, every
  partition's size, and the minimal size for a partition that fills the rest) as long as the sum fits
  in a machine word.
\<close>

theorem DiskSpec_Sanitize_size:
  assumes "DiskSpec_Sanitize d = (None, d')" and "dsk_Size d \<noteq> 0" and "\<not> dsk_Expandable d"
    and "2 + (\<Sum>p\<leftarrow>PartitionsByInstallOrder (dsk_Partitions d) [] [].
           unat (if p_Size p = 0 then MinPartSize else p_Size p)) < 2 ^ 64"
  shows "2 + (\<Sum>p\<leftarrow>PartitionsByInstallOrder (dsk_Partitions d) [] [].
           unat (if p_Size p = 0 then MinPartSize else p_Size p)) < unat (dsk_Size d')"
proof -
  from assms(1) have d': "dsk_Size d' = dsk_Size d" "dsk_Expandable d' = dsk_Expandable d"
      "dsk_Partitions d' = dsk_Partitions d"
    and ok: "\<not> (dsk_Size d' \<noteq> 0 \<and> \<not> dsk_Expandable d' \<and> dsk_Size d' \<le> MinDiskSize d')"
    by (auto simp: DiskSpec_Sanitize_def Let_def split: sum.splits bool.splits if_splits)
  from d' ok assms(2,3) have "MinDiskSize d < dsk_Size d'" by (simp add: MinDiskSize_def not_le)
  then have "unat (MinDiskSize d) < unat (dsk_Size d')" by (simp add: word_less_nat_alt)
  moreover have "unat (MinDiskSize d) = 2 + (\<Sum>p\<leftarrow>PartitionsByInstallOrder (dsk_Partitions d) [] [].
      unat (if p_Size p = 0 then MinPartSize else p_Size p))"
    using MinDiskSize_unat[of 2 "PartitionsByInstallOrder (dsk_Partitions d) [] []"] assms(4)
    by (simp add: MinDiskSize_def)
  ultimately show ?thesis by simp
qed

definition demoDisk :: DiskSpec where
  "demoDisk = \<lparr>dsk_Size = 20000, dsk_Partitions = demoParts\<lparr>ep_Persistent := None\<rparr>, dsk_Expandable = False,
     dsk_System = Some (NewDirSrc ''/src''), dsk_RecoverySystem = demoImage, dsk_GrubConf = [], dsk_CloudInit = [],
     dsk_GrubDefEntry = [], dsk_Type = ''raw'', dsk_DeployCmd = []\<rparr>"

theorem DiskSpec_Sanitize_size_witness:
  "\<exists>d'. DiskSpec_Sanitize demoDisk = (None, d') \<and> 12418 < unat (dsk_Size d')"
proof -
  have po: "PartitionsByInstallOrder (dsk_Partitions demoDisk) [] [] =
     [demoPart 1 ''efi'' 64 ''/b'', demoPart 2 ''oem'' 64 ''/o'', demoPart 3 ''recovery'' 4096 ''/r'',
      demoPart 4 ''state'' 8192 ''/s'']"
    by (simp add: PartitionsByInstallOrder_def demoDisk_def demoParts_def demoPart_def keepPart_def inExcludes_def)
  have sum: "(\<Sum>p\<leftarrow>PartitionsByInstallOrder (dsk_Partitions demoDisk) [] [].
      unat (if p_Size p = 0 then MinPartSize else p_Size p)) = 12416"
    by (simp add: po demoPart_def)
  have min: "MinDiskSize (demoDisk\<lparr>dsk_RecoverySystem := rs\<rparr>) = 12418" for rs
    using po by (simp add: MinDiskSize_def demoPart_def)
  have src: "ptr_IsEmpty (dsk_System demoDisk) = Inr False"
    "ptr_IsEmpty (img_Source (dsk_RecoverySystem demoDisk)) = Inr True"
    by (simp_all add: demoDisk_def demoImage_def NewDirSrc_def NewEmptySrc_def ptr_IsEmpty_def IsEmpty_def)
  have "dsk_Size demoDisk = 20000" by (simp add: demoDisk_def)
  then obtain d' where ok: "DiskSpec_Sanitize demoDisk = (None, d')"
    by (simp add: DiskSpec_Sanitize_def src Let_def min)
  have "12418 < unat (dsk_Size d')"
    using DiskSpec_Sanitize_size[OF ok] sum by (simp add: demoDisk_def)
  with ok show ?thesis by blast
qed

text \<open>
  Printing and parsing of key/value pairs: a list of pairs with distinct keys, none of
  whose keys or values contains a comma or an equals sign, is read back unchanged from the
  \<^verbatim>\<open>k1=v1,k2=v2\<close> form that \<open>KeyValuePairFromData\<close> documents.
\<close>

theorem KeyValuePairFromData_roundtrip:
  assumes "kvs \<noteq> []" and "distinct (map fst kvs)"
    and "\<forall>kv \<in> set kvs. \<forall>c \<in> {CHR ''='', CHR '',''}. c \<notin> set (fst kv) \<and> c \<notin> set (snd kv)"
  shows "KeyValuePairFromData (IStr (strings_Join (map (\<lambda>(k, v). k @ ''='' @ v) kvs) '','')) = Inr kvs"
proof -
  have "splitOn (CHR '','') (strings_Join (map (\<lambda>(k, v). k @ ''='' @ v) kvs) '','') =
      map (\<lambda>(k, v). k @ ''='' @ v) kvs"
    using assms(1,3) by (intro splitOn_Join) fastforce+
  moreover have "kvLoop (map (\<lambda>(k, v). k @ ''='' @ v) kvs) [] = Inr ([] @ kvs)"
    using assms(2,3) by (intro kvLoop_pairs) fastforce+
  ultimately show ?thesis by (simp add: KeyValuePairFromData_def)
qed

theorem KeyValuePairFromData_roundtrip_witness:
  "KeyValuePairFromData (IStr ''a=b,c=d'') = Inr [(''a'', ''b''), (''c'', ''d'')]"
  using KeyValuePairFromData_roundtrip[of "[(''a'', ''b''), (''c'', ''d'')]"] by simp

end
