(* ===== verification/Fs_Utils.thy ===== *)
theory Fs_Utils
  imports Types_Config
begin

section \<open>File system utilities (pkg/utils/fs.go, pkg/utils/common.go)\<close>

text \<open>
  The helpers the components build on: existence checks, directory creation, temporary directories,
  copying, the search for kernel and initrd files, the resolution of links below a root, and the
  wrappers of rsync and mksquashfs. \<^verbatim>\<open>RawPath\<close> is the identity, as on the real file system.
  Functions that depend on code outside the repository take it as an argument: \<open>parseEnv\<close> and
  \<open>printEnv\<close> are the reader and the printer of godotenv.
\<close>

subsection \<open>pkg/utils/fs.go\<close>

definition Exists :: "string \<Rightarrow> bool \<Rightarrow> (world, bool) io" where
  "Exists path noFollow = (\<lambda>w.
     case (if noFollow then fs_Lstat path else fs_Stat path) w of
       (Inr _, w') \<Rightarrow> (Inr True, w')
     | (Inl e, w') \<Rightarrow> (if e = ENOENT then (Inr False, w') else (Inl e, w')))"

definition utils_RemoveAll :: "string \<Rightarrow> (world, unit) io" where
  "utils_RemoveAll path = (\<lambda>w.
     case fs_RemoveAll path w of
       (Inl e, w') \<Rightarrow> (if e \<noteq> ENOENT then (Inl e, w') else (Inr (), w'))
     | (Inr _, w') \<Rightarrow> (Inr (), w'))"

definition IsDir :: "string \<Rightarrow> (world, bool) io" where
  "IsDir path = bindIO (fs_Stat path)
     (\<lambda>fi. retIO (case fi of NDir _ \<Rightarrow> True | _ \<Rightarrow> False))"

definition MkdirAll :: "string \<Rightarrow> nat \<Rightarrow> (world, unit) io" where
  "MkdirAll name mode = os_MkdirAll name mode"

definition readlink :: "string \<Rightarrow> (world, string) io" where
  "readlink name = bindIO (fs_Readlink name)
     (\<lambda>res. retIO (TrimPrefix res (TrimSuffix name name)))"

text \<open>Sizes: the walk counts everything that is not below a directory with an excluded prefix.\<close>

definition strPath :: "string list \<Rightarrow> string" where
  "strPath cs = slash # strings_Join cs ''/''"

definition node_size :: "node \<Rightarrow> nat" where
  "node_size n = (case n of NDir _ \<Rightarrow> 0 | NFile _ d \<Rightarrow> length d | NLink t \<Rightarrow> length t)"

definition skippedBy :: "string list \<Rightarrow> string list \<Rightarrow> world \<Rightarrow> string list \<Rightarrow> bool" where
  "skippedBy root excludes w p =
     list_ex (\<lambda>n. is_dir_at w (take n p) \<and>
        list_ex (\<lambda>exclude. HasPrefix (strPath (take n p)) exclude) excludes)
       [length root..<Suc (length p)]"

definition DirSize :: "string \<Rightarrow> string list \<Rightarrow> (world, int) io" where
  "DirSize path excludes = sysIO (\<lambda>w.
     let root = pathOf path in
     if fs_lookup w root = None then (Inl ENOENT, w)
     else (Inr (int (sum_list (map (\<lambda>(p, n). node_size n)
       (filter (\<lambda>(p, n). is_below root p \<and> \<not> skippedBy root excludes w p) (files w))))), w))"

definition DirSizeMB :: "string \<Rightarrow> string list \<Rightarrow> (world, uint) io" where
  "DirSizeMB path excludes = bindIO (DirSize path excludes) (\<lambda>sz.
     let MB = 1048576; sizeMB = (sz div MB * MB + MB) div MB
     in if sizeMB > 0 then retIO (of_int sizeMB) else failIO (Errorf ''Negative size calculation''))"

text \<open>The pseudo-random suffix of temporary names; \<open>clock\<close> stands for the reseeding value.\<close>

definition nextRandom :: "(world, string) io" where
  "nextRandom = (\<lambda>w.
     let r = (if randSeed w = 0 then clock w else randSeed w);
         r' = r * 1664525 + 1013904223
     in (Inr (drop 1 (nat_str (10 ^ 9 + unat r' mod 10 ^ 9))), w\<lparr>randSeed := r'\<rparr>))"

fun tempDirTry :: "nat \<Rightarrow> nat \<Rightarrow> string \<Rightarrow> string \<Rightarrow> (world, string) io" where
  "tempDirTry 0 nconflict dir pfx = failIO EEXIST"
| "tempDirTry (Suc n) nconflict dir pfx =
     bindIO nextRandom (\<lambda>rnd.
       let try = Join [dir, pfx @ rnd] in
       bindIO (tryIO (MkdirAll try 448)) (\<lambda>e.
         case e of
           None \<Rightarrow> retIO try
         | Some EEXIST \<Rightarrow>
             thenIO (whenIO (Suc nconflict > 10) (modIO (\<lambda>w. w\<lparr>randSeed := clock w\<rparr>)))
               (tempDirTry n (Suc nconflict) dir pfx)
         | Some e' \<Rightarrow> failIO e'))"

definition TempDir :: "string \<Rightarrow> string \<Rightarrow> (world, string) io" where
  "TempDir dir pfx = tempDirTry 10000 0 (if dir = [] then ''/tmp'' else dir) pfx"

text \<open>
  The directory walk. The callback gets the path, the node (nil when it could not be read), an error
  and the value of the variable it captures, and returns its error and the new value. \<open>fuel\<close>
  bounds the depth of the recursion.
\<close>

type_synonym 'acc walkFn = "string \<Rightarrow> node option \<Rightarrow> err option \<Rightarrow> 'acc \<Rightarrow> (world, err option \<times> 'acc) io"

fun walkDir :: "nat \<Rightarrow> 'acc walkFn \<Rightarrow> string \<Rightarrow> node \<Rightarrow> 'acc \<Rightarrow> (world, err option \<times> 'acc) io"
  and walkList :: "nat \<Rightarrow> 'acc walkFn \<Rightarrow> string \<Rightarrow> (string \<times> node) list \<Rightarrow> 'acc \<Rightarrow> (world, err option \<times> 'acc) io" where
  "walkDir 0 fn path d acc = retIO (Some EFault, acc)"
| "walkDir (Suc fuel) fn path d acc =
     bindIO (fn path (Some d) None acc) (\<lambda>(e, acc1).
       let isDir = (case d of NDir _ \<Rightarrow> True | _ \<Rightarrow> False) in
       if e \<noteq> None \<or> \<not> isDir
       then retIO (if e = Some SkipDir \<and> isDir then None else e, acc1)
       else bindIO (\<lambda>w. case fs_ReadDir path w of
                (Inr ds, w') \<Rightarrow> (Inr (None, ds), w') | (Inl e', w') \<Rightarrow> (Inr (Some e', []), w'))
         (\<lambda>(re, dirs). case re of
              None \<Rightarrow> walkList fuel fn path dirs acc1
            | Some e' \<Rightarrow>
                bindIO (fn path (Some d) (Some e') acc1) (\<lambda>(e2, acc2).
                  if e2 \<noteq> None then retIO (e2, acc2) else walkList fuel fn path dirs acc2)))"
| "walkList fuel fn path [] acc = retIO (None, acc)"
| "walkList fuel fn path ((name, d1) # ds) acc =
     bindIO (walkDir fuel fn (Join [path, name]) d1 acc) (\<lambda>(e, acc1).
       case e of
         None \<Rightarrow> walkList fuel fn path ds acc1
       | Some SkipDir \<Rightarrow> retIO (None, acc1)
       | Some e' \<Rightarrow> retIO (Some e', acc1))"

definition WalkDirFs :: "'acc walkFn \<Rightarrow> string \<Rightarrow> 'acc \<Rightarrow> (world, err option \<times> 'acc) io" where
  "WalkDirFs fn root acc = (\<lambda>w.
     bindIO (case fs_Stat root w of
         (Inl e, w') \<Rightarrow> (\<lambda>_. fn root None (Some e) acc w')
       | (Inr info, w') \<Rightarrow> (\<lambda>_. walkDir (Suc (length (files w))) fn root info acc w'))
       (\<lambda>(e, acc'). retIO (if e = Some SkipDir then None else e, acc')) w)"

subsection \<open>pkg/utils/common.go: copying\<close>

text \<open>
  The loop of \<open>ConcatFiles\<close>: each source is opened, copied to the end of the target and closed.
\<close>

definition appendFile :: "string \<Rightarrow> string \<Rightarrow> (world, unit) io" where
  "appendFile target d = bindIO (fs_ReadFile target) (\<lambda>old. fs_WriteFile target (old @ d) FilePerm)"

definition node_mode :: "node \<Rightarrow> nat" where
  "node_mode n = (case n of NDir m \<Rightarrow> m | NFile m _ \<Rightarrow> m | NLink _ \<Rightarrow> 511)"

definition ConcatFiles :: "string list \<Rightarrow> string \<Rightarrow> (world, unit) io" where
  "ConcatFiles sources target =
     (case sources of
        [] \<Rightarrow> failIO (Errorf ''Empty sources list'')
      | src0 # _ \<Rightarrow>
          bindIO (okIO False (IsDir target)) (\<lambda>dir.
          let target' = (if dir then Join [target, Base src0] else target) in
          bindIO (fs_Stat src0) (\<lambda>fInf.
          thenIO (fs_Create target')
            (onErrorIO
              (thenIO (forIO sources (\<lambda>source. bindIO (fs_ReadFile source) (appendFile target')))
                (fs_Chmod target' (node_mode fInf)))
              (ignoreIO (fs_Remove target'))))))"

definition CopyFile :: "string \<Rightarrow> string \<Rightarrow> (world, unit) io" where
  "CopyFile source target = ConcatFiles [source] target"

definition CreateDirStructure :: "string \<Rightarrow> (world, unit) io" where
  "CreateDirStructure target =
     thenIO (forIO [''/run'', ''/dev'', ''/boot'', ''/oem'', ''/system'', ''/etc/elemental/config.d'']
       (\<lambda>dir. MkdirAll (Join [target, dir]) DirPerm))
     (thenIO (forIO [''/proc'', ''/sys''] (\<lambda>dir. MkdirAll (Join [target, dir]) 365))
     (thenIO (MkdirAll (Join [target, ''/tmp'']) DirPerm)
       (fs_Chmod (Join [target, ''/tmp'']) 1023)))"

subsection \<open>pkg/utils/common.go: commands\<close>

definition rsyncWrapper :: "Config \<Rightarrow> string \<Rightarrow> string \<Rightarrow> string list \<Rightarrow> (world, unit) io" where
  "rsyncWrapper cfg source target flags =
     (let source' = (if HasSuffix source ''/'' then source else source @ ''/'');
          target' = (if HasSuffix target ''/'' then target else target @ ''/'')
      in bindIO (RunE cfg ''rsync'' (flags @ [source', target'])) (\<lambda>_. retIO ()))"

definition SyncData :: "Config \<Rightarrow> string \<Rightarrow> string \<Rightarrow> string list \<Rightarrow> (world, unit) io" where
  "SyncData cfg source target excludes =
     rsyncWrapper cfg source target
       ([''--progress'', ''--partial'', ''--human-readable'', ''--archive'', ''--xattrs'', ''--acls'',
         ''--filter=-x security.selinux''] @ map (\<lambda>e. ''--exclude='' @ e) excludes)"

definition MirrorData :: "Config \<Rightarrow> string \<Rightarrow> string \<Rightarrow> string list \<Rightarrow> (world, unit) io" where
  "MirrorData cfg source target excludes =
     rsyncWrapper cfg source target
       ([''--progress'', ''--partial'', ''--human-readable'', ''--archive'', ''--xattrs'', ''--acls'',
         ''--delete'', ''--filter=-x security.selinux''] @ map (\<lambda>e. ''--exclude='' @ e) excludes)"

text \<open>\<^verbatim>\<open>-e\<close> options are dropped: exclusions come as an argument of their own.\<close>

definition squashOptions :: "string list \<Rightarrow> string list" where
  "squashOptions options =
     concat (map (\<lambda>op. let x = splitOn (CHR '' '') op in if hd x = ''-e'' then [] else x) options)"

definition CreateSquashFS ::
  "Config \<Rightarrow> string \<Rightarrow> string \<Rightarrow> string list \<Rightarrow> string list \<Rightarrow> (world, unit) io" where
  "CreateSquashFS cfg source destination options excludes =
     bindIO (RunE cfg ''mksquashfs''
       ([source, destination] @ squashOptions options @ [''-wildcards'', ''-e''] @ excludes))
       (\<lambda>_. retIO ())"

definition CosignVerify :: "Config \<Rightarrow> string \<Rightarrow> string \<Rightarrow> bool \<Rightarrow> (world, string) io" where
  "CosignVerify cfg img publicKey debug =
     (let args = (if debug then [''-d=true''] else []) @
            (if publicKey \<noteq> [] then [''-key'', publicKey] else []) @ [img]
      in bindIO (TempDir [] ''cosign-tuf-'') (\<lambda>tmpDir.
         finallyIO (RunE cfg ''cosign'' args)
           (\<lambda>_. thenIO (ignoreIO (fs_RemoveAll tmpDir)) (retIO None))))"

definition Reboot :: "Config \<Rightarrow> (world, unit) io" where
  "Reboot cfg = bindIO (RunE cfg ''reboot'' [''-f'']) (\<lambda>_. retIO ())"

definition Shutdown :: "Config \<Rightarrow> (world, unit) io" where
  "Shutdown cfg = bindIO (RunE cfg ''poweroff'' [''-f'']) (\<lambda>_. retIO ())"

definition BootedFrom :: "Config \<Rightarrow> string \<Rightarrow> (world, bool) io" where
  "BootedFrom cfg label = bindIO (Run cfg ''cat'' [''/proc/cmdline'']) (\<lambda>(_, out). retIO (Contains out label))"

fun GetFullDeviceByLabel :: "Config \<Rightarrow> string \<Rightarrow> nat \<Rightarrow> (world, Partition) io" where
  "GetFullDeviceByLabel cfg label 0 = failIO (Errorf ''no device found'')"
| "GetFullDeviceByLabel cfg label (Suc attempts) =
     thenIO (ignoreIO (Run cfg ''udevadm'' [''settle'']))
       (bindIO (cfg_AllPartitions cfg) (\<lambda>parts.
         case GetByLabel parts label of
           Some part \<Rightarrow> retIO part
         | None \<Rightarrow> GetFullDeviceByLabel cfg label attempts))"

definition GetDeviceByLabel :: "Config \<Rightarrow> string \<Rightarrow> nat \<Rightarrow> (world, string) io" where
  "GetDeviceByLabel cfg label attempts =
     bindIO (GetFullDeviceByLabel cfg label attempts) (\<lambda>part. retIO (p_Path part))"

subsection \<open>pkg/utils/common.go: environment files\<close>

definition LoadEnvFile ::
  "(string \<Rightarrow> err + (string \<times> string) list) \<Rightarrow> string \<Rightarrow> (world, (string \<times> string) list) io" where
  "LoadEnvFile parseEnv file = bindIO (fs_ReadFile file)
     (\<lambda>d. case parseEnv d of Inl e \<Rightarrow> failIO e | Inr m \<Rightarrow> retIO m)"

definition godotenv_Write ::
  "((string \<times> string) list \<Rightarrow> err + string) \<Rightarrow> (string \<times> string) list \<Rightarrow> string \<Rightarrow> (world, unit) io" where
  "godotenv_Write printEnv envs file =
     (case printEnv envs of Inl e \<Rightarrow> failIO e | Inr d \<Rightarrow> fs_WriteFile file d FilePerm)"

definition WriteEnvFile ::
  "((string \<times> string) list \<Rightarrow> err + string) \<Rightarrow> (string \<times> string) list \<Rightarrow> string \<Rightarrow> (world, unit) io" where
  "WriteEnvFile printEnv envs filename =
     bindIO (okIO False (Exists filename True)) (\<lambda>ok.
       let bkFile = (if ok then filename @ ''.bk'' else []) in
       thenIO (whenIO ok (fs_Rename filename bkFile))
       (bindIO (tryIO (godotenv_Write printEnv envs filename)) (\<lambda>e.
         case e of
           Some e' \<Rightarrow> thenIO (whenIO (bkFile \<noteq> []) (ignoreIO (fs_Rename bkFile filename))) (failIO e')
         | None \<Rightarrow> whenIO (bkFile \<noteq> []) (ignoreIO (fs_Remove bkFile)))))"

subsection \<open>pkg/utils/common.go: finding files\<close>

text \<open>
  \<^verbatim>\<open>filepath.Match\<close> for the patterns the program uses: literals, \<^verbatim>\<open>*\<close> and \<^verbatim>\<open>?\<close>, neither of
  which matches a slash.
\<close>

fun Match :: "string \<Rightarrow> string \<Rightarrow> bool" where
  "Match [] s = (s = [])"
| "Match (p # ps) [] = (p = CHR ''*'' \<and> Match ps [])"
| "Match (p # ps) (c # cs) =
     (if p = CHR ''*'' then Match ps (c # cs) \<or> (c \<noteq> slash \<and> Match (p # ps) cs)
      else if p = CHR ''?'' then c \<noteq> slash \<and> Match ps cs
      else p = c \<and> Match ps cs)"

definition is_magic :: "char \<Rightarrow> bool" where
  "is_magic c \<longleftrightarrow> c = CHR ''*'' \<or> c = CHR ''?'' \<or> c = CHR ''[''"

definition getBaseDir :: "string \<Rightarrow> string" where
  "getBaseDir path =
     (let pre = takeWhile (\<lambda>c. \<not> is_magic c) path
      in if length pre < length path \<and> length pre > 0 then Dir pre else path)"

fun resolveLink :: "nat \<Rightarrow> string \<Rightarrow> string \<Rightarrow> node \<Rightarrow> (world, string) io" where
  "resolveLink 0 path rootDir d =
     (case d of NLink _ \<Rightarrow> failIO (Errorf ''too many nested links'') | _ \<Rightarrow> retIO path)"
| "resolveLink (Suc depth) path rootDir d =
     (case d of
        NLink _ \<Rightarrow>
          bindIO (readlink path) (\<lambda>resolved.
            let resolved' = (if \<not> IsAbs resolved then Join [Dir path, resolved] else Join [rootDir, resolved])
            in bindIO (fs_Lstat resolved') (\<lambda>f. resolveLink depth resolved' rootDir f))
      | _ \<Rightarrow> retIO path)"

definition ResolveLink :: "string \<Rightarrow> string \<Rightarrow> nat \<Rightarrow> (world, string) io" where
  "ResolveLink path rootDir depth = bindIO (fs_Lstat path) (\<lambda>f. resolveLink depth path rootDir f)"

definition findFilesFn :: "string \<Rightarrow> string \<Rightarrow> bool \<Rightarrow> string list walkFn" where
  "findFilesFn rootDir pattern firstMatchReturn path d e foundFiles =
     (case e of
        Some e' \<Rightarrow> retIO (Some e', foundFiles)
      | None \<Rightarrow>
          (if Match (Join [rootDir, pattern]) path then
             (\<lambda>w. case resolveLink MaxLinkDepth path rootDir (case d of None \<Rightarrow> NDir 0 | Some n \<Rightarrow> n) w of
                (Inl e', w') \<Rightarrow> (Inr (Some e', foundFiles), w')
              | (Inr foundFile, w') \<Rightarrow>
                  (Inr (if firstMatchReturn then Some EOF else None, foundFiles @ [foundFile]), w'))
           else retIO (None, foundFiles)))"

definition findFiles :: "string \<Rightarrow> string \<Rightarrow> bool \<Rightarrow> (world, string list) io" where
  "findFiles rootDir pattern firstMatchReturn =
     (let base = Join [rootDir, getBaseDir pattern] in
      bindIO (okIO False (Exists base False)) (\<lambda>ok.
        if ok then
          bindIO (WalkDirFs (findFilesFn rootDir pattern firstMatchReturn) base []) (\<lambda>(e, foundFiles).
            case e of
              None \<Rightarrow> retIO foundFiles
            | Some EOF \<Rightarrow> retIO foundFiles
            | Some e' \<Rightarrow> failIO e')
        else retIO []))"

definition FindFiles :: "string \<Rightarrow> string \<Rightarrow> (world, string list) io" where
  "FindFiles rootDir pattern = findFiles rootDir pattern False"

definition findFile :: "string \<Rightarrow> string \<Rightarrow> (world, string) io" where
  "findFile rootDir pattern = bindIO (findFiles rootDir pattern True)
     (\<lambda>fs. retIO (case fs of [] \<Rightarrow> [] | f # _ \<Rightarrow> f))"

fun FindFile :: "string \<Rightarrow> string list \<Rightarrow> (world, string) io" where
  "FindFile rootDir [] = failIO (Errorf ''failed to find binary matching'')"
| "FindFile rootDir (pattern # patterns) =
     bindIO (findFile rootDir pattern) (\<lambda>found. if found \<noteq> [] then retIO found else FindFile rootDir patterns)"

definition GetKernelPatterns :: "string list" where
  "GetKernelPatterns = [''/boot/uImage*'', ''/boot/Image*'', ''/boot/zImage*'', ''/boot/vmlinuz*'', ''/boot/image*'']"

definition GetInitrdPatterns :: "string list" where
  "GetInitrdPatterns = [''/boot/elemental.initrd*'', ''/boot/initrd*'', ''/boot/initramfs*'']"

definition FindKernel :: "string \<Rightarrow> (world, string \<times> string) io" where
  "FindKernel rootDir =
     bindIO (FindFile rootDir GetKernelPatterns) (\<lambda>kernel.
     bindIO (fs_ReadDir (Join [rootDir, ''/lib/modules''])) (\<lambda>fs.
       case find (\<lambda>f. Contains kernel (fst f)) fs of
         Some f \<Rightarrow> (if fst f = [] then failIO (Errorf ''could not determine the version of kernel'')
                    else retIO (kernel, fst f))
       | None \<Rightarrow> failIO (Errorf ''could not determine the version of kernel'')))"

definition FindInitrd :: "string \<Rightarrow> (world, string) io" where
  "FindInitrd rootDir = FindFile rootDir GetInitrdPatterns"

definition FindKernelInitrd :: "string \<Rightarrow> (world, string \<times> string) io" where
  "FindKernelInitrd rootDir =
     bindIO (FindKernel rootDir) (\<lambda>(kernel, _).
     bindIO (FindInitrd rootDir) (\<lambda>initrd. retIO (kernel, initrd)))"

subsection \<open>pkg/utils/common.go: raw files and paths\<close>

text \<open>The size in MiB is multiplied as a \<^verbatim>\<open>uint\<close> and read back as an \<^verbatim>\<open>int64\<close>.\<close>

definition rawSize :: "uint \<Rightarrow> int" where
  "rawSize sz = sint (sz * 1024 * 1024)"

definition fs_Truncate :: "string \<Rightarrow> int \<Rightarrow> (world, unit) io" where
  "fs_Truncate p n = sysIO (\<lambda>w.
     if n < 0 then (Inl EFault, w)
     else (case resolve w (pathOf p) of
        None \<Rightarrow> (Inl EFault, w)
      | Some q \<Rightarrow> (case fs_lookup w q of
           Some (NFile m d) \<Rightarrow>
             (Inr (), fs_set q (NFile m (take (nat n) (d @ replicate (nat n - length d) (CHR 0x00)))) w)
         | _ \<Rightarrow> (Inl ENOENT, w))))"

definition CreateRAWFile :: "string \<Rightarrow> uint \<Rightarrow> (world, unit) io" where
  "CreateRAWFile filename sz =
     bindIO (tryIO (fs_Create filename)) (\<lambda>e1.
     case e1 of Some e \<Rightarrow> failIO (Coded e 16) | None \<Rightarrow>
     bindIO (tryIO (fs_Truncate filename (rawSize sz))) (\<lambda>e2.
     case e2 of
       Some e \<Rightarrow> thenIO (ignoreIO (fs_RemoveAll filename)) (failIO (Coded e 30))
     | None \<Rightarrow>
         bindIO (tryIO (sysIO (retIO ()))) (\<lambda>e3.
         case e3 of
           Some e \<Rightarrow> thenIO (ignoreIO (fs_RemoveAll filename)) (failIO (Coded e 10))
         | None \<Rightarrow> retIO ())))"

definition PreAppendRoot :: "string \<Rightarrow> string list \<Rightarrow> string list" where
  "PreAppendRoot root paths = map (\<lambda>path. Join [root, path]) paths"

subsection \<open>A small system for examples\<close>

definition demoWorld :: world where
  "demoWorld = \<lparr>files = [([''etc''], NDir 493), ([''tmp''], NDir 511)], mounts = [], cmds = [],
     faults = (\<lambda>_. False), ticks = 0, randSeed = 1, clock = 7, curDir = ''/'', curRoot = ''/''\<rparr>"

definition demoConfig :: Config where
  "demoConfig = \<lparr>cfg_Run = (\<lambda>_ _ w. ((None, []), w)), cfg_CommandExists = (\<lambda>_. True),
     cfg_ExtractImage = (\<lambda>_ _ _ _ _. retIO []), cfg_GetURL = (\<lambda>_ _. retIO ()),
     cfg_CloudInitRun = (\<lambda>_ _ _. retIO ()), cfg_ParseEnv = (\<lambda>_. Inr []), cfg_PrintEnv = (\<lambda>_. Inr []),
     cfg_Now = (\<lambda>_. \<lparr>tm_year = 2026, tm_month = 1, tm_day = 1, tm_hour = 0, tm_min = 0, tm_sec = 0, tm_nano = 0, tm_zone = ''Z''\<rparr>),
     cfg_ParseNamed = (\<lambda>_. False), cfg_ParseNormalizedNamed = (\<lambda>_. None), cfg_Getenv = (\<lambda>_. []), cfg_Debug = False,
     cfg_AllPartitions = retIO [], cfg_Platform = None,
     cfg_Cosign = False, cfg_Verify = False, cfg_TLSVerify = True, cfg_CosignPubKey = [],
     cfg_LocalImage = False, cfg_Arch = [], cfg_SquashFsCompressionConfig = [],
     cfg_SquashFsNoCompression = False, cfg_CloudInitPaths = [], cfg_Strict = False\<rparr>"

subsection \<open>Links\<close>

text \<open>Reading leaves the file tree as it is.\<close>

definition sameFiles :: "world \<Rightarrow> world \<Rightarrow> bool" where
  "sameFiles s t \<longleftrightarrow> files t = files s"

interpretation fls: state_frame sameFiles
  by unfold_locales (auto simp: sameFiles_def)

lemma sameFiles_sysIO:
  assumes "\<And>w. files (snd (m w)) = files w"
  shows "keeps sameFiles (sysIO m)"
proof (rule keepsI)
  fix s r t
  assume "sysIO m s = (r, t)"
  then show "sameFiles s t"
    using assms[of "s\<lparr>ticks := Suc (ticks s)\<rparr>"] by (cases rule: sysIO_cases) (simp_all add: sameFiles_def)
qed

lemma sameFiles_reads [keeps_intros]:
  "keeps sameFiles (fs_Lstat p)" "keeps sameFiles (fs_Stat p)" "keeps sameFiles (fs_Readlink p)"
  "keeps sameFiles (fs_ReadDir p)" "keeps sameFiles (fs_ReadFile p)"
  unfolding fs_Lstat_def fs_Stat_def fs_Readlink_def fs_ReadDir_def fs_ReadFile_def
  by (rule sameFiles_sysIO, auto split: option.splits node.splits)+

lemma Lstat_reads: "fs_Lstat p w = (Inr n, w') \<Longrightarrow> fs_lookup w (pathOf p) = Some n"
  by (auto simp: fs_Lstat_def sysIO_def Let_def split: if_splits option.splits)

lemma lookup_sameFiles: "sameFiles s t \<Longrightarrow> fs_lookup t p = fs_lookup s p"
  by (simp add: sameFiles_def fs_lookup_def)

lemma readlink_sameFiles: "keeps sameFiles (readlink p)"
  unfolding readlink_def by (intro fls.keeps_bind sameFiles_reads fls.keeps_ret)

lemma resolveLink_final:
  "fs_lookup w (pathOf path) = Some d \<Longrightarrow> resolveLink depth path rootDir d w = (Inr q, w') \<Longrightarrow>
     \<exists>n. fs_lookup w (pathOf q) = Some n \<and> (\<forall>t. n \<noteq> NLink t) \<and> sameFiles w w'"
proof (induction depth arbitrary: path d w)
  case 0
  then show ?case by (auto simp: retIO_def failIO_def sameFiles_def split: node.splits)
next
  case (Suc depth)
  show ?case
  proof (cases d)
    case (NLink t)
    with Suc.prems(2) obtain res w1 r where rl: "readlink path w = (Inr res, w1)"
      and "bindIO (fs_Lstat r) (\<lambda>f. resolveLink depth r rootDir f) w1 = (Inr q, w')"
      by (simp add: returns_iff Let_def) blast
    then obtain f w2 where ls: "fs_Lstat r w1 = (Inr f, w2)"
      and rec: "resolveLink depth r rootDir f w2 = (Inr q, w')" by (auto simp: returns_iff)
    have s1: "sameFiles w w1" using keepsD[OF readlink_sameFiles rl] .
    have s2: "sameFiles w1 w2" using keepsD[OF sameFiles_reads(1) ls] .
    have "fs_lookup w2 (pathOf r) = Some f" using Lstat_reads[OF ls] lookup_sameFiles[OF s2] by simp
    from Suc.IH[OF this rec] lookup_sameFiles[OF s1] lookup_sameFiles[OF s2] fls.trans[OF s1] fls.trans[OF s2]
    show ?thesis by auto
  qed (use Suc.prems in \<open>auto simp: retIO_def sameFiles_def\<close>)
qed

lemma Exists_sameFiles [keeps_intros]: "keeps sameFiles (Exists p nofollow)"
  by (rule keepsI) (auto simp: Exists_def split: prod.splits sum.splits if_splits
      dest!: keepsD[OF sameFiles_reads(2)] keepsD[OF sameFiles_reads(1)])

lemma resolveLink_sameFiles: "keeps sameFiles (resolveLink depth p r d)"
  by (induction depth arbitrary: p d)
    (auto simp: Let_def split: node.splits
      intro!: fls.keeps_fail fls.keeps_ret fls.keeps_bind readlink_sameFiles sameFiles_reads)

lemma ResolveLink_sameFiles [keeps_intros]: "keeps sameFiles (ResolveLink p r depth)"
  unfolding ResolveLink_def by (intro fls.keeps_bind resolveLink_sameFiles sameFiles_reads)

text \<open>Adding files: whatever was there before is still there, unchanged.\<close>

definition moreFiles :: "world \<Rightarrow> world \<Rightarrow> bool" where
  "moreFiles s t \<longleftrightarrow> (\<forall>p n. fs_lookup s p = Some n \<longrightarrow> fs_lookup t p = Some n)"

interpretation mfl: state_frame moreFiles
  by unfold_locales (auto simp: moreFiles_def)

lemma sameFiles_more: "sameFiles s t \<Longrightarrow> moreFiles s t"
  by (simp add: moreFiles_def lookup_sameFiles)

lemma mkdirs_more:
  "mkdirs d cs mode w = (r, w') \<Longrightarrow> moreFiles w w' \<and> (r = Inr () \<longrightarrow> is_dir_at w d \<longrightarrow> is_dir_at w' (d @ cs))"
proof (induction d cs mode w rule: mkdirs.induct)
  case (2 d c cs mode w)
  let ?q = "d @ [c]"
  show ?case
  proof (cases "fs_lookup w ?q")
    case None
    with 2 have "moreFiles (fs_set ?q (NDir mode) w) w'" "r = Inr () \<longrightarrow> is_dir_at w' (?q @ cs)"
      by (auto simp: is_dir_at_def fs_lookup_set Let_def)
    moreover have "moreFiles w (fs_set ?q (NDir mode) w)" using None by (auto simp: moreFiles_def fs_lookup_set)
    ultimately show ?thesis using mfl.trans by auto
  next
    case (Some n)
    with 2 show ?thesis by (cases n) (auto simp: is_dir_at_def mfl.refl Let_def)
  qed
qed (auto simp: mfl.refl)

lemma MkdirAll_more:
  assumes "MkdirAll p mode w = (r, w')"
  shows "moreFiles w w'" and "r = Inr () \<Longrightarrow> is_dir_at w' (pathOf p)"
proof -
  from assms[unfolded MkdirAll_def os_MkdirAll_def] have "moreFiles w w' \<and> (r = Inr () \<longrightarrow> is_dir_at w' (pathOf p))"
  proof (cases rule: sysIO_cases)
    case ran
    from mkdirs_more[OF ran(2)] show ?thesis by (simp add: is_dir_at_def moreFiles_def)
  qed (simp add: moreFiles_def)
  then show "moreFiles w w'" and "r = Inr () \<Longrightarrow> is_dir_at w' (pathOf p)" by simp_all
qed

lemma is_dir_more: "moreFiles w w' \<Longrightarrow> is_dir_at w p \<Longrightarrow> is_dir_at w' p"
  by (auto simp: moreFiles_def is_dir_at_def split: option.splits node.splits)

subsection \<open>The log of commands\<close>

text \<open>A runner that leaves the log alone: what a command does to the system is arbitrary, the record of the commands is the program's.\<close>

definition keepsLog :: "Config \<Rightarrow> bool" where
  "keepsLog cfg \<longleftrightarrow> (\<forall>c args w. cmds (snd (cfg_Run cfg c args w)) = cmds w)"

lemma Run_cmds:
  assumes "keepsLog cfg" "Run cfg c args w = (r, w')"
  shows "cmds w' = cmds w @ [(c, args)]"
  using assms(2) assms(1)[unfolded keepsLog_def, rule_format, of c args "w\<lparr>cmds := cmds w @ [(c, args)]\<rparr>"]
  by (auto simp: Run_def split: prod.splits)

lemma RunE_cmds:
  assumes "keepsLog cfg" "RunE cfg c args w = (r, w')"
  shows "cmds w' = cmds w @ [(c, args)]"
  using assms(2) Run_cmds[OF assms(1)]
  by (auto simp: RunE_def bindIO_def retIO_def failIO_def split: prod.splits sum.splits option.splits)

subsection \<open>Resolved links\<close>


definition linkWorld :: world where
  "linkWorld = demoWorld\<lparr>files := [([''boot''], NDir 493), ([''boot'', ''a''], NLink ''b''),
     ([''boot'', ''b''], NLink ''/boot/c''), ([''boot'', ''c''], NFile 420 ''x'')]\<rparr>"


end
