(* ===== verification/Chroot.thy ===== *)
theory Chroot
  imports Fs_Utils
begin

section \<open>Running code in a chroot (pkg/utils/chroot.go)\<close>

text \<open>
  A \<open>Chroot\<close> binds the system directories and the requested extra directories below a path, changes the
  root of the process, runs a callback and undoes all of it. The methods work on the \<open>Chroot\<close> object and
  the world. The callback is a parameter: it is the code that runs inside the chroot. The main
  property is that the mount table is restored whenever no unmount has been reported as failed.
\<close>

record Chroot =
  ch_path :: string
  ch_defaultMounts :: "string list"
  ch_extraMounts :: "(string \<times> string) list"
  ch_activeMounts :: "string list"
  ch_config :: Config

definition NoDefaultBinds :: "Chroot \<Rightarrow> Chroot" where
  "NoDefaultBinds ch = ch\<lparr>ch_defaultMounts := []\<rparr>"

definition NewChroot :: "string \<Rightarrow> Config \<Rightarrow> (Chroot \<Rightarrow> Chroot) list \<Rightarrow> Chroot" where
  "NewChroot path config opts = fold (\<lambda>opt ch. opt ch) opts
     \<lparr>ch_path = path, ch_defaultMounts = [''/dev'', ''/dev/pts'', ''/proc'', ''/sys''],
      ch_extraMounts = [], ch_activeMounts = [], ch_config = config\<rparr>"

definition SetExtraMounts :: "(string \<times> string) list \<Rightarrow> Chroot \<Rightarrow> Chroot" where
  "SetExtraMounts extraMounts c = c\<lparr>ch_extraMounts := extraMounts\<rparr>"

text \<open>One bind mount of \<open>Prepare\<close>: \<open>source\<close> outside, \<open>inner\<close> inside the chroot.\<close>

definition bindInto :: "string \<Rightarrow> string \<Rightarrow> (Chroot \<times> world, unit) io" where
  "bindInto source inner = bindIO getO (\<lambda>c.
     let mountPoint = TrimSuffix (ch_path c) ''/'' @ inner in
     thenIO (liftW (MkdirAll mountPoint DirPerm))
     (thenIO (liftW (mnt_Mount source mountPoint ''bind'' [''bind'']))
       (modO (\<lambda>c. c\<lparr>ch_activeMounts := ch_activeMounts c @ [mountPoint]\<rparr>))))"

text \<open>The loop of \<open>Close\<close>, which pops the last active mount until none is left.\<close>

function closeLoop :: "string list \<Rightarrow> (Chroot \<times> world, string list) io" where
  "closeLoop failures (c, w) =
     (if ch_activeMounts c = [] then (Inr failures, (c, w))
      else let curr = last (ch_activeMounts c);
               c' = c\<lparr>ch_activeMounts := butlast (ch_activeMounts c)\<rparr>
           in case mnt_Unmount curr w of
                (Inl _, w') \<Rightarrow> closeLoop (failures @ [curr]) (c', w')
              | (Inr _, w') \<Rightarrow> closeLoop failures (c', w'))"
  by pat_completeness auto
termination by (relation "measure (\<lambda>(_, c, _). length (ch_activeMounts c))") auto

declare closeLoop.simps [simp del]

definition Chroot_Close :: "(Chroot \<times> world, unit) io" where
  "Chroot_Close = bindIO getO (\<lambda>c.
     thenIO (ignoreIO (liftW (Run (ch_config c) ''sync'' [])))
     (bindIO (closeLoop []) (\<lambda>failures.
        if failures \<noteq> [] then
          thenIO (modO (\<lambda>c. c\<lparr>ch_activeMounts := failures\<rparr>))
            (failIO (Errorf ''failed closing chroot environment''))
        else retIO ())))"

definition Chroot_Prepare :: "(Chroot \<times> world, unit) io" where
  "Chroot_Prepare = bindIO getO (\<lambda>c.
     if ch_activeMounts c \<noteq> [] then
       failIO (Errorf ''There are already active mountpoints for this instance'')
     else onErrorIO
       (thenIO (forIO (ch_defaultMounts c) (\<lambda>mnt. bindInto mnt mnt))
         (forIO (sort (map fst (ch_extraMounts c)))
           (\<lambda>k. bindInto k (case map_of (ch_extraMounts c) k of Some v \<Rightarrow> v | None \<Rightarrow> []))))
       Chroot_Close)"

text \<open>
  \<open>RunCallback\<close> with its deferred functions, innermost first: back to the old root, unmount,
  back to the old working directory. Each deferred error is reported only when there is none yet.
\<close>

definition firstErr :: "err option \<Rightarrow> err option \<Rightarrow> err option" where
  "firstErr e tmpErr = (if e = None then tmpErr else None)"

definition leaveRoot :: "string \<Rightarrow> err option \<Rightarrow> (Chroot \<times> world, err option) io" where
  "leaveRoot oldRoot e =
     bindIO (tryIO (liftW (sys_Chdir oldRoot))) (\<lambda>tmpErr.
       case tmpErr of
         Some _ \<Rightarrow> retIO (firstErr e tmpErr)
       | None \<Rightarrow> bindIO (tryIO (liftW (sys_Chroot ''.''))) (\<lambda>tmpErr. retIO (firstErr e tmpErr)))"

definition runInside :: "string \<Rightarrow> (Chroot \<times> world, 'a) io \<Rightarrow> (Chroot \<times> world, 'a) io" where
  "runInside oldRoot callback = bindIO getO (\<lambda>c.
     thenIO (liftW (sys_Chdir (ch_path c)))
     (thenIO (liftW (sys_Chroot (ch_path c)))
       (finallyIO callback (leaveRoot oldRoot))))"

definition RunCallback :: "(world, 'a) io \<Rightarrow> (Chroot \<times> world, 'a) io" where
  "RunCallback callback =
     bindIO (liftW os_Getwd) (\<lambda>currentPath.
     finallyIO
       (bindIO getO (\<lambda>c.
        thenIO (modO (\<lambda>c. if IsAbs (ch_path c) then c
                 else c\<lparr>ch_path := Clean (Join [currentPath, ch_path c])\<rparr>))
        (bindIO (liftW (sysIO (\<lambda>w. (Inr (curRoot w), w)))) (\<lambda>oldRoot.
          if ch_activeMounts c = [] then
             thenIO Chroot_Prepare
               (finallyIO (runInside oldRoot (liftW callback))
                 (\<lambda>e. bindIO (tryIO Chroot_Close) (\<lambda>tmpErr. retIO (firstErr e tmpErr))))
          else runInside oldRoot (liftW callback)))))
       (\<lambda>e. bindIO (tryIO (liftW (sys_Chdir currentPath))) (\<lambda>tmpErr. retIO (firstErr e tmpErr))))"

definition ChrootedCallback ::
  "Config \<Rightarrow> string \<Rightarrow> (string \<times> string) list \<Rightarrow> (world, 'a) io \<Rightarrow> (Chroot \<Rightarrow> Chroot) list \<Rightarrow> (world, 'a) io" where
  "ChrootedCallback cfg path bindMounts callback opts = (\<lambda>w.
     case RunCallback callback (SetExtraMounts bindMounts (NewChroot path cfg opts), w) of
       (r, (_, w')) \<Rightarrow> (r, w'))"

definition Chroot_Run :: "string \<Rightarrow> string list \<Rightarrow> (Chroot \<times> world, string) io" where
  "Chroot_Run command args = bindIO getO (\<lambda>c. RunCallback (RunE (ch_config c) command args))"

subsection \<open>The bind mounts\<close>

text \<open>
  \<open>bound ms (c, w)\<close>: the mount table is \<open>ms\<close> with the active mounts of the chroot on top, the
  latest first.
\<close>

definition bound :: "mount list \<Rightarrow> Chroot \<times> world \<Rightarrow> bool" where
  "bound ms cw \<longleftrightarrow> (\<exists>bs. mounts (snd cw) = bs @ ms \<and>
     map (\<lambda>m. pathOf (mTarget m)) bs = rev (map pathOf (ch_activeMounts (fst cw))))"

lemma closeLoop_failures:
  "closeLoop fs (c, w) = (r, (c', w')) \<Longrightarrow>
     \<exists>ys. r = Inr (fs @ ys) \<and> ch_activeMounts c' = [] \<and> ch_config c' = ch_config c"
proof (induction fs "(c, w)" arbitrary: c w rule: closeLoop.induct)
  case (1 fs c w)
  show ?case
  proof (cases "ch_activeMounts c = []")
    case True
    then show ?thesis using "1.prems" by (auto simp: closeLoop.simps intro: exI[of _ "[]"])
  next
    case False
    obtain ur w1 where u: "mnt_Unmount (last (ch_activeMounts c)) w = (ur, w1)" by fastforce
    show ?thesis
    proof (cases ur)
      case (Inl e)
      with False u "1.prems" have "closeLoop (fs @ [last (ch_activeMounts c)])
          (c\<lparr>ch_activeMounts := butlast (ch_activeMounts c)\<rparr>, w1) = (r, (c', w'))"
        by (simp add: closeLoop.simps[of fs] Let_def)
      from "1.hyps"(1)[OF False refl refl u[symmetric] Inl this] show ?thesis by auto
    next
      case (Inr x)
      with False u "1.prems" have "closeLoop fs
          (c\<lparr>ch_activeMounts := butlast (ch_activeMounts c)\<rparr>, w1) = (r, (c', w'))"
        by (simp add: closeLoop.simps[of fs c w] Let_def)
      from "1.hyps"(2)[OF False refl refl u[symmetric] Inr this] show ?thesis by auto
    qed
  qed
qed

lemma Unmount_top:
  assumes "mnt_Unmount p w = (Inr x, w')" and "mounts w = m # ms" and "pathOf (mTarget m) = pathOf p"
  shows "mounts w' = ms"
  using assms by (auto simp: mnt_Unmount_def sysIO_def Let_def split: if_splits)

text \<open>A \<open>Close\<close> without failures takes away exactly the active mounts.\<close>

lemma closeLoop_bound:
  "closeLoop fs (c, w) = (Inr fs, (c', w')) \<Longrightarrow> bound ms (c, w) \<Longrightarrow> mounts w' = ms"
proof (induction fs "(c, w)" arbitrary: c w rule: closeLoop.induct)
  case (1 fs c w)
  show ?case
  proof (cases "ch_activeMounts c = []")
    case True
    then show ?thesis using "1.prems" by (auto simp: closeLoop.simps bound_def)
  next
    case False
    obtain ur w1 where u: "mnt_Unmount (last (ch_activeMounts c)) w = (ur, w1)" by fastforce
    let ?c = "c\<lparr>ch_activeMounts := butlast (ch_activeMounts c)\<rparr>"
    show ?thesis
    proof (cases ur)
      case (Inl e)
      with False u "1.prems"(1) have "closeLoop (fs @ [last (ch_activeMounts c)]) (?c, w1) = (Inr fs, (c', w'))"
        by (simp add: closeLoop.simps[of fs] Let_def)
      from closeLoop_failures[OF this] show ?thesis by simp
    next
      case (Inr x)
      have run: "closeLoop fs (?c, w1) = (Inr fs, (c', w'))"
        using False u Inr "1.prems"(1) by (simp add: closeLoop.simps[of fs c w] Let_def)
      obtain as a where as: "ch_activeMounts c = as @ [a]" using False by (metis rev_exhaust)
      with "1.prems"(2) obtain bs where bs: "mounts w = bs @ ms"
        "map (\<lambda>m. pathOf (mTarget m)) bs = pathOf a # rev (map pathOf as)" by (auto simp: bound_def)
      then obtain b bs' where b: "bs = b # bs'" "pathOf (mTarget b) = pathOf a" by (cases bs) auto
      have "mounts w1 = bs' @ ms"
        using Unmount_top[of a w x w1 b] u Inr as bs(1) b by simp
      then have "bound ms (?c, w1)" using bs b as by (auto simp: bound_def)
      from "1.hyps"(2)[OF False refl refl u[symmetric] Inr run this] show ?thesis .
    qed
  qed
qed

text \<open>
  The frame of the methods: they keep \<open>bound ms\<close> and the configuration. The calls that do not mount
  anything keep it because they leave the mount table alone.
\<close>

definition boundFrame :: "mount list \<Rightarrow> Chroot \<times> world \<Rightarrow> Chroot \<times> world \<Rightarrow> bool" where
  "boundFrame ms s t \<longleftrightarrow> (bound ms s \<longrightarrow> bound ms t) \<and> ch_config (fst t) = ch_config (fst s)"

interpretation bnd: state_frame "boundFrame ms" for ms
  by unfold_locales (auto simp: boundFrame_def)

lemma liftW_bound:
  assumes "\<And>w. mounts (snd (m w)) = mounts w"
  shows "keeps (boundFrame ms) (liftW m)"
  unfolding keeps_def boundFrame_def liftW_def using assms by (auto simp: bound_def case_prod_unfold)

lemma bindInto_bound: "keeps (boundFrame ms) (bindInto source inner)"
proof (rule keepsI)
  fix s r t
  assume run: "bindInto source inner s = (r, t)"
  obtain c w where s: "s = (c, w)" by fastforce
  let ?p = "TrimSuffix (ch_path c) ''/'' @ inner"
  obtain r1 w1 where mk: "MkdirAll ?p DirPerm w = (r1, w1)" by fastforce
  have m1: "mounts w1 = mounts w"
    using keepsD[OF keeps_fs(14), of ?p DirPerm w r1 w1] mk by (simp add: MkdirAll_def sameMounts_def)
  have "r1 = Inl e \<Longrightarrow> t = (c, w1)" for e
    using run mk s by (simp add: bindInto_def Let_def io_simps thenIO_def bindIO_def)
  moreover have "t = (c\<lparr>ch_activeMounts := ch_activeMounts c @ [?p]\<rparr>, w2)
      \<and> (\<exists>m. mounts w2 = m # mounts w1 \<and> mTarget m = ?p) \<or> (\<exists>w3. t = (c, w3) \<and> mounts w3 = mounts w1)"
    if "r1 = Inr x" "snd (mnt_Mount source ?p ''bind'' [''bind''] w1) = w2" for x w2
    using run mk s that
    by (cases "faults w1 (ticks w1)")
      (auto simp: bindInto_def Let_def io_simps thenIO_def bindIO_def mnt_Mount_def sysIO_def)
  ultimately show "boundFrame ms s t"
    using m1 s by (cases r1) (auto simp: boundFrame_def bound_def)
qed

text \<open>Documented behaviour of \<^verbatim>\<open>sync\<close>: it writes back caches and touches neither mounts nor the root.\<close>

definition syncKeeps :: "Config \<Rightarrow> bool" where
  "syncKeeps cfg \<longleftrightarrow> (\<forall>w. sameMounts w (snd (cfg_Run cfg ''sync'' [] w)))"

lemma syncKeepsD: "syncKeeps cfg \<Longrightarrow> sameMounts w (snd (Run cfg ''sync'' [] w))"
  unfolding syncKeeps_def
  by (drule spec[of _ "w\<lparr>cmds := cmds w @ [(''sync'', [])]\<rparr>"])
    (simp add: Run_def sameMounts_def case_prod_unfold)

lemma Close_bound:
  assumes run: "Chroot_Close (c, w) = (r, (c', w'))" and "bound ms (c, w)" and "syncKeeps (ch_config c)"
  shows "ch_activeMounts c' = [] \<Longrightarrow> mounts w' = ms"
    and "r = Inr x \<Longrightarrow> ch_activeMounts c' = []"
proof -
  let ?w = "snd (Run (ch_config c) ''sync'' [] w)"
  have "mounts ?w = mounts w"
    using syncKeepsD[OF assms(3)] by (simp add: sameMounts_def)
  then have bnd: "bound ms (c, ?w)" using assms(2) by (simp add: bound_def)
  obtain fr c1 w1 where loop: "closeLoop [] (c, ?w) = (fr, (c1, w1))" by (metis prod_cases3)
  from closeLoop_failures[OF this] obtain ys where ys: "fr = Inr ys" "ch_activeMounts c1 = []" by auto
  have tail: "(r, (c', w')) = (if ys = [] then (Inr (), (c1, w1)) else
       (Inl (Errorf ''failed closing chroot environment''), (c1\<lparr>ch_activeMounts := ys\<rparr>, w1)))"
    using run loop ys(1)
    by (simp add: Chroot_Close_def io_simps bindIO_def thenIO_def ignoreIO_def split: if_splits)
  show "ch_activeMounts c' = [] \<Longrightarrow> mounts w' = ms"
    using tail ys closeLoop_bound[OF _ bnd] loop by (auto split: if_splits)
  show "r = Inr x \<Longrightarrow> ch_activeMounts c' = []" using tail ys by (auto split: if_splits)
qed

lemma Prepare_bound:
  assumes run: "Chroot_Prepare (c, w) = (r, (c', w'))" and act: "ch_activeMounts c = []"
    and sync: "syncKeeps (ch_config c)"
  shows "case r of Inr _ \<Rightarrow> bound (mounts w) (c', w') \<and> ch_config c' = ch_config c
       | Inl _ \<Rightarrow> ch_activeMounts c' = [] \<longrightarrow> mounts w' = mounts w"
proof -
  let ?binds = "thenIO (forIO (ch_defaultMounts c) (\<lambda>mnt. bindInto mnt mnt))
         (forIO (sort (map fst (ch_extraMounts c)))
           (\<lambda>k. bindInto k (case map_of (ch_extraMounts c) k of Some v \<Rightarrow> v | None \<Rightarrow> [])))"
  have "onErrorIO ?binds Chroot_Close (c, w) = (r, (c', w'))"
    using run act by (simp add: Chroot_Prepare_def io_simps bindIO_def)
  moreover have keep: "keeps (boundFrame (mounts w)) ?binds"
    by (intro bnd.keeps_then bnd.keeps_for bindInto_bound)
  moreover have init: "bound (mounts w) (c, w)" using act by (simp add: bound_def)
  ultimately show ?thesis
  proof (cases rule: onErrorIO_cases)
    case (ok x)
    with keepsD[OF keep ok(2)] init show ?thesis by (simp add: boundFrame_def)
  next
    case (undone e s' cr)
    obtain c1 w1 where s': "s' = (c1, w1)" by fastforce
    with keepsD[OF keep undone(2)] init have "bound (mounts w) (c1, w1)" "ch_config c1 = ch_config c"
      by (simp_all add: boundFrame_def)
    from Close_bound(1)[of c1 w1 cr c' w', OF _ this(1)] this(2) undone s' sync show ?thesis by simp
  qed
qed

subsection \<open>The callback\<close>

lemma sys_mounts [simp]:
  "mounts (snd (sys_Chdir p w)) = mounts w" "mounts (snd (sys_Chroot p w)) = mounts w"
  "mounts (snd (os_Getwd w)) = mounts w" "curRoot (snd (sys_Chdir p w)) = curRoot w"
  "curRoot (snd (os_Getwd w)) = curRoot w"
  by (simp_all add: sys_Chdir_def sys_Chroot_def os_Getwd_def sysIO_def Let_def)

lemma sys_Chdir_frame: "sys_Chdir p w = (r, w') \<Longrightarrow> mounts w' = mounts w \<and> curRoot w' = curRoot w"
  by (metis snd_conv sys_mounts(1,4))

lemma bind_sys_read:
  assumes "bindIO (liftW (sysIO (\<lambda>w. (Inr (f w), w)))) k (c, w) = (r, s)"
  shows "r = Inl EFault \<and> s = (c, w\<lparr>ticks := Suc (ticks w)\<rparr>) \<or>
    k (f (w\<lparr>ticks := Suc (ticks w)\<rparr>)) (c, w\<lparr>ticks := Suc (ticks w)\<rparr>) = (r, s)"
  using assms by (auto simp: bindIO_def liftW_def sysIO_def Let_def split: if_splits)

lemma leaveRoot_bound: "keeps (boundFrame ms) (leaveRoot oldRoot e)"
  unfolding leaveRoot_def
  by (intro bnd.keeps_bind bnd.keeps_try liftW_bound)
    (auto split: option.splits intro!: bnd.keeps_ret bnd.keeps_bind bnd.keeps_try liftW_bound)

lemma getO_keeps: "keeps (boundFrame ms) getO"
  by (simp add: keeps_def getO_def boundFrame_def split: prod.splits)

lemma runInside_bound:
  assumes "keeps sameMounts callback"
  shows "keeps (boundFrame ms) (runInside oldRoot (liftW callback))"
  unfolding runInside_def using assms
  by (intro bnd.keeps_bind bnd.keeps_then bnd.keeps_finally leaveRoot_bound getO_keeps liftW_bound)
    (auto simp: keeps_def sameMounts_def)

lemma runInside_root:
  assumes "runInside oldRoot cb s = (Inr x, t)"
  shows "curRoot (snd t) = oldRoot"
proof -
  from assms obtain s' where fin: "finallyIO cb (leaveRoot oldRoot) s' = (Inr x, t)"
    by (auto simp: runInside_def returns_iff)
  then obtain s1 where "leaveRoot oldRoot None s1 = (Inr None, t)"
    by (rule finallyIO_cases) auto
  then obtain w0 w1 w2 c where "sys_Chdir oldRoot w0 = (Inr (), w1)" "sys_Chroot ''.'' w1 = (Inr (), w2)" "t = (c, w2)"
    by (cases s1) (auto simp: leaveRoot_def bindIO_def tryIO_def liftW_def firstErr_def retIO_def
      split: prod.splits sum.splits option.splits)
  then show ?thesis by (auto simp: sys_Chdir_def sys_Chroot_def sysIO_def Let_def split: if_splits)
qed

lemma closeLoop_root: "closeLoop fs (c, w) = (r, (c', w')) \<Longrightarrow> curRoot w' = curRoot w"
proof (induction fs "(c, w)" arbitrary: c w rule: closeLoop.induct)
  case (1 fs c w)
  have unm: "mnt_Unmount p w = (u, w1) \<Longrightarrow> curRoot w1 = curRoot w" for p u w1
    by (auto simp: mnt_Unmount_def sysIO_def Let_def split: if_splits option.splits)
  obtain u w1 where u: "mnt_Unmount (last (ch_activeMounts c)) w = (u, w1)" by fastforce
  with "1.prems" "1.hyps"(1)[OF _ refl refl u[symmetric]] "1.hyps"(2)[OF _ refl refl u[symmetric]] unm[OF u]
  show ?case by (cases u) (auto simp: closeLoop.simps[of fs c w] Let_def split: if_splits)
qed

lemma Close_root:
  assumes "Chroot_Close (c, w) = (r, (c', w'))" and "syncKeeps (ch_config c)"
  shows "curRoot w' = curRoot w"
proof -
  let ?w = "snd (Run (ch_config c) ''sync'' [] w)"
  obtain fr c1 w1 where loop: "closeLoop [] (c, ?w) = (fr, (c1, w1))" by (metis prod_cases3)
  from closeLoop_failures[OF this] obtain ys where "fr = Inr ys" by auto
  with assms loop have "w' = w1"
    by (simp add: Chroot_Close_def io_simps bindIO_def thenIO_def ignoreIO_def split: if_splits)
  then show ?thesis
    using closeLoop_root[OF loop] syncKeepsD[OF assms(2), of w] by (simp add: sameMounts_def)
qed

text \<open>From the preparation to the close, with the deferred \<open>Close\<close>.\<close>

lemma prepared_run:
  assumes run: "thenIO Chroot_Prepare (finallyIO (runInside oldRoot (liftW callback))
      (\<lambda>e. bindIO (tryIO Chroot_Close) (\<lambda>tmpErr. retIO (firstErr e tmpErr)))) (c, w) = (r, (c', w'))"
    and act: "ch_activeMounts c = []" and sync: "syncKeeps (ch_config c)"
    and cb: "keeps sameMounts callback"
  shows "ch_activeMounts c' = [] \<Longrightarrow> mounts w' = mounts w"
    and "r = Inr x \<Longrightarrow> ch_activeMounts c' = [] \<and> curRoot w' = oldRoot"
proof -
  obtain pr c1 w1 where prep: "Chroot_Prepare (c, w) = (pr, (c1, w1))" by (metis prod_cases3)
  note P = Prepare_bound[OF prep act sync]
  have "(ch_activeMounts c' = [] \<longrightarrow> mounts w' = mounts w) \<and>
      (r = Inr x \<longrightarrow> ch_activeMounts c' = [] \<and> curRoot w' = oldRoot)"
  proof (cases pr)
    case (Inl e)
    with run prep P show ?thesis by (auto simp: thenIO_def bindIO_def)
  next
    case (Inr u)
    with run prep have "finallyIO (runInside oldRoot (liftW callback))
        (\<lambda>e. bindIO (tryIO Chroot_Close) (\<lambda>tmpErr. retIO (firstErr e tmpErr))) (c1, w1) = (r, (c', w'))"
      by (simp add: thenIO_def bindIO_def)
    then obtain r1 s1 dr e where inside: "runInside oldRoot (liftW callback) (c1, w1) = (r1, s1)"
      and cl: "bindIO (tryIO Chroot_Close) (\<lambda>tmpErr. retIO (firstErr e tmpErr)) s1 = (dr, (c', w'))"
      and res: "r = Inr x \<Longrightarrow> r1 = Inr x \<and> e = None \<and> dr = Inr None"
      by (rule finallyIO_cases) auto
    obtain c2 w2 where s1: "s1 = (c2, w2)" by fastforce
    have bnd: "bound (mounts w) (c2, w2)" "ch_config c2 = ch_config c"
      using keepsD[OF runInside_bound[OF cb, of "mounts w" oldRoot] inside] P Inr s1
      by (auto simp: boundFrame_def)
    obtain cr where close: "Chroot_Close (c2, w2) = (cr, (c', w'))" and
      dr: "dr = Inr (firstErr e (case cr of Inl e' \<Rightarrow> Some e' | Inr _ \<Rightarrow> None))"
      using cl s1 by (auto simp: bindIO_def tryIO_def retIO_def split: prod.splits sum.splits)
    note C = Close_bound[OF close bnd(1)]
    have "r = Inr x \<Longrightarrow> \<exists>y. cr = Inr y"
      using res dr by (cases cr) (auto simp: firstErr_def)
    then show ?thesis
      using C bnd(2) sync res runInside_root[of oldRoot "liftW callback" "(c1, w1)" x s1] inside s1
        Close_root[OF close] by fastforce
  qed
  then show "ch_activeMounts c' = [] \<Longrightarrow> mounts w' = mounts w"
    and "r = Inr x \<Longrightarrow> ch_activeMounts c' = [] \<and> curRoot w' = oldRoot" by auto
qed

text \<open>
  Property C13. Running a callback in a chroot without active mounts leaves no bind mount behind: if the
  \<open>Chroot\<close> object reports no active mount at the end, successful or not, the mount table is the one it
  had at the start, and a successful run also restores the root and the working directory of the
  process. The callback itself must leave mounts and root alone, and \<^verbatim>\<open>sync\<close> does.
\<close>

theorem RunCallback_restores:
  assumes run: "RunCallback callback (c, w) = (r, (c', w'))"
    and act: "ch_activeMounts c = []" and sync: "syncKeeps (ch_config c)"
    and cb: "keeps sameMounts callback"
  shows "(ch_activeMounts c' = [] \<longrightarrow> mounts w' = mounts w) \<and>
    (r = Inr x \<longrightarrow> mounts w' = mounts w \<and> curRoot w' = curRoot w \<and> curDir w' = curDir w)"
proof (cases "os_Getwd w")
  case (Pair gr w1)
  have w1: "mounts w1 = mounts w" "curRoot w1 = curRoot w" using sys_mounts(3,5)[of w] Pair by simp_all
  show ?thesis
  proof (cases gr)
    case (Inl e)
    then show ?thesis using run Pair w1 by (auto simp: RunCallback_def bindIO_def liftW_def)
  next
    case (Inr cp)
    then have cp: "cp = curDir w" using Pair by (auto simp: os_Getwd_def sysIO_def Let_def split: if_splits)
    let ?c = "if IsAbs (ch_path c) then c else c\<lparr>ch_path := Clean (Join [cp, ch_path c])\<rparr>"
    let ?body = "\<lambda>oldRoot. thenIO Chroot_Prepare (finallyIO (runInside oldRoot (liftW callback))
        (\<lambda>e. bindIO (tryIO Chroot_Close) (\<lambda>tmpErr. retIO (firstErr e tmpErr))))"
    let ?open = "bindIO (liftW (sysIO (\<lambda>w. (Inr (curRoot w), w)))) ?body"
    let ?goback = "\<lambda>e. bindIO (tryIO (liftW (sys_Chdir cp))) (\<lambda>tmpErr. retIO (firstErr e tmpErr))"
    have "finallyIO (bindIO getO (\<lambda>c. thenIO (modO (\<lambda>c. if IsAbs (ch_path c) then c
          else c\<lparr>ch_path := Clean (Join [cp, ch_path c])\<rparr>))
        (bindIO (liftW (sysIO (\<lambda>w. (Inr (curRoot w), w)))) (\<lambda>oldRoot.
          if ch_activeMounts c = [] then ?body oldRoot else runInside oldRoot (liftW callback)))))
       ?goback (c, w1) = (r, (c', w'))"
      using run Pair Inr by (simp add: RunCallback_def bindIO_def liftW_def)
    then obtain r1 s1 dr e where inner: "?open (?c, w1) = (r1, s1)"
      and bk: "?goback e s1 = (dr, (c', w'))"
      and res: "r = Inr x \<Longrightarrow> r1 = Inr x \<and> e = None \<and> dr = Inr None"
      using act by (elim finallyIO_cases) (auto simp: objIO_bind)
    obtain c2 w2 where s1: "s1 = (c2, w2)" by fastforce
    have c': "c' = c2" and m': "mounts w' = mounts w2" "curRoot w' = curRoot w2"
      using bk s1 by (auto simp: bindIO_def tryIO_def liftW_def retIO_def
        split: prod.splits sum.splits dest: sys_Chdir_frame)
    have dir: "r = Inr x \<Longrightarrow> curDir w' = cp"
      using bk s1 res by (auto simp: bindIO_def tryIO_def liftW_def retIO_def firstErr_def sys_Chdir_def
        sysIO_def Let_def split: prod.splits sum.splits if_splits)
    have body: "(\<exists>e. r1 = Inl e) \<and> c2 = ?c \<and> mounts w2 = mounts w1 \<or>
        (\<exists>w3. mounts w3 = mounts w1 \<and> ?body (curRoot (w1\<lparr>ticks := Suc (ticks w1)\<rparr>)) (?c, w3) = (r1, (c2, w2)))"
      using bind_sys_read[OF inner] s1 by auto
    have c1: "ch_activeMounts ?c = []" "syncKeeps (ch_config ?c)" using act sync by simp_all
    from body show ?thesis
    proof (elim disjE exE conjE)
      fix w3 assume w3: "mounts w3 = mounts w1" and b: "?body (curRoot (w1\<lparr>ticks := Suc (ticks w1)\<rparr>)) (?c, w3) = (r1, (c2, w2))"
      show ?thesis using prepared_run(1)[OF b c1 cb] prepared_run(2)[OF b c1 cb, of x] w3 w1 c' m' dir cp res by auto
    qed (use c' m' w1 act res in auto)
  qed
qed

definition demoChroot :: Chroot where
  "demoChroot = NewChroot ''/mnt'' demoConfig []"

theorem RunCallback_restores_witness:
  "\<exists>c' w'. RunCallback (retIO ()) (demoChroot, demoWorld) = (Inr (), (c', w')) \<and>
     mounts w' = mounts demoWorld \<and> curRoot w' = ''/'' \<and> curDir w' = ''/''"
proof -
  obtain r c' w' where run: "RunCallback (retIO ()) (demoChroot, demoWorld) = (r, (c', w'))"
    by (metis prod_cases3)
  have "fst (RunCallback (retIO ()) (demoChroot, demoWorld)) = Inr ()" by code_simp
  then have r: "r = Inr ()" using run by simp
  have "syncKeeps (ch_config demoChroot)" "ch_activeMounts demoChroot = []"
    by (simp_all add: syncKeeps_def sameMounts_def demoChroot_def NewChroot_def demoConfig_def)
  from RunCallback_restores[OF run this(2,1) mnts.keeps_ret, of "()"] show ?thesis
    using r run by (simp add: demoWorld_def)
qed

end
