(* ===== verification/Go_Regexp.thy ===== *)
theory Go_Regexp
  imports Go_Lib
begin

section \<open>Regular expressions of the Go standard library\<close>

text \<open>
  The expressions of the program are sequences of single characters, greedy runs of a character class
  (captured or not) and captured alternatives of literals. \<open>rx\<close> returns the captured groups of the
  match Go's \<^verbatim>\<open>regexp\<close> prefers: of all ways to match at a position it takes, group by group, the
  longest run for which the rest still matches, and the earliest alternative. \<open>anchored\<close> is
  \<^verbatim>\<open>$\<close> at the end of the expression. Expressions without \<^verbatim>\<open>^\<close> are tried at every position from
  the left (\<open>rx_search\<close>).
\<close>

datatype rx_item =
    One "char \<Rightarrow> bool"
  | Many nat "char \<Rightarrow> bool"
  | Grp nat "char \<Rightarrow> bool"
  | Alts "string list"

abbreviation lit :: "char \<Rightarrow> rx_item" where
  "lit c \<equiv> One (\<lambda>x. x = c)"

abbreviation anyChar :: "char \<Rightarrow> bool" where
  "anyChar c \<equiv> c \<noteq> CHR 0x0A"

definition isSpaceRx :: "char \<Rightarrow> bool" where
  "isSpaceRx c \<longleftrightarrow> c \<in> {CHR 0x09, CHR 0x0A, CHR 0x0C, CHR 0x0D, CHR '' ''}"

fun first_some :: "'a list \<Rightarrow> ('a \<Rightarrow> 'b option) \<Rightarrow> 'b option" where
  "first_some [] f = None"
| "first_some (x # xs) f = (case f x of Some y \<Rightarrow> Some y | None \<Rightarrow> first_some xs f)"

text \<open>The run lengths a greedy class tries: from the longest down to the least.\<close>

definition runs :: "nat \<Rightarrow> (char \<Rightarrow> bool) \<Rightarrow> string \<Rightarrow> nat list" where
  "runs lo P s = rev [lo..<Suc (length (takeWhile P s))]"

lemma first_some_cong [fundef_cong]:
  "xs = ys \<Longrightarrow> (\<And>x. x \<in> set ys \<Longrightarrow> f x = g x) \<Longrightarrow> first_some xs f = first_some ys g"
  by (induction xs arbitrary: ys) (auto split: option.splits)

fun rx :: "bool \<Rightarrow> rx_item list \<Rightarrow> string \<Rightarrow> string list option" where
  "rx anchored [] s = (if anchored \<and> s \<noteq> [] then None else Some [])"
| "rx anchored (One P # r) s =
     (case s of [] \<Rightarrow> None | c # t \<Rightarrow> if P c then rx anchored r t else None)"
| "rx anchored (Many lo P # r) s = first_some (runs lo P s) (\<lambda>n. rx anchored r (drop n s))"
| "rx anchored (Grp lo P # r) s =
     first_some (runs lo P s) (\<lambda>n. map_option (\<lambda>caps. take n s # caps) (rx anchored r (drop n s)))"
| "rx anchored (Alts as # r) s =
     first_some as (\<lambda>a. if take (length a) s = a
       then map_option (\<lambda>caps. a # caps) (rx anchored r (drop (length a) s)) else None)"

declare rx.simps(4) [simp del]

definition rx_search :: "rx_item list \<Rightarrow> string \<Rightarrow> string list option" where
  "rx_search r s = first_some [0..<Suc (length s)] (\<lambda>n. rx False r (drop n s))"

definition lits :: "string \<Rightarrow> rx_item list" where
  "lits s = map lit s"

subsection \<open>Separated fields\<close>

text \<open>
  How the expressions read a line of separated fields. A run is determined when the character behind it
  is outside its class, or when a longer run would leave too few separators for the rest.
\<close>

lemma first_some_None: "(\<And>x. x \<in> set xs \<Longrightarrow> f x = None) \<Longrightarrow> first_some xs f = None"
  by (induction xs) auto

lemma first_some_append:
  "first_some (xs @ ys) f = (case first_some xs f of Some y \<Rightarrow> Some y | None \<Rightarrow> first_some ys f)"
  by (induction xs) (auto split: option.splits)

lemma first_some_Some: "first_some xs f = Some y \<Longrightarrow> \<exists>x \<in> set xs. f x = Some y"
  by (induction xs) (auto split: option.splits)

lemma runs_split:
  assumes "lo \<le> n" and "n \<le> length (takeWhile P s)"
  shows "runs lo P s = rev [Suc n..<Suc (length (takeWhile P s))] @ n # rev [lo..<n]"
proof -
  have "[lo..<Suc (length (takeWhile P s))] = [lo..<n] @ n # [Suc n..<Suc (length (takeWhile P s))]"
    using assms by (metis le_Suc_eq le_imp_less_Suc le_trans upt_add_eq_append upt_conv_Cons
        upt_rec less_imp_le_nat le_add_diff_inverse)
  then show ?thesis by (simp add: runs_def)
qed

text \<open>The general rule: the run \<open>a\<close> is taken when every longer run fails and the rest matches.\<close>

lemma rx_Grp_take:
  assumes "\<forall>c \<in> set a. P c" and "lo \<le> length a" and "rx anc r s = Some caps"
    and "\<And>n. length a < n \<Longrightarrow> n \<le> length (takeWhile P (a @ s)) \<Longrightarrow> rx anc r (drop n (a @ s)) = None"
  shows "rx anc (Grp lo P # r) (a @ s) = Some (a # caps)"
proof -
  have "length a \<le> length (takeWhile P (a @ s))" using assms(1) by (simp add: takeWhile_append2)
  then have "runs lo P (a @ s) = rev [Suc (length a)..<Suc (length (takeWhile P (a @ s)))]
      @ length a # rev [lo..<length a]" using runs_split assms(2) by blast
  moreover have "first_some (rev [Suc (length a)..<Suc (length (takeWhile P (a @ s)))])
      (\<lambda>n. map_option (\<lambda>caps. take n (a @ s) # caps) (rx anc r (drop n (a @ s)))) = None"
    using assms(4) by (intro first_some_None) (auto simp del: upt_Suc)
  ultimately show ?thesis using assms(3) by (simp add: first_some_append rx.simps(4))
qed

lemma rx_Grp_class:
  assumes "\<forall>c \<in> set a. P c" and "lo \<le> length a" and "rx anc r s = Some caps" and "s = [] \<or> \<not> P (hd s)"
  shows "rx anc (Grp lo P # r) (a @ s) = Some (a # caps)"
proof (rule rx_Grp_take[OF assms(1-3)])
  fix n
  assume "length a < n" and "n \<le> length (takeWhile P (a @ s))"
  moreover have "takeWhile P (a @ s) = a"
    using assms(1,4) by (cases s) (auto simp: takeWhile_append2)
  ultimately show "rx anc r (drop n (a @ s)) = None" by simp
qed

lemma rx_Many_class:
  assumes "\<forall>c \<in> set a. P c" and "lo \<le> length a" and "rx anc r s = Some caps" and "s = [] \<or> \<not> P (hd s)"
  shows "rx anc (Many lo P # r) (a @ s) = Some caps"
proof -
  have "takeWhile P (a @ s) = a" using assms(1,4) by (cases s) (auto simp: takeWhile_append2)
  then have "runs lo P (a @ s) = length a # rev [lo..<length a]"
    using runs_split[OF assms(2), of P "a @ s"] by simp
  then show ?thesis using assms(3) by simp
qed

lemma rx_lits: "rx anc (lits l @ r) (l @ s) = rx anc r s"
  by (induction l) (simp_all add: lits_def)

lemma first_some_map: "first_some (map g xs) f = first_some xs (\<lambda>x. f (g x))"
  by (induction xs) (auto split: option.splits)

lemma rx_search_Cons: "rx_search r (c # s) = (case rx False r (c # s) of Some x \<Rightarrow> Some x | None \<Rightarrow> rx_search r s)"
proof -
  have "[0..<Suc (length (c # s))] = 0 # map Suc [0..<Suc (length s)]"
    by (simp only: map_Suc_upt length_Cons) (simp add: upt_conv_Cons del: upt_Suc)
  then show ?thesis by (simp add: rx_search_def first_some_map del: upt_Suc split: option.split)
qed

text \<open>Matching needs at least as many separators as the expression names.\<close>

fun seps :: "char \<Rightarrow> rx_item list \<Rightarrow> nat" where
  "seps c [] = 0"
| "seps c (One P # r) = (if P c \<and> (\<forall>d. P d \<longrightarrow> d = c) then 1 else 0) + seps c r"
| "seps c (_ # r) = seps c r"

lemma count_list_drop_le: "count_list (drop n s) c \<le> count_list s c"
  by (metis append_take_drop_id count_list_append le_add2)

lemma rx_needs_seps: "rx anc r s = Some caps \<Longrightarrow> seps c r \<le> count_list s c"
proof (induction anc r s arbitrary: caps rule: rx.induct)
  case (2 anc P r s)
  then show ?case by (cases s) (fastforce split: if_splits)+
next
  case (3 anc lo P r s)
  then obtain n where "n \<in> set (runs lo P s)" "rx anc r (drop n s) = Some caps"
    by (auto dest!: first_some_Some)
  with 3 show ?case using count_list_drop_le le_trans by fastforce
next
  case (4 anc lo P r s)
  then obtain n cs where "n \<in> set (runs lo P s)" "rx anc r (drop n s) = Some cs"
    by (auto simp: rx.simps(4) dest!: first_some_Some)
  with 4 show ?case using count_list_drop_le le_trans by fastforce
next
  case (5 anc as r s)
  then obtain a cs where "a \<in> set as" "rx anc r (drop (length a) s) = Some cs" "take (length a) s = a"
    by (auto dest!: first_some_Some split: if_splits)
  with 5 show ?case using count_list_drop_le le_trans by fastforce
qed (auto split: if_splits)

lemma rx_Grp_sep:
  assumes "\<forall>d \<in> set a. P d \<and> d \<noteq> c" and "lo \<le> length a" and "rx anc r s = Some caps"
    and "count_list s c \<le> seps c r"
  shows "rx anc (Grp lo P # lit c # r) (a @ c # s) = Some (a # caps)"
proof (rule rx_Grp_take)
  show "rx anc (lit c # r) (c # s) = Some caps" using assms(3) by simp
next
  fix n
  assume n: "length a < n" "n \<le> length (takeWhile P (a @ c # s))"
  have eq: "drop n (a @ c # s) = drop (n - Suc (length a)) s"
    using n(1) by (simp add: drop_Cons' Suc_diff_Suc)
  have "\<not> seps c (lit c # r) \<le> count_list (drop (n - Suc (length a)) s) c"
    using assms(4) count_list_drop_le[of "n - Suc (length a)" s c] by simp
  then show "rx anc (lit c # r) (drop n (a @ c # s)) = None"
    unfolding eq using rx_needs_seps by (metis option.exhaust)
qed (use assms in auto)

end
