(* ===== verification/Partitioner.thy ===== *)
theory Partitioner
  imports Fs_Utils Go_Regexp
begin

section \<open>Partitioning disks (pkg/partitioner)\<close>

text \<open>
  The two backends that print and change a partition table (\<open>partedCall\<close>, parted.go and \<open>gdiskCall\<close>,
  sgdisk.go), the interface both implement (partitioner.go), the call of mkfs (mkfs.go) and the
  \<open>Disk\<close> (disk.go), whose methods compute in 64-bit sectors. The runner, the file system and the mounter of a
  \<open>Disk\<close> come with its configuration; a division by a sector size of zero is the panic it is in Go.
  \<^verbatim>\<open>time.Sleep\<close> is not modelled.
\<close>

record DiskPart =
  Number :: int
  StartS :: uint
  SizeS :: uint
  PLabel :: string
  FileSystem :: string

definition GPT :: string where "GPT = ''gpt''"
definition MSDOS :: string where "MSDOS = ''msdos''"
definition Parted :: string where "Parted = ''parted''"
definition Gdisk :: string where "Gdisk = ''gdisk''"
definition efiType :: string where "efiType = ''EF00''"
definition linuxType :: string where "linuxType = ''8300''"
definition partitionTries :: nat where "partitionTries = 10"
definition partedWarn :: string where "partedWarn = ''Not all of the space available''"
definition sgdiskProblem :: string where "sgdiskProblem = ''Problem: The secondary header''"

text \<open>The unanchored expressions \<^verbatim>\<open>fat|vfat\<close> and \<^verbatim>\<open>msdos|gpt\<close>.\<close>

definition isFat :: "string \<Rightarrow> bool" where
  "isFat fs \<longleftrightarrow> Contains fs ''fat'' \<or> Contains fs ''vfat''"

definition knownLabel :: "string \<Rightarrow> bool" where
  "knownLabel label \<longleftrightarrow> Contains label MSDOS \<or> Contains label GPT"

subsection \<open>parted (parted.go)\<close>

record partFlag =
  pf_flag :: string
  pf_active :: bool
  pf_number :: int

record partedCall =
  pc_dev :: string
  pc_wipe :: bool
  pc_parts :: "DiskPart list"
  pc_deletions :: "int list"
  pc_label :: string
  pc_flags :: "partFlag list"

definition newPartedCall :: "string \<Rightarrow> partedCall" where
  "newPartedCall dev = \<lparr>pc_dev = dev, pc_wipe = False, pc_parts = [], pc_deletions = [],
     pc_label = [], pc_flags = []\<rparr>"

definition partedPartOpts :: "string \<Rightarrow> DiskPart \<Rightarrow> string list" where
  "partedPartOpts label part =
     [''mkpart'',
      (if label = GPT \<and> PLabel part \<noteq> [] then PLabel part
       else if label = GPT then ''part'' @ Itoa (Number part) else ''primary''),
      (if isFat (FileSystem part) then ''fat32'' else FileSystem part)] @
     (if SizeS part = 0 then [uint_str (StartS part), ''100%'']
      else [uint_str (StartS part), uint_str (StartS part + SizeS part - 1)])"

definition partedFlagOpts :: "partFlag \<Rightarrow> string list" where
  "partedFlagOpts f = [''set'', Itoa (pf_number f), pf_flag f, if pf_active f then ''on'' else ''off'']"

definition optionsBuilder :: "partedCall \<Rightarrow> string list" where
  "optionsBuilder pc =
     (let label = (if knownLabel (pc_label pc) then pc_label pc else GPT);
          opts = (if pc_wipe pc then [''mklabel'', label] else []) @
            concat (map (\<lambda>n. [''rm'', Itoa n]) (pc_deletions pc)) @
            concat (map (partedPartOpts label) (pc_parts pc)) @
            concat (map partedFlagOpts (pc_flags pc))
      in if opts = [] then []
         else [''--script'', ''--machine'', ''--'', pc_dev pc, ''unit'', ''s''] @ opts)"

definition pc_WriteChanges :: "Config \<Rightarrow> partedCall \<Rightarrow> world \<Rightarrow> (err + string) \<times> partedCall \<times> world" where
  "pc_WriteChanges cfg pc w =
     (let opts = optionsBuilder pc in
      if opts = [] then (Inr [], pc, w)
      else (case RunE cfg ''parted'' opts w of (r, w1) \<Rightarrow>
        (r, pc\<lparr>pc_wipe := False, pc_parts := [], pc_deletions := []\<rparr>,
           snd (Run cfg ''partx'' [''-u'', pc_dev pc] w1))))"

definition pc_SetPartitionTableLabel :: "string \<Rightarrow> partedCall \<Rightarrow> err + partedCall" where
  "pc_SetPartitionTableLabel label pc =
     (if knownLabel label then Inr (pc\<lparr>pc_label := label\<rparr>)
      else Inl (Errorf ''Invalid partition table type, only msdos and gpt are supported''))"

definition pc_CreatePartition :: "DiskPart \<Rightarrow> partedCall \<Rightarrow> partedCall" where
  "pc_CreatePartition p pc = pc\<lparr>pc_parts := pc_parts pc @ [p]\<rparr>"

definition pc_DeletePartition :: "int \<Rightarrow> partedCall \<Rightarrow> partedCall" where
  "pc_DeletePartition num pc = pc\<lparr>pc_deletions := pc_deletions pc @ [num]\<rparr>"

definition pc_SetPartitionFlag :: "int \<Rightarrow> string \<Rightarrow> bool \<Rightarrow> partedCall \<Rightarrow> partedCall" where
  "pc_SetPartitionFlag num flag active pc =
     pc\<lparr>pc_flags := pc_flags pc @ [\<lparr>pf_flag = flag, pf_active = active, pf_number = num\<rparr>]\<rparr>"

definition pc_WipeTable :: "bool \<Rightarrow> partedCall \<Rightarrow> partedCall" where
  "pc_WipeTable wipe pc = pc\<lparr>pc_wipe := wipe\<rparr>"

definition pc_Print :: "Config \<Rightarrow> partedCall \<Rightarrow> (world, string) io" where
  "pc_Print cfg pc = RunE cfg ''parted''
     [''--script'', ''--machine'', ''--'', pc_dev pc, ''unit'', ''s'', ''print'']"

text \<open>
  \<^verbatim>\<open>^(.*):(\d+)s:(.*):(\d+):(\d+):(.*):(.*):(.*);$\<close> and
  \<^verbatim>\<open>^(\d+):(\d+)s:(\d+)s:(\d+)s:(.*):(.*):(.*);$\<close>; groups are numbered from 1 in Go.
\<close>

abbreviation colon :: rx_item where "colon \<equiv> lit (CHR '':'')"

definition headerRegexp :: "rx_item list" where
  "headerRegexp = [Grp 0 anyChar, colon, Grp 1 is_digit, lit (CHR ''s''), colon, Grp 0 anyChar, colon,
     Grp 1 is_digit, colon, Grp 1 is_digit, colon, Grp 0 anyChar, colon, Grp 0 anyChar, colon,
     Grp 0 anyChar, lit (CHR '';'')]"

definition partRegexp :: "rx_item list" where
  "partRegexp = [Grp 1 is_digit, colon, Grp 1 is_digit, lit (CHR ''s''), colon, Grp 1 is_digit,
     lit (CHR ''s''), colon, Grp 1 is_digit, lit (CHR ''s''), colon, Grp 0 anyChar, colon, Grp 0 anyChar,
     colon, Grp 0 anyChar, lit (CHR '';'')]"

definition scanTrimmed :: "string \<Rightarrow> string list" where
  "scanTrimmed printOut = map TrimSpace (ScanLines (TrimSpace printOut))"

definition parseHeaderFields :: "string \<Rightarrow> nat \<Rightarrow> err + string" where
  "parseHeaderFields printOut field =
     (case first_some (scanTrimmed printOut) (rx True headerRegexp) of
        Some caps \<Rightarrow> Inr (caps ! (field - 1))
      | None \<Rightarrow> Inl (Errorf ''failed parsing parted header data''))"

text \<open>An unparsable number is an error although its value is returned too.\<close>

definition uintField :: "string \<Rightarrow> err + uint" where
  "uintField field = (case ParseUint field of (None, n) \<Rightarrow> Inr n | (Some e, _) \<Rightarrow> Inl e)"

definition pc_GetLastSector :: "string \<Rightarrow> err + uint" where
  "pc_GetLastSector printOut = (case parseHeaderFields printOut 2 of
     Inl _ \<Rightarrow> Inl (Errorf ''Failed parsing last sector'') | Inr field \<Rightarrow> uintField field)"

definition pc_GetSectorSize :: "string \<Rightarrow> err + uint" where
  "pc_GetSectorSize printOut = (case parseHeaderFields printOut 4 of
     Inl _ \<Rightarrow> Inl (Errorf ''Failed parsing sector size'') | Inr field \<Rightarrow> uintField field)"

definition pc_GetPartitionTableLabel :: "string \<Rightarrow> err + string" where
  "pc_GetPartitionTableLabel printOut = parseHeaderFields printOut 6"

text \<open>\<^verbatim>\<open>n, _ = strconv.Atoi(s)\<close> for a string of digits: the largest value on overflow.\<close>

definition AtoiVal :: "string \<Rightarrow> int" where
  "AtoiVal s = (case Atoi s of Inr n \<Rightarrow> n | Inl _ \<Rightarrow> if all_digits s then max_int else 0)"

definition partFrom :: "string \<Rightarrow> string \<Rightarrow> string \<Rightarrow> string \<Rightarrow> DiskPart" where
  "partFrom num start final pLabel =
     (let s = snd (ParseUint start); e = snd (ParseUint final)
      in \<lparr>Number = AtoiVal num, StartS = s, SizeS = e - s + 1, PLabel = pLabel, FileSystem = []\<rparr>)"

definition pc_GetPartitions :: "string \<Rightarrow> DiskPart list" where
  "pc_GetPartitions printOut = List.map_filter (\<lambda>line. map_option
     (\<lambda>caps. partFrom (caps ! 0) (caps ! 1) (caps ! 2) (caps ! 5)) (rx True partRegexp line))
     (scanTrimmed printOut)"

subsection \<open>sgdisk (sgdisk.go)\<close>

record gdiskCall =
  gd_dev :: string
  gd_wipe :: bool
  gd_parts :: "DiskPart list"
  gd_deletions :: "int list"
  gd_expand :: bool
  gd_pretend :: bool

definition newGdiskCall :: "string \<Rightarrow> gdiskCall" where
  "newGdiskCall dev = \<lparr>gd_dev = dev, gd_wipe = False, gd_parts = [], gd_deletions = [],
     gd_expand = False, gd_pretend = False\<rparr>"

definition gdiskPartOpts :: "DiskPart \<Rightarrow> string list" where
  "gdiskPartOpts part =
     [''-n='' @ Itoa (Number part) @ '':'' @ uint_str (StartS part) @ '':+'' @ uint_str (SizeS part)] @
     (if PLabel part \<noteq> [] then [''-c='' @ Itoa (Number part) @ '':'' @ PLabel part] else []) @
     (if isFat (FileSystem part) then [''-t='' @ Itoa (Number part) @ '':'' @ efiType]
      else if FileSystem part \<noteq> [] then [''-t='' @ Itoa (Number part) @ '':'' @ linuxType]
      else [])"

definition gd_buildOptions :: "gdiskCall \<Rightarrow> string list" where
  "gd_buildOptions gd =
     (let opts = (if gd_pretend gd then [''-P''] else []) @
            (if gd_wipe gd then [''--zap-all''] else []) @
            (if gd_expand gd then [''-e''] else []) @
            map (\<lambda>n. ''-d='' @ Itoa n) (gd_deletions gd) @
            concat (map gdiskPartOpts (gd_parts gd))
      in if opts = [] then [] else opts @ [gd_dev gd])"

definition SetPretend :: "bool \<Rightarrow> gdiskCall \<Rightarrow> gdiskCall" where
  "SetPretend pretend gd = gd\<lparr>gd_pretend := pretend\<rparr>"

definition ExpandPTable :: "gdiskCall \<Rightarrow> gdiskCall" where
  "ExpandPTable gd = gd\<lparr>gd_expand := True\<rparr>"

definition gd_Verify :: "Config \<Rightarrow> gdiskCall \<Rightarrow> (world, string) io" where
  "gd_Verify cfg gd = RunE cfg ''sgdisk'' [''--verify'', gd_dev gd]"

definition gd_WriteChanges :: "Config \<Rightarrow> gdiskCall \<Rightarrow> world \<Rightarrow> (err + string) \<times> gdiskCall \<times> world" where
  "gd_WriteChanges cfg gd w =
     (let gd1 = SetPretend True gd in
      case RunE cfg ''sgdisk'' (gd_buildOptions gd1) w of
        (Inl e, w1) \<Rightarrow> (Inl e, gd1, w1)
      | (Inr _, w1) \<Rightarrow>
          (let gd2 = SetPretend False gd1 in
           case RunE cfg ''sgdisk'' (gd_buildOptions gd2) w1 of (r, w2) \<Rightarrow>
             (r, gd2\<lparr>gd_wipe := False, gd_parts := [], gd_deletions := []\<rparr>,
               snd (Run cfg ''partx'' [''-u'', gd_dev gd] w2))))"

definition gd_SetPartitionTableLabel :: "string \<Rightarrow> gdiskCall \<Rightarrow> err + gdiskCall" where
  "gd_SetPartitionTableLabel label gd =
     (if label \<noteq> ''gpt'' then Inl (Errorf ''invalid partition table type, only GPT is supported by sgdisk'')
      else Inr gd)"

definition gd_CreatePartition :: "DiskPart \<Rightarrow> gdiskCall \<Rightarrow> gdiskCall" where
  "gd_CreatePartition p gd = gd\<lparr>gd_parts := gd_parts gd @ [p]\<rparr>"

definition gd_DeletePartition :: "int \<Rightarrow> gdiskCall \<Rightarrow> gdiskCall" where
  "gd_DeletePartition num gd = gd\<lparr>gd_deletions := gd_deletions gd @ [num]\<rparr>"

definition gd_SetPartitionFlag :: "int \<Rightarrow> string \<Rightarrow> bool \<Rightarrow> gdiskCall \<Rightarrow> gdiskCall" where
  "gd_SetPartitionFlag num flag active gd = gd"

definition gd_WipeTable :: "bool \<Rightarrow> gdiskCall \<Rightarrow> gdiskCall" where
  "gd_WipeTable wipe gd = gd\<lparr>gd_wipe := wipe\<rparr>"

definition gd_Print :: "Config \<Rightarrow> gdiskCall \<Rightarrow> (world, string) io" where
  "gd_Print cfg gd = RunE cfg ''sgdisk'' [''-p'', ''-v'', gd_dev gd]"

definition lastSectorRegexp :: "rx_item list" where
  "lastSectorRegexp = lits ''last usable sector is '' @ [Grp 1 is_digit]"

definition sectorSizeRegexp :: "rx_item list" where
  "sectorSizeRegexp = One (\<lambda>c. c = CHR ''S'' \<or> c = CHR ''s'') # lits ''ector size'' @
     [Many 0 anyChar, lit (CHR '' ''), Grp 1 is_digit] @ lits '' bytes''"

definition gdiskPartRegexp :: "rx_item list" where
  "gdiskPartRegexp = [Grp 1 is_digit, Many 1 isSpaceRx, Grp 1 is_digit, Many 1 isSpaceRx, Grp 1 is_digit,
     Many 0 anyChar, Alts [''EF02'', ''EF00'', ''8300''], Many 0 isSpaceRx, Grp 0 anyChar]"

definition gd_GetLastSector :: "string \<Rightarrow> err + uint" where
  "gd_GetLastSector printOut = (case rx_search lastSectorRegexp printOut of
     Some caps \<Rightarrow> uintField (caps ! 0)
   | None \<Rightarrow> Inl (Errorf ''could not determine last usable sector''))"

definition gd_GetSectorSize :: "string \<Rightarrow> err + uint" where
  "gd_GetSectorSize printOut = (case rx_search sectorSizeRegexp printOut of
     Some caps \<Rightarrow> uintField (caps ! 0)
   | None \<Rightarrow> Inl (Errorf ''could not determine sector size''))"

definition gd_GetPartitionTableLabel :: "string \<Rightarrow> err + string" where
  "gd_GetPartitionTableLabel printOut = Inr GPT"

definition gd_GetPartitions :: "string \<Rightarrow> DiskPart list" where
  "gd_GetPartitions printOut = List.map_filter (\<lambda>line. map_option
     (\<lambda>caps. partFrom (caps ! 0) (caps ! 1) (caps ! 2) (caps ! 4)) (rx True gdiskPartRegexp line))
     (scanTrimmed printOut)"

subsection \<open>The interface (partitioner.go)\<close>

datatype Partitioner = PartedP partedCall | GdiskP gdiskCall | NilP

definition NewPartitioner :: "string \<Rightarrow> string \<Rightarrow> Partitioner" where
  "NewPartitioner dev backend =
     (if backend = Parted then PartedP (newPartedCall dev)
      else if backend = Gdisk then GdiskP (newGdiskCall dev) else NilP)"

fun WriteChanges :: "Config \<Rightarrow> Partitioner \<Rightarrow> (world, string) io" where
  "WriteChanges cfg (PartedP pc) w = (case pc_WriteChanges cfg pc w of (r, _, w') \<Rightarrow> (r, w'))"
| "WriteChanges cfg (GdiskP gd) w = (case gd_WriteChanges cfg gd w of (r, _, w') \<Rightarrow> (r, w'))"
| "WriteChanges cfg NilP w = (Inl Panic, w)"

fun SetPartitionTableLabel :: "string \<Rightarrow> Partitioner \<Rightarrow> err + Partitioner" where
  "SetPartitionTableLabel label (PartedP pc) = map_sum id PartedP (pc_SetPartitionTableLabel label pc)"
| "SetPartitionTableLabel label (GdiskP gd) = map_sum id GdiskP (gd_SetPartitionTableLabel label gd)"
| "SetPartitionTableLabel label NilP = Inl Panic"

fun CreatePartition :: "DiskPart \<Rightarrow> Partitioner \<Rightarrow> Partitioner" where
  "CreatePartition p (PartedP pc) = PartedP (pc_CreatePartition p pc)"
| "CreatePartition p (GdiskP gd) = GdiskP (gd_CreatePartition p gd)"
| "CreatePartition p NilP = NilP"

fun DeletePartition :: "int \<Rightarrow> Partitioner \<Rightarrow> Partitioner" where
  "DeletePartition n (PartedP pc) = PartedP (pc_DeletePartition n pc)"
| "DeletePartition n (GdiskP gd) = GdiskP (gd_DeletePartition n gd)"
| "DeletePartition n NilP = NilP"

fun SetPartitionFlag :: "int \<Rightarrow> string \<Rightarrow> bool \<Rightarrow> Partitioner \<Rightarrow> Partitioner" where
  "SetPartitionFlag n flag active (PartedP pc) = PartedP (pc_SetPartitionFlag n flag active pc)"
| "SetPartitionFlag n flag active (GdiskP gd) = GdiskP (gd_SetPartitionFlag n flag active gd)"
| "SetPartitionFlag n flag active NilP = NilP"

fun WipeTable :: "bool \<Rightarrow> Partitioner \<Rightarrow> Partitioner" where
  "WipeTable b (PartedP pc) = PartedP (pc_WipeTable b pc)"
| "WipeTable b (GdiskP gd) = GdiskP (gd_WipeTable b gd)"
| "WipeTable b NilP = NilP"

fun Print :: "Config \<Rightarrow> Partitioner \<Rightarrow> (world, string) io" where
  "Print cfg (PartedP pc) = pc_Print cfg pc"
| "Print cfg (GdiskP gd) = gd_Print cfg gd"
| "Print cfg NilP = failIO Panic"

fun GetLastSector :: "Partitioner \<Rightarrow> string \<Rightarrow> err + uint" where
  "GetLastSector (PartedP pc) out = pc_GetLastSector out"
| "GetLastSector (GdiskP gd) out = gd_GetLastSector out"
| "GetLastSector NilP out = Inl Panic"

fun GetSectorSize :: "Partitioner \<Rightarrow> string \<Rightarrow> err + uint" where
  "GetSectorSize (PartedP pc) out = pc_GetSectorSize out"
| "GetSectorSize (GdiskP gd) out = gd_GetSectorSize out"
| "GetSectorSize NilP out = Inl Panic"

fun GetPartitionTableLabel :: "Partitioner \<Rightarrow> string \<Rightarrow> err + string" where
  "GetPartitionTableLabel (PartedP pc) out = pc_GetPartitionTableLabel out"
| "GetPartitionTableLabel (GdiskP gd) out = gd_GetPartitionTableLabel out"
| "GetPartitionTableLabel NilP out = Inl Panic"

fun GetPartitions :: "Partitioner \<Rightarrow> string \<Rightarrow> DiskPart list" where
  "GetPartitions (PartedP pc) out = pc_GetPartitions out"
| "GetPartitions (GdiskP gd) out = gd_GetPartitions out"
| "GetPartitions NilP out = []"

subsection \<open>mkfs (mkfs.go)\<close>

record MkfsCall =
  mk_fileSystem :: string
  mk_label :: string
  mk_customOpts :: "string list"
  mk_dev :: string

definition NewMkfsCall :: "string \<Rightarrow> string \<Rightarrow> string \<Rightarrow> string list \<Rightarrow> MkfsCall" where
  "NewMkfsCall dev fileSystem label customOpts =
     \<lparr>mk_fileSystem = fileSystem, mk_label = label, mk_customOpts = customOpts, mk_dev = dev\<rparr>"

definition linuxFS :: "string \<Rightarrow> bool" where
  "linuxFS fs \<longleftrightarrow> Contains fs ''ext2'' \<or> Contains fs ''ext3'' \<or> Contains fs ''ext4'' \<or>
     Contains fs ''xfs'' \<or> Contains fs ''btrfs''"

definition mk_buildOptions :: "MkfsCall \<Rightarrow> err + string list" where
  "mk_buildOptions mkfs =
     (if linuxFS (mk_fileSystem mkfs) then
        Inr ((if mk_label mkfs \<noteq> [] then [''-L'', mk_label mkfs] else []) @ mk_customOpts mkfs @
          (if mk_fileSystem mkfs = ''btrfs'' then [''-f''] else []) @ [mk_dev mkfs])
      else if isFat (mk_fileSystem mkfs) then
        Inr ((if mk_label mkfs \<noteq> [] then [''-n'', mk_label mkfs] else []) @ mk_customOpts mkfs @ [mk_dev mkfs])
      else Inl (Errorf (''unsupported filesystem: '' @ mk_fileSystem mkfs)))"

definition Mkfs_Apply :: "Config \<Rightarrow> MkfsCall \<Rightarrow> (world, string) io" where
  "Mkfs_Apply cfg mkfs = bindIO (sumIO (mk_buildOptions mkfs))
     (\<lambda>opts. RunE cfg (''mkfs.'' @ mk_fileSystem mkfs) opts)"

definition FormatDevice :: "Config \<Rightarrow> string \<Rightarrow> string \<Rightarrow> string \<Rightarrow> string list \<Rightarrow> (world, unit) io" where
  "FormatDevice cfg device fileSystem label opts =
     bindIO (Mkfs_Apply cfg (NewMkfsCall device fileSystem label opts)) (\<lambda>_. retIO ())"

subsection \<open>Reading back what parted prints\<close>

text \<open>
  The machine output of \<^verbatim>\<open>parted --machine unit s print\<close>: the line \<^verbatim>\<open>BYT;\<close>, a line for the disk
  (path, sectors, transport, logical and physical sector size, label, model, flags) and a line for each partition
  (number, first and last sector, size, file system, name, flags).
\<close>

definition partedLine :: "string \<Rightarrow> string \<Rightarrow> DiskPart \<Rightarrow> string" where
  "partedLine fs flags p = Itoa (Number p) @ '':'' @ uint_str (StartS p) @ ''s:'' @
     uint_str (StartS p + SizeS p - 1) @ ''s:'' @ uint_str (SizeS p) @ ''s:'' @ fs @ '':'' @ PLabel p @
     '':'' @ flags @ '';''"

definition headerLine :: "string \<Rightarrow> uint \<Rightarrow> string \<Rightarrow> uint \<Rightarrow> uint \<Rightarrow> string \<Rightarrow> string \<Rightarrow> string" where
  "headerLine dev sectors transport logical physical label model = dev @ '':'' @ uint_str sectors @ ''s:'' @
     transport @ '':'' @ uint_str logical @ '':'' @ uint_str physical @ '':'' @ label @ '':'' @ model @ '':;''"

definition partedOutput :: "string \<Rightarrow> string list \<Rightarrow> string" where
  "partedOutput header lines = strings_Join (''BYT;'' # header # lines) [CHR 0x0A] @ [CHR 0x0A]"

definition field_ok :: "string \<Rightarrow> bool" where
  "field_ok f \<longleftrightarrow> CHR '':'' \<notin> set f \<and> CHR 0x0A \<notin> set f"

lemma field_okD: "field_ok f \<Longrightarrow> \<forall>d \<in> set f. anyChar d \<and> d \<noteq> CHR '':''"
  by (auto simp: field_ok_def)

lemma digits_class:
  "\<forall>c \<in> set (nat_str n). is_digit c" "1 \<le> length (nat_str n)" "field_ok (nat_str n)"
proof -
  have *: "nat_str n \<noteq> []" "list_all is_digit (nat_str n)" using nat_str_digits[of n] by (auto simp: all_digits_def)
  then show "\<forall>c \<in> set (nat_str n). is_digit c" by (simp add: list_all_iff)
  show "1 \<le> length (nat_str n)" using *(1) by (cases "nat_str n") auto
  show "field_ok (nat_str n)" using *(2) by (auto simp: field_ok_def list_all_iff is_digit_def)
qed

lemma count_field: "field_ok f \<Longrightarrow> count_list f (CHR '':'') = 0"
  by (simp add: field_ok_def count_list_0_iff)

lemma not_digit_sep: "\<not> is_digit (CHR ''s'')" "\<not> is_digit (CHR '':'')"
  by (simp_all add: is_digit_def)

text \<open>The last three fields of both lines: free text between colons, closed by a semicolon.\<close>

lemma rx_tail:
  assumes "field_ok f"
  shows "rx True [Grp 0 anyChar, lit (CHR '';'')] (f @ '';'') = Some [f]"
proof (rule rx_Grp_take)
  fix n
  assume "length f < n" "n \<le> length (takeWhile anyChar (f @ '';''))"
  then have "drop n (f @ '';'') = []" by simp
  then show "rx True [lit (CHR '';'')] (drop n (f @ '';'')) = None" by (simp only: rx.simps list.case)
qed (use field_okD[OF assms] in auto)

lemma rx_tail3:
  assumes "field_ok a" "field_ok b" "field_ok c"
  shows "rx True [Grp 0 anyChar, colon, Grp 0 anyChar, colon, Grp 0 anyChar, lit (CHR '';'')]
      (a @ CHR '':'' # b @ CHR '':'' # c @ '';'') = Some [a, b, c]"
  using assms
  by (intro rx_Grp_sep rx_tail field_okD) (simp_all add: count_field)

lemma rx_digits:
  assumes "rx anc r s = Some caps"
  shows "rx anc (Grp 1 is_digit # colon # r) (nat_str n @ CHR '':'' # s) = Some (nat_str n # caps)"
    and "rx anc (Grp 1 is_digit # lit (CHR ''s'') # colon # r) (nat_str n @ CHR ''s'' # CHR '':'' # s) =
      Some (nat_str n # caps)"
  using assms digits_class(2)[of n] by (auto intro!: rx_Grp_class simp: digits_class(1) not_digit_sep)

lemma rx_partLine:
  assumes "field_ok fs" "field_ok (PLabel p)" "field_ok flags" and num: "0 \<le> Number p"
  shows "rx True partRegexp (partedLine fs flags p) = Some [Itoa (Number p), uint_str (StartS p),
      uint_str (StartS p + SizeS p - 1), uint_str (SizeS p), fs, PLabel p, flags]"
  using rx_digits(1)[OF rx_digits(2)[OF rx_digits(2)[OF rx_digits(2)[OF rx_tail3[OF assms(1-3)]]]]] num
  by (simp add: partRegexp_def partedLine_def uint_str_def Itoa_def)

lemma rx_headerLine:
  assumes "field_ok dev" "field_ok transport" "field_ok label" "field_ok model"
  shows "rx True headerRegexp (headerLine dev sectors transport logical physical label model) =
    Some [dev, uint_str sectors, transport, uint_str logical, uint_str physical, label, model, []]"
proof -
  have e: "field_ok []" by (simp add: field_ok_def)
  note t = rx_digits(1)[OF rx_digits(1)[OF rx_tail3[OF assms(3,4) e]], of "unat logical" "unat physical"]
  note t2 = rx_Grp_sep[OF field_okD[OF assms(2)] _ t, of 0]
  note t3 = rx_digits(2)[OF t2, of "unat sectors"]
  note t4 = rx_Grp_sep[OF field_okD[OF assms(1)] _ t3, of 0]
  show ?thesis
    using t4 assms e by (simp add: headerRegexp_def headerLine_def uint_str_def count_field digits_class(3))
qed

text \<open>Lines that the expressions reject.\<close>

lemma rx_rejects:
  "rx True partRegexp ''BYT;'' = None" "rx True headerRegexp ''BYT;'' = None"
  "\<not> is_digit (hd l) \<Longrightarrow> l \<noteq> [] \<Longrightarrow> rx True partRegexp l = None"
proof -
  show "rx True partRegexp l = None" if "\<not> is_digit (hd l)" "l \<noteq> []" for l
    using that by (cases l) (simp_all add: partRegexp_def runs_def rx.simps(4))
  from this[of "''BYT;''"] show "rx True partRegexp ''BYT;'' = None" by (simp add: is_digit_def)
  have "seps (CHR '':'') headerRegexp \<le> count_list ''BYT;'' (CHR '':'')"
    if "rx True headerRegexp ''BYT;'' = Some caps" for caps using rx_needs_seps[OF that] .
  moreover have "\<not> seps (CHR '':'') headerRegexp \<le> count_list ''BYT;'' (CHR '':'')"
    by (simp add: headerRegexp_def)
  ultimately show "rx True headerRegexp ''BYT;'' = None" by (cases "rx True headerRegexp ''BYT;''") auto
qed

text \<open>The scanner gives back the lines, if they begin and end with visible characters.\<close>

definition line_ok :: "string \<Rightarrow> bool" where
  "line_ok l \<longleftrightarrow> l \<noteq> [] \<and> \<not> is_space (hd l) \<and> \<not> is_space (last l) \<and> CHR 0x0A \<notin> set l"

lemma line_ok_Join:
  "ls \<noteq> [] \<Longrightarrow> \<forall>l \<in> set ls. line_ok l \<Longrightarrow>
     strings_Join ls [c] \<noteq> [] \<and> hd (strings_Join ls [c]) = hd (hd ls) \<and>
     last (strings_Join ls [c]) = last (last ls)"
  by (induction ls "[c]" rule: strings_Join.induct) (auto simp: line_ok_def)

lemma scanTrimmed_lines:
  assumes "ls \<noteq> []" and ok: "\<forall>l \<in> set ls. line_ok l"
  shows "scanTrimmed (strings_Join ls [CHR 0x0A] @ [CHR 0x0A]) = ls"
proof -
  let ?s = "strings_Join ls [CHR 0x0A]"
  have hl: "line_ok (hd ls)" "line_ok (last ls)" using assms by auto
  have "TrimSpace (?s @ [CHR 0x0A]) = ?s"
    using line_ok_Join[OF assms, of "CHR 0x0A"] hl by (intro TrimSpace_newline) (auto simp: line_ok_def is_space_def)
  moreover have "splitOn (CHR 0x0A) ?s = ls" using assms by (intro splitOn_Join) (auto simp: line_ok_def)
  moreover have "map (TrimSpace \<circ> dropCR) ls = map id ls"
    using ok by (intro map_cong) (auto simp: line_ok_def dropCR_def is_space_def intro!: TrimSpace_id)
  ultimately show ?thesis using hl by (simp add: scanTrimmed_def ScanLines_def Let_def line_ok_def)
qed

lemma partLine_ok:
  assumes "field_ok fs" "field_ok (PLabel p)" "field_ok flags" "0 \<le> Number p"
  shows "line_ok (partedLine fs flags p)"
proof -
  have d: "nat_str (nat (Number p)) \<noteq> []" "is_digit (hd (nat_str (nat (Number p))))"
    using nat_str_digits[of "nat (Number p)"] by (auto simp: all_digits_def list_all_iff)
  then show ?thesis using assms digits_class(3)
    by (auto simp: line_ok_def partedLine_def Itoa_def uint_str_def field_ok_def is_digit_def is_space_def)
qed

lemma partFrom_line:
  assumes "int_range (Number p)" "FileSystem p = []"
  shows "partFrom (Itoa (Number p)) (uint_str (StartS p)) (uint_str (StartS p + SizeS p - 1)) (PLabel p) = p"
  using assms by (simp add: partFrom_def AtoiVal_def Atoi_Itoa ParseUint_uint_str Let_def)

lemma GetPartitions_lines:
  "\<forall>p \<in> set ps. field_ok (fsOf p) \<and> field_ok (PLabel p) \<and> field_ok (flagsOf p) \<and> 0 \<le> Number p \<and>
       int_range (Number p) \<and> FileSystem p = [] \<Longrightarrow>
   List.map_filter (\<lambda>line. map_option (\<lambda>caps. partFrom (caps ! 0) (caps ! 1) (caps ! 2) (caps ! 5))
     (rx True partRegexp line)) (map (\<lambda>p. partedLine (fsOf p) (flagsOf p) p) ps) = ps"
  by (induction ps) (simp_all add: rx_partLine partFrom_line)

lemma parted_reads:
  assumes ps: "\<forall>p \<in> set ps. field_ok (fsOf p) \<and> field_ok (PLabel p) \<and> field_ok (flagsOf p) \<and>
       0 \<le> Number p \<and> int_range (Number p) \<and> FileSystem p = []"
    and dev: "IsAbs dev" "field_ok dev" and "field_ok transport" "field_ok label" "field_ok model"
    and out: "out = partedOutput (headerLine dev sectors transport logical physical label model)
       (map (\<lambda>p. partedLine (fsOf p) (flagsOf p) p) ps)"
  shows "pc_GetPartitions out = ps \<and> pc_GetLastSector out = Inr sectors \<and>
     pc_GetSectorSize out = Inr logical \<and> pc_GetPartitionTableLabel out = Inr label"
proof -
  let ?h = "headerLine dev sectors transport logical physical label model"
  let ?ls = "map (\<lambda>p. partedLine (fsOf p) (flagsOf p) p) ps"
  have d: "dev \<noteq> []" "hd dev = slash" using dev(1) by (auto simp: IsAbs_def)
  have hd: "hd ?h = slash" "?h \<noteq> []" using d by (simp_all add: headerLine_def)
  have "line_ok ?h" using assms hd digits_class(3)
    by (auto simp: line_ok_def headerLine_def uint_str_def field_ok_def is_space_def)
  moreover have "line_ok ''BYT;''" by (simp add: line_ok_def is_space_def)
  moreover have "\<forall>l \<in> set ?ls. line_ok l" using ps partLine_ok by auto
  ultimately have scan: "scanTrimmed out = ''BYT;'' # ?h # ?ls"
    unfolding out partedOutput_def by (intro scanTrimmed_lines) auto
  have rej: "rx True partRegexp ?h = None" using rx_rejects(3) hd by (simp add: is_digit_def)
  note h = rx_headerLine[OF dev(2) assms(4-6), of sectors logical physical]
  have "pc_GetPartitions out = ps"
    unfolding pc_GetPartitions_def scan using GetPartitions_lines[OF ps] rej by (simp add: rx_rejects(1))
  then show ?thesis
    using scan rx_rejects(2) h
    by (simp add: pc_GetLastSector_def pc_GetSectorSize_def pc_GetPartitionTableLabel_def
        parseHeaderFields_def uintField_def ParseUint_uint_str)
qed

text \<open>
  Property C20. What \<^verbatim>\<open>parted\<close> prints for a disk is read back exactly: the partitions with their
  numbers, sectors and names in order, the sector count, the logical sector size and the table label,
  whatever the file system and flags columns hold, as long as no text field has a colon or a line break.
\<close>

theorem parted_roundtrip:
  assumes ps: "\<forall>p \<in> set ps. field_ok (fsOf p) \<and> field_ok (PLabel p) \<and> field_ok (flagsOf p) \<and>
       0 \<le> Number p \<and> int_range (Number p) \<and> FileSystem p = []"
    and dev: "IsAbs dev" "field_ok dev" and "field_ok transport" "field_ok label" "field_ok model"
    and out: "out = partedOutput (headerLine dev sectors transport logical physical label model)
       (map (\<lambda>p. partedLine (fsOf p) (flagsOf p) p) ps)"
  shows "pc_GetPartitions out = ps \<and> pc_GetLastSector out = Inr sectors \<and>
     pc_GetSectorSize out = Inr logical \<and> pc_GetPartitionTableLabel out = Inr label"
  using assms by (rule parted_reads)

definition demoEntries :: "DiskPart list" where
  "demoEntries = [\<lparr>Number = 1, StartS = 2048, SizeS = 131072, PLabel = ''efi'', FileSystem = []\<rparr>,
     \<lparr>Number = 2, StartS = 133120, SizeS = 8388608, PLabel = ''state'', FileSystem = []\<rparr>]"

theorem parted_roundtrip_witness:
  "pc_GetPartitions (partedOutput (headerLine ''/dev/sda'' 50593792 ''scsi'' 512 512 ''gpt'' ''ATA'')
     (map (partedLine ''ext4'' ''boot'') demoEntries)) = demoEntries"
  by (rule parted_roundtrip[of demoEntries "\<lambda>_. ''ext4''" "\<lambda>_. ''boot''" "''/dev/sda''" "''scsi''" "''gpt''" "''ATA''",
        OF _ _ _ _ _ _ refl, THEN conjunct1])
    (simp_all add: demoEntries_def field_ok_def int_range_def min_int_def max_int_def IsAbs_def)

end
