(* ===== verification/Disk.thy ===== *)
theory Disk
  imports Partitioner
begin

section \<open>Disks (pkg/partitioner/disk.go)\<close>

text \<open>
  The methods of \<open>Disk\<close> work on the disk object and the world. Sector arithmetic is the 64-bit
  unsigned arithmetic of the source. \<open>newPart\<close> and \<open>grownPart\<close> are the parts of \<open>AddPartition\<close> and
  \<open>ExpandLastPartition\<close> that decide which sectors are requested.
\<close>

record Disk =
  dk_device :: string
  dk_sectorS :: uint
  dk_lastS :: uint
  dk_parts :: "DiskPart list"
  dk_label :: string
  dk_partBackend :: string
  dk_config :: Config

definition WithGdisk :: "Disk \<Rightarrow> err + Disk" where
  "WithGdisk d = Inr (d\<lparr>dk_partBackend := Gdisk\<rparr>)"

text \<open>\<open>NewDisk\<close> returns nil when an option fails.\<close>

fun applyOpts :: "(Disk \<Rightarrow> err + Disk) list \<Rightarrow> Disk \<Rightarrow> Disk option" where
  "applyOpts [] d = Some d"
| "applyOpts (opt # opts) d = (case opt d of Inl _ \<Rightarrow> None | Inr d' \<Rightarrow> applyOpts opts d')"

definition NewDisk :: "Config \<Rightarrow> string \<Rightarrow> (Disk \<Rightarrow> err + Disk) list \<Rightarrow> Disk option" where
  "NewDisk cfg device opts = applyOpts opts
     \<lparr>dk_device = device, dk_sectorS = 0, dk_lastS = 0, dk_parts = [], dk_label = [],
      dk_partBackend = Parted, dk_config = cfg\<rparr>"

definition MiBToSectors :: "uint \<Rightarrow> uint \<Rightarrow> err + uint" where
  "MiBToSectors sz sectorSize =
     (if sectorSize = 0 then Inl Panic else Inr (sz * 1048576 div sectorSize))"

definition Disk_Exists :: "(Disk \<times> world, bool) io" where
  "Disk_Exists = bindIO getO (\<lambda>dev. \<lambda>s.
     case liftW (fs_Stat (dk_device dev)) s of
       (Inl _, s') \<Rightarrow> (Inr False, s')
     | (Inr (NLink _), s') \<Rightarrow>
         (case liftW (fs_Readlink (dk_device dev)) s' of
            (Inl _, s'') \<Rightarrow> (Inr False, s'')
          | (Inr d, (dev', w'')) \<Rightarrow> (Inr True, (dev'\<lparr>dk_device := d\<rparr>, w'')))
     | (Inr _, s') \<Rightarrow> (Inr True, s'))"

definition unallocated :: "string \<Rightarrow> bool" where
  "unallocated prnt \<longleftrightarrow> Contains prnt partedWarn \<or> Contains prnt sgdiskProblem"

definition Reload :: "(Disk \<times> world, unit) io" where
  "Reload = bindIO getO (\<lambda>dev.
     let cfg = dk_config dev; pc = NewPartitioner (dk_device dev) (dk_partBackend dev) in
     bindIO (liftW (Print cfg pc)) (\<lambda>prnt0.
     bindIO (if unallocated prnt0
             then bindIO (liftW (RunE cfg ''sgdisk'' [''-e'', dk_device dev])) (\<lambda>_. liftW (Print cfg pc))
             else retIO prnt0) (\<lambda>prnt.
     bindIO (sumIO (GetSectorSize pc prnt)) (\<lambda>sectorS.
     bindIO (sumIO (GetLastSector pc prnt)) (\<lambda>lastS.
     bindIO (sumIO (GetPartitionTableLabel pc prnt)) (\<lambda>label.
       modO (\<lambda>d. d\<lparr>dk_sectorS := sectorS, dk_lastS := lastS, dk_parts := GetPartitions pc prnt,
                   dk_label := label\<rparr>)))))))"

definition loadedIO :: "(Disk \<times> world, unit) io" where
  "loadedIO = bindIO getO (\<lambda>dev. whenIO (dk_sectorS dev = 0) Reload)"

text \<open>The first partition starts at 1 MiB.\<close>

definition computeFreeSpace :: "Disk \<Rightarrow> err + uint" where
  "computeFreeSpace dev =
     (if dk_parts dev \<noteq> [] then
        (let lastPart = last (dk_parts dev)
         in Inr (dk_lastS dev - (StartS lastPart + SizeS lastPart - 1)))
      else if dk_sectorS dev = 0 then Inl Panic
      else Inr (dk_lastS dev - (1 * 1024 * 1024 div dk_sectorS dev - 1)))"

definition computeFreeSpaceWithoutLast :: "Disk \<Rightarrow> err + uint" where
  "computeFreeSpaceWithoutLast dev =
     (if length (dk_parts dev) > 1 then
        (let part = dk_parts dev ! (length (dk_parts dev) - 2)
         in Inr (dk_lastS dev - (StartS part + SizeS part - 1)))
      else if dk_sectorS dev = 0 then Inl Panic
      else Inr (dk_lastS dev - (1024 * 1024 div dk_sectorS dev - 1)))"

definition GetFreeSpace :: "(Disk \<times> world, uint) io" where
  "GetFreeSpace = thenIO loadedIO (bindIO getO (\<lambda>dev. sumIO (computeFreeSpace dev)))"

definition CheckDiskFreeSpaceMiB :: "uint \<Rightarrow> (Disk \<times> world, bool) io" where
  "CheckDiskFreeSpaceMiB minSpace = (\<lambda>s. case GetFreeSpace s of
     (Inl e, s') \<Rightarrow> if e = Panic then (Inl e, s') else (Inr False, s')
   | (Inr freeS, s') \<Rightarrow> bindIO getO (\<lambda>dev. bindIO (sumIO (MiBToSectors minSpace (dk_sectorS dev)))
        (\<lambda>minSec. retIO (minSec \<le> freeS))) s')"

definition NewPartitionTable :: "string \<Rightarrow> (Disk \<times> world, string) io" where
  "NewPartitionTable label = bindIO getO (\<lambda>dev.
     bindIO (sumIO (SetPartitionTableLabel label (NewPartitioner (dk_device dev) (dk_partBackend dev)))) (\<lambda>pc.
     bindIO (liftW (WriteChanges (dk_config dev) (WipeTable True pc))) (\<lambda>out.
     thenIO Reload (retIO out))))"

text \<open>Which sectors a new partition gets.\<close>

definition newPart :: "Disk \<Rightarrow> uint \<Rightarrow> string \<Rightarrow> string \<Rightarrow> err + DiskPart" where
  "newPart dev sz fileSystem pLabel =
     (let (partNum, startS) =
        (if dk_parts dev \<noteq> [] then
           (let l = last (dk_parts dev) in (Number l, StartS l + SizeS l))
         else (0, 1024 * 1024 div dk_sectorS dev))
      in case MiBToSectors sz (dk_sectorS dev) of
           Inl e \<Rightarrow> Inl e
         | Inr sectors \<Rightarrow>
             (case computeFreeSpace dev of
                Inl e \<Rightarrow> Inl e
              | Inr freeS \<Rightarrow>
                  (if sectors > freeS then Inl (Errorf ''not enough free space in disk'')
                   else Inr \<lparr>Number = wrap_int (partNum + 1), StartS = startS, SizeS = sectors,
                             PLabel = pLabel, FileSystem = fileSystem\<rparr>)))"

definition AddPartition :: "uint \<Rightarrow> string \<Rightarrow> string \<Rightarrow> string list \<Rightarrow> (Disk \<times> world, int) io" where
  "AddPartition sz fileSystem pLabel flags = thenIO loadedIO (bindIO getO (\<lambda>dev.
     bindIO (sumIO (SetPartitionTableLabel (dk_label dev)
       (NewPartitioner (dk_device dev) (dk_partBackend dev)))) (\<lambda>pc.
     bindIO (sumIO (newPart dev sz fileSystem pLabel)) (\<lambda>part.
     let pc' = fold (\<lambda>flag. SetPartitionFlag (Number part) flag True) flags (CreatePartition part pc) in
     bindIO (liftW (WriteChanges (dk_config dev) pc')) (\<lambda>_.
     thenIO Reload (retIO (Number part)))))))"

text \<open>\<^verbatim>\<open>.*\d+$\<close> matches a device name that ends in a digit.\<close>

definition partDevice :: "Disk \<Rightarrow> int \<Rightarrow> string" where
  "partDevice dev partNum =
     (if dk_device dev \<noteq> [] \<and> is_digit (last (dk_device dev))
      then dk_device dev @ ''p'' @ Itoa partNum else dk_device dev @ Itoa partNum)"

fun findDeviceTry :: "nat \<Rightarrow> Config \<Rightarrow> string \<Rightarrow> (world, string) io" where
  "findDeviceTry 0 cfg device = failIO (Errorf (''could not find partition device '' @ device))"
| "findDeviceTry (Suc tries) cfg device =
     thenIO (ignoreIO (Run cfg ''udevadm'' [''settle'']))
       (bindIO (okIO False (Exists device False)) (\<lambda>ok.
          if ok then retIO device else findDeviceTry tries cfg device))"

definition FindPartitionDevice :: "int \<Rightarrow> (Disk \<times> world, string) io" where
  "FindPartitionDevice partNum = bindIO getO (\<lambda>dev.
     liftW (findDeviceTry (Suc partitionTries) (dk_config dev) (partDevice dev partNum)))"

definition FormatPartition :: "int \<Rightarrow> string \<Rightarrow> string \<Rightarrow> (Disk \<times> world, string) io" where
  "FormatPartition partNum fileSystem label = bindIO getO (\<lambda>dev.
     bindIO (FindPartitionDevice partNum) (\<lambda>pDev.
     liftW (Mkfs_Apply (dk_config dev) (NewMkfsCall pDev fileSystem label []))))"

definition WipeFsOnPartition :: "string \<Rightarrow> (Disk \<times> world, unit) io" where
  "WipeFsOnPartition device = bindIO getO (\<lambda>dev.
     bindIO (liftW (RunE (dk_config dev) ''wipefs'' [''--all'', device])) (\<lambda>_. retIO ()))"

text \<open>pkg/utils/getpartitions.go: the file system of a partition as the block device list shows it.\<close>

definition GetPartitionFS :: "Config \<Rightarrow> string \<Rightarrow> (world, string) io" where
  "GetPartitionFS cfg pdev =
     (let pdev' = (if HasPrefix pdev ''/dev'' then pdev else Join [''/dev'', pdev]) in
      bindIO (cfg_AllPartitions cfg) (\<lambda>parts.
        case find (\<lambda>p. p_Path p = pdev') parts of
          None \<Rightarrow> failIO (Errorf (''could not find partition '' @ pdev'))
        | Some p \<Rightarrow> (if p_FS p = ''unknown''
             then failIO (Errorf (''could not find filesystem for partition '' @ pdev'))
             else retIO (p_FS p))))"

definition growMounted :: "Config \<Rightarrow> string \<Rightarrow> string \<Rightarrow> (world, unit) io" where
  "growMounted cfg fs device = (\<lambda>w. case TempDir [] ''partitioner'' w of
     (Inl e, w1) \<Rightarrow> (Inl e, snd (fs_RemoveAll [] w1))
   | (Inr tmpDir, w1) \<Rightarrow>
       finallyIO
         (thenIO (mnt_Mount device tmpDir ''auto'' [])
           (finallyIO
             (bindIO (if TrimSpace fs = ''xfs'' then RunE cfg ''xfs_growfs'' [tmpDir]
                      else RunE cfg ''btrfs'' [''filesystem'', ''resize'', ''max'', tmpDir]) (\<lambda>_. retIO ()))
             (\<lambda>e. bindIO (tryIO (mnt_Unmount tmpDir)) (\<lambda>e2. retIO (if e = None then e2 else None)))))
         (\<lambda>_. thenIO (ignoreIO (fs_RemoveAll tmpDir)) (retIO None)) w1)"

definition expandFilesystem :: "Config \<Rightarrow> string \<Rightarrow> (world, unit) io" where
  "expandFilesystem cfg device =
     bindIO (GetPartitionFS cfg device) (\<lambda>fs.
       if TrimSpace fs \<in> {''ext2'', ''ext3'', ''ext4''} then
         bindIO (RunE cfg ''e2fsck'' [''-fy'', device]) (\<lambda>_.
         bindIO (RunE cfg ''resize2fs'' [device]) (\<lambda>_. retIO ()))
       else if TrimSpace fs \<in> {''xfs'', ''btrfs''} then growMounted cfg fs device
       else failIO (Errorf (''could not find filesystem for '' @ device)))"

text \<open>The partition that replaces the last one; size zero stands for all the space there is.\<close>

definition grownPart :: "Disk \<Rightarrow> uint \<Rightarrow> err + DiskPart" where
  "grownPart dev sz =
     (if dk_parts dev = [] then Inl (Errorf ''There is no partition to expand'')
      else (let part = last (dk_parts dev) in
        if sz > 0 then
          (case MiBToSectors sz (dk_sectorS dev) of
             Inl e \<Rightarrow> Inl e
           | Inr sectors \<Rightarrow>
               (if sectors < SizeS part
                then Inl (Errorf ''Layout plugin can only expand a partition, not shrink it'')
                else (case computeFreeSpaceWithoutLast dev of
                        Inl e \<Rightarrow> Inl e
                      | Inr freeS \<Rightarrow>
                          (if sectors > freeS then Inl (Errorf ''not enough free space to expand last partition'')
                           else Inr (part\<lparr>SizeS := sectors\<rparr>)))))
        else Inr (part\<lparr>SizeS := sz\<rparr>)))"

definition ExpandLastPartition :: "uint \<Rightarrow> (Disk \<times> world, unit) io" where
  "ExpandLastPartition sz = thenIO loadedIO (bindIO getO (\<lambda>dev.
     bindIO (sumIO (SetPartitionTableLabel (dk_label dev)
       (NewPartitioner (dk_device dev) (dk_partBackend dev)))) (\<lambda>pc.
     bindIO (sumIO (grownPart dev sz)) (\<lambda>part.
     bindIO (liftW (WriteChanges (dk_config dev) (CreatePartition part (DeletePartition (Number part) pc)))) (\<lambda>_.
     thenIO Reload
     (bindIO (FindPartitionDevice (Number part)) (\<lambda>pDev.
       liftW (expandFilesystem (dk_config dev) pDev))))))))"

subsection \<open>Pending changes of a backend\<close>

text \<open>
  What the methods of \<open>Disk\<close> rely on: a backend collects the partitions to create and to delete, flags
  do not disturb them, and a written change leaves nothing pending.
\<close>

locale partition_backend =
  fixes parts :: "'b \<Rightarrow> DiskPart list"
    and dels :: "'b \<Rightarrow> int list"
    and create :: "DiskPart \<Rightarrow> 'b \<Rightarrow> 'b"
    and delete :: "int \<Rightarrow> 'b \<Rightarrow> 'b"
    and flag :: "int \<Rightarrow> string \<Rightarrow> bool \<Rightarrow> 'b \<Rightarrow> 'b"
    and commit :: "Config \<Rightarrow> 'b \<Rightarrow> world \<Rightarrow> (err + string) \<times> 'b \<times> world"
  assumes create_pending: "parts (create p b) = parts b @ [p]" "dels (create p b) = dels b"
    and delete_pending: "parts (delete n b) = parts b" "dels (delete n b) = dels b @ [n]"
    and flag_pending: "parts (flag n f v b) = parts b" "dels (flag n f v b) = dels b"
    and write_clears: "parts b \<noteq> [] \<Longrightarrow> commit cfg b w = (Inr out, b', w') \<Longrightarrow> parts b' = [] \<and> dels b' = []"
begin

lemma flags_pending:
  "parts (fold (\<lambda>f. flag n f True) fs b) = parts b" "dels (fold (\<lambda>f. flag n f True) fs b) = dels b"
  by (induction fs arbitrary: b) (simp_all add: flag_pending)

lemma write_all:
  assumes "commit cfg (fold (\<lambda>f. flag n f True) fs (create p b)) w = (Inr out, b', w')"
  shows "parts b' = [] \<and> dels b' = []"
  using write_clears[OF _ assms] by (simp add: flags_pending create_pending)

end

interpretation parted: partition_backend pc_parts pc_deletions pc_CreatePartition pc_DeletePartition
  pc_SetPartitionFlag pc_WriteChanges
proof
  show "pc_parts b' = [] \<and> pc_deletions b' = []"
    if "pc_parts b \<noteq> []" "pc_WriteChanges cfg b w = (Inr out, b', w')" for b b' cfg w out w'
    using that by (cases "pc_parts b")
      (auto simp: pc_WriteChanges_def optionsBuilder_def partedPartOpts_def Let_def split: prod.splits)
qed (simp_all add: pc_CreatePartition_def pc_DeletePartition_def pc_SetPartitionFlag_def)

interpretation gdisk: partition_backend gd_parts gd_deletions gd_CreatePartition gd_DeletePartition
  gd_SetPartitionFlag gd_WriteChanges
  by unfold_locales (auto simp: gd_CreatePartition_def gd_DeletePartition_def gd_SetPartitionFlag_def
      gd_WriteChanges_def SetPretend_def Let_def split: prod.splits sum.splits)

fun pending :: "Partitioner \<Rightarrow> DiskPart list \<times> int list" where
  "pending (PartedP pc) = (pc_parts pc, pc_deletions pc)"
| "pending (GdiskP gd) = (gd_parts gd, gd_deletions gd)"
| "pending NilP = ([], [])"

lemma fold_flags_dispatch:
  "fold (\<lambda>f. SetPartitionFlag n f True) fs (PartedP pc) = PartedP (fold (\<lambda>f. pc_SetPartitionFlag n f True) fs pc)"
  "fold (\<lambda>f. SetPartitionFlag n f True) fs (GdiskP gd) = GdiskP (fold (\<lambda>f. gd_SetPartitionFlag n f True) fs gd)"
  by (induction fs arbitrary: pc gd) simp_all

lemma label_pending:
  assumes "SetPartitionTableLabel l (NewPartitioner dev backend) = Inr pc"
  shows "pending (fold (\<lambda>f. SetPartitionFlag n f True) fs (CreatePartition p pc)) = ([p], [])"
    and "pending (CreatePartition p (DeletePartition m pc)) = ([p], [m])"
  using assms
  by (auto simp: NewPartitioner_def pc_SetPartitionTableLabel_def gd_SetPartitionTableLabel_def
      newPartedCall_def newGdiskCall_def fold_flags_dispatch parted.flags_pending gdisk.flags_pending
      parted.create_pending gdisk.create_pending parted.delete_pending gdisk.delete_pending
      split: if_splits)

subsection \<open>Sectors\<close>

text \<open>
  \<open>end_of p\<close> is the first sector behind a partition, as an unbounded number. \<open>wf_disk\<close>: the
  sector size is at most 1 MiB, the partitions are not empty, stand in the order of their sectors
  without overlap and end on the disk, and the disk is larger than its first MiB.
\<close>

definition end_of :: "DiskPart \<Rightarrow> nat" where
  "end_of p = unat (StartS p) + unat (SizeS p)"

definition first_sector :: "Disk \<Rightarrow> nat" where
  "first_sector dev = 1048576 div unat (dk_sectorS dev)"

definition next_sector :: "Disk \<Rightarrow> nat" where
  "next_sector dev = (if dk_parts dev = [] then first_sector dev else end_of (last (dk_parts dev)))"

definition wf_disk :: "Disk \<Rightarrow> bool" where
  "wf_disk dev \<longleftrightarrow> dk_sectorS dev \<noteq> 0 \<and> dk_sectorS dev \<le> 1048576 \<and>
     first_sector dev \<le> unat (dk_lastS dev) \<and> Suc (unat (dk_lastS dev)) < 2 ^ 64 \<and>
     list_all (\<lambda>p. 0 < SizeS p \<and> first_sector dev \<le> unat (StartS p) \<and> end_of p \<le> Suc (unat (dk_lastS dev)))
       (dk_parts dev) \<and>
     sorted_wrt (\<lambda>p q. end_of p \<le> unat (StartS q)) (dk_parts dev)"

lemma first_sector_pos: "wf_disk dev \<Longrightarrow> 0 < first_sector dev"
  unfolding wf_disk_def first_sector_def
  by (simp add: div_greater_zero_iff word_le_nat_alt unat_gt_0)

lemma unat_minus_pred:
  fixes l a :: uint
  assumes "0 < n" and "n \<le> Suc (unat l)" and "unat (a - 1) = n - 1"
  shows "unat (l - (a - 1)) = Suc (unat l) - n"
proof -
  have "a - 1 \<le> l" using assms by (simp add: word_le_nat_alt)
  then show ?thesis using assms by (simp add: unat_sub)
qed

lemma end_of_pred:
  assumes "0 < SizeS p" and "end_of p \<le> Suc (unat (l :: uint))"
  shows "unat (StartS p + SizeS p - 1) = end_of p - 1" and "0 < end_of p"
proof -
  have pos: "0 < unat (SizeS p)" using assms(1) by (simp add: word_less_nat_alt)
  have "end_of p - 1 < 2 ^ 64" using assms(2) unsigned_less[of l, where ?'a = nat] by simp
  moreover have "StartS p + SizeS p - 1 = of_nat (end_of p - 1)"
    using pos by (simp add: end_of_def of_nat_diff)
  ultimately show "unat (StartS p + SizeS p - 1) = end_of p - 1" by (simp add: unat_of_nat)
  show "0 < end_of p" using pos by (simp add: end_of_def)
qed

lemma last_part_wf:
  assumes "wf_disk dev" and "dk_parts dev \<noteq> []"
  shows "0 < SizeS (last (dk_parts dev))" and "end_of (last (dk_parts dev)) \<le> Suc (unat (dk_lastS dev))"
  using assms last_in_set[OF assms(2)] by (auto simp: wf_disk_def list_all_iff)

text \<open>The free space is what lies between the last partition and the end of the disk.\<close>

lemma computeFreeSpace_eq:
  assumes wf: "wf_disk dev"
  shows "\<exists>f. computeFreeSpace dev = Inr f \<and> unat f = Suc (unat (dk_lastS dev)) - next_sector dev"
proof (cases "dk_parts dev = []")
  case True
  let ?s = "dk_sectorS dev"
  have pos: "0 < first_sector dev" using first_sector_pos[OF wf] .
  have "unat (1048576 div ?s :: uint) = first_sector dev" by (simp add: unat_div first_sector_def)
  then have "unat ((1048576 div ?s) - 1 :: uint) = first_sector dev - 1"
    using pos unat_minus_one[of "1048576 div ?s :: uint"] unat_0_iff[of "1048576 div ?s :: uint"] by simp
  moreover have "first_sector dev \<le> Suc (unat (dk_lastS dev))" using wf by (simp add: wf_disk_def)
  ultimately show ?thesis
    using wf True unat_minus_pred[OF pos] by (simp add: computeFreeSpace_def next_sector_def wf_disk_def)
next
  case False
  note lp = last_part_wf[OF wf False]
  from unat_minus_pred[OF end_of_pred(2)[OF lp] lp(2) end_of_pred(1)[OF lp]] False
  show ?thesis by (simp add: computeFreeSpace_def next_sector_def Let_def)
qed

lemma MiBToSectors_exact:
  assumes "unat sz * 1048576 < 2 ^ 64" and "s \<noteq> 0"
  shows "\<exists>n. MiBToSectors sz s = Inr n \<and> unat n = unat sz * 1048576 div unat s"
proof -
  have "unat (sz * 1048576) = unat sz * 1048576"
    using assms(1) by (simp add: unat_mult_lem[THEN iffD1])
  then show ?thesis using assms(2) by (simp add: MiBToSectors_def unat_div)
qed

lemma lastS_bound: "wf_disk dev \<Longrightarrow> Suc (unat (dk_lastS dev)) < 2 ^ 64"
  by (simp add: wf_disk_def)

definition startOf :: "Disk \<Rightarrow> uint" where
  "startOf dev = (if dk_parts dev \<noteq> [] then StartS (last (dk_parts dev)) + SizeS (last (dk_parts dev))
     else 1024 * 1024 div dk_sectorS dev)"

lemma startOf_eq:
  assumes wf: "wf_disk dev"
  shows "unat (startOf dev) = next_sector dev"
proof (cases "dk_parts dev = []")
  case True
  then show ?thesis by (simp add: startOf_def next_sector_def first_sector_def unat_div)
next
  case False
  have "end_of (last (dk_parts dev)) < 2 ^ 64"
    using last_part_wf(2)[OF wf False] lastS_bound[OF wf] by simp
  then show ?thesis using False
    by (simp add: startOf_def next_sector_def end_of_def unat_add_lem[THEN iffD1])
qed

lemma next_sector_behind:
  assumes wf: "wf_disk dev"
  shows "list_all (\<lambda>q. end_of q \<le> next_sector dev) (dk_parts dev)"
    and "first_sector dev \<le> next_sector dev" and "next_sector dev \<le> Suc (unat (dk_lastS dev))"
proof -
  have "end_of q \<le> end_of (last (dk_parts dev))" if "q \<in> set (dk_parts dev)" for q
  proof -
    obtain xs l where p: "dk_parts dev = xs @ [l]" using \<open>q \<in> _\<close> by (cases "dk_parts dev" rule: rev_cases) auto
    have "q \<in> set xs \<Longrightarrow> end_of q \<le> unat (StartS l)" using wf p by (simp add: wf_disk_def sorted_wrt_append)
    then show ?thesis using that p by (auto simp: end_of_def[of l])
  qed
  then show "list_all (\<lambda>q. end_of q \<le> next_sector dev) (dk_parts dev)"
    by (auto simp: list_all_iff next_sector_def)
  show "first_sector dev \<le> next_sector dev" "next_sector dev \<le> Suc (unat (dk_lastS dev))"
    using wf last_part_wf(2)[OF wf] last_in_set[of "dk_parts dev"]
    by (auto simp: next_sector_def end_of_def wf_disk_def list_all_iff intro: le_trans trans_le_add1)
qed

lemma newPart_eq:
  "newPart dev sz fs label = (case MiBToSectors sz (dk_sectorS dev) of Inl e \<Rightarrow> Inl e | Inr n \<Rightarrow>
     (case computeFreeSpace dev of Inl e \<Rightarrow> Inl e | Inr freeS \<Rightarrow>
        if n > freeS then Inl (Errorf ''not enough free space in disk'')
        else Inr \<lparr>Number = wrap_int ((if dk_parts dev \<noteq> [] then Number (last (dk_parts dev)) else 0) + 1),
             StartS = startOf dev, SizeS = n, PLabel = label, FileSystem = fs\<rparr>))"
  by (simp add: newPart_def startOf_def Let_def split: sum.splits)

text \<open>
  Property C4. On a well-formed disk and for a size whose bytes fit in 64 bits, \<open>AddPartition\<close> decides
  exactly by the space that is left: the request is refused when the partition would end behind the
  last sector, and otherwise the new partition starts where the last one ends (at 1 MiB on an
  empty disk), overlaps no partition, ends on the disk and has the size asked for.
\<close>

theorem newPart_exact:
  assumes wf: "wf_disk dev" and sz: "unat sz * 1048576 < 2 ^ 64"
  shows "case newPart dev sz fs label of
      Inl e \<Rightarrow> e = Errorf ''not enough free space in disk'' \<and>
        Suc (unat (dk_lastS dev)) < next_sector dev + unat sz * 1048576 div unat (dk_sectorS dev)
    | Inr p \<Rightarrow> end_of p \<le> Suc (unat (dk_lastS dev)) \<and>
        unat (SizeS p) = unat sz * 1048576 div unat (dk_sectorS dev) \<and>
        unat (StartS p) = next_sector dev \<and> list_all (\<lambda>q. end_of q \<le> unat (StartS p)) (dk_parts dev)"
proof -
  have "dk_sectorS dev \<noteq> 0" using wf by (simp add: wf_disk_def)
  from MiBToSectors_exact[OF sz this] obtain n where n: "MiBToSectors sz (dk_sectorS dev) = Inr n"
    "unat n = unat sz * 1048576 div unat (dk_sectorS dev)" by auto
  from computeFreeSpace_eq[OF wf] obtain f where f: "computeFreeSpace dev = Inr f"
    "unat f = Suc (unat (dk_lastS dev)) - next_sector dev" by auto
  show ?thesis
    using n f startOf_eq[OF wf] next_sector_behind[OF wf]
    by (auto simp: newPart_eq word_less_nat_alt end_of_def)
qed

definition demoDev :: Disk where
  "demoDev = \<lparr>dk_device = ''/dev/sda'', dk_sectorS = 512, dk_lastS = 50593792, dk_parts = demoEntries,
     dk_label = ''gpt'', dk_partBackend = Parted, dk_config = demoConfig\<rparr>"

lemma demoDev_wf: "wf_disk demoDev"
  by (simp add: wf_disk_def demoDev_def demoEntries_def end_of_def first_sector_def)

theorem newPart_exact_witness:
  "\<exists>p. newPart demoDev 64 ''ext4'' ''oem'' = Inr p \<and> unat (StartS p) = 8521728 \<and> end_of p \<le> 50593793 \<and>
     unat (SizeS p) = 131072"
proof -
  have "\<not> isl (newPart demoDev 64 ''ext4'' ''oem'')" by code_simp
  then obtain p where p: "newPart demoDev 64 ''ext4'' ''oem'' = Inr p" by (cases "newPart demoDev 64 ''ext4'' ''oem''") auto
  have "unat (64 :: uint) * 1048576 < 2 ^ 64" by simp
  from newPart_exact[OF demoDev_wf this, of "''ext4''" "''oem''"] p show ?thesis
    by (simp add: demoDev_def demoEntries_def next_sector_def end_of_def)
qed

subsection \<open>The commands of an operation\<close>

text \<open>The commands that read a disk: printing its table, with the repair of the backup header when the table says so.\<close>

definition printCmd :: "Disk \<Rightarrow> string \<times> string list" where
  "printCmd dev = (if dk_partBackend dev = Gdisk then (''sgdisk'', [''-p'', ''-v'', dk_device dev])
     else (''parted'', [''--script'', ''--machine'', ''--'', dk_device dev, ''unit'', ''s'', ''print'']))"

definition readCmds :: "Disk \<Rightarrow> (string \<times> string list) list set" where
  "readCmds dev = {[printCmd dev], [printCmd dev, (''sgdisk'', [''-e'', dk_device dev])],
     [printCmd dev, (''sgdisk'', [''-e'', dk_device dev]), printCmd dev]}"

lemma Print_cmds:
  assumes "keepsLog cfg" "dk_partBackend dev \<in> {Parted, Gdisk}" "Print cfg (NewPartitioner (dk_device dev) (dk_partBackend dev)) w = (r, w')"
  shows "cmds w' = cmds w @ [printCmd dev]"
  using assms RunE_cmds[OF assms(1)]
  by (auto simp: NewPartitioner_def pc_Print_def gd_Print_def printCmd_def newPartedCall_def newGdiskCall_def Parted_def Gdisk_def)

lemma Reload_cmds:
  assumes log: "keepsLog (dk_config dev)" and be: "dk_partBackend dev \<in> {Parted, Gdisk}"
    and run: "Reload (dev, w) = (r, (dev', w'))"
  shows "\<exists>l \<in> readCmds dev. cmds w' = cmds w @ l"
    and "dk_config dev' = dk_config dev \<and> dk_partBackend dev' = dk_partBackend dev \<and> dk_device dev' = dk_device dev"
proof -
  let ?pc = "NewPartitioner (dk_device dev) (dk_partBackend dev)"
  obtain r1 w1 where p1: "Print (dk_config dev) ?pc w = (r1, w1)" by fastforce
  note c1 = Print_cmds[OF log be p1]
  obtain r2 w2 where s2: "RunE (dk_config dev) ''sgdisk'' [''-e'', dk_device dev] w1 = (r2, w2)" by fastforce
  note c2 = RunE_cmds[OF log s2]
  obtain r3 w3 where p3: "Print (dk_config dev) ?pc w2 = (r3, w3)" by fastforce
  note c3 = Print_cmds[OF log be p3]
  have "(\<exists>l \<in> readCmds dev. cmds w' = cmds w @ l) \<and>
    dk_config dev' = dk_config dev \<and> dk_partBackend dev' = dk_partBackend dev \<and> dk_device dev' = dk_device dev"
    using run p1 s2 p3 c1 c2 c3
    by (auto simp: Reload_def Let_def bindIO_def getO_def liftW_def sumIO_def modO_def retIO_def readCmds_def
        split: sum.splits if_splits prod.splits)
  then show "\<exists>l \<in> readCmds dev. cmds w' = cmds w @ l"
    and "dk_config dev' = dk_config dev \<and> dk_partBackend dev' = dk_partBackend dev \<and> dk_device dev' = dk_device dev" by blast+
qed


text \<open>The arguments that create one partition, for parted and for sgdisk, and the commands of a whole \<open>AddPartition\<close>.\<close>

definition mkpartArgs :: "string \<Rightarrow> DiskPart \<Rightarrow> string list" where
  "mkpartArgs table p = [''mkpart'',
     if table \<noteq> ''gpt'' then ''primary'' else if PLabel p = [] then ''part'' @ Itoa (Number p) else PLabel p,
     if isFat (FileSystem p) then ''fat32'' else FileSystem p, uint_str (StartS p),
     if SizeS p = 0 then ''100%'' else uint_str (StartS p + SizeS p - 1)]"

definition sgdiskArgs :: "DiskPart \<Rightarrow> string list" where
  "sgdiskArgs p = (let n = Itoa (Number p) in
     (''-n='' @ n @ '':'' @ uint_str (StartS p) @ '':+'' @ uint_str (SizeS p)) #
     (if PLabel p = [] then [] else [''-c='' @ n @ '':'' @ PLabel p]) @
     (if isFat (FileSystem p) then [''-t='' @ n @ '':EF00''] else if FileSystem p = [] then [] else [''-t='' @ n @ '':8300'']))"

definition addCmds :: "Disk \<Rightarrow> DiskPart \<Rightarrow> string list \<Rightarrow> (string \<times> string list) list" where
  "addCmds dev p flags =
     (if dk_partBackend dev = Gdisk
      then [(''sgdisk'', [''-P''] @ sgdiskArgs p @ [dk_device dev]), (''sgdisk'', sgdiskArgs p @ [dk_device dev])]
      else [(''parted'', [''--script'', ''--machine'', ''--'', dk_device dev, ''unit'', ''s''] @ mkpartArgs (dk_label dev) p @
        concat (map (\<lambda>flag. [''set'', Itoa (Number p), flag, ''on'']) flags))]) @
     [(''partx'', [''-u'', dk_device dev])]"

lemma fold_pc_flags:
  "fold (\<lambda>f. pc_SetPartitionFlag n f True) fs pc = pc\<lparr>pc_flags := pc_flags pc @ map (\<lambda>f. \<lparr>pf_flag = f, pf_active = True, pf_number = n\<rparr>) fs\<rparr>"
  by (induction fs arbitrary: pc) (simp_all add: pc_SetPartitionFlag_def)

lemma fold_gd_flags: "fold (\<lambda>f. gd_SetPartitionFlag n f True) fs gd = gd"
  by (induction fs arbitrary: gd) (simp_all add: gd_SetPartitionFlag_def)

lemma pc_Write_cmds:
  assumes "keepsLog cfg" "optionsBuilder pc \<noteq> []" "pc_WriteChanges cfg pc w = (r, pc', w')"
  shows "cmds w' = cmds w @ [(''parted'', optionsBuilder pc), (''partx'', [''-u'', pc_dev pc])]"
proof -
  obtain r1 w1 where r1: "RunE cfg ''parted'' (optionsBuilder pc) w = (r1, w1)" by fastforce
  obtain r2 w2 where r2: "Run cfg ''partx'' [''-u'', pc_dev pc] w1 = (r2, w2)" by fastforce
  show ?thesis using assms(2,3) r1 r2 RunE_cmds[OF assms(1) r1] Run_cmds[OF assms(1) r2]
    by (simp add: pc_WriteChanges_def Let_def)
qed

lemma gd_Write_cmds:
  assumes "keepsLog cfg" "gd_WriteChanges cfg gd w = (r, gd', w')"
  shows "cmds w' = cmds w @ (''sgdisk'', gd_buildOptions (SetPretend True gd)) #
     (if isl (fst (RunE cfg ''sgdisk'' (gd_buildOptions (SetPretend True gd)) w)) then []
      else [(''sgdisk'', gd_buildOptions (SetPretend False gd)), (''partx'', [''-u'', gd_dev gd])])"
    and "\<not> isl r \<Longrightarrow> \<not> isl (fst (RunE cfg ''sgdisk'' (gd_buildOptions (SetPretend True gd)) w))"
proof -
  obtain r1 w1 where r1: "RunE cfg ''sgdisk'' (gd_buildOptions (SetPretend True gd)) w = (r1, w1)" by fastforce
  obtain r2 w2 where r2: "RunE cfg ''sgdisk'' (gd_buildOptions (SetPretend False gd)) w1 = (r2, w2)" by fastforce
  obtain r3 w3 where r3: "Run cfg ''partx'' [''-u'', gd_dev gd] w2 = (r3, w3)" by fastforce
  have "SetPretend False (SetPretend True gd) = SetPretend False gd" by (simp add: SetPretend_def)
  then show "cmds w' = cmds w @ (''sgdisk'', gd_buildOptions (SetPretend True gd)) #
     (if isl (fst (RunE cfg ''sgdisk'' (gd_buildOptions (SetPretend True gd)) w)) then []
      else [(''sgdisk'', gd_buildOptions (SetPretend False gd)), (''partx'', [''-u'', gd_dev gd])])"
    "\<not> isl r \<Longrightarrow> \<not> isl (fst (RunE cfg ''sgdisk'' (gd_buildOptions (SetPretend True gd)) w))"
    using assms(2) r1 r2 r3 RunE_cmds[OF assms(1) r1] RunE_cmds[OF assms(1) r2] Run_cmds[OF assms(1) r3]
    by (cases r1; auto simp: gd_WriteChanges_def Let_def)+
qed

lemma sgdiskArgs_eq: "gdiskPartOpts p = sgdiskArgs p"
  by (simp add: gdiskPartOpts_def sgdiskArgs_def Let_def efiType_def linuxType_def)

lemma mkpartArgs_eq: "partedPartOpts table p = mkpartArgs table p"
  by (simp add: partedPartOpts_def mkpartArgs_def GPT_def)

lemma AddPartition_log:
  assumes log: "keepsLog (dk_config dev)"
    and lab: "SetPartitionTableLabel (dk_label dev) (NewPartitioner (dk_device dev) (dk_partBackend dev)) = Inr pc"
    and wr: "WriteChanges (dk_config dev) (fold (\<lambda>f. SetPartitionFlag (Number p) f True) flags (CreatePartition p pc)) w = (Inr out, w1)"
  shows "cmds w1 = cmds w @ addCmds dev p flags" and "dk_partBackend dev \<in> {Parted, Gdisk}"
proof -
  have neq: "Parted \<noteq> Gdisk" by (simp add: Parted_def Gdisk_def)
  show be: "dk_partBackend dev \<in> {Parted, Gdisk}" using lab by (auto simp: NewPartitioner_def split: if_splits)
  show "cmds w1 = cmds w @ addCmds dev p flags"
  proof (cases "dk_partBackend dev = Parted")
    case True
    let ?pc = "(newPartedCall (dk_device dev))\<lparr>pc_label := dk_label dev, pc_parts := [p],
      pc_flags := map (\<lambda>f. \<lparr>pf_flag = f, pf_active = True, pf_number = Number p\<rparr>) flags\<rparr>"
    have known: "knownLabel (dk_label dev)"
      and "fold (\<lambda>f. SetPartitionFlag (Number p) f True) flags (CreatePartition p pc) = PartedP ?pc"
      using lab True by (auto simp: NewPartitioner_def pc_SetPartitionTableLabel_def pc_CreatePartition_def newPartedCall_def
          fold_flags_dispatch fold_pc_flags split: if_splits)
    then obtain pc' where "pc_WriteChanges (dk_config dev) ?pc w = (Inr out, pc', w1)" using wr by (auto split: prod.splits)
    moreover have "optionsBuilder ?pc = [''--script'', ''--machine'', ''--'', dk_device dev, ''unit'', ''s''] @ mkpartArgs (dk_label dev) p @
        concat (map (\<lambda>flag. [''set'', Itoa (Number p), flag, ''on'']) flags)"
      using known by (simp add: optionsBuilder_def mkpartArgs_eq[symmetric] newPartedCall_def partedFlagOpts_def Let_def comp_def)
        (simp add: partedPartOpts_def)
    ultimately show ?thesis using pc_Write_cmds[OF log, of ?pc] True neq by (simp add: addCmds_def newPartedCall_def)
  next
    case False
    then have g: "dk_partBackend dev = Gdisk" using be by simp
    let ?gd = "gd_CreatePartition p (newGdiskCall (dk_device dev))"
    have "fold (\<lambda>f. SetPartitionFlag (Number p) f True) flags (CreatePartition p pc) = GdiskP ?gd"
      using lab g neq by (auto simp: NewPartitioner_def gd_SetPartitionTableLabel_def fold_flags_dispatch fold_gd_flags split: if_splits)
    then obtain gd' where run: "gd_WriteChanges (dk_config dev) ?gd w = (Inr out, gd', w1)" using wr by (auto split: prod.splits)
    have opts: "gd_buildOptions (SetPretend b ?gd) = (if b then [''-P''] else []) @ sgdiskArgs p @ [dk_device dev]" for b
      by (simp add: gd_buildOptions_def SetPretend_def gd_CreatePartition_def newGdiskCall_def sgdiskArgs_eq Let_def)
        (simp add: sgdiskArgs_def Let_def)
    show ?thesis using gd_Write_cmds[OF log run] opts[of True] opts[of False] g
      by (simp add: addCmds_def gd_CreatePartition_def newGdiskCall_def)
  qed
qed

text \<open>
  Property C22. The commands of a successful \<open>AddPartition\<close> on a loaded disk are exactly these: the one call of parted that
  creates the partition \<open>newPart\<close> computed and sets its flags (for sgdisk the rehearsal and the same call), on the device of the disk, the
  update of the kernel's view, and the commands that read the new table. Nothing is deleted or wiped. The result is the number of the partition,
  which follows the number of the last one.
\<close>

theorem AddPartition_writes:
  assumes "keepsLog (dk_config dev)" and "dk_sectorS dev \<noteq> 0"
    and "AddPartition sz fs label flags (dev, w) = (Inr n, (dev', w'))"
  shows "\<exists>p reads. newPart dev sz fs label = Inr p \<and> n = Number p \<and>
     n = wrap_int ((if dk_parts dev \<noteq> [] then Number (last (dk_parts dev)) else 0) + 1) \<and>
     cmds w' = cmds w @ addCmds dev p flags @ reads \<and> reads \<in> readCmds dev"
proof -
  let ?flags = "\<lambda>p. fold (\<lambda>f. SetPartitionFlag (Number p) f True) flags"
  from assms(2,3) obtain pc p out w1 where
    lab: "SetPartitionTableLabel (dk_label dev) (NewPartitioner (dk_device dev) (dk_partBackend dev)) = Inr pc"
    and p: "newPart dev sz fs label = Inr p"
    and wr: "WriteChanges (dk_config dev) (?flags p (CreatePartition p pc)) w = (Inr out, w1)" and n: "n = Number p"
    and rl: "Reload (dev, w1) = (Inr (), (dev', w'))"
    by (auto simp: AddPartition_def loadedIO_def whenIO_def returns_iff objIO_bind getO_def sumIO_def Let_def
        liftW_iff retIO_def)
  note c1 = AddPartition_log[OF assms(1) lab wr]
  obtain l where l: "l \<in> readCmds dev" "cmds w' = cmds w1 @ l" using Reload_cmds(1)[OF assms(1) c1(2) rl] by blast
  have "Number p = wrap_int ((if dk_parts dev \<noteq> [] then Number (last (dk_parts dev)) else 0) + 1)"
    using p by (auto simp: newPart_eq split: sum.splits if_splits)
  then show ?thesis using p n c1(1) l by auto
qed

text \<open>A runner for examples: \<^verbatim>\<open>parted ... print\<close> shows a small empty disk.\<close>

definition demoDiskConfig :: Config where
  "demoDiskConfig = demoConfig\<lparr>cfg_Run := (\<lambda>c args w. ((None,
     if c = ''parted'' \<and> last args = ''print''
     then partedOutput (headerLine ''/d'' 9 [] 1 1 ''gpt'' []) [] else []), w))\<rparr>"

lemma demoReload:
  "\<exists>d. Reload (demoDev\<lparr>dk_config := demoDiskConfig\<rparr>, w) = (Inr (), (d, w\<lparr>cmds := cmds w @
     [(''parted'', [''--script'', ''--machine'', ''--'', ''/dev/sda'', ''unit'', ''s'', ''print''])]\<rparr>))"
proof -
  let ?out = "partedOutput (headerLine ''/d'' 9 [] 1 1 ''gpt'' []) []"
  have "field_ok ''/d''" "field_ok []" "field_ok ''gpt''" "IsAbs ''/d''"
    by (simp_all add: field_ok_def IsAbs_def)
  then have "pc_GetLastSector ?out = Inr 9 \<and> pc_GetSectorSize ?out = Inr 1 \<and> pc_GetPartitionTableLabel ?out = Inr ''gpt''"
    using parted_reads[of "[]" "\<lambda>_. []" "\<lambda>_. []" "''/d''" "[]" "''gpt''" "[]" ?out 9 1 1] by simp
  moreover have "\<not> unallocated ?out" by code_simp
  ultimately show ?thesis
    by (simp add: Reload_def objIO_bind demoDev_def NewPartitioner_def newPartedCall_def pc_Print_def RunE_def
        Run_def demoDiskConfig_def demoConfig_def bindIO_def liftW_def retIO_def sumIO_def modO_def getO_def
        Let_def)
qed

lemma demoDisk_write: "\<exists>out w'. WriteChanges demoDiskConfig (PartedP pc) w = (Inr out, w')"
  by (simp add: pc_WriteChanges_def RunE_def Run_def bindIO_def retIO_def demoDiskConfig_def Let_def)

lemma AddPartition_demo:
  "fst (AddPartition 64 ''ext4'' ''oem'' [''esp''] (demoDev\<lparr>dk_config := demoDiskConfig\<rparr>, demoWorld)) = Inr 3"
proof -
  let ?dev = "demoDev\<lparr>dk_config := demoDiskConfig\<rparr>"
  have "\<not> isl (newPart ?dev 64 ''ext4'' ''oem'')" "Number (projr (newPart ?dev 64 ''ext4'' ''oem'')) = 3"
    by code_simp+
  then obtain p where p: "newPart ?dev 64 ''ext4'' ''oem'' = Inr p" "Number p = 3"
    by (cases "newPart ?dev 64 ''ext4'' ''oem''") auto
  have lab: "SetPartitionTableLabel (dk_label ?dev) (NewPartitioner (dk_device ?dev) (dk_partBackend ?dev)) =
      Inr (PartedP ((newPartedCall ''/dev/sda'')\<lparr>pc_label := ''gpt''\<rparr>))"
    by (simp add: demoDev_def NewPartitioner_def pc_SetPartitionTableLabel_def knownLabel_def GPT_def HasPrefix_def)
  have sec: "dk_sectorS ?dev \<noteq> 0" "dk_config ?dev = demoDiskConfig" by (simp_all add: demoDev_def)
  obtain d where rl: "Reload (?dev, w) = (Inr (), (d w, w\<lparr>cmds := cmds w @
     [(''parted'', [''--script'', ''--machine'', ''--'', ''/dev/sda'', ''unit'', ''s'', ''print''])]\<rparr>))" for w
    using demoReload by metis
  let ?pc = "pc_SetPartitionFlag 3 ''esp'' True (pc_CreatePartition p ((newPartedCall ''/dev/sda'')\<lparr>pc_label := ''gpt''\<rparr>))"
  obtain out w1 where wr: "WriteChanges demoDiskConfig (PartedP ?pc) demoWorld = (Inr out, w1)"
    using demoDisk_write by blast
  show ?thesis
    using p lab sec wr rl[of w1]
    by (simp del: WriteChanges.simps add: AddPartition_def loadedIO_def whenIO_def thenIO_def bindIO_def getO_def
        retIO_def liftW_def sumIO_def Let_def)
qed

theorem AddPartition_writes_witness:
  "\<exists>p dev' w'. AddPartition 64 ''ext4'' ''oem'' [''esp''] (demoDev\<lparr>dk_config := demoDiskConfig\<rparr>, demoWorld) = (Inr 3, (dev', w')) \<and>
     newPart (demoDev\<lparr>dk_config := demoDiskConfig\<rparr>) 64 ''ext4'' ''oem'' = Inr p \<and>
     take 2 (cmds w') = [(''parted'', [''--script'', ''--machine'', ''--'', ''/dev/sda'', ''unit'', ''s''] @ mkpartArgs ''gpt'' p @
       [''set'', ''3'', ''esp'', ''on'']), (''partx'', [''-u'', ''/dev/sda''])]"
proof -
  let ?dev = "demoDev\<lparr>dk_config := demoDiskConfig\<rparr>"
  obtain r dev' w' where run: "AddPartition 64 ''ext4'' ''oem'' [''esp''] (?dev, demoWorld) = (r, (dev', w'))"
    by (metis prod_cases3)
  have r: "r = Inr 3" using run AddPartition_demo by simp
  have "keepsLog (dk_config ?dev)" "dk_sectorS ?dev \<noteq> 0"
    by (simp_all add: keepsLog_def demoDiskConfig_def demoDev_def demoConfig_def)
  from AddPartition_writes[OF this run[unfolded r]] obtain p reads where
    p: "newPart ?dev 64 ''ext4'' ''oem'' = Inr p" "3 = Number p" "cmds w' = cmds demoWorld @ addCmds ?dev p [''esp''] @ reads" by blast
  have "Itoa 3 = ''3''" by code_simp
  then have "take 2 (cmds w') = [(''parted'', [''--script'', ''--machine'', ''--'', ''/dev/sda'', ''unit'', ''s''] @ mkpartArgs ''gpt'' p @
       [''set'', ''3'', ''esp'', ''on'']), (''partx'', [''-u'', ''/dev/sda''])]"
    using p(2)[symmetric] p(3) by (simp add: addCmds_def demoDev_def demoWorld_def Parted_def Gdisk_def)
  then show ?thesis using run r p(1) by blast
qed

definition contiguous_last :: "Disk \<Rightarrow> bool" where
  "contiguous_last dev \<longleftrightarrow> dk_parts dev \<noteq> [] \<and>
     unat (StartS (last (dk_parts dev))) =
       (if length (dk_parts dev) > 1 then end_of (dk_parts dev ! (length (dk_parts dev) - 2)) else first_sector dev)"

lemma freeWithoutLast_eq:
  assumes wf: "wf_disk dev" and c: "contiguous_last dev"
  shows "\<exists>f. computeFreeSpaceWithoutLast dev = Inr f \<and>
    unat f = Suc (unat (dk_lastS dev)) - unat (StartS (last (dk_parts dev)))"
proof -
  obtain xs l where p: "dk_parts dev = xs @ [l]" using c by (cases "dk_parts dev" rule: rev_cases) (auto simp: contiguous_last_def)
  let ?rest = "dev\<lparr>dk_parts := xs\<rparr>"
  have "wf_disk ?rest" using wf p by (simp add: wf_disk_def first_sector_def sorted_wrt_append)
  moreover have "computeFreeSpaceWithoutLast dev = computeFreeSpace ?rest"
    using p by (cases xs rule: rev_cases) (simp_all add: computeFreeSpaceWithoutLast_def computeFreeSpace_def nth_append)
  moreover have "next_sector ?rest = unat (StartS (last (dk_parts dev)))"
    using c p by (cases xs rule: rev_cases) (simp_all add: contiguous_last_def next_sector_def first_sector_def nth_append)
  ultimately show ?thesis using computeFreeSpace_eq[of ?rest] by simp
qed

text \<open>
  Property C35. Expanding the last partition to a given size never shrinks it and, when it stands directly
  behind its predecessor (or at 1 MiB when it is the only one), never runs over the end of the disk; the
  first sector and the number are kept.
\<close>

theorem grownPart_fits:
  assumes wf: "wf_disk dev" and c: "contiguous_last dev" and "0 < sz"
    and run: "grownPart dev sz = Inr p"
  shows "StartS p = StartS (last (dk_parts dev)) \<and> Number p = Number (last (dk_parts dev)) \<and>
     SizeS (last (dk_parts dev)) \<le> SizeS p \<and> end_of p \<le> Suc (unat (dk_lastS dev))"
proof -
  from freeWithoutLast_eq[OF wf c] obtain f where f: "computeFreeSpaceWithoutLast dev = Inr f"
    "unat f = Suc (unat (dk_lastS dev)) - unat (StartS (last (dk_parts dev)))" by auto
  have ne: "dk_parts dev \<noteq> []" using c by (simp add: contiguous_last_def)
  have "unat (StartS (last (dk_parts dev))) \<le> Suc (unat (dk_lastS dev))"
    using last_part_wf(2)[OF wf ne] by (simp add: end_of_def)
  moreover from run assms(3) f(1) ne obtain n where "p = (last (dk_parts dev))\<lparr>SizeS := n\<rparr>"
    "\<not> n < SizeS (last (dk_parts dev))" "\<not> n > f"
    by (auto simp: grownPart_def Let_def split: sum.splits if_splits)
  ultimately show ?thesis using f(2) by (simp add: end_of_def word_le_nat_alt not_less)
qed

theorem grownPart_fits_witness:
  "\<exists>p. grownPart demoDev 8192 = Inr p \<and> SizeS (last demoEntries) \<le> SizeS p \<and> end_of p \<le> 50593793"
proof -
  have "\<not> isl (grownPart demoDev 8192)" by code_simp
  then obtain p where p: "grownPart demoDev 8192 = Inr p" by (cases "grownPart demoDev 8192") auto
  have "contiguous_last demoDev" by (simp add: contiguous_last_def demoDev_def demoEntries_def end_of_def)
  from grownPart_fits[OF demoDev_wf this _ p] p show ?thesis by (simp add: demoDev_def)
qed

text \<open>A host on which every rehearsal of sgdisk fails.\<close>

definition refusesDryRuns :: "Config \<Rightarrow> bool" where
  "refusesDryRuns cfg \<longleftrightarrow> (\<forall>args w. fst (fst (cfg_Run cfg ''sgdisk'' (''-P'' # args) w)) \<noteq> None)"

definition onlyRehearsed :: "world \<Rightarrow> world \<Rightarrow> bool" where
  "onlyRehearsed w w' \<longleftrightarrow> (\<exists>opts. cmds w' \<in> {cmds w, cmds w @ [(''sgdisk'', ''-P'' # opts)]})"

lemma refused_write:
  assumes log: "keepsLog cfg" and ref: "refusesDryRuns cfg"
    and run: "WriteChanges cfg (GdiskP gd) w = (r, w')"
  shows "isl r" and "onlyRehearsed w w'"
proof -
  obtain opts where opts: "gd_buildOptions (SetPretend True gd) = ''-P'' # opts"
    by (simp add: gd_buildOptions_def SetPretend_def Let_def)
  obtain r1 gd' where g: "gd_WriteChanges cfg gd w = (r1, gd', w')" "r = r1" using run by (auto split: prod.splits)
  have f: "isl (fst (RunE cfg ''sgdisk'' (''-P'' # opts) w))"
    using ref[unfolded refusesDryRuns_def, rule_format, of opts "w\<lparr>cmds := cmds w @ [(''sgdisk'', ''-P'' # opts)]\<rparr>"]
    by (auto simp: RunE_def Run_def bindIO_def failIO_def split: prod.splits option.splits)
  show "isl r" using gd_Write_cmds(2)[OF log g(1)] f opts g(2) by auto
  show "onlyRehearsed w w'" using gd_Write_cmds(1)[OF log g(1)] f opts by (auto simp: onlyRehearsed_def)
qed

lemma gdisk_label:
  "SetPartitionTableLabel l (NewPartitioner dev Gdisk) = Inr pc \<Longrightarrow> pc = GdiskP (newGdiskCall dev)"
  by (auto simp: NewPartitioner_def gd_SetPartitionTableLabel_def Parted_def Gdisk_def split: if_splits)

lemma onlyRehearsed_same: "onlyRehearsed w w"
  by (simp add: onlyRehearsed_def)

text \<open>
  Property C29. sgdisk changes a disk only after a rehearsal that succeeds: on a host where every call with \<^verbatim>\<open>-P\<close> fails, making a new
  partition table, adding a partition and expanding the last one all fail, and the only command any of them has run is the
  rehearsal itself.
\<close>

theorem gdisk_rehearsal:
  assumes log: "keepsLog (dk_config dev)" and ref: "refusesDryRuns (dk_config dev)"
    and be: "dk_partBackend dev = Gdisk" and loaded: "dk_sectorS dev \<noteq> 0"
  shows "(case NewPartitionTable table (dev, w) of (r, (_, w')) \<Rightarrow> isl r \<and> onlyRehearsed w w') \<and>
    (case AddPartition sz fs label flags (dev, w) of (r, (_, w')) \<Rightarrow> isl r \<and> onlyRehearsed w w') \<and>
    (case ExpandLastPartition sz (dev, w) of (r, (_, w')) \<Rightarrow> isl r \<and> onlyRehearsed w w')"
proof (intro conjI)
  have wr: "\<exists>e w'. WriteChanges (dk_config dev) (GdiskP gd) w = (Inl e, w') \<and> onlyRehearsed w w'" for gd
    using refused_write[OF log ref, of gd w] by (cases "WriteChanges (dk_config dev) (GdiskP gd) w") (metis isl_def)
  have flags: "fold (\<lambda>f. SetPartitionFlag n f True) fs' (GdiskP gd) = GdiskP gd" for n fs' gd
    by (simp add: fold_flags_dispatch fold_gd_flags)
  note ops = loadedIO_def whenIO_def retIO_def thenIO_def bindIO_def getO_def sumIO_def liftW_def Let_def onlyRehearsed_same
  show "case NewPartitionTable table (dev, w) of (r, (_, w')) \<Rightarrow> isl r \<and> onlyRehearsed w w'"
  proof (cases "SetPartitionTableLabel table (NewPartitioner (dk_device dev) Gdisk)")
    case (Inr pc)
    then show ?thesis using wr[of "gd_WipeTable True (newGdiskCall (dk_device dev))"] gdisk_label[OF Inr] be
      by (auto simp del: WriteChanges.simps simp add: NewPartitionTable_def ops)
  qed (simp add: NewPartitionTable_def ops be)
  show "case AddPartition sz fs label flags (dev, w) of (r, (_, w')) \<Rightarrow> isl r \<and> onlyRehearsed w w'"
  proof (cases "SetPartitionTableLabel (dk_label dev) (NewPartitioner (dk_device dev) Gdisk)")
    case (Inr pc)
    show ?thesis
    proof (cases "newPart dev sz fs label")
      case (Inr p)
      show ?thesis
        using wr[of "gd_CreatePartition p (newGdiskCall (dk_device dev))"] gdisk_label[OF \<open>SetPartitionTableLabel _ _ = Inr pc\<close>]
          Inr \<open>SetPartitionTableLabel _ _ = Inr pc\<close> be loaded
        by (auto simp del: WriteChanges.simps simp add: AddPartition_def ops flags)
    qed (use Inr be loaded in \<open>simp add: AddPartition_def ops\<close>)
  qed (use be loaded in \<open>simp add: AddPartition_def ops\<close>)
  show "case ExpandLastPartition sz (dev, w) of (r, (_, w')) \<Rightarrow> isl r \<and> onlyRehearsed w w'"
  proof (cases "SetPartitionTableLabel (dk_label dev) (NewPartitioner (dk_device dev) Gdisk)")
    case (Inr pc)
    show ?thesis
    proof (cases "grownPart dev sz")
      case (Inr p)
      show ?thesis
        using wr[of "gd_CreatePartition p (gd_DeletePartition (Number p) (newGdiskCall (dk_device dev)))"]
          gdisk_label[OF \<open>SetPartitionTableLabel _ _ = Inr pc\<close>] Inr \<open>SetPartitionTableLabel _ _ = Inr pc\<close> be loaded
        by (auto simp del: WriteChanges.simps simp add: ExpandLastPartition_def ops)
    qed (use Inr be loaded in \<open>simp add: ExpandLastPartition_def ops\<close>)
  qed (use be loaded in \<open>simp add: ExpandLastPartition_def ops\<close>)
qed

definition refusingHost :: Config where
  "refusingHost = demoConfig\<lparr>cfg_Run := (\<lambda>_ args w. ((if args \<noteq> [] \<and> hd args = ''-P'' then Some EFault else None, []), w))\<rparr>"

theorem gdisk_rehearsal_witness:
  "\<exists>r dev' w'. AddPartition 64 ''ext4'' ''oem'' [] (demoDev\<lparr>dk_config := refusingHost, dk_partBackend := Gdisk\<rparr>, demoWorld) = (r, (dev', w')) \<and>
     isl r \<and> onlyRehearsed demoWorld w'"
proof -
  let ?dev = "demoDev\<lparr>dk_config := refusingHost, dk_partBackend := Gdisk\<rparr>"
  have "keepsLog (dk_config ?dev)" "refusesDryRuns (dk_config ?dev)" "dk_partBackend ?dev = Gdisk" "dk_sectorS ?dev \<noteq> 0"
    by (simp_all add: keepsLog_def refusesDryRuns_def refusingHost_def demoDev_def)
  from gdisk_rehearsal[OF this, where w = demoWorld and sz = 64 and fs = "''ext4''" and label = "''oem''" and flags = "[]" and table = "''gpt''"]
  show ?thesis by (cases "AddPartition 64 ''ext4'' ''oem'' [] (?dev, demoWorld)") auto
qed
end
