(* ===== verification/Elemental_Ops.thy ===== *)
theory Elemental_Ops
  imports Chroot Disk
begin

section \<open>Partitions, images and sources (pkg/elemental/elemental.go)\<close>

text \<open>
  The operations the actions are made of. A Go function with a pointer argument that it changes works
  on the pair of that object and the world: \<open>Partition\<close> (its \<open>Path\<close> is filled in), \<open>Image\<close> (size and
  loop device), \<open>ImageSource\<close> (digest). A list of pointers is a list of objects, and \<open>atIdx i\<close>
  runs a method on the \<open>i\<close>-th of them. A function that returns a clean-up closure returns an operation.
  File checks made inside a chroot look below the path of the chroot. \<open>CopyCloudConfig\<close>, \<open>SourceFormISO\<close> and
  \<open>GetTempDir\<close> are not modelled.
\<close>

definition atIdx :: "nat \<Rightarrow> ('o \<times> world, 'a) io \<Rightarrow> ('o list \<times> world, 'a) io" where
  "atIdx i m = (\<lambda>(os, w). case m (os ! i, w) of (r, (obj, w')) \<Rightarrow> (r, (os[i := obj], w')))"

text \<open>Running a method on a local object of the function.\<close>

definition withObj :: "'o \<Rightarrow> ('o \<times> world, 'a) io \<Rightarrow> (world, 'a \<times> 'o) io" where
  "withObj obj m = (\<lambda>w. case m (obj, w) of (Inl e, (_, w')) \<Rightarrow> (Inl e, w') | (Inr x, (obj', w')) \<Rightarrow> (Inr (x, obj'), w'))"

definition SELinuxTargetedContextFile :: string where
  "SELinuxTargetedContextFile = ''/etc/selinux/targeted/contexts/files/file_contexts''"
definition ImgOverhead :: uint where "ImgOverhead = 256"
definition ImgSrcDir :: string where "ImgSrcDir = ''/run/elemental/imgsrc''"
definition WorkingImgDir :: string where "WorkingImgDir = ''/run/elemental/workingtree''"
definition GrubCfgPath :: string where "GrubCfgPath = ''/etc/elemental''"
definition BootargsCfg :: string where "BootargsCfg = ''bootargs.cfg''"
definition ActiveMode :: string where "ActiveMode = ''/run/elemental/active_mode''"
definition PassiveMode :: string where "PassiveMode = ''/run/elemental/passive_mode''"
definition RecoveryMode :: string where "RecoveryMode = ''/run/elemental/recovery_mode''"

definition GetDefaultSystemExcludes :: "string list" where
  "GetDefaultSystemExcludes = [''.snapshots'', ''mnt/*'', ''proc/*'', ''sys/*'', ''dev/*'', ''tmp/*'', ''run/*'',
     ''host'', ''etc/resolv.conf'']"

definition GetDefaultSystemRootedExcludes :: "string \<Rightarrow> string list" where
  "GetDefaultSystemRootedExcludes rootDir = map (\<lambda>path. Join [rootDir, path]) GetDefaultSystemExcludes"

subsection \<open>Partitioning the target\<close>

definition elemental_FormatPartition :: "Config \<Rightarrow> Partition \<Rightarrow> string list \<Rightarrow> (world, unit) io" where
  "elemental_FormatPartition c part opts = FormatDevice c (p_Path part) (p_FS part) (p_FilesystemLabel part) opts"

text \<open>The state is the disk, the partition and the world; the new device becomes the partition's path.\<close>

definition createAndFormatPartition :: "Config \<Rightarrow> Partition \<Rightarrow> (Disk \<times> world, Partition) io" where
  "createAndFormatPartition c part =
     bindIO (AddPartition (p_Size part) (p_FS part) (p_Name part) (p_Flags part)) (\<lambda>num.
     bindIO (FindPartitionDevice num) (\<lambda>partDev.
     thenIO (if p_FS part \<noteq> [] then liftW (FormatDevice c partDev (p_FS part) (p_FilesystemLabel part) [])
             else WipeFsOnPartition partDev)
       (retIO (part\<lparr>p_Path := partDev\<rparr>))))"

fun createPartitions :: "Config \<Rightarrow> Partition list \<Rightarrow> (Disk \<times> world, Partition list) io" where
  "createPartitions c [] = retIO []"
| "createPartitions c (part # parts) =
     bindIO (createAndFormatPartition c part) (\<lambda>p. bindIO (createPartitions c parts) (\<lambda>ps. retIO (p # ps)))"

definition PartitionAndFormatDevice :: "Config \<Rightarrow> InstallSpec \<Rightarrow> (world, Partition list) io" where
  "PartitionAndFormatDevice c i =
     (case NewDisk c (ins_Target i) [] of
        None \<Rightarrow> failIO Panic
      | Some disk \<Rightarrow>
          bindIO (withObj disk
            (bindIO Disk_Exists (\<lambda>ok.
               if \<not> ok then failIO (Errorf (''disk '' @ ins_Target i @ '' does not exist''))
               else bindIO (NewPartitionTable (ins_PartTable i)) (\<lambda>_.
                 createPartitions c (PartitionsByInstallOrder (ins_Partitions i) (ins_ExtraPartitions i) [])))))
            (\<lambda>(parts, _). retIO parts))"

subsection \<open>Mounting partitions\<close>

definition IsMounted :: "Partition option \<Rightarrow> (world, bool) io" where
  "IsMounted po = (case po of
     None \<Rightarrow> failIO (Errorf ''nil partition'')
   | Some part \<Rightarrow>
       (if p_MountPoint part = [] then retIO False
        else bindIO (mnt_IsLikelyNotMountPoint (p_MountPoint part)) (\<lambda>notMnt. retIO (\<not> notMnt))))"

definition MountPartition :: "Config \<Rightarrow> string list \<Rightarrow> (Partition \<times> world, unit) io" where
  "MountPartition c opts = bindIO getO (\<lambda>part.
     thenIO (liftW (MkdirAll (p_MountPoint part) DirPerm))
     (thenIO (if p_Path part = []
              then bindIO (liftW (GetDeviceByLabel c (p_FilesystemLabel part) 10))
                     (\<lambda>device. modO (\<lambda>p. p\<lparr>p_Path := device\<rparr>))
              else retIO ())
     (bindIO getO (\<lambda>part'. liftW (mnt_Mount (p_Path part') (p_MountPoint part') ''auto'' opts)))))"

definition UnmountPartition :: "Partition \<Rightarrow> (world, unit) io" where
  "UnmountPartition part = bindIO (okIO False (IsMounted (Some part))) (\<lambda>mnt.
     if \<not> mnt then retIO () else mnt_Unmount (p_MountPoint part))"

fun unmountLoop :: "err option \<Rightarrow> Partition list \<Rightarrow> (world, err option) io" where
  "unmountLoop errs [] = retIO errs"
| "unmountLoop errs (part # parts) =
     (if p_MountPoint part = [] then unmountLoop errs parts
      else bindIO (tryIO (UnmountPartition part)) (\<lambda>e.
        unmountLoop (case e of None \<Rightarrow> errs | Some e' \<Rightarrow> Some (multierror_Append errs e')) parts))"

definition UnmountPartitions :: "Partition list \<Rightarrow> (world, unit) io" where
  "UnmountPartitions parts = bindIO (unmountLoop None parts) raiseIO"

definition mountOne :: "Config \<Rightarrow> string list \<Rightarrow> (Partition \<times> world, unit) io" where
  "mountOne c overwriteFlags = bindIO getO (\<lambda>part.
     if p_MountPoint part = [] then retIO ()
     else bindIO (liftW (okIO False (IsMounted (Some part)))) (\<lambda>ok.
       if ok then retIO ()
       else MountPartition c (if overwriteFlags \<noteq> [] then overwriteFlags else p_Flags part)))"

definition MountPartitions :: "Config \<Rightarrow> string list \<Rightarrow> (Partition list \<times> world, unit) io" where
  "MountPartitions c overwriteFlags = bindIO getO (\<lambda>parts.
     onErrorIO (forIO [0..<length parts] (\<lambda>i. atIdx i (mountOne c overwriteFlags)))
       (bindIO getO (\<lambda>parts'. liftW (ignoreIO (UnmountPartitions parts')))))"

definition IsRWMountPoint :: "Config \<Rightarrow> string \<Rightarrow> (world, bool) io" where
  "IsRWMountPoint c mountPoint =
     bindIO (RunE c ''findmnt'' [''-fno'', ''OPTIONS'', mountPoint])
       (\<lambda>out. retIO (''rw'' \<in> set (splitOn (CHR '','') (TrimSpace out))))"

definition MountRWPartition :: "Config \<Rightarrow> (Partition \<times> world, (Partition \<times> world, unit) io) io" where
  "MountRWPartition c = bindIO getO (\<lambda>part.
     bindIO (liftW (okIO False (IsMounted (Some part)))) (\<lambda>mnt.
       if mnt then
         bindIO (liftW (okIO False (IsRWMountPoint c (p_MountPoint part)))) (\<lambda>ok.
           if ok then retIO (retIO ())
           else thenIO (MountPartition c [''remount'', ''rw'']) (retIO (MountPartition c [''remount'', ''ro''])))
       else thenIO (MountPartition c [''rw''])
         (retIO (bindIO getO (\<lambda>part'. liftW (UnmountPartition part'))))))"

subsection \<open>Images\<close>

definition MountFileSystemImage :: "Config \<Rightarrow> string list \<Rightarrow> (Image \<times> world, unit) io" where
  "MountFileSystemImage c opts = bindIO getO (\<lambda>img.
     thenIO (liftW (MkdirAll (img_MountPoint img) DirPerm))
     (bindIO (liftW (RunE c ''losetup'' [''--show'', ''-f'', img_File img])) (\<lambda>out.
        let loop = TrimSpace out in
        thenIO (onErrorIO (liftW (mnt_Mount loop (img_MountPoint img) ''auto'' opts))
                 (ignoreIO (liftW (Run c ''losetup'' [''-d'', loop]))))
          (modO (\<lambda>i. i\<lparr>img_LoopDevice := loop\<rparr>)))))"

definition UnmountFileSystemImage :: "Config \<Rightarrow> (Image \<times> world, unit) io" where
  "UnmountFileSystemImage c = bindIO getO (\<lambda>img.
     bindIO (liftW (okIO True (mnt_IsLikelyNotMountPoint (img_MountPoint img)))) (\<lambda>notMnt.
       if notMnt then retIO ()
       else thenIO (liftW (mnt_Unmount (img_MountPoint img)))
         (bindIO (liftW (Run c ''losetup'' [''-d'', img_LoopDevice img])) (\<lambda>(e, _).
           thenIO (modO (\<lambda>i. i\<lparr>img_LoopDevice := []\<rparr>)) (raiseIO e)))))"

definition extFS :: "string \<Rightarrow> bool" where
  "extFS fs \<longleftrightarrow> Contains fs ''ext2'' \<or> Contains fs ''ext3'' \<or> Contains fs ''ext4''"

definition CreateFileSystemImage :: "Config \<Rightarrow> string \<Rightarrow> bool \<Rightarrow> string list \<Rightarrow> (Image \<times> world, unit) io" where
  "CreateFileSystemImage c rootDir preload excludes = bindIO getO (\<lambda>img.
     thenIO (liftW (MkdirAll (Dir (img_File img)) DirPerm))
     (thenIO (if img_Size img = 0 \<and> rootDir \<noteq> []
              then bindIO (liftW (DirSizeMB rootDir excludes)) (\<lambda>sz. modO (\<lambda>i. i\<lparr>img_Size := sz + ImgOverhead\<rparr>))
              else retIO ())
     (bindIO getO (\<lambda>img'.
      thenIO (liftW (CreateRAWFile (img_File img') (img_Size img')))
      (if preload \<and> \<not> extFS (img_FS img') then failIO (Errorf (''unexpected filesystem: '' @ img_FS img'))
       else liftW (onErrorIO
         (bindIO (Mkfs_Apply c (NewMkfsCall (img_File img') (img_FS img') (img_Label img')
            (if preload \<and> extFS (img_FS img') then [''-d'', rootDir] else []))) (\<lambda>_. retIO ()))
         (ignoreIO (fs_RemoveAll (img_File img')))))))))"

definition CopyFileImg :: "Config \<Rightarrow> Image \<Rightarrow> (world, unit) io" where
  "CopyFileImg c img =
     (case img_Source img of
        None \<Rightarrow> failIO Panic
      | Some source \<Rightarrow>
          (if \<not> IsFile source then failIO (Errorf ''copying a file image requires an image source of file type'')
           else thenIO (MkdirAll (Dir (img_File img)) DirPerm)
             (thenIO (CopyFile (src_source source) (img_File img))
               (if img_FS img \<noteq> SquashFs \<and> img_Label img \<noteq> []
                then bindIO (RunE c ''tune2fs'' [''-L'', img_Label img, img_File img]) (\<lambda>_. retIO ())
                else retIO ()))))"

subsection \<open>SELinux\<close>

text \<open>\<open>base\<close> is the root of the process: the context file is looked up below it.\<close>

definition SelinuxRelabelIn :: "string \<Rightarrow> Config \<Rightarrow> string \<Rightarrow> string list \<Rightarrow> (world, unit) io" where
  "SelinuxRelabelIn base c rootDir extraPaths =
     (let contextFile = Join [rootDir, SELinuxTargetedContextFile] in
      bindIO (okIO False (Exists (Join [base, contextFile]) False)) (\<lambda>contextExists.
        if contextExists \<and> cfg_CommandExists c ''setfiles'' then
          bindIO (RunE c ''setfiles''
            (if rootDir = ''/'' \<or> rootDir = []
             then [''-e'', ''/dev'', ''-e'', ''/proc'', ''-e'', ''/sys'', ''-i'', ''-F'', contextFile, ''/''] @ extraPaths
             else [''-i'', ''-F'', ''-r'', rootDir, contextFile, rootDir] @ extraPaths)) (\<lambda>_. retIO ())
        else retIO ()))"

definition SelinuxRelabel :: "Config \<Rightarrow> string \<Rightarrow> string list \<Rightarrow> (world, unit) io" where
  "SelinuxRelabel = SelinuxRelabelIn ''/''"

definition ApplySELinuxLabels :: "Config \<Rightarrow> string \<Rightarrow> (string \<times> string) list \<Rightarrow> (world, unit) io" where
  "ApplySELinuxLabels c rootDir binds =
     (let extraPaths = map snd binds; devnull = Join [rootDir, ''/dev/null''];
          args = [''-i'', ''-F'', SELinuxTargetedContextFile, ''/dev'', ''/proc'', ''/sys''] @ extraPaths;
          relabel = ChrootedCallback c rootDir [] (bindIO (RunE c ''setfiles'' args) (\<lambda>_. retIO ())) [NoDefaultBinds]
      in thenIO (ChrootedCallback c rootDir binds (SelinuxRelabelIn rootDir c ''/'' extraPaths) [])
        (bindIO (okIO False (Exists (Join [rootDir, SELinuxTargetedContextFile]) False)) (\<lambda>existsCon.
           if \<not> existsCon \<or> \<not> cfg_CommandExists c ''setfiles'' then retIO ()
           else bindIO (okIO False (Exists devnull False)) (\<lambda>ok.
             if ok then relabel
             else bindIO (RunE c ''mknod'' [''-m'', ''666'', devnull, ''c'', ''1'', ''3'']) (\<lambda>_.
               finallyIO relabel (\<lambda>_. thenIO (ignoreIO (fs_RemoveAll devnull)) (retIO None)))))))"

subsection \<open>Images from trees and sources\<close>

text \<open>The deferred cleaners run in order, each of them; the first error is reported if there is none yet.\<close>

fun runCleaners :: "(world, unit) io option list \<Rightarrow> err option \<Rightarrow> err option \<Rightarrow> (world, err option) io" where
  "runCleaners [] e new = retIO new"
| "runCleaners (None # cs) e new = runCleaners cs e new"
| "runCleaners (Some cleaner # cs) e new =
     bindIO (tryIO cleaner) (\<lambda>cErr. runCleaners cs e (if e = None \<and> new = None then cErr else new))"

definition squashTree :: "Config \<Rightarrow> Image \<Rightarrow> string \<Rightarrow> (world, unit) io" where
  "squashTree c img rootDir =
     thenIO (MkdirAll (Dir (img_File img)) DirPerm)
     (thenIO (ignoreIO (SelinuxRelabel c rootDir []))
       (CreateSquashFS c rootDir (img_File img) (cfg_SquashFsCompressionConfig c) GetDefaultSystemExcludes))"

definition fillTree :: "Config \<Rightarrow> string \<Rightarrow> string list \<Rightarrow> Image \<Rightarrow> (world, unit) io" where
  "fillTree c rootDir excludes img =
     thenIO (SyncData c rootDir (img_MountPoint img) excludes)
     (thenIO (CreateDirStructure (img_MountPoint img))
       (ApplySELinuxLabels c (img_MountPoint img) []))"

definition syncTree :: "Config \<Rightarrow> string \<Rightarrow> string list \<Rightarrow> (Image \<times> world, unit) io" where
  "syncTree c rootDir excludes =
     thenIO (MountFileSystemImage c [''rw''])
       (finallyIO (bindIO getO (\<lambda>img. liftW (fillTree c rootDir excludes img)))
         (\<lambda>e. bindIO (tryIO (UnmountFileSystemImage c)) (\<lambda>mErr. retIO (if e = None then mErr else None))))"

definition CreateImageFromTree ::
  "Config \<Rightarrow> string \<Rightarrow> bool \<Rightarrow> (world, unit) io option list \<Rightarrow> (Image \<times> world, unit) io" where
  "CreateImageFromTree c rootDir preload cleaners =
     finallyIO
       (bindIO getO (\<lambda>img.
          if img_FS img = SquashFs then liftW (squashTree c img rootDir)
          else (let excludes = GetDefaultSystemRootedExcludes rootDir in
            thenIO (CreateFileSystemImage c rootDir preload excludes)
              (if \<not> preload then syncTree c rootDir excludes else retIO ()))))
       (\<lambda>e. liftW (runCleaners cleaners e None))"

text \<open>\<open>sync\<close> is the function that copies a directory: \<open>SyncData\<close> or \<open>MirrorData\<close>.\<close>

definition DumpSource ::
  "Config \<Rightarrow> string \<Rightarrow> (Config \<Rightarrow> string \<Rightarrow> string \<Rightarrow> string list \<Rightarrow> (world, unit) io) \<Rightarrow> bool \<Rightarrow>
     (ImageSource \<times> world, unit) io" where
  "DumpSource c target sync debug = bindIO getO (\<lambda>imgSrc.
     thenIO (liftW (MkdirAll target DirPerm))
     (if IsImage imgSrc then
        thenIO (whenIO (cfg_Cosign c)
          (bindIO (liftW (CosignVerify c (src_source imgSrc) (cfg_CosignPubKey c) debug)) (\<lambda>_. retIO ())))
        (bindIO (liftW (cfg_ExtractImage c (src_source imgSrc) target (Platform_String (cfg_Platform c))
            (cfg_LocalImage c) (cfg_Verify c)))
          (\<lambda>digest. modO (\<lambda>s. s\<lparr>src_digest := digest\<rparr>)))
      else if src_IsDir imgSrc then
        liftW (sync c (src_source imgSrc) target (GetDefaultSystemRootedExcludes (src_source imgSrc)))
      else if IsFile imgSrc then
        thenIO (liftW (MkdirAll ImgSrcDir DirPerm))
        (bindIO (liftW (withObj \<lparr>img_File = src_source imgSrc, img_Label = [], img_Size = 0, img_FS = [],
             img_Source = None, img_MountPoint = ImgSrcDir, img_LoopDevice = []\<rparr>
           (thenIO (MountFileSystemImage c [''auto'', ''ro''])
             (finallyIO (liftW (sync c ImgSrcDir target []))
               (\<lambda>_. thenIO (ignoreIO (UnmountFileSystemImage c)) (retIO None))))))
          (\<lambda>_. retIO ()))
      else failIO (Errorf ''unknown image source type'')))"

definition MirrorRoot :: "Config \<Rightarrow> string \<Rightarrow> bool \<Rightarrow> (ImageSource \<times> world, unit) io" where
  "MirrorRoot c target debug = thenIO (DumpSource c target MirrorData debug) (liftW (CreateDirStructure target))"

subsection \<open>The recovery system\<close>

definition copyArtifacts :: "string list \<Rightarrow> string \<Rightarrow> (world, unit) io" where
  "copyArtifacts fs outputDir = forIO fs (\<lambda>file.
     bindIO (okIO False (Exists file False)) (\<lambda>ok.
       if \<not> ok then retIO () else CopyFile file (Join [outputDir, Base file])))"

definition bootLinks :: "string \<Rightarrow> string \<Rightarrow> string \<Rightarrow> (world, unit) io" where
  "bootLinks kern initrd outputDir =
     forIO [(''vmlinuz'', kern), (''linux'', kern), (''initrd'', initrd)] (\<lambda>(name, target).
       if Base kern = name \<or> Base initrd = name then retIO ()
       else bindIO (okIO False (Exists (Join [outputDir, name]) True)) (\<lambda>ok.
         if ok then retIO () else fs_Symlink (Base target) (Join [outputDir, name])))"

text \<open>The tree the recovery image is made from and the operation that cleans it up.\<close>

definition recoveryTree ::
  "Config \<Rightarrow> bool \<Rightarrow> string \<Rightarrow> ImageSource \<Rightarrow> (world, string \<times> (world, unit) io option \<times> ImageSource) io" where
  "recoveryTree cfg debug transientTree src =
     (if src_IsDir src then retIO (src_source src, None, src)
      else if IsFile src then
        (let srcImg = \<lparr>img_File = src_source src, img_Label = [], img_Size = 0, img_FS = [],
              img_Source = None, img_MountPoint = transientTree, img_LoopDevice = []\<rparr> in
         bindIO (withObj srcImg (MountFileSystemImage cfg [])) (\<lambda>(_, srcImg').
           retIO (transientTree, Some (bindIO (withObj srcImg' (UnmountFileSystemImage cfg))
             (\<lambda>_. fs_RemoveAll transientTree)), src)))
      else if IsImage src then
        bindIO (withObj src (MirrorRoot cfg transientTree debug)) (\<lambda>(_, src').
          retIO (transientTree, Some (fs_RemoveAll transientTree), src'))
      else retIO (transientTree, None, src))"

definition DeployRecoverySystem :: "Config \<Rightarrow> bool \<Rightarrow> (Image \<times> world, unit) io" where
  "DeployRecoverySystem cfg debug = bindIO getO (\<lambda>img.
     let outputDir = Dir (img_File img) in
     thenIO (liftW (MkdirAll outputDir DirPerm))
     (bindIO (case img_Source img of None \<Rightarrow> failIO Panic | Some src \<Rightarrow>
        liftW (recoveryTree cfg debug (TrimSuffix (img_File img) (Ext (img_File img)) @ ''.imgTree'') src))
      (\<lambda>(tree, cleaner, src).
     thenIO (modO (\<lambda>i. i\<lparr>img_Source := Some src\<rparr>))
     (bindIO (liftW (FindKernelInitrd tree)) (\<lambda>(kern, initrd).
     thenIO (liftW (copyArtifacts [kern, initrd, Join [tree, GrubCfgPath, BootargsCfg]] outputDir))
     (thenIO (liftW (bootLinks kern initrd outputDir))
       (CreateImageFromTree cfg tree False [cleaner])))))))"

subsection \<open>The state of the running system\<close>

definition IsActiveMode :: "(world, bool) io" where
  "IsActiveMode = okIO False (Exists ActiveMode False)"

definition IsPassiveMode :: "(world, bool) io" where
  "IsPassiveMode = okIO False (Exists PassiveMode False)"

definition IsRecoveryMode :: "(world, bool) io" where
  "IsRecoveryMode = okIO False (Exists RecoveryMode False)"

definition CheckActiveDeployment :: "(world, bool) io" where
  "CheckActiveDeployment =
     bindIO IsActiveMode (\<lambda>a. if a then retIO True else
     bindIO IsPassiveMode (\<lambda>p. if p then retIO True else IsRecoveryMode))"

definition DeactivateDevices :: "Config \<Rightarrow> (world, unit) io" where
  "DeactivateDevices c =
     (if cfg_CommandExists c ''blkdeactivate'' then
        bindIO (RunE c ''blkdeactivate'' [''--lvmoptions'', ''retry,wholevg'', ''--dmoptions'', ''force,retry'', ''--errors''])
          (\<lambda>_. retIO ())
      else retIO ())"

subsection \<open>What is mounted afterwards\<close>

text \<open>
  The commands of the runner and the listing of block devices do not mount or unmount anything
  (the program mounts through the \<^verbatim>\<open>Mounter\<close> interface only).
\<close>

definition quiet :: "Config \<Rightarrow> bool" where
  "quiet c \<longleftrightarrow> (\<forall>cmd args w. sameMounts w (snd (cfg_Run c cmd args w))) \<and> keeps sameMounts (cfg_AllPartitions c)"

lemma keeps_Run [keeps_intros]: "quiet c \<Longrightarrow> keeps sameMounts (Run c cmd args)"
  unfolding quiet_def keeps_def
  by (auto simp: Run_def case_prod_unfold sameMounts_def)

lemma keeps_RunE [keeps_intros]: "quiet c \<Longrightarrow> keeps sameMounts (RunE c cmd args)"
  unfolding RunE_def
  by (intro mnts.keeps_bind keeps_Run) (auto split: prod.splits option.splits intro: mnts.keeps_ret mnts.keeps_fail)

lemma keeps_GetDevice: "quiet c \<Longrightarrow> keeps sameMounts (GetDeviceByLabel c label n)"
proof -
  assume q: "quiet c"
  have "keeps sameMounts (GetFullDeviceByLabel c label n)"
  proof (induction n)
    case (Suc n)
    from q have "keeps sameMounts (cfg_AllPartitions c)" by (simp add: quiet_def)
    with q Suc show ?case
      by (auto intro!: mnts.keeps_then mnts.keeps_ignore mnts.keeps_bind keeps_Run mnts.keeps_ret split: option.splits)
  qed (simp add: mnts.keeps_fail)
  then show ?thesis by (simp add: GetDeviceByLabel_def mnts.keeps_bind mnts.keeps_ret)
qed

text \<open>Mounting keeps what is mounted, and the mount points of the partitions.\<close>

definition moreMounts :: "Partition list \<times> world \<Rightarrow> Partition list \<times> world \<Rightarrow> bool" where
  "moreMounts s t \<longleftrightarrow> map p_MountPoint (fst t) = map p_MountPoint (fst s) \<and>
     (\<forall>p. mounted_at (snd s) p \<longrightarrow> mounted_at (snd t) p)"

interpretation mmnt: state_frame moreMounts
  by unfold_locales (auto simp: moreMounts_def)

lemma mounted_same: "sameMounts w w' \<Longrightarrow> mounted_at w' p = mounted_at w p"
  by (simp add: sameMounts_def mounted_at_def)

lemma Mount_mounted:
  assumes "mnt_Mount src target t opts w = (r, w')"
  shows "mounted_at w p \<Longrightarrow> mounted_at w' p" and "r = Inr u \<Longrightarrow> mounted_at w' (pathOf target)"
  using assms by (auto simp: mnt_Mount_def sysIO_def Let_def mounted_at_def split: if_splits)

lemma IsMounted_keeps: "keeps sameMounts (IsMounted po)"
proof -
  have "keeps sameMounts (mnt_IsLikelyNotMountPoint p)" for p
    unfolding mnt_IsLikelyNotMountPoint_def
    by (intro mnts.keeps_bind keeps_fs) (simp add: keeps_def mnts.refl)
  then show ?thesis unfolding IsMounted_def
    by (auto split: option.splits intro!: mnts.keeps_fail mnts.keeps_ret mnts.keeps_bind)
qed

lemma IsMounted_true: "IsMounted (Some part) w = (Inr True, w') \<Longrightarrow> mounted_at w' (pathOf (p_MountPoint part))"
  by (auto simp: IsMounted_def mnt_IsLikelyNotMountPoint_def returns_iff retIO_def split: if_splits)

lemma okIO_true: "okIO False m w = (r, w') \<Longrightarrow> r = Inr True \<Longrightarrow> m w = (Inr True, w')"
  by (auto simp: okIO_def split: prod.splits sum.splits)

lemma MountPartition_spec:
  assumes run: "MountPartition c opts (part, w) = (r, (part', w'))" and q: "quiet c"
  shows "p_MountPoint part' = p_MountPoint part" and "mounted_at w p \<Longrightarrow> mounted_at w' p"
    and "r = Inr () \<Longrightarrow> mounted_at w' (pathOf (p_MountPoint part))"
proof -
  obtain r1 w1 where mk: "MkdirAll (p_MountPoint part) DirPerm w = (r1, w1)" by fastforce
  have s1: "sameMounts w w1" using keepsD[OF keeps_fs(14) mk[unfolded MkdirAll_def]] .
  obtain r2 w2 where dv: "GetDeviceByLabel c (p_FilesystemLabel part) 10 w1 = (r2, w2)" by fastforce
  have s2: "sameMounts w1 w2" using keepsD[OF keeps_GetDevice[OF q] dv] .
  let ?mount = "\<lambda>path w3. mnt_Mount path (p_MountPoint part) ''auto'' opts w3 = (r, w')"
  have "p_MountPoint part' = p_MountPoint part \<and>
     ((\<exists>path w3. sameMounts w w3 \<and> ?mount path w3) \<or> (sameMounts w w' \<and> (\<exists>e. r = Inl e)))"
    using run mk dv s1 mnts.trans[OF s1 s2]
    by (cases r1; cases r2; cases "p_Path part = []")
      (auto simp: MountPartition_def objIO_bind thenIO_def bindIO_def liftW_def modO_def retIO_def getO_def
        split: prod.splits)
  then show "p_MountPoint part' = p_MountPoint part" and "mounted_at w p \<Longrightarrow> mounted_at w' p"
    and "r = Inr () \<Longrightarrow> mounted_at w' (pathOf (p_MountPoint part))"
    using Mount_mounted mounted_same by fastforce+
qed

lemma mountOne_spec:
  assumes run: "mountOne c fl (part, w) = (r, (part', w'))" and q: "quiet c"
  shows "p_MountPoint part' = p_MountPoint part" and "mounted_at w p \<Longrightarrow> mounted_at w' p"
    and "r = Inr () \<Longrightarrow> p_MountPoint part \<noteq> [] \<Longrightarrow> mounted_at w' (pathOf (p_MountPoint part))"
proof -
  obtain mr w1 where chk: "okIO False (IsMounted (Some part)) w = (mr, w1)" by fastforce
  have s1: "sameMounts w w1" using keepsD[OF mnts.keeps_ok[OF IsMounted_keeps] chk] .
  obtain b where b: "mr = Inr b" using chk by (auto simp: okIO_def split: prod.splits sum.splits)
  let ?fl = "if fl \<noteq> [] then fl else p_Flags part"
  have cases: "(part' = part \<and> w' = w \<and> p_MountPoint part = []) \<or> (part' = part \<and> w' = w1 \<and> b) \<or>
      (MountPartition c ?fl (part, w1) = (r, (part', w')) \<and> p_MountPoint part \<noteq> [])"
    using run chk b by (auto simp: mountOne_def objIO_bind liftW_bind retIO_def split: if_splits)
  have m1: "b \<Longrightarrow> mounted_at w1 (pathOf (p_MountPoint part))"
    using IsMounted_true okIO_true[OF chk] b by simp
  show "p_MountPoint part' = p_MountPoint part" "mounted_at w p \<Longrightarrow> mounted_at w' p"
    "r = Inr () \<Longrightarrow> p_MountPoint part \<noteq> [] \<Longrightarrow> mounted_at w' (pathOf (p_MountPoint part))"
    using cases MountPartition_spec[OF _ q] m1 mounted_same[OF s1] by metis+
qed

lemma atIdx_mountOne:
  assumes "quiet c"
  shows "keeps moreMounts (atIdx i (mountOne c fl))"
proof (rule keepsI)
  fix s r t
  assume run: "atIdx i (mountOne c fl) s = (r, t)"
  obtain ps w where s: "s = (ps, w)" by fastforce
  obtain r1 o1 w1 where one: "mountOne c fl (ps ! i, w) = (r1, (o1, w1))" by (metis prod_cases3)
  have "map p_MountPoint (ps[i := o1]) = map p_MountPoint ps"
    using mountOne_spec(1)[OF one assms] 
    by (cases "i < length ps") (simp_all add: map_update list_update_same_conv list_update_beyond)
  then show "moreMounts s t"
    using run one s mountOne_spec(2)[OF one assms] by (auto simp: atIdx_def moreMounts_def)
qed

lemma mountLoop_mounts:
  assumes "quiet c"
  shows "forIO is (\<lambda>i. atIdx i (mountOne c fl)) (ps, w) = (Inr (), (ps', w')) \<Longrightarrow>
    \<forall>i \<in> set is. i < length ps \<longrightarrow> p_MountPoint (ps ! i) \<noteq> [] \<longrightarrow> mounted_at w' (pathOf (p_MountPoint (ps ! i)))"
proof (induction "is" arbitrary: ps w)
  case (Cons i "is")
  then obtain ps1 w1 where one: "atIdx i (mountOne c fl) (ps, w) = (Inr (), (ps1, w1))"
    and rest: "forIO is (\<lambda>i. atIdx i (mountOne c fl)) (ps1, w1) = (Inr (), (ps', w'))"
    by (auto simp: returns_iff)
  have m1: "moreMounts (ps, w) (ps1, w1)" using keepsD[OF atIdx_mountOne[OF assms] one] .
  have mp: "map p_MountPoint ps1 = map p_MountPoint ps" using m1 by (simp add: moreMounts_def)
  then have eq: "length ps1 = length ps" "j < length ps \<Longrightarrow> p_MountPoint (ps1 ! j) = p_MountPoint (ps ! j)" for j
    by (metis length_map, metis length_map nth_map)
  have "moreMounts (ps1, w1) (ps', w')"
    using keepsD[OF mmnt.keeps_for[of "is" "\<lambda>i. atIdx i (mountOne c fl)"] rest] atIdx_mountOne[OF assms] by simp
  moreover obtain o1 where "mountOne c fl (ps ! i, w) = (Inr (), (o1, w1))"
    using one by (auto simp: atIdx_def split: prod.splits)
  ultimately have "p_MountPoint (ps ! i) \<noteq> [] \<Longrightarrow> mounted_at w' (pathOf (p_MountPoint (ps ! i)))"
    using mountOne_spec(3)[OF _ assms] by (auto simp: moreMounts_def)
  with Cons.IH[OF rest] eq show ?case by auto
qed simp

text \<open>
  Property C23. When \<open>MountPartitions\<close> succeeds, every partition of the list that has a mount point is
  mounted, whatever calls failed on the way, and everything mounted before still is.
\<close>

theorem MountPartitions_all:
  assumes q: "quiet c" and run: "MountPartitions c fl (parts, w) = (Inr (), (parts', w'))"
  shows "(\<forall>part \<in> set parts. p_MountPoint part \<noteq> [] \<longrightarrow> mounted_at w' (pathOf (p_MountPoint part))) \<and>
    (\<forall>p. mounted_at w p \<longrightarrow> mounted_at w' p)"
proof -
  have loop: "forIO [0..<length parts] (\<lambda>i. atIdx i (mountOne c fl)) (parts, w) = (Inr (), (parts', w'))"
    using run by (auto simp: MountPartitions_def objIO_bind elim!: onErrorIO_cases)
  have "moreMounts (parts, w) (parts', w')"
    using keepsD[OF mmnt.keeps_for loop] atIdx_mountOne[OF q] by simp
  then show ?thesis
    using mountLoop_mounts[OF q loop] by (auto simp: in_set_conv_nth moreMounts_def)
qed

definition demoMountPart :: Partition where
  "demoMountPart = \<lparr>p_ref = 1, p_Name = ''state'', p_FilesystemLabel = ''COS_STATE'', p_Size = 0, p_FS = ''ext4'',
     p_Flags = [], p_MountPoint = ''/s'', p_Path = ''/dev/sda2'', p_Disk = ''/dev/sda''\<rparr>"

theorem MountPartitions_all_witness:
  "\<exists>parts' w'. MountPartitions demoConfig [''ro''] ([demoMountPart], demoWorld) = (Inr (), (parts', w')) \<and>
     mounted_at w' (pathOf ''/s'')"
proof -
  obtain r parts' w' where run: "MountPartitions demoConfig [''ro''] ([demoMountPart], demoWorld) = (r, (parts', w'))"
    by (metis prod_cases3)
  have "fst (MountPartitions demoConfig [''ro''] ([demoMountPart], demoWorld)) = Inr ()" by code_simp
  with run have r: "r = Inr ()" by simp
  have "quiet demoConfig" by (simp add: quiet_def demoConfig_def sameMounts_def mnts.keeps_ret)
  from MountPartitions_all[OF this run[unfolded r]] show ?thesis using run r by (simp add: demoMountPart_def)
qed

end
