(* ===== verification/Loop_Device.thy ===== *)
theory Loop_Device
  imports Elemental_Ops
begin

section \<open>The loop device snapshotter (pkg/snapshotter/loopdevice.go)\<close>

text \<open>
  Snapshots are directories with numeric names below \<^verbatim>\<open>.snapshots\<close>, each with an image file; the
  link \<^verbatim>\<open>active\<close> points to the image to boot. A transaction makes a new directory, lets the
  caller fill a work directory, turns it into an image and moves the link. The methods work on the \<open>LoopDevice\<close>
  object and the world. The bootloader is an interface: only its \<open>SetPersistentVariables\<close> is called, a function field.
\<close>

record Snapshot =
  sn_ID :: int
  sn_MountPoint :: string
  sn_Path :: string
  sn_WorkDir :: string
  sn_Label :: string
  sn_InProgress :: bool

definition loopDeviceSnapsPath :: string where "loopDeviceSnapsPath = ''.snapshots''"
definition loopDeviceImgName :: string where "loopDeviceImgName = ''snapshot.img''"
definition loopDeviceWorkDir :: string where "loopDeviceWorkDir = ''snapshot.workDir''"
definition ActiveSnapshot :: string where "ActiveSnapshot = ''active''"
definition LegacyImagesPath :: string where "LegacyImagesPath = ''cOS''"
definition LegacyPassivePath :: string where "LegacyPassivePath = ''cOS/passive.img''"
definition LegacyActivePath :: string where "LegacyActivePath = ''cOS/active.img''"
definition GrubOEMEnv :: string where "GrubOEMEnv = ''grub_oem_env''"
definition GrubFallback :: string where "GrubFallback = ''default_fallback''"
definition GrubPassiveSnapshots :: string where "GrubPassiveSnapshots = ''passive_snaps''"

record LoopDevice =
  l_cfg :: Config
  l_snapshotterCfg :: SnapshotterConfig
  l_loopDevCfg :: LoopDeviceConfig
  l_rootDir :: string
  l_efiDir :: string
  l_currentSnapshotID :: int
  l_activeSnapshotID :: int
  l_SetPersistentVariables :: "string \<Rightarrow> (string \<times> string) list \<Rightarrow> (world, unit) io"
  l_legacyClean :: bool

definition newLoopDeviceSnapshotter ::
  "Config \<Rightarrow> SnapshotterConfig \<Rightarrow> (string \<Rightarrow> (string \<times> string) list \<Rightarrow> (world, unit) io) \<Rightarrow> err + LoopDevice" where
  "newLoopDeviceSnapshotter cfg snapCfg setVars =
     (if sc_Type snapCfg \<noteq> LoopDeviceSnapshotterType then Inl (Errorf ''invalid snapshotter type'')
      else (case (case sc_Config snapCfg of NilConf \<Rightarrow> Some NewLoopDeviceConfig | LoopConf lc \<Rightarrow> Some lc | _ \<Rightarrow> None) of
              None \<Rightarrow> Inl (Errorf ''failed casting LoopDeviceConfig type'')
            | Some lc \<Rightarrow> Inr \<lparr>l_cfg = cfg, l_snapshotterCfg = snapCfg, l_loopDevCfg = lc, l_rootDir = [],
                 l_efiDir = [], l_currentSnapshotID = 0, l_activeSnapshotID = 0,
                 l_SetPersistentVariables = setVars, l_legacyClean = False\<rparr>))"

subsection \<open>Looking at the snapshots\<close>

definition snapsPath :: "LoopDevice \<Rightarrow> string" where
  "snapsPath l = Join [l_rootDir l, loopDeviceSnapsPath]"

definition snapDir :: "LoopDevice \<Rightarrow> int \<Rightarrow> string" where
  "snapDir l sid = Join [l_rootDir l, loopDeviceSnapsPath, Itoa sid]"

definition activePath :: "LoopDevice \<Rightarrow> string" where
  "activePath l = Join [l_rootDir l, loopDeviceSnapsPath, ActiveSnapshot]"

definition idsOf :: "string list \<Rightarrow> int list" where
  "idsOf names = List.map_filter (\<lambda>n. if all_digits n then (case Atoi n of Inr sid \<Rightarrow> Some sid | Inl _ \<Rightarrow> None) else None) names"

definition GetSnapshots :: "LoopDevice \<Rightarrow> (world, int list) io" where
  "GetSnapshots l =
     bindIO (okIO False (Exists (snapsPath l) False)) (\<lambda>ok.
       if ok then bindIO (fs_ReadDir (snapsPath l)) (\<lambda>dirs. retIO (idsOf (map fst dirs)))
       else failIO (Errorf ''cannot determine snapshots, initate snapshotter first''))"

definition inUseIn :: "string \<Rightarrow> int \<Rightarrow> bool" where
  "inUseIn backedFiles sid = list_ex (\<lambda>backedFile.
     HasSuffix backedFile (Join [loopDeviceSnapsPath, Itoa sid, loopDeviceImgName])) (ScanLines (TrimSpace backedFiles))"

definition isSnapshotInUse :: "LoopDevice \<Rightarrow> int \<Rightarrow> (world, bool) io" where
  "isSnapshotInUse l sid = bindIO (RunE (l_cfg l) ''losetup'' [''-ln'', ''--output'', ''BACK-FILE''])
     (\<lambda>backedFiles. retIO (inUseIn backedFiles sid))"

definition getActiveSnapshot :: "LoopDevice \<Rightarrow> (world, int) io" where
  "getActiveSnapshot l =
     bindIO (Exists (activePath l) True) (\<lambda>ok.
       if \<not> ok then retIO 0
       else bindIO (ResolveLink (activePath l) (l_rootDir l) MaxLinkDepth) (\<lambda>resolved.
         sumIO (Atoi (Base (Dir resolved)))))"

text \<open>The loop keeps the largest id and remembers the snapshot in use as the current one.\<close>

fun nextIDLoop :: "int list \<Rightarrow> int \<Rightarrow> (LoopDevice \<times> world, int) io" where
  "nextIDLoop [] sid = retIO (wrap_int (sid + 1))"
| "nextIDLoop (i # ids) sid = bindIO getO (\<lambda>l.
     bindIO (liftW (isSnapshotInUse l i)) (\<lambda>inUse.
     thenIO (whenIO inUse (modO (\<lambda>l. l\<lparr>l_currentSnapshotID := i\<rparr>)))
       (nextIDLoop ids (if i > sid then i else sid))))"

definition getNextSnapshotID :: "(LoopDevice \<times> world, int) io" where
  "getNextSnapshotID = bindIO getO (\<lambda>l. bindIO (liftW (GetSnapshots l)) (\<lambda>ids. nextIDLoop ids 0))"

definition getPassiveSnapshots :: "LoopDevice \<Rightarrow> (world, int list) io" where
  "getPassiveSnapshots l =
     bindIO (GetSnapshots l) (\<lambda>allIDs.
     bindIO (getActiveSnapshot l) (\<lambda>activeID. retIO (filter (\<lambda>sid. sid \<noteq> activeID) allIDs)))"

subsection \<open>Deleting\<close>

definition DeleteSnapshot :: "LoopDevice \<Rightarrow> int \<Rightarrow> (world, unit) io" where
  "DeleteSnapshot l sid =
     bindIO (isSnapshotInUse l sid) (\<lambda>inUse.
       if inUse then failIO (Errorf ''cannot delete a snapshot that is currently in use'')
       else bindIO (GetSnapshots l) (\<lambda>snaps.
         if sid \<notin> set snaps then retIO ()
         else thenIO (whenIO (l_activeSnapshotID l = sid) (fs_Remove (activePath l)))
           (fs_RemoveAll (snapDir l sid))))"

fun cleanLoop :: "LoopDevice \<Rightarrow> int list \<Rightarrow> err option \<Rightarrow> (world, err option) io" where
  "cleanLoop l [] errs = retIO errs"
| "cleanLoop l (sid # ids) errs =
     (if int (length (sid # ids)) > wrap_int (sc_MaxSnaps (l_snapshotterCfg l) - 1) then
        bindIO (tryIO (DeleteSnapshot l sid)) (\<lambda>e.
          cleanLoop l ids (case e of None \<Rightarrow> errs | Some e' \<Rightarrow> Some (multierror_Append errs e')))
      else retIO errs)"

definition cleanOldSnapshots :: "LoopDevice \<Rightarrow> (world, unit) io" where
  "cleanOldSnapshots l =
     bindIO (getPassiveSnapshots l) (\<lambda>ids. bindIO (cleanLoop l (sort ids) None) raiseIO)"

definition setBootloader :: "LoopDevice \<Rightarrow> (world, unit) io" where
  "setBootloader l =
     bindIO (getPassiveSnapshots l) (\<lambda>ids.
       let passives = map Itoa (rev ids);
           fallbacks = map (\<lambda>i. Itoa (int i)) [0..<length ids + 2]
       in l_SetPersistentVariables l (Join [l_efiDir l, GrubOEMEnv])
            [(GrubFallback, strings_Join fallbacks '' ''), (GrubPassiveSnapshots, strings_Join passives '' '')])"

definition cleanLegacyImages :: "LoopDevice \<Rightarrow> (world, unit) io" where
  "cleanLegacyImages l =
     (if l_legacyClean l then
        bindIO IsPassiveMode (\<lambda>passive.
        bindIO (if passive then retIO False
                else if l_currentSnapshotID l > 0 then retIO True else IsRecoveryMode) (\<lambda>both.
        let path = Join [l_rootDir l, if passive then LegacyActivePath
                         else if both then LegacyImagesPath else LegacyPassivePath] in
        bindIO (okIO False (Exists path False)) (\<lambda>ok. if ok then fs_RemoveAll path else retIO ())))
      else retIO ())"

subsection \<open>Transactions\<close>

definition legacyImageToSnapsot :: "string \<Rightarrow> (LoopDevice \<times> world, unit) io" where
  "legacyImageToSnapsot img =
     bindIO (liftW (okIO False (Exists img False))) (\<lambda>ok.
       if ok then bindIO getNextSnapshotID (\<lambda>sid.
         if sid > 1 then retIO ()
         else bindIO getO (\<lambda>l.
           thenIO (liftW (MkdirAll (snapDir l sid) DirPerm))
             (liftW (fs_Link img (Join [snapDir l sid, loopDeviceImgName])))))
       else retIO ())"

definition InitSnapshotter :: "Partition \<Rightarrow> string \<Rightarrow> (LoopDevice \<times> world, unit) io" where
  "InitSnapshotter state efiDir =
     thenIO (modO (\<lambda>l. l\<lparr>l_rootDir := p_MountPoint state, l_efiDir := efiDir\<rparr>))
     (bindIO getO (\<lambda>l.
      bindIO (liftW (okIO False (Exists (Join [l_rootDir l, LegacyImagesPath]) False))) (\<lambda>legacy.
      thenIO (if legacy then
                thenIO (modO (\<lambda>l. l\<lparr>l_legacyClean := True\<rparr>))
                (bindIO (liftW (okIO False (IsRWMountPoint (l_cfg l) (l_rootDir l)))) (\<lambda>ok.
                   if ok then retIO ()
                   else liftW (mnt_Mount [] (l_rootDir l) ''auto'' [''remount'', ''rw''])))
              else retIO ())
      (thenIO (liftW (MkdirAll (snapsPath l) DirPerm))
      (bindIO getO (\<lambda>l.
        if l_legacyClean l then
          bindIO (liftW IsPassiveMode) (\<lambda>passive.
            legacyImageToSnapsot (Join [l_rootDir l, if passive then LegacyPassivePath else LegacyActivePath]))
        else retIO ()))))))"

definition StartTransaction :: "(LoopDevice \<times> world, Snapshot) io" where
  "StartTransaction =
     bindIO getNextSnapshotID (\<lambda>nextID.
     bindIO getO (\<lambda>l.
     bindIO (liftW (getActiveSnapshot l)) (\<lambda>active.
     thenIO (modO (\<lambda>l. l\<lparr>l_activeSnapshotID := active\<rparr>))
     (let snapPath = snapDir l nextID; workDir = Join [snapPath, loopDeviceWorkDir];
          undo = ignoreIO (fs_RemoveAll snapPath) in
      thenIO (liftW (onErrorIO (MkdirAll snapPath DirPerm) undo))
      (thenIO (liftW (onErrorIO (MkdirAll workDir DirPerm) undo))
      (thenIO (liftW (onErrorIO (MkdirAll WorkingImgDir DirPerm) undo))
      (thenIO (liftW (onErrorIO (mnt_Mount workDir WorkingImgDir ''bind'' [''bind''])
                (thenIO undo (ignoreIO (fs_RemoveAll WorkingImgDir)))))
        (retIO \<lparr>sn_ID = nextID, sn_MountPoint = WorkingImgDir, sn_Path = Join [snapPath, loopDeviceImgName],
                sn_WorkDir = workDir, sn_Label = ''EL_SNAP'' @ Itoa nextID, sn_InProgress = True\<rparr>))))))))"

definition CloseTransactionOnError :: "LoopDevice \<Rightarrow> Snapshot option \<Rightarrow> (world, unit) io" where
  "CloseTransactionOnError l so = (case so of
     None \<Rightarrow> retIO ()
   | Some snapshot \<Rightarrow>
       bindIO (if sn_InProgress snapshot then tryIO (mnt_Unmount (sn_MountPoint snapshot)) else retIO None) (\<lambda>e1.
       bindIO (tryIO (fs_RemoveAll (Dir (sn_Path snapshot)))) (\<lambda>e2.
       bindIO (if l_legacyClean l then tryIO (fs_RemoveAll (snapsPath l)) else retIO None) (\<lambda>e3.
         raiseIO (case e1 of Some e \<Rightarrow> Some e | None \<Rightarrow> (case e2 of Some e \<Rightarrow> Some e | None \<Rightarrow> e3))))))"

definition snapshotToImage :: "LoopDevice \<Rightarrow> Snapshot \<Rightarrow> Image" where
  "snapshotToImage l snapshot = \<lparr>img_File = sn_Path snapshot, img_Label = sn_Label snapshot,
     img_Size = ld_Size (l_loopDevCfg l), img_FS = ld_FS (l_loopDevCfg l), img_Source = None,
     img_MountPoint = sn_MountPoint snapshot, img_LoopDevice = []\<rparr>"

definition linkDst :: "int \<Rightarrow> string" where
  "linkDst sid = Itoa sid @ ''/'' @ loopDeviceImgName"

text \<open>The link moves: the old one goes, and the previous target comes back if the new link fails.\<close>

definition moveActive :: "LoopDevice \<Rightarrow> Snapshot \<Rightarrow> (world, unit) io" where
  "moveActive l snapshot =
     thenIO (ignoreIO (fs_Remove (activePath l)))
       (onErrorIO (fs_Symlink (linkDst (sn_ID snapshot)) (activePath l))
         (ignoreIO (fs_Symlink (linkDst (l_activeSnapshotID l)) (activePath l))))"

definition afterClose :: "LoopDevice \<Rightarrow> (world, unit) io" where
  "afterClose l = thenIO (ignoreIO (cleanOldSnapshots l))
     (thenIO (ignoreIO (setBootloader l)) (ignoreIO (cleanLegacyImages l)))"

definition CloseTransaction :: "LoopDevice \<Rightarrow> (Snapshot \<times> world, unit) io" where
  "CloseTransaction l = bindIO getO (\<lambda>snapshot.
     thenIO (liftW (onErrorIO
       (if \<not> sn_InProgress snapshot then failIO (Errorf ''given snapshot is not in progress'')
        else thenIO (mnt_Unmount (sn_MountPoint snapshot))
          (bindIO (withObj (snapshotToImage l snapshot) (CreateImageFromTree (l_cfg l) (sn_WorkDir snapshot) False [])) (\<lambda>_.
           thenIO (fs_RemoveAll (sn_WorkDir snapshot))
           (thenIO (moveActive l snapshot) (afterClose l)))))
       (CloseTransactionOnError l (Some snapshot))))
     (modO (\<lambda>sn. sn\<lparr>sn_InProgress := False\<rparr>)))"

definition SnapshotToImageSource :: "Snapshot \<Rightarrow> (world, ImageSource) io" where
  "SnapshotToImageSource snap =
     bindIO (Exists (sn_Path snap) False) (\<lambda>ok.
       if ok then retIO (NewFileSrc (sn_Path snap)) else failIO (Errorf ''snapshot path does not exist''))"

subsection \<open>Positions\<close>

definition snapsPos :: "LoopDevice \<Rightarrow> string list" where
  "snapsPos l = pathOf (l_rootDir l) @ [loopDeviceSnapsPath]"

definition activePos :: "LoopDevice \<Rightarrow> string list" where
  "activePos l = snapsPos l @ [ActiveSnapshot]"

lemma names_plain: "plain loopDeviceSnapsPath" "plain ActiveSnapshot" "plain loopDeviceWorkDir" "plain loopDeviceImgName"
  "plain LegacyImagesPath"
  by (simp_all add: plain_def loopDeviceSnapsPath_def ActiveSnapshot_def loopDeviceWorkDir_def loopDeviceImgName_def
      LegacyImagesPath_def)

lemma active_not_digits: "\<not> all_digits ActiveSnapshot"
  by (simp add: all_digits_def ActiveSnapshot_def is_digit_def)

lemma positions:
  assumes "IsAbs (l_rootDir l)"
  shows "pathOf (snapsPath l) = snapsPos l" and "pathOf (activePath l) = activePos l"
    and "0 \<le> sid \<Longrightarrow> pathOf (snapDir l sid) = snapsPos l @ [Itoa sid]" and "IsAbs (snapDir l sid)"
  using assms names_plain Itoa_plain
  by (simp_all add: snapsPath_def snapDir_def activePath_def snapsPos_def activePos_def pathOf_Join_plain IsAbs_Join)

lemma resolve_dir: "is_dir_at w p \<Longrightarrow> resolve w p = Some p"
  unfolding resolve_def follow.simps(2) is_dir_at_def by (simp split: option.splits node.splits)

subsection \<open>The ids on disk\<close>

text \<open>The snapshots as a set: the numeric names below \<^verbatim>\<open>.snapshots\<close>.\<close>

definition snapIds :: "LoopDevice \<Rightarrow> world \<Rightarrow> int set" where
  "snapIds l w = {i. \<exists>c n. fs_lookup w (snapsPos l @ [c]) = Some n \<and> all_digits c \<and> Atoi c = Inr i}"

lemma set_idsOf: "set (idsOf names) = {i. \<exists>c \<in> set names. all_digits c \<and> Atoi c = Inr i}"
  by (induction names) (auto simp: idsOf_def split: sum.splits)

lemma set_ids_children: "set (idsOf (children w (snapsPos l))) = snapIds l w"
  by (auto simp: set_idsOf set_children snapIds_def)

lemma GetSnapshots_returns:
  assumes "GetSnapshots l w = (Inr ids, w')" and "IsAbs (l_rootDir l)" and "is_dir_at w (snapsPos l)"
  shows "ids = idsOf (children w (snapsPos l))" and "sameFiles w w'"
proof -
  have ex: "keeps sameFiles (okIO False (Exists (snapsPath l) False))"
    by (intro fls.keeps_ok Exists_sameFiles)
  from assms(1) obtain w1 dirs where w1: "okIO False (Exists (snapsPath l) False) w = (Inr True, w1)"
    and rd: "fs_ReadDir (snapsPath l) w1 = (Inr dirs, w')" and ids: "ids = idsOf (map fst dirs)"
    by (auto simp: GetSnapshots_def returns_iff retIO_def failIO_def split: if_splits)
  have s1: "sameFiles w w1" using keepsD[OF ex w1] .
  have s2: "sameFiles w1 w'" using keepsD[OF sameFiles_reads(4) rd] .
  have eq: "is_dir_at v p = is_dir_at w p" "children v p = children w p" "fs_lookup v p = fs_lookup w p"
    if "sameFiles w v" for v p
    using that by (simp_all add: sameFiles_def is_dir_at_def fs_lookup_def children_def)
  have res: "resolve (w1\<lparr>ticks := t\<rparr>) (snapsPos l) = Some (snapsPos l)" for t
    using assms(3) eq(1)[OF s1] by (intro resolve_dir) (simp add: is_dir_at_def)
  have "dirs = entries (w1\<lparr>ticks := Suc (ticks w1)\<rparr>) (snapsPos l)"
    using rd assms(2) res by (auto simp: fs_ReadDir_def positions sysIO_def Let_def split: if_splits option.splits node.splits)
  then have "map fst dirs = children w (snapsPos l)" by (simp add: entries_names eq(2)[OF s1])
  then show "ids = idsOf (children w (snapsPos l))" using ids by simp
  show "sameFiles w w'" using fls.trans[OF s1 s2] .
qed

subsection \<open>New ids are fresh\<close>

lemma nextIDLoop_max:
  "nextIDLoop ids m (l, w) = (Inr n, (l', w')) \<Longrightarrow> n = wrap_int (fold max ids m + 1) \<and>
     l_rootDir l' = l_rootDir l \<and> l_cfg l' = l_cfg l"
proof (induction ids arbitrary: m l w)
  case Nil
  then show ?case by (simp add: retIO_def)
next
  case (Cons i ids)
  have "(if i > m then i else m) = max i m" by simp
  with Cons show ?case
    by (fastforce simp: objIO_bind liftW_bind whenIO_def thenIO_def[of "retIO ()"] bindIO_retIO split: prod.splits sum.splits if_splits)
qed

lemma fold_max_upper: "m \<le> fold max ids (m :: int)" "i \<in> set ids \<Longrightarrow> i \<le> fold max ids (m :: int)"
proof -
  have up: "m \<le> fold max xs m" for xs and m :: int
  proof (induction xs arbitrary: m)
    case (Cons x xs)
    from Cons[of "max x m"] show ?case by simp
  qed simp
  then show "m \<le> fold max ids m" .
  show "i \<in> set ids \<Longrightarrow> i \<le> fold max ids m"
  proof (induction ids arbitrary: m)
    case (Cons x xs)
    with up[of "max x m" xs] show ?case by auto
  qed simp
qed

lemma fresh_name:
  assumes "\<forall>i \<in> set (idsOf names). i < n" and "0 \<le> n" and "int_range n"
  shows "Itoa n \<notin> set names"
proof
  assume "Itoa n \<in> set names"
  then have "n \<in> set (idsOf names)"
    using assms(2,3) Itoa_nonneg_digits Atoi_Itoa by (auto simp: set_idsOf intro!: bexI[of _ "Itoa n"])
  then show False using assms(1) by blast
qed

lemma getNextSnapshotID_fresh:
  assumes run: "getNextSnapshotID (l, w) = (Inr n, (l', w'))"
    and root: "IsAbs (l_rootDir l)" and dir: "is_dir_at w (snapsPos l)" and small: "\<forall>i \<in> snapIds l w. i < max_int"
  shows "\<forall>i \<in> snapIds l w. i < n" and "0 < n" and "fs_lookup w (snapsPos l @ [Itoa n]) = None"
    and "l_rootDir l' = l_rootDir l" and "l_cfg l' = l_cfg l"
proof -
  from run obtain ids w1 where gs: "GetSnapshots l w = (Inr ids, w1)"
    and loop: "nextIDLoop ids 0 (l, w1) = (Inr n, (l', w'))"
    by (auto simp: getNextSnapshotID_def objIO_bind liftW_bind split: prod.splits sum.splits)
  note ids = GetSnapshots_returns(1)[OF gs root dir]
  have set_ids: "set ids = snapIds l w" by (simp add: ids set_ids_children)
  have "fold max ids 0 < max_int \<and> 0 \<le> fold max ids (0 :: int)"
  proof -
    have "\<forall>i \<in> set xs. i < max_int \<Longrightarrow> m < max_int \<Longrightarrow> fold max xs m < max_int" for xs m
      by (induction xs arbitrary: m) auto
    then show ?thesis using small set_ids fold_max_upper(1)[of 0 ids] by (auto simp: max_int_def)
  qed
  then have rng: "int_range (fold max ids 0 + 1)" by (simp add: int_range_def min_int_def max_int_def)
  note n = nextIDLoop_max[OF loop]
  then have n': "n = fold max ids 0 + 1" using wrap_int_id[OF rng] by simp
  show *: "\<forall>i \<in> snapIds l w. i < n" using fold_max_upper(2)[of _ ids 0] set_ids n' by (auto simp: zle_add1_eq_le)
  show "0 < n" using fold_max_upper(1)[of 0 ids] n' by simp
  then have "Itoa n \<notin> set (children w (snapsPos l))"
    using fresh_name[of "children w (snapsPos l)" n] * rng n' by (simp add: set_ids_children)
  then show "fs_lookup w (snapsPos l @ [Itoa n]) = None" by (auto simp: set_children)
  show "l_rootDir l' = l_rootDir l" "l_cfg l' = l_cfg l" using n by simp_all
qed

subsection \<open>Transactions add, deletions remove\<close>

text \<open>
  Documented behaviour of \<^verbatim>\<open>losetup -l\<close>: it lists the backing files, here \<open>out\<close>, and changes nothing.
\<close>

definition losetupLists :: "Config \<Rightarrow> string \<Rightarrow> bool" where
  "losetupLists cfg out \<longleftrightarrow> (\<forall>w. cfg_Run cfg ''losetup'' [''-ln'', ''--output'', ''BACK-FILE''] w = ((None, out), w))"

definition losetupLogged :: "world \<Rightarrow> world" where
  "losetupLogged w = w\<lparr>cmds := cmds w @ [(''losetup'', [''-ln'', ''--output'', ''BACK-FILE''])]\<rparr>"

lemma inUse_lists: "losetupLists (l_cfg l) out \<Longrightarrow> isSnapshotInUse l sid w = (Inr (inUseIn out sid), losetupLogged w)"
  by (simp add: isSnapshotInUse_def RunE_def Run_def losetupLists_def bindIO_def retIO_def losetupLogged_def)

lemma losetupLogged_files [simp]:
  "fs_lookup (losetupLogged w) p = fs_lookup w p" "children (losetupLogged w) p = children w p"
  "files (losetupLogged w) = files w" "is_dir_at (losetupLogged w) p = is_dir_at w p"
  "snapIds l (losetupLogged w) = snapIds l w" "faults (losetupLogged w) = faults w" "ticks (losetupLogged w) = ticks w"
  by (simp_all add: losetupLogged_def is_dir_at_def snapIds_def)

lemma nextIDLoop_files:
  assumes "losetupLists cfg out"
  shows "l_cfg l = cfg \<Longrightarrow> nextIDLoop ids m (l, w) = (r, (l', w')) \<Longrightarrow> sameFiles w w'"
proof (induction ids arbitrary: m l w)
  case (Cons i ids)
  from Cons.prems have "nextIDLoop ids (if i > m then i else m)
      (if inUseIn out i then l\<lparr>l_currentSnapshotID := i\<rparr> else l, losetupLogged w) = (r, (l', w'))"
    using inUse_lists[of l out] assms
    by (auto simp: objIO_bind liftW_bind whenIO_def thenIO_def[of "retIO ()"] bindIO_retIO
        split: if_splits)
  from Cons.IH[OF _ this] Cons.prems(1) show ?case by (auto simp: sameFiles_def)
qed (simp add: retIO_def fls.refl)

lemma getNext_files:
  assumes "losetupLists (l_cfg l) out" "getNextSnapshotID (l, w) = (Inr n, (l', w'))"
    "IsAbs (l_rootDir l)" "is_dir_at w (snapsPos l)"
  shows "sameFiles w w'"
proof -
  from assms(2) obtain ids w1 where gs: "GetSnapshots l w = (Inr ids, w1)"
    and loop: "nextIDLoop ids 0 (l, w1) = (Inr n, (l', w'))"
    by (auto simp: getNextSnapshotID_def objIO_bind liftW_bind split: prod.splits sum.splits)
  from GetSnapshots_returns(2)[OF gs assms(3,4)] nextIDLoop_files[OF assms(1) refl loop]
  show ?thesis by (rule fls.trans)
qed

lemma getActive_files: "keeps sameFiles (getActiveSnapshot l)"
  unfolding getActiveSnapshot_def
  by (intro fls.keeps_bind Exists_sameFiles)
    (auto intro!: fls.keeps_ret fls.keeps_bind ResolveLink_sameFiles fls.keeps_sum)

lemma Mount_files: "mnt_Mount s t ty os w = (r, w') \<Longrightarrow> sameFiles w w'"
  by (auto simp: mnt_Mount_def sysIO_def Let_def sameFiles_def split: if_splits)

lemma onErrorIO_Inr_iff: "onErrorIO m c s = (Inr x, t) \<longleftrightarrow> m s = (Inr x, t)"
  by (auto simp: onErrorIO_def split: prod.splits sum.splits)

text \<open>
  Property C5. A transaction never reuses or changes a snapshot: the id of the new snapshot is
  larger than all ids on disk, its directory did not exist, the work directory has been created, and every file
  that was there before is unchanged.
\<close>

theorem StartTransaction_fresh:
  assumes run: "StartTransaction (l, w) = (Inr sn, (l', w'))"
    and root: "IsAbs (l_rootDir l)" and dir: "is_dir_at w (snapsPos l)"
    and small: "\<forall>i \<in> snapIds l w. i < max_int" and ls: "losetupLists (l_cfg l) out"
  shows "(\<forall>i \<in> snapIds l w. i < sn_ID sn) \<and> fs_lookup w (snapsPos l @ [Itoa (sn_ID sn)]) = None \<and>
    is_dir_at w' (snapsPos l @ [Itoa (sn_ID sn), loopDeviceWorkDir]) \<and> moreFiles w w' \<and> sn_InProgress sn"
proof -
  from run obtain n l1 w1 a w2 w3 w4 w5 where next1: "getNextSnapshotID (l, w) = (Inr n, (l1, w1))"
    and act: "getActiveSnapshot l1 w1 = (Inr a, w2)"
    and mk1: "MkdirAll (snapDir l1 n) DirPerm w2 = (Inr (), w3)"
    and mk2: "MkdirAll (Join [snapDir l1 n, loopDeviceWorkDir]) DirPerm w3 = (Inr (), w4)"
    and mk3: "MkdirAll WorkingImgDir DirPerm w4 = (Inr (), w5)"
    and mnt: "mnt_Mount (Join [snapDir l1 n, loopDeviceWorkDir]) WorkingImgDir ''bind'' [''bind''] w5 = (Inr (), w')"
    and sn: "sn_ID sn = n" "sn_InProgress sn"
    by (auto simp: StartTransaction_def returns_iff getO_def modO_def liftW_iff Let_def onErrorIO_Inr_iff retIO_def)
  note fr = getNextSnapshotID_fresh[OF next1 root dir small]
  have "pathOf (Join [snapDir l1 n, loopDeviceWorkDir]) = snapsPos l @ [Itoa n, loopDeviceWorkDir]"
    using positions(3,4)[of l1 n] root fr(2,4) names_plain(3)
    by (simp add: pathOf_Join_plain snapsPos_def)
  then have "is_dir_at w4 (snapsPos l @ [Itoa n, loopDeviceWorkDir])" using MkdirAll_more(2)[OF mk2] by simp
  moreover have m45: "moreFiles w4 w'"
    using MkdirAll_more(1)[OF mk3] sameFiles_more[OF Mount_files[OF mnt]] by (rule mfl.trans)
  moreover have "moreFiles w w4"
    using sameFiles_more[OF getNext_files[OF ls next1 root dir]] sameFiles_more[OF keepsD[OF getActive_files act]]
      MkdirAll_more(1)[OF mk1] MkdirAll_more(1)[OF mk2] by (meson mfl.trans)
  ultimately show ?thesis using fr(1,3) sn is_dir_more mfl.trans by blast
qed

definition snapWorld :: world where
  "snapWorld = demoWorld\<lparr>files := [([''s''], NDir 493), ([''s'', ''.snapshots''], NDir 493),
     ([''s'', ''.snapshots'', ''1''], NDir 493), ([''s'', ''.snapshots'', ''1'', ''snapshot.img''], NFile 420 ''a''),
     ([''s'', ''.snapshots'', ''2''], NDir 493), ([''s'', ''.snapshots'', ''2'', ''snapshot.img''], NFile 420 ''b''),
     ([''s'', ''.snapshots'', ''active''], NLink ''2/snapshot.img'')]\<rparr>"

definition demoLoop :: LoopDevice where
  "demoLoop = \<lparr>l_cfg = demoConfig, l_snapshotterCfg = NewLoopDevice, l_loopDevCfg = NewLoopDeviceConfig,
     l_rootDir = ''/s'', l_efiDir = ''/efi'', l_currentSnapshotID = 0, l_activeSnapshotID = 2,
     l_SetPersistentVariables = (\<lambda>_ _. retIO ()), l_legacyClean = False\<rparr>"

lemma demoLoop_pos: "snapsPos demoLoop = [''s'', ''.snapshots'']" "IsAbs (l_rootDir demoLoop)"
  "losetupLists (l_cfg demoLoop) []" "is_dir_at snapWorld (snapsPos demoLoop)"
proof -
  show "snapsPos demoLoop = [''s'', ''.snapshots'']" by code_simp
  then show "is_dir_at snapWorld (snapsPos demoLoop)" by (simp add: is_dir_at_def snapWorld_def fs_lookup_def)
  show "IsAbs (l_rootDir demoLoop)" by (simp add: demoLoop_def IsAbs_def)
  show "losetupLists (l_cfg demoLoop) []" by (simp add: demoLoop_def losetupLists_def demoConfig_def)
qed

lemma demo_snapIds: "snapIds demoLoop snapWorld = {1, 2}"
proof -
  have "set (idsOf (children snapWorld [''s'', ''.snapshots''])) = {1, 2}" by code_simp
  then show ?thesis using set_ids_children[of snapWorld demoLoop] by (simp add: demoLoop_pos(1))
qed

theorem StartTransaction_fresh_witness:
  "\<exists>sn l' w'. StartTransaction (demoLoop, snapWorld) = (Inr sn, (l', w')) \<and> 2 < sn_ID sn \<and>
     moreFiles snapWorld w'"
proof -
  obtain r l' w' where run: "StartTransaction (demoLoop, snapWorld) = (r, (l', w'))" by (metis prod_cases3)
  have "\<not> isl (fst (StartTransaction (demoLoop, snapWorld)))" by code_simp
  with run obtain sn where r: "r = Inr sn" by (cases r) auto
  have "\<forall>i \<in> snapIds demoLoop snapWorld. i < max_int" by (simp add: demo_snapIds max_int_def)
  from StartTransaction_fresh[OF run[unfolded r] demoLoop_pos(2,4) this demoLoop_pos(3)]
  show ?thesis using run r by (auto simp: demo_snapIds)
qed

subsection \<open>Deleting removes one snapshot\<close>

lemma Remove_effect:
  assumes "fs_Remove p w = (r, w')"
  shows "(r = Inr () \<and> (\<forall>q. fs_lookup w' q = (if q \<noteq> [] \<and> is_below (pathOf p) q then None else fs_lookup w q))) \<or>
    ((\<exists>e. r = Inl e) \<and> (\<forall>q. fs_lookup w' q = fs_lookup w q))"
  using assms by (auto simp: fs_Remove_def sysIO_def Let_def fs_lookup_del split: if_splits option.splits node.splits)

lemma RemoveAll_effect:
  assumes "fs_RemoveAll p w = (r, w')" "p \<noteq> []"
  shows "(r = Inr () \<and> (\<forall>q. fs_lookup w' q = (if q \<noteq> [] \<and> is_below (pathOf p) q then None else fs_lookup w q))) \<or>
    ((\<exists>e. r = Inl e) \<and> (\<forall>q. fs_lookup w' q = fs_lookup w q))"
  using assms by (auto simp: fs_RemoveAll_def sysIO_def Let_def fs_lookup_del split: if_splits)

lemma snapIds_nonneg: "i \<in> snapIds l w \<Longrightarrow> 0 \<le> i"
  by (auto simp: snapIds_def Atoi_digits split: if_splits)

text \<open>\<open>gone l sid\<close>: the positions a deletion may clear.\<close>

definition gone :: "LoopDevice \<Rightarrow> int \<Rightarrow> string list \<Rightarrow> bool" where
  "gone l sid q \<longleftrightarrow> is_below (snapsPos l @ [Itoa sid]) q \<or> (l_activeSnapshotID l = sid \<and> is_below (activePos l) q)"

lemma DeleteSnapshot_effect:
  assumes run: "DeleteSnapshot l sid w = (r, w')" and root: "IsAbs (l_rootDir l)"
    and dir: "is_dir_at w (snapsPos l)" and ls: "losetupLists (l_cfg l) out"
  shows "inUseIn out sid \<Longrightarrow> (\<exists>e. r = Inl e) \<and> sameFiles w w'"
    and "r = Inr () \<Longrightarrow> fs_lookup w' q =
       (if sid \<in> snapIds l w \<and> q \<noteq> [] \<and> gone l sid q then None else fs_lookup w q)"
    and "\<not> gone l sid q \<Longrightarrow> fs_lookup w' q = fs_lookup w q"
proof -
  let ?w = "losetupLogged w"
  note use = inUse_lists[OF ls, of sid w]
  show "inUseIn out sid \<Longrightarrow> (\<exists>e. r = Inl e) \<and> sameFiles w w'"
    using run use by (auto simp: DeleteSnapshot_def bindIO_def failIO_def sameFiles_def)
  have "(\<not> gone l sid q \<longrightarrow> fs_lookup w' q = fs_lookup w q) \<and> (r = Inr () \<longrightarrow> fs_lookup w' q =
       (if sid \<in> snapIds l w \<and> q \<noteq> [] \<and> gone l sid q then None else fs_lookup w q))"
  proof (cases "inUseIn out sid")
    case True
    then show ?thesis using run use by (auto simp: DeleteSnapshot_def bindIO_def failIO_def)
  next
    case False
    obtain gr w1 where gs: "GetSnapshots l ?w = (gr, w1)" by fastforce
    have gsame: "keeps sameFiles (GetSnapshots l)"
      unfolding GetSnapshots_def by (intro fls.keeps_bind fls.keeps_ok Exists_sameFiles)
        (auto intro!: fls.keeps_bind sameFiles_reads fls.keeps_ret fls.keeps_fail)
    have s1: "fs_lookup w1 p = fs_lookup w p" for p
      using lookup_sameFiles[OF keepsD[OF gsame gs]] by simp
    show ?thesis
    proof (cases gr)
      case (Inl e)
      then show ?thesis using run use False gs s1 by (auto simp: DeleteSnapshot_def bindIO_def)
    next
      case (Inr snaps)
      with gs have snaps: "set snaps = snapIds l w"
        using GetSnapshots_returns(1)[of l ?w snaps w1] root dir set_ids_children[of w l] by auto
      show ?thesis
      proof (cases "sid \<in> set snaps")
        case no: False
        then show ?thesis using run use False gs Inr s1 snaps by (auto simp: DeleteSnapshot_def bindIO_def retIO_def)
      next
        case yes: True
        then have sid: "0 \<le> sid" using snaps snapIds_nonneg by blast
        let ?rm = "whenIO (l_activeSnapshotID l = sid) (fs_Remove (activePath l))"
        obtain r2 w2 where rm: "?rm w1 = (r2, w2)" by fastforce
        have ne: "snapDir l sid \<noteq> []" using positions(4)[OF root] by (auto simp: IsAbs_def)
        have rest: "thenIO ?rm (fs_RemoveAll (snapDir l sid)) w1 = (r, w')"
          using run use False gs Inr yes by (simp add: DeleteSnapshot_def bindIO_def)
        have e2: "(r2 = Inr () \<and> fs_lookup w2 q = (if q \<noteq> [] \<and> l_activeSnapshotID l = sid \<and> is_below (activePos l) q
              then None else fs_lookup w q)) \<or> ((\<exists>e. r2 = Inl e) \<and> fs_lookup w2 q = fs_lookup w q)"
          using rm Remove_effect[of "activePath l" w1 r2 w2] s1 positions(2)[OF root]
          by (auto simp: whenIO_def retIO_def split: if_splits)
        show ?thesis
          using rest rm e2 RemoveAll_effect[OF _ ne, of w2 r w'] positions(3)[OF root sid] yes snaps
          by (cases r2) (auto simp: thenIO_def bindIO_def gone_def)
      qed
    qed
  qed
  then show "r = Inr () \<Longrightarrow> fs_lookup w' q =
       (if sid \<in> snapIds l w \<and> q \<noteq> [] \<and> gone l sid q then None else fs_lookup w q)"
    and "\<not> gone l sid q \<Longrightarrow> fs_lookup w' q = fs_lookup w q" by auto
qed

text \<open>Directory names as the program makes them: without leading zeros.\<close>

definition canonical :: "LoopDevice \<Rightarrow> world \<Rightarrow> bool" where
  "canonical l w \<longleftrightarrow> (\<forall>c n. fs_lookup w (snapsPos l @ [c]) = Some n \<longrightarrow> all_digits c \<longrightarrow>
     (\<exists>i \<ge> 0. int_range i \<and> c = Itoa i))"

lemma gone_snap:
  assumes "all_digits c"
  shows "gone l sid (snapsPos l @ [c]) \<longleftrightarrow> c = Itoa sid"
proof -
  have "\<not> is_below (activePos l) (snapsPos l @ [c])"
    using assms active_not_digits by (auto simp: is_below_def activePos_def)
  then show ?thesis by (auto simp: gone_def is_below_def)
qed

lemma not_gone_dir: "\<not> gone l sid (snapsPos l)"
  by (simp add: gone_def is_below_def activePos_def)

lemma DeleteSnapshot_ids:
  assumes run: "DeleteSnapshot l sid w = (Inr (), w')" and root: "IsAbs (l_rootDir l)"
    and dir: "is_dir_at w (snapsPos l)" and ls: "losetupLists (l_cfg l) out" and can: "canonical l w"
  shows "snapIds l w' = snapIds l w - {sid}" and "canonical l w'" and "is_dir_at w' (snapsPos l)"
proof -
  note eff = DeleteSnapshot_effect[OF run root dir ls]
  have look: "fs_lookup w' (snapsPos l @ [c]) =
      (if sid \<in> snapIds l w \<and> c = Itoa sid then None else fs_lookup w (snapsPos l @ [c]))" if "all_digits c" for c
    using eff(2)[OF refl] gone_snap[OF that] by simp
  then have look': "fs_lookup w' (snapsPos l @ [c]) = Some n \<and> all_digits c \<longleftrightarrow>
      fs_lookup w (snapsPos l @ [c]) = Some n \<and> all_digits c \<and> \<not> (sid \<in> snapIds l w \<and> c = Itoa sid)" for c n
    using option.distinct(1) by (cases "all_digits c") (auto split: if_splits)
  show "canonical l w'" using can look unfolding canonical_def by (metis option.distinct(1))
  show "is_dir_at w' (snapsPos l)" using dir eff(3)[OF not_gone_dir] by (simp add: is_dir_at_def)
  have canon: "fs_lookup w (snapsPos l @ [c]) = Some n \<Longrightarrow> all_digits c \<Longrightarrow> Atoi c = Inr i \<Longrightarrow> c = Itoa i" for c n i
    using can Atoi_Itoa unfolding canonical_def by (metis sum.inject(2))
  show "snapIds l w' = snapIds l w - {sid}"
  proof (rule set_eqI)
    fix i
    have "i \<in> snapIds l w' \<longleftrightarrow> (\<exists>c n. fs_lookup w (snapsPos l @ [c]) = Some n \<and> all_digits c \<and> Atoi c = Inr i \<and>
        \<not> (sid \<in> snapIds l w \<and> c = Itoa sid))"
      unfolding snapIds_def[of l w'] mem_Collect_eq using look' by blast
    also have "\<dots> \<longleftrightarrow> i \<in> snapIds l w - {sid}"
    proof
      assume "\<exists>c n. fs_lookup w (snapsPos l @ [c]) = Some n \<and> all_digits c \<and> Atoi c = Inr i \<and>
        \<not> (sid \<in> snapIds l w \<and> c = Itoa sid)"
      then show "i \<in> snapIds l w - {sid}" using canon unfolding snapIds_def by blast
    next
      assume i: "i \<in> snapIds l w - {sid}"
      then obtain c n where c: "fs_lookup w (snapsPos l @ [c]) = Some n" "all_digits c" "Atoi c = Inr i"
        by (auto simp: snapIds_def)
      with i canon have "c = Itoa i" by blast
      then have "\<not> (sid \<in> snapIds l w \<and> c = Itoa sid)"
        using i snapIds_nonneg Itoa_inj by (metis Diff_iff singletonI)
      with c show "\<exists>c n. fs_lookup w (snapsPos l @ [c]) = Some n \<and> all_digits c \<and> Atoi c = Inr i \<and>
        \<not> (sid \<in> snapIds l w \<and> c = Itoa sid)" by blast
    qed
    finally show "i \<in> snapIds l w' \<longleftrightarrow> i \<in> snapIds l w - {sid}" .
  qed
qed

text \<open>
  Property C6. Deleting a snapshot touches nothing else: a snapshot in use is refused and every
  file stays; otherwise only the directory of that snapshot (and the active link, when it is the snapshot
  recorded as active) can disappear, even if a call fails half way; and after a successful deletion exactly that
  id is gone from the list.
\<close>

theorem DeleteSnapshot_safe:
  assumes run: "DeleteSnapshot l sid w = (r, w')" and root: "IsAbs (l_rootDir l)"
    and dir: "is_dir_at w (snapsPos l)" and ls: "losetupLists (l_cfg l) out" and can: "canonical l w"
  shows "(inUseIn out sid \<longrightarrow> (\<exists>e. r = Inl e) \<and> files w' = files w) \<and>
    (\<forall>q. \<not> gone l sid q \<longrightarrow> fs_lookup w' q = fs_lookup w q) \<and>
    (r = Inr () \<longrightarrow> snapIds l w' = snapIds l w - {sid})"
  using DeleteSnapshot_effect[OF run root dir ls] DeleteSnapshot_ids[OF _ root dir ls can] run
  by (auto simp: sameFiles_def)

lemma demo_canonical: "canonical demoLoop snapWorld"
proof -
  have "c = Itoa 1 \<or> c = Itoa 2" if "fs_lookup snapWorld [''s'', ''.snapshots'', c] = Some n" "all_digits c" for c n
  proof -
    have "Itoa 1 = ''1''" "Itoa 2 = ''2''" by code_simp+
    then show ?thesis using that active_not_digits
      by (auto simp: fs_lookup_def snapWorld_def ActiveSnapshot_def split: if_splits)
  qed
  moreover have int12: "0 \<le> (1 :: int) \<and> int_range 1" "0 \<le> (2 :: int) \<and> int_range 2"
    by (simp_all add: int_range_def min_int_def max_int_def)
  ultimately show ?thesis
    unfolding canonical_def demoLoop_pos(1) using int12 by (metis append_Cons append_Nil)
qed

theorem DeleteSnapshot_safe_witness:
  "\<exists>w'. DeleteSnapshot demoLoop 1 snapWorld = (Inr (), w') \<and> snapIds demoLoop w' = {2} \<and>
     fs_lookup w' [''s'', ''.snapshots'', ''2'', ''snapshot.img''] = Some (NFile 420 ''b'')"
proof -
  obtain r w' where run: "DeleteSnapshot demoLoop 1 snapWorld = (r, w')" by fastforce
  have "fst (DeleteSnapshot demoLoop 1 snapWorld) = Inr ()" by code_simp
  with run have r: "r = Inr ()" by simp
  note safe = DeleteSnapshot_safe[OF run demoLoop_pos(2,4,3) demo_canonical]
  have "\<not> gone demoLoop 1 [''s'', ''.snapshots'', ''2'', ''snapshot.img'']"
    by code_simp
  moreover have "fs_lookup snapWorld [''s'', ''.snapshots'', ''2'', ''snapshot.img''] = Some (NFile 420 ''b'')"
    by code_simp
  ultimately show ?thesis using safe run r by (auto simp: demo_snapIds)
qed

subsection \<open>Old snapshots\<close>

lemma cleanLoop_errs: "cleanLoop l ids (Some e) w = (r, w') \<Longrightarrow> \<exists>e'. r = Inr (Some e')"
  by (induction ids arbitrary: e w)
    (auto simp: retIO_def bindIO_def tryIO_def split: if_splits prod.splits sum.splits)

lemma cleanLoop_ids:
  assumes root: "IsAbs (l_rootDir l)" and ls: "losetupLists (l_cfg l) out"
    and k: "wrap_int (sc_MaxSnaps (l_snapshotterCfg l) - 1) = int k"
  shows "cleanLoop l ids None w = (Inr None, w') \<Longrightarrow> is_dir_at w (snapsPos l) \<Longrightarrow> canonical l w \<Longrightarrow>
    snapIds l w' = snapIds l w - set (take (length ids - k) ids)"
proof (induction ids arbitrary: w)
  case Nil
  then show ?case by (simp add: retIO_def)
next
  case (Cons i ids)
  show ?case
  proof (cases "length (i # ids) > k")
    case False
    then show ?thesis using Cons.prems k by (simp add: retIO_def split: if_splits)
  next
    case True
    obtain r w1 where del: "DeleteSnapshot l i w = (r, w1)" by fastforce
    show ?thesis
    proof (cases r)
      case (Inl e)
      then have "cleanLoop l ids (Some (multierror_Append None e)) w1 = (Inr None, w')"
        using Cons.prems(1) True k del by (simp add: bindIO_def tryIO_def split: if_splits)
      then show ?thesis using cleanLoop_errs by fastforce
    next
      case (Inr u)
      then have loop: "cleanLoop l ids None w1 = (Inr None, w')"
        using Cons.prems(1) True k del by (simp add: bindIO_def tryIO_def split: if_splits)
      note del' = DeleteSnapshot_ids[OF _ root Cons.prems(2) ls Cons.prems(3), of i w1]
      have "length (i # ids) - k = Suc (length ids - k)" using True by simp
      then show ?thesis using Cons.IH[OF loop] del' del Inr by auto
    qed
  qed
qed

lemma canonical_ids_distinct:
  assumes "canonical l w"
  shows "distinct (idsOf (children w (snapsPos l)))"
proof -
  have inj: "distinct names \<Longrightarrow> \<forall>c \<in> set names. all_digits c \<longrightarrow> (\<exists>i \<ge> 0. int_range i \<and> c = Itoa i) \<Longrightarrow> distinct (idsOf names)" for names
  proof (induction names)
    case (Cons c names)
    show ?case
    proof (cases "all_digits c")
      case False
      with Cons show ?thesis by (simp add: idsOf_def)
    next
      case True
      with Cons.prems(2) obtain i where i: "0 \<le> i" "int_range i" "c = Itoa i" by auto
      have "i \<notin> set (idsOf names)"
      proof
        assume "i \<in> set (idsOf names)"
        then obtain d where d: "d \<in> set names" "all_digits d" "Atoi d = Inr i" by (auto simp: set_idsOf)
        with Cons.prems(2) obtain j where "d = Itoa j" "int_range j" by auto
        with d i Cons.prems(1) show False by (simp add: Atoi_Itoa)
      qed
      with Cons True i show ?thesis by (simp add: idsOf_def Atoi_Itoa)
    qed
  qed (simp add: idsOf_def)
  show ?thesis
    using inj children_distinct_sorted[of w "snapsPos l"] assms by (auto simp: set_children canonical_def)
qed

lemma finite_snapIds: "finite (snapIds l w)"
  by (simp flip: set_ids_children)

lemma sort_distinct_set: "distinct xs \<Longrightarrow> sort xs = sorted_list_of_set (set xs)"
  by (simp add: sorted_list_of_set_sort_remdups distinct_remdups_id)

text \<open>What a clean-up without errors has done: it listed the snapshots, read the link and deleted the oldest passive ones.\<close>

lemma cleanOld_runs:
  assumes run: "cleanOldSnapshots l w = (Inr (), w')" and root: "IsAbs (l_rootDir l)"
    and dir: "is_dir_at w (snapsPos l)" and can: "canonical l w"
  obtains a v v' where "sameFiles w v" "getActiveSnapshot l v = (Inr a, v')" "sameFiles w v'"
    "cleanLoop l (sorted_list_of_set (snapIds l w - {a})) None v' = (Inr None, w')"
proof -
  from run obtain ids v a v' where gs: "GetSnapshots l w = (Inr ids, v)"
    and act: "getActiveSnapshot l v = (Inr a, v')"
    and loop: "cleanLoop l (sort (filter (\<lambda>i. i \<noteq> a) ids)) None v' = (Inr None, w')"
    by (auto simp: cleanOldSnapshots_def getPassiveSnapshots_def returns_iff retIO_def raiseIO_def failIO_def
        split: option.splits)
  note g = GetSnapshots_returns[OF gs root dir]
  have same: "sameFiles w v'" using fls.trans[OF g(2) keepsD[OF getActive_files act]] .
  have "distinct ids" using g(1) canonical_ids_distinct[OF can] by simp
  then have "sort (filter (\<lambda>i. i \<noteq> a) ids) = sorted_list_of_set (snapIds l w - {a})"
    using sort_distinct_set[of "filter (\<lambda>i. i \<noteq> a) ids"] set_ids_children[of w l] g(1)
    by (simp add: set_diff_eq)
  then show ?thesis using that[OF g(2) act same] loop by simp
qed

lemma sameFiles_ids:
  assumes "sameFiles w v"
  shows "is_dir_at v p = is_dir_at w p" "snapIds l v = snapIds l w" "canonical l v = canonical l w"
  using lookup_sameFiles[OF assms] by (simp_all add: is_dir_at_def snapIds_def canonical_def)

text \<open>
  Property C7. A clean-up of old snapshots without errors keeps the active snapshot and, of the others,
  exactly the newest \<open>MaxSnaps - 1\<close>: there are at most \<open>MaxSnaps\<close> snapshots afterwards.
\<close>

theorem cleanOldSnapshots_newest:
  assumes run: "cleanOldSnapshots l w = (Inr (), w')" and root: "IsAbs (l_rootDir l)"
    and dir: "is_dir_at w (snapsPos l)" and ls: "losetupLists (l_cfg l) out" and can: "canonical l w"
    and mx: "1 \<le> sc_MaxSnaps (l_snapshotterCfg l)" "sc_MaxSnaps (l_snapshotterCfg l) \<le> max_int"
  shows "\<exists>a v v'. sameFiles w v \<and> getActiveSnapshot l v = (Inr a, v') \<and>
     (let passive = sorted_list_of_set (snapIds l w - {a});
          k = nat (sc_MaxSnaps (l_snapshotterCfg l) - 1)
      in snapIds l w' = (snapIds l w \<inter> {a}) \<union> set (drop (length passive - k) passive)) \<and>
     int (card (snapIds l w')) \<le> sc_MaxSnaps (l_snapshotterCfg l)"
proof -
  let ?M = "sc_MaxSnaps (l_snapshotterCfg l)"
  obtain a v v' where v: "sameFiles w v" and act: "getActiveSnapshot l v = (Inr a, v')" and same: "sameFiles w v'"
    and loop: "cleanLoop l (sorted_list_of_set (snapIds l w - {a})) None v' = (Inr None, w')"
    by (rule cleanOld_runs[OF run root dir can])
  note same' = sameFiles_ids[OF same]
  define P where "P = sorted_list_of_set (snapIds l w - {a})"
  define k where "k = nat (?M - 1)"
  have "wrap_int (?M - 1) = int k"
    using mx wrap_int_id[of "?M - 1"] by (simp add: k_def int_range_def min_int_def max_int_def)
  from cleanLoop_ids[OF root ls this loop[folded P_def]] same' dir can
  have ids: "snapIds l w' = snapIds l w - set (take (length P - k) P)" by simp
  have fin: "finite (snapIds l w - {a})" using finite_snapIds by simp
  have setP: "set P = snapIds l w - {a}" "distinct P" using fin by (simp_all add: P_def)
  have "set (take (length P - k) P) \<inter> set (drop (length P - k) P) = {}"
    using set_take_disj_set_drop_if_distinct[OF setP(2)] by blast
  moreover have "set (take (length P - k) P) \<union> set (drop (length P - k) P) = set P"
    by (metis append_take_drop_id set_append)
  ultimately have ids': "snapIds l w' = (snapIds l w \<inter> {a}) \<union> set (drop (length P - k) P)"
    using ids setP(1) by blast
  have "card (snapIds l w') \<le> card (snapIds l w \<inter> {a}) + card (set (drop (length P - k) P))"
    unfolding ids' by (rule card_Un_le)
  also have "\<dots> \<le> 1 + k"
  proof (intro add_mono)
    show "card (snapIds l w \<inter> {a}) \<le> 1" by (metis card_mono card.empty card_insert_disjoint One_nat_def empty_iff finite.intros Int_lower2)
    show "card (set (drop (length P - k) P)) \<le> k"
      using card_length[of "drop (length P - k) P"] by simp
  qed
  finally have "int (card (snapIds l w')) \<le> ?M" using mx(1) by (simp add: k_def)
  then show ?thesis using v act ids' unfolding P_def k_def Let_def by blast
qed

definition oneSnap :: LoopDevice where
  "oneSnap = demoLoop\<lparr>l_snapshotterCfg := NewLoopDevice\<lparr>sc_MaxSnaps := 1\<rparr>\<rparr>"

theorem cleanOldSnapshots_newest_witness:
  "\<exists>w'. cleanOldSnapshots oneSnap snapWorld = (Inr (), w') \<and> card (snapIds oneSnap w') \<le> 1"
proof -
  obtain r w' where run: "cleanOldSnapshots oneSnap snapWorld = (r, w')" by fastforce
  have "fst (cleanOldSnapshots oneSnap snapWorld) = Inr ()" by code_simp
  with run have r: "r = Inr ()" by simp
  have pos: "snapsPos oneSnap = snapsPos demoLoop" by (simp add: snapsPos_def oneSnap_def)
  have "IsAbs (l_rootDir oneSnap)" "losetupLists (l_cfg oneSnap) []" "is_dir_at snapWorld (snapsPos oneSnap)"
    "canonical oneSnap snapWorld" "sc_MaxSnaps (l_snapshotterCfg oneSnap) = 1"
    using demoLoop_pos demo_canonical pos by (simp_all add: oneSnap_def canonical_def)
  with cleanOldSnapshots_newest[OF run[unfolded r], of "[]"] run r show ?thesis by (auto simp: max_int_def)
qed

subsection \<open>Closing a transaction\<close>

text \<open>The frame of what runs after the link has moved: the link stays where it is.\<close>

definition linkFrame :: "LoopDevice \<Rightarrow> world \<Rightarrow> world \<Rightarrow> bool" where
  "linkFrame l s t \<longleftrightarrow> (is_dir_at s (snapsPos l) \<longrightarrow>
     is_dir_at t (snapsPos l) \<and> fs_lookup t (activePos l) = fs_lookup s (activePos l))"

interpretation lnk: state_frame "linkFrame l" for l
  by unfold_locales (auto simp: linkFrame_def)

text \<open>The bootloader writes its variables outside of the snapshots.\<close>

definition outside :: "LoopDevice \<Rightarrow> world \<Rightarrow> world \<Rightarrow> bool" where
  "outside l s t \<longleftrightarrow> (\<forall>q. is_below (snapsPos l) q \<longrightarrow> fs_lookup t q = fs_lookup s q)"

lemma outside_link: "outside l s t \<Longrightarrow> linkFrame l s t"
  by (simp add: outside_def linkFrame_def is_dir_at_def activePos_def)

lemma keeps_mono: "keeps R m \<Longrightarrow> (\<And>s t. R s t \<Longrightarrow> S s t) \<Longrightarrow> keeps S m"
  by (simp add: keeps_def)

lemma sameFiles_link: "keeps sameFiles m \<Longrightarrow> keeps (linkFrame l) m"
  by (erule keeps_mono) (simp add: linkFrame_def is_dir_at_def lookup_sameFiles)

lemma GetSnapshots_sameFiles: "keeps sameFiles (GetSnapshots l)"
  unfolding GetSnapshots_def by (intro fls.keeps_bind fls.keeps_ok Exists_sameFiles)
    (auto intro!: fls.keeps_bind sameFiles_reads fls.keeps_ret fls.keeps_fail)

lemma getPassive_sameFiles: "keeps sameFiles (getPassiveSnapshots l)"
  unfolding getPassiveSnapshots_def
  by (intro fls.keeps_bind GetSnapshots_sameFiles getActive_files fls.keeps_ret)

lemma DeleteSnapshot_link:
  assumes root: "IsAbs (l_rootDir l)" and ls: "losetupLists (l_cfg l) out"
    and use: "inUseIn out (l_activeSnapshotID l)"
  shows "keeps (linkFrame l) (DeleteSnapshot l sid)"
proof (rule keepsI)
  fix s r t
  assume run: "DeleteSnapshot l sid s = (r, t)"
  show "linkFrame l s t"
  proof (cases "is_dir_at s (snapsPos l)")
    case dir: True
    note eff = DeleteSnapshot_effect[OF run root dir ls]
    show ?thesis
    proof (cases "sid = l_activeSnapshotID l")
      case True
      with eff(1) use have "sameFiles s t" by simp
      then show ?thesis by (simp add: linkFrame_def is_dir_at_def lookup_sameFiles)
    next
      case other: False
      have below: "is_below (snapsPos l @ [Itoa sid]) (activePos l) \<longleftrightarrow> Itoa sid = ActiveSnapshot"
        by (auto simp: is_below_def activePos_def)
      have "Itoa sid \<noteq> ActiveSnapshot"
      proof (cases "0 \<le> sid")
        case True
        then show ?thesis using Itoa_nonneg_digits active_not_digits by metis
      qed (simp add: Itoa_def ActiveSnapshot_def)
      then have "\<not> gone l sid (activePos l)" using other below by (simp add: gone_def)
      then show ?thesis using eff(3) not_gone_dir dir by (simp add: linkFrame_def is_dir_at_def)
    qed
  qed (simp add: linkFrame_def)
qed

lemma cleanOld_link:
  assumes "IsAbs (l_rootDir l)" "losetupLists (l_cfg l) out" "inUseIn out (l_activeSnapshotID l)"
  shows "keeps (linkFrame l) (cleanOldSnapshots l)"
proof -
  have "keeps (linkFrame l) (cleanLoop l ids errs)" for ids errs
    by (induction ids arbitrary: errs)
      (auto intro!: lnk.keeps_ret lnk.keeps_bind lnk.keeps_try DeleteSnapshot_link[OF assms])
  then show ?thesis unfolding cleanOldSnapshots_def
    by (intro lnk.keeps_bind sameFiles_link[OF getPassive_sameFiles] lnk.keeps_raise)
qed

lemma cleanLegacy_link:
  assumes root: "IsAbs (l_rootDir l)"
  shows "keeps (linkFrame l) (cleanLegacyImages l)"
proof -
  have paths: "pathOf (Join [l_rootDir l, LegacyActivePath]) = pathOf (l_rootDir l) @ [''cOS'', ''active.img'']"
    "pathOf (Join [l_rootDir l, LegacyPassivePath]) = pathOf (l_rootDir l) @ [''cOS'', ''passive.img'']"
    "pathOf (Join [l_rootDir l, LegacyImagesPath]) = pathOf (l_rootDir l) @ [''cOS'']"
    using root by (simp_all add: pathOf_Join LegacyActivePath_def LegacyPassivePath_def LegacyImagesPath_def clean_step_def)
  have rm: "keeps (linkFrame l) (fs_RemoveAll p)" if "\<exists>c. pathOf p = pathOf (l_rootDir l) @ ''cOS'' # c" for p
  proof (rule keepsI)
    fix s r t
    assume run: "fs_RemoveAll p s = (r, t)"
    from that have nb: "\<not> is_below (pathOf p) (snapsPos l)" "\<not> is_below (pathOf p) (activePos l)"
      by (auto simp: is_below_def snapsPos_def activePos_def loopDeviceSnapsPath_def)
    have "p \<noteq> []" using that by (auto simp: pathOf_def clean_comps_def clean_step_def)
    from RemoveAll_effect[OF run this] nb show "linkFrame l s t" by (auto simp: linkFrame_def is_dir_at_def)
  qed
  have "keeps (linkFrame l) (if ok then fs_RemoveAll (Join [l_rootDir l, if a then LegacyActivePath
      else if b then LegacyImagesPath else LegacyPassivePath]) else retIO ())" for ok a b
    using rm paths lnk.keeps_ret by auto
  then show ?thesis unfolding cleanLegacyImages_def IsPassiveMode_def IsRecoveryMode_def Let_def
    by (auto intro!: lnk.keeps_bind lnk.keeps_ret sameFiles_link[OF fls.keeps_ok[OF Exists_sameFiles]])
qed

lemma afterClose_link:
  assumes "IsAbs (l_rootDir l)" "losetupLists (l_cfg l) out" "inUseIn out (l_activeSnapshotID l)"
    and boot: "\<And>f vs. keeps (outside l) (l_SetPersistentVariables l f vs)"
  shows "keeps (linkFrame l) (afterClose l)"
proof -
  have "keeps (linkFrame l) (setBootloader l)"
    unfolding setBootloader_def Let_def
    by (intro lnk.keeps_bind sameFiles_link[OF getPassive_sameFiles] keeps_mono[OF boot] outside_link)
  then show ?thesis unfolding afterClose_def
    by (intro lnk.keeps_then lnk.keeps_ignore cleanOld_link[OF assms(1-3)] cleanLegacy_link[OF assms(1)])
qed

lemma moveActive_sets:
  assumes "moveActive l sn w = (Inr (), w')" and root: "IsAbs (l_rootDir l)"
  shows "is_dir_at w' (snapsPos l)" and "fs_lookup w' (activePos l) = Some (NLink (linkDst (sn_ID sn)))"
proof -
  from assms(1) obtain w1 where "fs_Symlink (linkDst (sn_ID sn)) (activePath l) w1 = (Inr (), w')"
    by (auto simp: moveActive_def returns_iff onErrorIO_Inr_iff)
  then have "is_dir_at w1 (snapsPos l) \<and> (\<exists>t. w' = fs_set (activePos l) (NLink (linkDst (sn_ID sn))) (w1\<lparr>ticks := t\<rparr>))"
    using positions(2)[OF root]
    by (auto simp: fs_Symlink_def sysIO_def Let_def activePos_def is_dir_at_def split: if_splits)
  then show "is_dir_at w' (snapsPos l)" "fs_lookup w' (activePos l) = Some (NLink (linkDst (sn_ID sn)))"
    by (auto simp: is_dir_at_def fs_lookup_set activePos_def)
qed

text \<open>
  Property C1. A transaction that closes successfully while the system runs from the snapshot that was
  active at its start leaves the active link on the new snapshot, whatever happens in the clean-up steps that
  follow, and marks the snapshot as no longer in progress.
\<close>

theorem CloseTransaction_active:
  assumes run: "CloseTransaction l (sn, w) = (Inr (), (sn', w'))" and root: "IsAbs (l_rootDir l)"
    and ls: "losetupLists (l_cfg l) out" and use: "inUseIn out (l_activeSnapshotID l)"
    and boot: "\<And>f vs. keeps (outside l) (l_SetPersistentVariables l f vs)"
  shows "fs_lookup w' (activePos l) = Some (NLink (linkDst (sn_ID sn))) \<and> \<not> sn_InProgress sn'"
proof -
  from run obtain w1 w2 where mv: "moveActive l sn w1 = (Inr (), w2)" and af: "afterClose l w2 = (Inr (), w')"
    and "sn' = sn\<lparr>sn_InProgress := False\<rparr>"
    by (auto simp: CloseTransaction_def objIO_bind liftW_iff modO_def thenIO_Inr_iff bindIO_Inr_iff onErrorIO_Inr_iff
        failIO_def getO_def split: if_splits)
  moreover have "linkFrame l w2 w'" using keepsD[OF afterClose_link[OF root ls use boot] af] .
  ultimately show ?thesis using moveActive_sets[OF mv root] by (simp add: linkFrame_def)
qed

definition busyConfig :: Config where
  "busyConfig = demoConfig\<lparr>cfg_Run := (\<lambda>c _ w. ((None, if c = ''losetup'' then ''/s/.snapshots/2/snapshot.img'' else []), w))\<rparr>"

definition busyLoop :: LoopDevice where
  "busyLoop = demoLoop\<lparr>l_cfg := busyConfig, l_loopDevCfg := \<lparr>ld_Size = 0, ld_FS = ''squashfs''\<rparr>\<rparr>"

definition openSnap :: Snapshot where
  "openSnap = \<lparr>sn_ID = 3, sn_MountPoint = WorkingImgDir, sn_Path = ''/s/.snapshots/3/snapshot.img'',
     sn_WorkDir = ''/s/.snapshots/3/snapshot.workDir'', sn_Label = ''EL_SNAP3'', sn_InProgress = True\<rparr>"

definition openWorld :: world where
  "openWorld = snapWorld\<lparr>files := files snapWorld @ [([''s'', ''.snapshots'', ''3''], NDir 493),
     ([''s'', ''.snapshots'', ''3'', ''snapshot.workDir''], NDir 493)],
     mounts := [\<lparr>mSource = ''/s/.snapshots/3/snapshot.workDir'', mTarget = WorkingImgDir, mType = ''bind'', mOpts = [''bind'']\<rparr>]\<rparr>"

theorem CloseTransaction_active_witness:
  "\<exists>sn' w'. CloseTransaction busyLoop (openSnap, openWorld) = (Inr (), (sn', w')) \<and>
     fs_lookup w' (activePos busyLoop) = Some (NLink (linkDst 3))"
proof -
  obtain r sn' w' where run: "CloseTransaction busyLoop (openSnap, openWorld) = (r, (sn', w'))" by (metis prod_cases3)
  have "fst (CloseTransaction busyLoop (openSnap, openWorld)) = Inr ()" by code_simp
  with run have r: "r = Inr ()" by simp
  have root: "IsAbs (l_rootDir busyLoop)" by (simp add: busyLoop_def demoLoop_def IsAbs_def)
  have ls: "losetupLists (l_cfg busyLoop) ''/s/.snapshots/2/snapshot.img''"
    by (simp add: losetupLists_def busyLoop_def busyConfig_def)
  have use: "inUseIn ''/s/.snapshots/2/snapshot.img'' (l_activeSnapshotID busyLoop)" by code_simp
  have boot: "keeps (outside busyLoop) (l_SetPersistentVariables busyLoop f vs)" for f vs
    by (simp add: keeps_def outside_def busyLoop_def demoLoop_def retIO_def)
  from CloseTransaction_active[OF run[unfolded r] root ls use boot] show ?thesis
    using run r by (simp add: openSnap_def)
qed

definition movedWorld :: world where
  "movedWorld = snapWorld\<lparr>files := [([''s''], NDir 493), ([''s'', ''.snapshots''], NDir 493),
     ([''s'', ''.snapshots'', ''2''], NDir 493), ([''s'', ''.snapshots'', ''2'', ''snapshot.img''], NFile 420 ''b''),
     ([''s'', ''.snapshots'', ''3''], NDir 493), ([''s'', ''.snapshots'', ''3'', ''snapshot.img''], NFile 420 ''c''),
     ([''s'', ''.snapshots'', ''active''], NLink ''3/snapshot.img'')]\<rparr>"

text \<open>The recorded active snapshot takes the link with it, and no later deletion brings the link back.\<close>

lemma Delete_link:
  assumes "DeleteSnapshot l sid w = (Inr (), w')" "IsAbs (l_rootDir l)" "is_dir_at w (snapsPos l)" "losetupLists (l_cfg l) out"
  shows "sid = l_activeSnapshotID l \<Longrightarrow> sid \<in> snapIds l w \<Longrightarrow> fs_lookup w' (activePos l) = None"
    and "fs_lookup w (activePos l) = None \<Longrightarrow> fs_lookup w' (activePos l) = None"
  using DeleteSnapshot_effect(2)[OF assms refl, of "activePos l"] by (auto simp: gone_def activePos_def)

lemma cleanLoop_link:
  assumes root: "IsAbs (l_rootDir l)" and ls: "losetupLists (l_cfg l) out"
    and k: "wrap_int (sc_MaxSnaps (l_snapshotterCfg l) - 1) = int k"
  shows "cleanLoop l ids None w = (Inr None, w') \<Longrightarrow> is_dir_at w (snapsPos l) \<Longrightarrow> canonical l w \<Longrightarrow> distinct ids \<Longrightarrow>
    set ids \<subseteq> snapIds l w \<Longrightarrow>
    l_activeSnapshotID l \<in> set (take (length ids - k) ids) \<or> fs_lookup w (activePos l) = None \<Longrightarrow>
    fs_lookup w' (activePos l) = None"
proof (induction ids arbitrary: w)
  case Nil
  then show ?case by (simp add: retIO_def)
next
  case (Cons i ids)
  show ?case
  proof (cases "length (i # ids) > k")
    case False
    then show ?thesis using Cons.prems k by (simp add: retIO_def split: if_splits)
  next
    case True
    obtain r w1 where del: "DeleteSnapshot l i w = (r, w1)" by fastforce
    show ?thesis
    proof (cases r)
      case (Inl e)
      then have "cleanLoop l ids (Some (multierror_Append None e)) w1 = (Inr None, w')"
        using Cons.prems(1) True k del by (simp add: bindIO_def tryIO_def split: if_splits)
      then show ?thesis using cleanLoop_errs by fastforce
    next
      case (Inr u)
      then have loop: "cleanLoop l ids None w1 = (Inr None, w')"
        using Cons.prems(1) True k del by (simp add: bindIO_def tryIO_def split: if_splits)
      have ok: "DeleteSnapshot l i w = (Inr (), w1)" using del Inr by simp
      note del' = DeleteSnapshot_ids[OF ok root Cons.prems(2) ls Cons.prems(3)]
        and lnk' = Delete_link[OF ok root Cons.prems(2) ls]
      have "length (i # ids) - k = Suc (length ids - k)" using True by simp
      then have "l_activeSnapshotID l \<in> set (take (length ids - k) ids) \<or> fs_lookup w1 (activePos l) = None"
        using Cons.prems(5,6) lnk' by auto
      then show ?thesis using Cons.IH[OF loop] del' Cons.prems(4,5) by auto
    qed
  qed
qed

text \<open>
  Property C34. The hypothesis that the old active snapshot is in use matters for the link. \<open>DeleteSnapshot\<close> compares with the id that was
  active when the transaction started. Whenever a clean-up without errors deletes that snapshot, the active link is gone afterwards,
  although the clean-up had read another active snapshot from it, and that one, when it is a snapshot, is not deleted.
\<close>

theorem active_link_lost:
  assumes run: "cleanOldSnapshots l w = (Inr (), w')" and root: "IsAbs (l_rootDir l)"
    and dir: "is_dir_at w (snapsPos l)" and ls: "losetupLists (l_cfg l) out" and can: "canonical l w"
    and mx: "1 \<le> sc_MaxSnaps (l_snapshotterCfg l)" "sc_MaxSnaps (l_snapshotterCfg l) \<le> max_int"
    and old: "l_activeSnapshotID l \<in> snapIds l w - snapIds l w'"
  shows "fs_lookup w' (activePos l) = None \<and>
    (\<exists>a v v'. sameFiles w v \<and> getActiveSnapshot l v = (Inr a, v') \<and> a \<noteq> l_activeSnapshotID l \<and> (a \<in> snapIds l w \<longrightarrow> a \<in> snapIds l w'))"
proof -
  obtain a v v' where v: "sameFiles w v" "getActiveSnapshot l v = (Inr a, v')" "sameFiles w v'"
    and loop: "cleanLoop l (sorted_list_of_set (snapIds l w - {a})) None v' = (Inr None, w')"
    by (rule cleanOld_runs[OF run root dir can])
  define P where "P = sorted_list_of_set (snapIds l w - {a})"
  define k where "k = nat (sc_MaxSnaps (l_snapshotterCfg l) - 1)"
  have k: "wrap_int (sc_MaxSnaps (l_snapshotterCfg l) - 1) = int k"
    using mx wrap_int_id[of "sc_MaxSnaps (l_snapshotterCfg l) - 1"] by (simp add: k_def int_range_def min_int_def max_int_def)
  note same = sameFiles_ids[OF v(3)]
  have P: "set P = snapIds l w - {a}" "distinct P" using finite_snapIds[of l w] by (simp_all add: P_def)
  have ids: "snapIds l w' = snapIds l w - set (take (length P - k) P)"
    using cleanLoop_ids[OF root ls k loop] same dir can by (simp add: P_def)
  then have mem: "l_activeSnapshotID l \<in> set (take (length P - k) P)" using old by blast
  then have "l_activeSnapshotID l \<in> set P" by (rule in_set_takeD)
  then have "a \<noteq> l_activeSnapshotID l" using P(1) by blast
  moreover have "a \<in> snapIds l w \<longrightarrow> a \<in> snapIds l w'" using ids P(1) by (auto dest: in_set_takeD)
  moreover have "fs_lookup w' (activePos l) = None"
    using cleanLoop_link[OF root ls k loop] same dir can P mem by (simp add: P_def)
  ultimately show ?thesis using v by blast
qed

lemma oneSnap_host: "IsAbs (l_rootDir oneSnap)" "losetupLists (l_cfg oneSnap) []" "sc_MaxSnaps (l_snapshotterCfg oneSnap) = 1"
    "snapsPos oneSnap = [''s'', ''.snapshots'']"
  using demoLoop_pos by (simp_all add: oneSnap_def snapsPos_def)

theorem active_link_lost_witness:
  "\<exists>w'. cleanOldSnapshots oneSnap movedWorld = (Inr (), w') \<and> fs_lookup w' (activePos oneSnap) = None \<and>
     fs_lookup movedWorld (activePos oneSnap) = Some (NLink ''3/snapshot.img'')"
proof -
  obtain r w' where run: "cleanOldSnapshots oneSnap movedWorld = (r, w')" by fastforce
  have "fst (cleanOldSnapshots oneSnap movedWorld) = Inr ()" by code_simp
  with run have r: "r = Inr ()" by simp
  have dir: "is_dir_at movedWorld (snapsPos oneSnap)" by (simp add: oneSnap_host is_dir_at_def fs_lookup_def movedWorld_def)
  have c: "c = Itoa 2 \<or> c = Itoa 3" if "fs_lookup movedWorld [''s'', ''.snapshots'', c] = Some n" "all_digits c" for c n
  proof -
    have "Itoa 2 = ''2''" "Itoa 3 = ''3''" by code_simp+
    then show ?thesis using that active_not_digits
      by (auto simp: fs_lookup_def movedWorld_def snapWorld_def ActiveSnapshot_def split: if_splits)
  qed
  moreover have "0 \<le> (2 :: int) \<and> int_range 2" "0 \<le> (3 :: int) \<and> int_range 3"
    by (simp_all add: int_range_def min_int_def max_int_def)
  ultimately have can: "canonical oneSnap movedWorld"
    unfolding canonical_def oneSnap_host(4) by (metis append_Cons append_Nil)
  have ids: "children movedWorld (snapsPos oneSnap) = [''2'', ''3'', ''active'']"
    "children (snd (cleanOldSnapshots oneSnap movedWorld)) (snapsPos oneSnap) = [''3'']" by code_simp+
  have "l_activeSnapshotID oneSnap = 2" "idsOf [''2'', ''3'', ''active''] = [2, 3]" "idsOf [''3''] = [3]" by code_simp+
  then have "l_activeSnapshotID oneSnap \<in> snapIds oneSnap movedWorld - snapIds oneSnap w'"
    using ids run by (simp flip: set_ids_children)
  moreover have "fs_lookup movedWorld (activePos oneSnap) = Some (NLink ''3/snapshot.img'')" by code_simp
  ultimately show ?thesis
    using active_link_lost[OF run[unfolded r] oneSnap_host(1) dir oneSnap_host(2) can] run r oneSnap_host(3) by (simp add: max_int_def)
qed
text \<open>
  The list of passive snapshots for the boot menu follows the order of the directory listing, which is the order
  of names: snapshot 9 comes before snapshot 10 there.
\<close>

lemma passive_list_by_name:
  "fst (GetSnapshots demoLoop (demoWorld\<lparr>files := [([''s''], NDir 493), ([''s'', ''.snapshots''], NDir 493),
     ([''s'', ''.snapshots'', ''9''], NDir 493), ([''s'', ''.snapshots'', ''10''], NDir 493)]\<rparr>)) = Inr [10, 9]"
  by code_simp

end
