(* ===== verification/Go_Xml.thy ===== *)
theory Go_Xml
  imports Go_Lib
begin

section \<open>XML documents of the Go standard library\<close>

text \<open>
  The part of \<^verbatim>\<open>encoding/xml\<close> the program uses for the metadata of snapper: \<open>MarshalIndent\<close> with the indent of two
  blanks, and the decoder for elements, text, entities and declarations. Attributes, comments and CDATA sections do
  not occur in these documents and are refused. \<open>tokens\<close> is the lexer, \<open>build\<close> the tree up to the end of the
  root element, where \<open>Unmarshal\<close> stops reading.
\<close>

datatype xml = Elem string "xml list" | Text string

text \<open>
  Text is UTF-8. \<open>utf8Size\<close> is the length of the encoded character at the head of a string of bytes, 0 when there is none, as
  \<^verbatim>\<open>utf8.DecodeRune\<close> decides it: no overlong forms, no surrogates, nothing above U+10FFFF. \<open>charOk\<close> says in addition that the character
  is in the range of XML, which leaves out control characters, U+FFFE and U+FFFF.
\<close>

definition byteIn :: "int \<Rightarrow> int \<Rightarrow> char \<Rightarrow> bool" where
  "byteIn lo hi c \<longleftrightarrow> lo \<le> (of_char c :: int) \<and> (of_char c :: int) \<le> hi"

abbreviation contByte :: "char \<Rightarrow> bool" where "contByte \<equiv> byteIn 0x80 0xBF"

definition utf8Size :: "string \<Rightarrow> nat" where
  "utf8Size s = (case s of
     [] \<Rightarrow> 0
   | a # r \<Rightarrow> (let n = (of_char a :: int) in
       if n < 0x80 then 1
       else if 0xC2 \<le> n \<and> n \<le> 0xDF then (case r of b # _ \<Rightarrow> if contByte b then 2 else 0 | _ \<Rightarrow> 0)
       else if 0xE0 \<le> n \<and> n \<le> 0xEF then (case r of
         b # c # _ \<Rightarrow> if byteIn (if n = 0xE0 then 0xA0 else 0x80) (if n = 0xED then 0x9F else 0xBF) b \<and> contByte c then 3 else 0
       | _ \<Rightarrow> 0)
       else if 0xF0 \<le> n \<and> n \<le> 0xF4 then (case r of
         b # c # d # _ \<Rightarrow> if byteIn (if n = 0xF0 then 0x90 else 0x80) (if n = 0xF4 then 0x8F else 0xBF) b \<and> contByte c \<and> contByte d
           then 4 else 0
       | _ \<Rightarrow> 0)
       else 0))"

definition xmlChar :: "char \<Rightarrow> bool" where
  "xmlChar c \<longleftrightarrow> byteIn 32 127 c \<or> c \<in> {CHR 0x09, CHR 0x0A, CHR 0x0D}"

lemma xmlChar_code [code]: "xmlChar c \<longleftrightarrow> (\<not> digit7 c \<and> (digit5 c \<or> digit6 c)) \<or> c \<in> {CHR 0x09, CHR 0x0A, CHR 0x0D}"
proof -
  have "byteIn 32 127 c \<longleftrightarrow> \<not> digit7 c \<and> (digit5 c \<or> digit6 c)" by (cases c) (auto simp: byteIn_def of_char_Char)
  then show ?thesis by (simp only: xmlChar_def)
qed

lemma ascii_code [code_unfold]: "(of_char c :: int) < 128 \<longleftrightarrow> \<not> digit7 c"
  by (cases c) (auto simp: of_char_Char)

definition charOk :: "string \<Rightarrow> bool" where
  "charOk s \<longleftrightarrow> utf8Size s \<noteq> 0 \<and> (utf8Size s = 1 \<longrightarrow> xmlChar (hd s)) \<and>
     take 3 s \<noteq> [CHR 0xEF, CHR 0xBF, CHR 0xBE] \<and> take 3 s \<noteq> [CHR 0xEF, CHR 0xBF, CHR 0xBF]"

function xmlOk :: "string \<Rightarrow> bool" where
  "xmlOk [] = True"
| "xmlOk (c # s) = (charOk (c # s) \<and> xmlOk (drop (utf8Size (c # s) - 1) s))"
  by pat_completeness auto
termination
  by (relation "measure length") auto

definition replacement :: string where
  "replacement = [CHR 0xEF, CHR 0xBF, CHR 0xBD]"

text \<open>The escape of one character below U+0080.\<close>

definition escapeASCII :: "char \<Rightarrow> string" where
  "escapeASCII c =
     (if c = CHR 0x22 then ''&#34;'' else if c = CHR 0x27 then ''&#39;''
      else if c = CHR ''&'' then ''&amp;'' else if c = CHR ''<'' then ''&lt;'' else if c = CHR ''>'' then ''&gt;''
      else if c = CHR 0x09 then ''&#x9;'' else if c = CHR 0x0A then ''&#xA;'' else if c = CHR 0x0D then ''&#xD;''
      else if \<not> xmlChar c then replacement
      else [c])"

text \<open>A byte that starts no character, and a character out of range, become U+FFFD.\<close>

function xmlEscape :: "string \<Rightarrow> string" where
  "xmlEscape [] = []"
| "xmlEscape (c # s) =
     (if (of_char c :: int) < 128 then escapeASCII c @ xmlEscape s
      else (if charOk (c # s) then take (utf8Size (c # s)) (c # s) else replacement) @ xmlEscape (drop (utf8Size (c # s) - 1) s))"
  by pat_completeness auto
termination
  by (relation "measure length") auto

definition xmlOpen :: "string \<Rightarrow> string" where "xmlOpen n = ''<'' @ n @ ''>''"
definition xmlClose :: "string \<Rightarrow> string" where "xmlClose n = ''</'' @ n @ ''>''"

definition newline :: "nat \<Rightarrow> string" where "newline depth = CHR 0x0A # replicate (2 * depth) (CHR '' '')"

text \<open>An element with child elements is closed on a line of its own; text stands between its tags.\<close>

fun isElem :: "xml \<Rightarrow> bool" where
  "isElem (Elem _ _) = True"
| "isElem (Text _) = False"

fun xmlPrint :: "nat \<Rightarrow> xml \<Rightarrow> string" where
  "xmlPrint d (Text s) = xmlEscape s"
| "xmlPrint d (Elem n cs) = xmlOpen n @
     concat (map (\<lambda>c. (if isElem c then newline (Suc d) else []) @ xmlPrint (Suc d) c) cs) @
     (if list_ex isElem cs then newline d else []) @ xmlClose n"

definition MarshalIndent :: "xml \<Rightarrow> string" where
  "MarshalIndent x = xmlPrint 0 x"

subsection \<open>Reading\<close>

datatype token = Start string | End string | Chars string | Bad

definition entity :: "string \<Rightarrow> string option" where
  "entity e =
     (if e = ''amp'' then Some ''&'' else if e = ''lt'' then Some ''<'' else if e = ''gt'' then Some ''>''
      else if e = ''quot'' then Some [CHR 0x22] else if e = ''apos'' then Some [CHR 0x27]
      else if e = ''#34'' then Some [CHR 0x22] else if e = ''#39'' then Some [CHR 0x27]
      else if e = ''#x9'' then Some [CHR 0x09] else if e = ''#xA'' then Some [CHR 0x0A]
      else if e = ''#xD'' then Some [CHR 0x0D] else None)"

function xmlUnescape :: "string \<Rightarrow> string option" where
  "xmlUnescape [] = Some []"
| "xmlUnescape (c # s) =
     (if c = CHR ''&'' then
        (case entity (takeWhile (\<lambda>x. x \<noteq> CHR '';'') s) of
           None \<Rightarrow> None
         | Some e \<Rightarrow> (if CHR '';'' \<in> set s
             then map_option ((@) e) (xmlUnescape (tl (dropWhile (\<lambda>x. x \<noteq> CHR '';'') s))) else None))
      else map_option ((#) c) (xmlUnescape s))"
  by pat_completeness auto
termination
  by (relation "measure length") (auto simp: less_Suc_eq_le intro: le_trans[OF diff_le_self length_dropWhile_le])

text \<open>Carriage returns of the document itself are line ends.\<close>

fun normCR :: "string \<Rightarrow> string" where
  "normCR [] = []"
| "normCR (c # s) =
     (if c = CHR 0x0D then (case s of d # _ \<Rightarrow> if d = CHR 0x0A then normCR s else CHR 0x0A # normCR s | [] \<Rightarrow> [CHR 0x0A])
      else c # normCR s)"

definition nameChar :: "char \<Rightarrow> bool" where
  "nameChar c \<longleftrightarrow> is_digit c \<or> c \<in> {CHR ''-'', CHR ''_'', CHR ''.'', CHR '':''} \<or>
     (let n = (of_char c :: int) in (65 \<le> n \<and> n \<le> 90) \<or> (97 \<le> n \<and> n \<le> 122) \<or> 128 \<le> n)"

definition isName :: "string \<Rightarrow> bool" where
  "isName s \<longleftrightarrow> s \<noteq> [] \<and> list_all nameChar s \<and> \<not> is_digit (hd s) \<and> hd s \<noteq> CHR ''-'' \<and> hd s \<noteq> CHR ''.''"

definition trimEnd :: "string \<Rightarrow> string" where
  "trimEnd s = rev (dropWhile is_space (rev s))"

text \<open>What stands between \<open><\<close> and \<open>>\<close>.\<close>

definition tagTokens :: "string \<Rightarrow> token list" where
  "tagTokens tag =
     (if HasPrefix tag ''?'' then (if HasSuffix tag ''?'' then [] else [Bad])
      else if HasPrefix tag ''/'' then (let n = trimEnd (tl tag) in if isName n then [End n] else [Bad])
      else if HasSuffix tag ''/'' then (let n = trimEnd (butlast tag) in if isName n then [Start n, End n] else [Bad])
      else (let n = trimEnd tag in if isName n then [Start n] else [Bad]))"

function tokens :: "string \<Rightarrow> token list" where
  "tokens [] = []"
| "tokens (c # s) =
     (if c = CHR ''<'' then
        (if CHR ''>'' \<in> set s
         then tagTokens (takeWhile (\<lambda>x. x \<noteq> CHR ''>'') s) @ tokens (tl (dropWhile (\<lambda>x. x \<noteq> CHR ''>'') s))
         else [Bad])
      else (case xmlUnescape (normCR (c # takeWhile (\<lambda>x. x \<noteq> CHR ''<'') s)) of
              None \<Rightarrow> [Bad]
            | Some t \<Rightarrow> if xmlOk t then Chars t # tokens (dropWhile (\<lambda>x. x \<noteq> CHR ''<'') s) else [Bad]))"
  by pat_completeness auto
termination
  by (relation "measure length") (auto simp: less_Suc_eq_le intro: le_trans[OF diff_le_self length_dropWhile_le] length_dropWhile_le)

text \<open>The open elements, innermost first, with the children read so far.\<close>

fun build :: "token list \<Rightarrow> (string \<times> xml list) list \<Rightarrow> xml option" where
  "build [] st = None"
| "build (Bad # ts) st = None"
| "build (Start n # ts) st = build ts ((n, []) # st)"
| "build (Chars s # ts) [] = build ts []"
| "build (Chars s # ts) ((n, cs) # st) = build ts ((n, cs @ [Text s]) # st)"
| "build (End n # ts) [] = None"
| "build (End n # ts) [(m, cs)] = (if n = m then Some (Elem m cs) else None)"
| "build (End n # ts) ((m, cs) # (p, ps) # st) = (if n = m then build ts ((p, ps @ [Elem m cs]) # st) else None)"

definition xmlParse :: "string \<Rightarrow> xml option" where
  "xmlParse s = build (tokens s) []"

text \<open>The text of an element: its own character data, not that of nested elements.\<close>

fun xmlText :: "xml list \<Rightarrow> string" where
  "xmlText [] = []"
| "xmlText (Text s # xs) = s @ xmlText xs"
| "xmlText (Elem _ _ # xs) = xmlText xs"

subsection \<open>Reading what was written\<close>

declare xmlUnescape.simps(2) [simp del] tokens.simps(2) [simp del] xmlEscape.simps(2) [simp del] xmlOk.simps(2) [simp del]

lemma xmlUnescape_Cons: "c \<noteq> CHR ''&'' \<Longrightarrow> xmlUnescape (c # s) = map_option ((#) c) (xmlUnescape s)"
  by (subst xmlUnescape.simps(2)) simp

lemma xmlUnescape_append: "CHR ''&'' \<notin> set t \<Longrightarrow> xmlUnescape (t @ r) = map_option ((@) t) (xmlUnescape r)"
proof (induction t)
  case Nil
  then show ?case by (cases "xmlUnescape r") simp_all
next
  case (Cons a t)
  then have "a \<noteq> CHR ''&''" by auto
  from xmlUnescape_Cons[OF this] Cons show ?case by (cases "xmlUnescape r") simp_all
qed

lemma utf8_high:
  assumes "128 \<le> (of_char c :: int)" "x \<in> set (take (utf8Size (c # s)) (c # s))"
  shows "128 \<le> (of_char x :: int)"
  using assms by (auto simp: utf8Size_def byteIn_def Let_def numeral_2_eq_2 numeral_3_eq_3 split: if_splits list.splits)

lemma utf8_ascii: "(of_char c :: int) < 128 \<Longrightarrow> utf8Size (c # s) = 1"
  by (simp add: utf8Size_def)

lemma utf8_take: "utf8Size (c # s) \<noteq> 0 \<Longrightarrow> take (utf8Size (c # s)) (c # s) @ drop (utf8Size (c # s) - 1) s = c # s"
  by (cases "utf8Size (c # s)") simp_all

lemma xmlUnescape_entity:
  assumes "entity e = Some x" "CHR '';'' \<notin> set e"
  shows "xmlUnescape (CHR ''&'' # e @ CHR '';'' # r) = map_option ((@) x) (xmlUnescape r)"
proof -
  have "\<And>y. y \<in> set e \<Longrightarrow> y \<noteq> CHR '';''" using assms(2) by blast
  then have "takeWhile (\<lambda>y. y \<noteq> CHR '';'') (e @ CHR '';'' # r) = e" "dropWhile (\<lambda>y. y \<noteq> CHR '';'') (e @ CHR '';'' # r) = CHR '';'' # r"
    by (simp_all add: takeWhile_append2 dropWhile_append2)
  then show ?thesis using assms(1) by (simp add: xmlUnescape.simps(2))
qed

lemma entity_ASCII:
  "entity ''#34'' = Some [CHR 0x22]" "entity ''#39'' = Some [CHR 0x27]" "entity ''amp'' = Some ''&''" "entity ''lt'' = Some ''<''"
  "entity ''gt'' = Some ''>''" "entity ''#x9'' = Some [CHR 0x09]" "entity ''#xA'' = Some [CHR 0x0A]" "entity ''#xD'' = Some [CHR 0x0D]"
  by (simp_all add: entity_def)

lemmas unescape_entities = entity_ASCII[THEN xmlUnescape_entity, simplified]

lemma escapeASCII_unescape:
  assumes "xmlChar c"
  shows "xmlUnescape (escapeASCII c @ r) = map_option ((#) c) (xmlUnescape r)"
proof (cases "c \<in> {CHR 0x22, CHR 0x27, CHR ''&'', CHR ''<'', CHR ''>'', CHR 0x09, CHR 0x0A, CHR 0x0D}")
  case True
  have "(@) [c] = (#) c" by auto
  with True show ?thesis by (elim insertE) (simp_all add: escapeASCII_def unescape_entities)
next
  case False
  then show ?thesis using assms xmlUnescape_Cons[of c r] by (simp add: escapeASCII_def)
qed

lemma xmlUnescape_escape: "xmlOk s \<Longrightarrow> xmlUnescape (xmlEscape s) = Some s"
proof (induction s rule: xmlOk.induct)
  case (2 c s)
  let ?n = "utf8Size (c # s)"
  have ok: "charOk (c # s)" "xmlOk (drop (?n - 1) s)" using 2(2) by (simp_all add: xmlOk.simps(2))
  then have IH: "xmlUnescape (xmlEscape (drop (?n - 1) s)) = Some (drop (?n - 1) s)" using 2(1) by blast
  show ?case
  proof (cases "(of_char c :: int) < 128")
    case True
    with ok(1) have "xmlChar c" "?n = 1" by (simp_all add: charOk_def utf8_ascii)
    then show ?thesis using True IH by (simp add: xmlEscape.simps(2) escapeASCII_unescape)
  next
    case False
    have "(of_char (CHR ''&'') :: int) < 128" by simp
    then have "CHR ''&'' \<notin> set (take ?n (c # s))" using utf8_high[of c _ s] False by (metis leD linorder_not_le)
    then show ?thesis using False ok(1) IH utf8_take[of c s]
      by (simp add: xmlEscape.simps(2) xmlUnescape_append charOk_def)
  qed
qed simp

lemma xmlEscape_no: "x \<in> {CHR ''<'', CHR ''>'', CHR 0x0D} \<Longrightarrow> x \<notin> set (xmlEscape s)"
proof (induction s rule: xmlEscape.induct)
  case (2 c s)
  have "(of_char x :: int) < 128" using 2(3) by auto
  then have "\<not> (of_char c :: int) < 128 \<Longrightarrow> x \<notin> set (take (utf8Size (c # s)) (c # s))"
    using utf8_high[of c x s] by (metis leD linorder_not_le)
  moreover have "x \<notin> set replacement" "x \<notin> set (escapeASCII c)" using 2(3) by (auto simp: replacement_def escapeASCII_def)
  ultimately show ?case using 2 by (auto simp: xmlEscape.simps(2))
qed simp

lemma xmlOk_ascii: "list_all xmlChar s \<Longrightarrow> xmlOk s"
proof (induction s)
  case (Cons c s)
  then have "xmlChar c" by simp
  then have "(of_char c :: int) < 128" by (auto simp: xmlChar_def byteIn_def)
  moreover from this have "c \<noteq> CHR 0xEF" by auto
  ultimately show ?case using Cons by (simp add: xmlOk.simps(2) charOk_def utf8_ascii)
qed simp

lemma normCR_id: "CHR 0x0D \<notin> set s \<Longrightarrow> normCR s = s"
  by (induction s) auto

text \<open>
  The trees a structure of strings and nested structures becomes: an element is empty, holds one text or only elements.
  Reading such a tree back gives the same tree with the white space of the indentation.
\<close>

fun wfXml :: "xml \<Rightarrow> bool" where
  "wfXml (Text s) = False"
| "wfXml (Elem n cs) = (isName n \<and>
     (case cs of [Text s] \<Rightarrow> s \<noteq> [] \<and> xmlOk s | _ \<Rightarrow> list_all wfXml cs))"

fun indented :: "nat \<Rightarrow> xml \<Rightarrow> xml" where
  "indented d (Text s) = Text s"
| "indented d (Elem n cs) = Elem n
     (concat (map (\<lambda>c. (if isElem c then [Text (newline (Suc d))] else []) @ [indented (Suc d) c]) cs) @
      (if list_ex isElem cs then [Text (newline d)] else []))"

fun flat :: "nat \<Rightarrow> xml \<Rightarrow> token list" where
  "flat d (Text s) = [Chars s]"
| "flat d (Elem n cs) = Start n #
     concat (map (\<lambda>c. (if isElem c then [Chars (newline (Suc d))] else []) @ flat (Suc d) c) cs) @
     (if list_ex isElem cs then [Chars (newline d)] else []) @ [End n]"

lemma wfXml_isElem: "wfXml x \<Longrightarrow> isElem x"
  by (cases x) auto

lemma isName_not:
  assumes "isName n"
  shows "CHR ''>'' \<notin> set n" "\<not> HasPrefix n ''?''" "\<not> HasPrefix n ''/''" "\<not> HasSuffix n ''/''" "trimEnd n = n"
proof -
  have nc: "\<And>c. c \<in> set n \<Longrightarrow> nameChar c" using assms by (simp add: isName_def list_all_iff)
  have "\<not> nameChar (CHR ''>'')" "\<not> nameChar (CHR ''?'')" "\<not> nameChar (CHR ''/'')"
    by (simp_all add: nameChar_def is_digit_def)
  then have no: "CHR ''>'' \<notin> set n" "CHR ''?'' \<notin> set n" "CHR ''/'' \<notin> set n" using nc by blast+
  show "CHR ''>'' \<notin> set n" by fact
  show "\<not> HasPrefix n ''?''" "\<not> HasPrefix n ''/''" "\<not> HasSuffix n ''/''"
    using no by (auto simp: HasPrefix_iff HasSuffix_iff prefix_def)
  have "\<not> (nameChar c \<and> is_space c)" for c
    by (auto simp: nameChar_def is_space_def is_digit_def)
  then have "\<not> is_space (last n)" "n \<noteq> []" using nc assms last_in_set by (auto simp: isName_def)
  then show "trimEnd n = n" by (simp add: trimEnd_def dropWhile_hd hd_rev)
qed

lemma span_at:
  assumes "c \<notin> set n"
  shows "takeWhile (\<lambda>x. x \<noteq> c) (n @ c # r) = n" and "dropWhile (\<lambda>x. x \<noteq> c) (n @ c # r) = c # r"
proof -
  have "\<And>x. x \<in> set n \<Longrightarrow> x \<noteq> c" using assms by blast
  then show "takeWhile (\<lambda>x. x \<noteq> c) (n @ c # r) = n" and "dropWhile (\<lambda>x. x \<noteq> c) (n @ c # r) = c # r"
    by (simp_all add: takeWhile_append2 dropWhile_append2)
qed

lemma tokens_open: "isName n \<Longrightarrow> tokens (xmlOpen n @ r) = Start n # tokens r"
  by (simp add: xmlOpen_def tokens.simps(2) span_at isName_not tagTokens_def)

lemma tokens_close: "isName n \<Longrightarrow> tokens (xmlClose n @ r) = End n # tokens r"
proof -
  assume n: "isName n"
  then have "CHR ''>'' \<notin> set (CHR ''/'' # n)" using isName_not by simp
  note sp = span_at[OF this, of r]
  show ?thesis using n sp
    by (simp add: xmlClose_def tokens.simps(2) isName_not tagTokens_def HasPrefix_def)
qed

lemma tokens_text:
  assumes "e \<noteq> []" "CHR ''<'' \<notin> set e" "CHR 0x0D \<notin> set e" "xmlUnescape e = Some s" "xmlOk s"
  shows "tokens (e @ CHR ''<'' # r) = Chars s # tokens (CHR ''<'' # r)"
proof -
  obtain c t where e: "e = c # t" using assms(1) by (cases e) auto
  have "c \<noteq> CHR ''<''" and n: "normCR (c # t) = c # t" using assms(2,3) e by (auto intro: normCR_id)
  then show ?thesis using assms(2,4,5) span_at[of "CHR ''<''" t r] tokens.simps(2)[of c "t @ CHR ''<'' # r"]
    by (simp add: e del: normCR.simps)
qed

lemma xmlUnescape_plain: "CHR ''&'' \<notin> set s \<Longrightarrow> xmlUnescape s = Some s"
  using xmlUnescape_append[of s "[]"] by simp

lemma tokens_newline: "tokens (newline d @ CHR ''<'' # r) = Chars (newline d) # tokens (CHR ''<'' # r)"
  by (rule tokens_text) (auto simp: newline_def list_all_iff xmlChar_def byteIn_def intro!: xmlUnescape_plain xmlOk_ascii)

lemma xmlPrint_Cons:
  "isElem x \<Longrightarrow> \<exists>r. xmlPrint d x = CHR ''<'' # r"
  by (cases x) (auto simp: xmlOpen_def)

lemma wfXml_cases:
  assumes "wfXml x"
  obtains (leaf) n s where "x = Elem n [Text s]" "isName n" "s \<noteq> []" "xmlOk s"
    | (elems) n cs where "x = Elem n cs" "isName n" "\<forall>c \<in> set cs. wfXml c \<and> isElem c"
proof (cases x)
  case (Elem n cs)
  show ?thesis
  proof (cases "\<exists>s. cs = [Text s]")
    case True
    then show ?thesis using leaf assms Elem by auto
  next
    case False
    then have "list_all wfXml cs" using assms Elem by (cases cs; cases "tl cs"; cases "hd cs") auto
    then show ?thesis using elems assms Elem wfXml_isElem by (auto simp: list_all_iff)
  qed
qed (use assms in simp)

lemma tokens_children:
  assumes "\<forall>c \<in> set cs. isElem c \<and> (\<forall>r. tokens (xmlPrint d c @ r) = flat d c @ tokens r)"
  shows "tokens (concat (map (\<lambda>c. newline d @ xmlPrint d c) cs) @ r) =
     concat (map (\<lambda>c. Chars (newline d) # flat d c) cs) @ tokens r"
  using assms
proof (induction cs)
  case (Cons c cs)
  let ?rest = "concat (map (\<lambda>c. newline d @ xmlPrint d c) cs) @ r"
  from Cons.prems obtain q where "xmlPrint d c = CHR ''<'' # q" using xmlPrint_Cons by fastforce
  then have "tokens (newline d @ xmlPrint d c @ ?rest) = Chars (newline d) # tokens (xmlPrint d c @ ?rest)"
    using tokens_newline[of d "q @ ?rest"] by simp
  with Cons show ?case by simp
qed simp

lemma map_elems:
  "\<forall>c \<in> set cs. isElem c \<Longrightarrow> map (\<lambda>c. (if isElem c then f c else g c) @ h c) cs = map (\<lambda>c. f c @ h c) cs"
  by simp

lemma tokens_print: "wfXml x \<Longrightarrow> tokens (xmlPrint d x @ r) = flat d x @ tokens r"
proof (induction x arbitrary: d r)
  case (Elem n cs)
  from Elem.prems show ?case
  proof (cases rule: wfXml_cases)
    case (leaf n' s)
    have "xmlEscape s \<noteq> []" using leaf xmlUnescape_escape[of s] by auto
    then have "tokens (xmlEscape s @ xmlClose n @ r) = Chars s # tokens (xmlClose n @ r)"
      using tokens_text[of "xmlEscape s" s] xmlEscape_no xmlUnescape_escape[of s] leaf by (simp add: xmlClose_def)
    then show ?thesis using leaf by (simp add: tokens_open tokens_close)
  next
    case (elems n' cs')
    have n: "isName n" and cs: "\<forall>c \<in> set cs. wfXml c \<and> isElem c" using elems by auto
    then have all: "\<forall>c \<in> set cs. isElem c \<and> (\<forall>r. tokens (xmlPrint (Suc d) c @ r) = flat (Suc d) c @ tokens r)"
      using Elem.IH by auto
    then have el: "\<forall>c \<in> set cs. isElem c" by blast
    have ex: "list_ex isElem cs \<longleftrightarrow> cs \<noteq> []" using el by (cases cs) auto
    have close: "tokens ((if cs \<noteq> [] then newline d else []) @ xmlClose n @ r) =
        (if cs \<noteq> [] then [Chars (newline d)] else []) @ End n # tokens r"
      using tokens_newline[of d "tl (xmlClose n) @ r"] tokens_close[of n r] n by (simp add: xmlClose_def)
    show ?thesis using tokens_children[OF all] close n
      by (simp add: tokens_open map_elems[OF el] ex)
  qed
qed simp

lemma build_children:
  assumes "\<forall>c \<in> set cs. \<forall>ts p ps st. build (flat d c @ ts) ((p, ps) # st) = build ts ((p, ps @ [indented d c]) # st)"
  shows "build (concat (map (\<lambda>c. Chars (newline d) # flat d c) cs) @ ts) ((p, ps) # st) =
     build ts ((p, ps @ concat (map (\<lambda>c. [Text (newline d), indented d c]) cs)) # st)"
  using assms by (induction cs arbitrary: ps) auto

lemma build_elem:
  assumes "isElem x" "wfXml x"
  shows "\<exists>n cs. indented d x = Elem n cs \<and> (\<forall>ts st. build (flat d x @ ts) st = build (End n # ts) ((n, cs) # st))"
  using assms
proof (induction x arbitrary: d)
  case (Elem n cs)
  from Elem.prems(2) show ?case
  proof (cases rule: wfXml_cases)
    case (elems n' cs')
    then have el: "\<forall>c \<in> set cs. isElem c" by blast
    have "build (flat (Suc d) c @ ts) ((p, ps) # st) = build ts ((p, ps @ [indented (Suc d) c]) # st)"
      if "c \<in> set cs" for c ts p ps st
    proof -
      from Elem.IH[OF that] elems that obtain m ds where "indented (Suc d) c = Elem m ds"
        "\<forall>ts st. build (flat (Suc d) c @ ts) st = build (End m # ts) ((m, ds) # st)" by blast
      then show ?thesis by simp
    qed
    then have all: "\<forall>c \<in> set cs. \<forall>ts p ps st.
        build (flat (Suc d) c @ ts) ((p, ps) # st) = build ts ((p, ps @ [indented (Suc d) c]) # st)" by blast
    show ?thesis using build_children[OF all] by (simp add: map_elems[OF el])
  qed simp
qed simp

theorem xmlParse_MarshalIndent:
  assumes "wfXml x"
  shows "xmlParse (MarshalIndent x) = Some (indented 0 x)"
proof -
  obtain n cs where ind: "indented 0 x = Elem n cs"
    and b: "\<And>ts st. build (flat 0 x @ ts) st = build (End n # ts) ((n, cs) # st)"
    using build_elem[OF wfXml_isElem[OF assms] assms, of 0] by blast
  from tokens_print[OF assms, of 0 "[]"] have "tokens (MarshalIndent x) = flat 0 x" by (simp add: MarshalIndent_def)
  then show ?thesis using b[of "[]" "[]"] ind by (simp add: xmlParse_def)
qed

lemma xmlText_indented:
  "xmlText (case indented d (Elem n (if s = [] then [] else [Text s])) of Elem _ cs \<Rightarrow> cs | _ \<Rightarrow> []) = s"
  by simp

end
