(* ===== verification/Btrfs_Backend.thy ===== *)
theory Btrfs_Backend
  imports Loop_Device Go_Xml
begin

section \<open>The btrfs subvolume backends (pkg/snapshotter/btrfs-backend.go, snapper-backend.go)\<close>

text \<open>
  The btrfs snapshotter leaves the handling of subvolumes to a backend: one that calls the btrfs tools and one
  that calls snapper. Both read the output of their tool line by line. Methods with a pointer receiver work on the pair of
  the backend and the world; methods with a value receiver get a copy of the backend, so what they assign to it is lost.
\<close>

definition rootSubvol :: string where "rootSubvol = ''@''"
definition snapshotsPath :: string where "snapshotsPath = ''.snapshots''"
definition snapshotWorkDir :: string where "snapshotWorkDir = ''snapshot.workDir''"
definition installProgress :: string where "installProgress = ''install-in-progress''"
definition updateProgress :: string where "updateProgress = ''update-in-progress''"

definition snapshotPathTmpl :: "int \<Rightarrow> string" where
  "snapshotPathTmpl sid = ''.snapshots/'' @ Itoa sid @ ''/snapshot''"

definition snapshotInfoPath :: "int \<Rightarrow> string" where
  "snapshotInfoPath sid = ''.snapshots/'' @ Itoa sid @ ''/info.xml''"

definition snapshotPathRegex :: "rx_item list" where
  "snapshotPathRegex = One anyChar # lits ''snapshots/'' @ [Grp 1 is_digit] @ lits ''/snapshot''"

definition configTemplatesPaths :: "string list" where
  "configTemplatesPaths = [''/etc/snapper/config-templates/default'', ''/usr/share/snapper/config-templates/default'']"

record snapshotsList =
  sl_IDs :: "int list"
  sl_ActiveID :: int

record backendStat =
  st_ActiveID :: int
  st_CurrentID :: int
  st_RootDir :: string
  st_StateMount :: string

subsection \<open>Snapper's metadata files\<close>

record SnapperSnapshotXML =
  xs_Type :: string
  xs_Num :: int
  xs_Date :: Time
  xs_Cleanup :: string
  xs_Description :: string
  xs_UserData :: "(string \<times> string) list"

definition newSnapperSnapshotXML :: "Time \<Rightarrow> int \<Rightarrow> string \<Rightarrow> SnapperSnapshotXML" where
  "newSnapperSnapshotXML now sid desc = \<lparr>xs_Type = ''single'', xs_Num = sid, xs_Date = now, xs_Cleanup = ''number'',
     xs_Description = desc,
     xs_UserData = [(if sid = 1 then installProgress else updateProgress, ''yes'')]\<rparr>"

definition Date_MarshalXML :: "Time \<Rightarrow> string" where
  "Date_MarshalXML d = formatDate d"

definition Date_UnmarshalXML :: "string \<Rightarrow> err + Time" where
  "Date_UnmarshalXML s = (case parseDate s of None \<Rightarrow> Inl (Errorf ''cannot parse date'') | Some t \<Rightarrow> Inr t)"

definition leaf :: "string \<Rightarrow> string \<Rightarrow> xml" where
  "leaf n s = Elem n (if s = [] then [] else [Text s])"

definition toXml :: "SnapperSnapshotXML \<Rightarrow> xml" where
  "toXml x = Elem ''snapshot''
     ([leaf ''type'' (xs_Type x), leaf ''num'' (Itoa (xs_Num x)), leaf ''date'' (Date_MarshalXML (xs_Date x)),
       leaf ''cleanup'' (xs_Cleanup x), leaf ''description'' (xs_Description x)] @
      map (\<lambda>(k, v). Elem ''userdata'' [leaf ''key'' k, leaf ''value'' v]) (xs_UserData x))"

definition zeroTime :: Time where
  "zeroTime = \<lparr>tm_year = 1, tm_month = 1, tm_day = 1, tm_hour = 0, tm_min = 0, tm_sec = 0, tm_nano = 0, tm_zone = ''Z''\<rparr>"

definition zeroXML :: SnapperSnapshotXML where
  "zeroXML = \<lparr>xs_Type = [], xs_Num = 0, xs_Date = zeroTime, xs_Cleanup = [], xs_Description = [], xs_UserData = []\<rparr>"

definition xmlInt :: "string \<Rightarrow> err + int" where
  "xmlInt s = (if s = [] then Inr 0 else Atoi (TrimSpace s))"

fun userData :: "xml list \<Rightarrow> string \<times> string \<Rightarrow> string \<times> string" where
  "userData [] kv = kv"
| "userData (Text s # xs) kv = userData xs kv"
| "userData (Elem n ds # xs) (k, v) =
     userData xs (if n = ''key'' then (xmlText ds, v) else if n = ''value'' then (k, xmlText ds) else (k, v))"

fun xmlFields :: "xml list \<Rightarrow> SnapperSnapshotXML \<Rightarrow> err + SnapperSnapshotXML" where
  "xmlFields [] x = Inr x"
| "xmlFields (Text s # xs) x = xmlFields xs x"
| "xmlFields (Elem n ds # xs) x =
     (if n = ''type'' then xmlFields xs (x\<lparr>xs_Type := xmlText ds\<rparr>)
      else if n = ''num'' then
        (case xmlInt (xmlText ds) of Inl e \<Rightarrow> Inl e | Inr i \<Rightarrow> xmlFields xs (x\<lparr>xs_Num := i\<rparr>))
      else if n = ''date'' then
        (case Date_UnmarshalXML (xmlText ds) of Inl e \<Rightarrow> Inl e | Inr t \<Rightarrow> xmlFields xs (x\<lparr>xs_Date := t\<rparr>))
      else if n = ''cleanup'' then xmlFields xs (x\<lparr>xs_Cleanup := xmlText ds\<rparr>)
      else if n = ''description'' then xmlFields xs (x\<lparr>xs_Description := xmlText ds\<rparr>)
      else if n = ''userdata'' then xmlFields xs (x\<lparr>xs_UserData := xs_UserData x @ [userData ds ([], [])]\<rparr>)
      else xmlFields xs x)"

definition xmlUnmarshal :: "string \<Rightarrow> err + SnapperSnapshotXML" where
  "xmlUnmarshal s = (case xmlParse s of
     Some (Elem n cs) \<Rightarrow> (if n = ''snapshot'' then xmlFields cs zeroXML else Inl (Errorf ''expected element type <snapshot>''))
   | _ \<Rightarrow> Inl (Errorf ''XML syntax error''))"

definition writeSnapperSnapshotXML :: "string \<Rightarrow> SnapperSnapshotXML \<Rightarrow> (world, unit) io" where
  "writeSnapperSnapshotXML path snapshot = fs_WriteFile path (MarshalIndent (toXml snapshot)) FilePerm"

definition loadSnapperSnapshotXML :: "string \<Rightarrow> (world, SnapperSnapshotXML) io" where
  "loadSnapperSnapshotXML path = bindIO (fs_ReadFile path) (\<lambda>bData. sumIO (xmlUnmarshal bData))"

subsection \<open>Reading the output of the btrfs tools\<close>

record btrfsSubvol =
  bs_path :: string
  bs_id :: int

definition volumeRegex :: "rx_item list" where
  "volumeRegex = lits ''ID '' @ [Grp 1 is_digit] @ lits '' gen '' @ [Many 1 is_digit] @ lits '' top level '' @
     [Many 1 is_digit] @ lits '' path '' @ [Grp 0 anyChar]"

definition parseVolumes :: "string \<Rightarrow> btrfsSubvol list" where
  "parseVolumes rawBtrfsList = List.map_filter (\<lambda>line.
     case rx True volumeRegex (TrimSpace line) of
       Some [i, p] \<Rightarrow> Some \<lparr>bs_path = TrimPrefix p ''<FS_TREE>/'', bs_id = AtoiVal i\<rparr>
     | _ \<Rightarrow> None) (ScanLines rawBtrfsList)"

definition subvolumesListToSnapshotsIDs :: "btrfsSubvol list \<Rightarrow> int list" where
  "subvolumesListToSnapshotsIDs vols = List.map_filter (\<lambda>v.
     case rx_search snapshotPathRegex (bs_path v) of Some [i] \<Rightarrow> Some (AtoiVal i) | _ \<Rightarrow> None) vols"

subsection \<open>The btrfs backend\<close>

record btrfsBackend =
  bb_cfg :: Config
  bb_currentID :: int
  bb_activeID :: int
  bb_maxSnapshots :: int

definition newBtrfsBackend :: "Config \<Rightarrow> int \<Rightarrow> btrfsBackend" where
  "newBtrfsBackend cfg maxSnapshots =
     \<lparr>bb_cfg = cfg, bb_currentID = 0, bb_activeID = 0, bb_maxSnapshots = maxSnapshots\<rparr>"

definition getSubvolumes :: "btrfsBackend \<Rightarrow> string \<Rightarrow> (world, btrfsSubvol list) io" where
  "getSubvolumes b rootDir = bindIO (RunE (bb_cfg b) ''btrfs'' [''subvolume'', ''list'', ''-a'', ''--sort=path'', rootDir])
     (\<lambda>out. retIO (parseVolumes (TrimSpace out)))"

definition bb_getActiveSnapshot :: "btrfsBackend \<Rightarrow> string \<Rightarrow> (world, int) io" where
  "bb_getActiveSnapshot b rootDir = bindIO (RunE (bb_cfg b) ''btrfs'' [''subvolume'', ''get-default'', rootDir]) (\<lambda>out.
     case subvolumesListToSnapshotsIDs (parseVolumes (TrimSpace out)) of
       [i] \<Rightarrow> retIO i
     | [] \<Rightarrow> retIO 0
     | _ \<Rightarrow> failIO (Errorf ''detected multiple active snapshots''))"

definition getStateSubvolumes :: "btrfsBackend \<Rightarrow> string \<Rightarrow> (world, btrfsSubvol option \<times> btrfsSubvol option) io" where
  "getStateSubvolumes b rootDir = bindIO (getSubvolumes b rootDir) (\<lambda>volumes.
     let snapshots = Join [rootSubvol, snapshotsPath] in
     retIO (find (\<lambda>v. bs_path v = rootSubvol) (rev volumes),
            find (\<lambda>v. bs_path v \<noteq> rootSubvol \<and> bs_path v = snapshots) (rev volumes)))"

definition findSubvolumeByPath :: "btrfsBackend \<Rightarrow> string \<Rightarrow> string \<Rightarrow> (world, int) io" where
  "findSubvolumeByPath b rootDir path = bindIO (getSubvolumes b rootDir) (\<lambda>subvolumes.
     case find (\<lambda>v. Contains (bs_path v) path) subvolumes of
       Some v \<Rightarrow> retIO (bs_id v)
     | None \<Rightarrow> failIO (Errorf (''can't find subvolume '' @ path)))"

text \<open>One line of findmnt: the mount points of the top subvolume and of the booted snapshot found so far.\<close>

definition mountLine :: "string \<Rightarrow> string \<times> string \<times> int \<Rightarrow> err + string \<times> string \<times> int" where
  "mountLine line acc = (case acc of (rootDir, stateMount, sid) \<Rightarrow>
     (case Fields line of
        [f0, f1] \<Rightarrow>
          (case (strings_Index f0 ''[/'', LastIndexByte f0 (CHR '']'')) of
             (Some subStart, Some subEnd) \<Rightarrow>
               (if subStart + 2 > subEnd then Inl Panic
                else (let subVolume = take (subEnd - (subStart + 2)) (drop (subStart + 2) f0) in
                  if subVolume = rootSubvol then Inr (rootDir, f1, sid)
                  else (case rx_search snapshotPathRegex subVolume of
                          Some [i] \<Rightarrow> Inr (f1, stateMount, AtoiVal i)
                        | _ \<Rightarrow> Inr acc)))
           | _ \<Rightarrow> Inr acc)
      | _ \<Rightarrow> Inr acc))"

fun mountLines :: "string list \<Rightarrow> string \<times> string \<times> int \<Rightarrow> err + string \<times> string \<times> int" where
  "mountLines [] acc = Inr acc"
| "mountLines (l # ls) acc = (case mountLine l acc of Inl e \<Rightarrow> Inl e | Inr acc' \<Rightarrow> mountLines ls acc')"

definition findStateMount :: "btrfsBackend \<Rightarrow> string \<Rightarrow> (world, string \<times> string \<times> int) io" where
  "findStateMount b device = bindIO (RunE (bb_cfg b) ''findmnt'' [''-lno'', ''SOURCE,TARGET'', device]) (\<lambda>output.
     bindIO (sumIO (mountLines (ScanLines (TrimSpace output)) ([], [], 0))) (\<lambda>(rootDir, stateMount, sid).
       if stateMount = [] \<or> rootDir = [] then failIO (Errorf ''could not find expected mountpoints'')
       else retIO (rootDir, stateMount, sid)))"

definition statOf :: "int \<Rightarrow> string \<Rightarrow> string \<Rightarrow> (btrfsBackend \<times> world, backendStat) io" where
  "statOf currentID rootDir stateMount = bindIO getO (\<lambda>b. retIO \<lparr>st_ActiveID = bb_activeID b,
     st_CurrentID = currentID, st_RootDir = rootDir, st_StateMount = stateMount\<rparr>)"

definition bb_Probe :: "string \<Rightarrow> string \<Rightarrow> (btrfsBackend \<times> world, backendStat) io" where
  "bb_Probe device mountpoint = bindIO getO (\<lambda>b.
     bindIO (liftW (getStateSubvolumes b mountpoint)) (\<lambda>(rootVolume, snapshotsVolume).
     thenIO (if rootVolume \<noteq> None \<and> snapshotsVolume \<noteq> None then
               bindIO (liftW (bb_getActiveSnapshot b mountpoint)) (\<lambda>sid.
                 whenIO (sid > 0) (modO (\<lambda>b. b\<lparr>bb_activeID := sid\<rparr>)))
             else retIO ())
     (bindIO (liftW IsPassiveMode) (\<lambda>passive.
      bindIO (if passive then retIO True else liftW IsActiveMode) (\<lambda>mode.
      if mode then
        bindIO (liftW (findStateMount b device)) (\<lambda>(rootDir, stateMount, currentID).
        thenIO (modO (\<lambda>b. b\<lparr>bb_currentID := currentID\<rparr>))
        (statOf currentID rootDir stateMount))
      else statOf 0 mountpoint mountpoint)))))"

definition bb_InitBrfsPartition :: "btrfsBackend \<Rightarrow> string \<Rightarrow> (world, unit) io" where
  "bb_InitBrfsPartition b rootDir =
     bindIO (RunE (bb_cfg b) ''btrfs'' [''quota'', ''enable'', rootDir]) (\<lambda>_.
     thenIO (forIO [Join [rootDir, rootSubvol], Join [rootDir, rootSubvol, snapshotsPath]] (\<lambda>subvolume.
       bindIO (RunE (bb_cfg b) ''btrfs'' [''subvolume'', ''create'', subvolume]) (\<lambda>_. retIO ())))
     (bindIO (RunE (bb_cfg b) ''btrfs'' [''qgroup'', ''create'', ''1/0'', rootDir]) (\<lambda>_. retIO ())))"

definition bb_ListSnapshots :: "btrfsBackend \<Rightarrow> string \<Rightarrow> (world, snapshotsList) io" where
  "bb_ListSnapshots b rootDir =
     bindIO (getSubvolumes b rootDir) (\<lambda>vols.
     bindIO (bb_getActiveSnapshot b rootDir) (\<lambda>activeID.
       retIO \<lparr>sl_IDs = subvolumesListToSnapshotsIDs vols, sl_ActiveID = activeID\<rparr>))"

definition bb_DeleteSnapshot :: "btrfsBackend \<Rightarrow> string \<Rightarrow> int \<Rightarrow> (world, unit) io" where
  "bb_DeleteSnapshot b rootDir sid =
     (if sid \<le> 0 then failIO (Errorf ''invalid id, should be higher than zero'')
      else if sid = bb_currentID b then failIO (Errorf ''invalid id, cannot delete current snapshot'')
      else bindIO (RunE (bb_cfg b) ''btrfs'' [''subvolume'', ''delete'', Join [rootDir, snapshotPathTmpl sid]]) (\<lambda>_.
        utils_RemoveAll (Join [rootDir, snapshotsPath, Itoa sid])))"

fun bb_cleanLoop :: "btrfsBackend \<Rightarrow> string \<Rightarrow> nat \<Rightarrow> int list \<Rightarrow> (world, unit) io" where
  "bb_cleanLoop b rootDir 0 ids = retIO ()"
| "bb_cleanLoop b rootDir (Suc n) [] = failIO Panic"
| "bb_cleanLoop b rootDir (Suc n) (i # ids) =
     (if i = bb_currentID b then retIO ()
      else thenIO (bb_DeleteSnapshot b rootDir i) (bb_cleanLoop b rootDir n ids))"

definition bb_SnapshotsCleanup :: "btrfsBackend \<Rightarrow> string \<Rightarrow> (world, unit) io" where
  "bb_SnapshotsCleanup b rootDir = bindIO (bb_ListSnapshots b rootDir) (\<lambda>l.
     let snapsToDelete = wrap_int (int (length (sl_IDs l)) - bb_maxSnapshots b) in
     whenIO (snapsToDelete > 0) (bb_cleanLoop b rootDir (nat snapsToDelete) (sort (sl_IDs l))))"

definition computeNewID :: "btrfsBackend \<Rightarrow> string \<Rightarrow> (world, int) io" where
  "computeNewID b rootDir =
     (if bb_activeID b = 0 then retIO 1
      else bindIO (bb_ListSnapshots b rootDir) (\<lambda>l.
        if sl_IDs l = [] then failIO (Errorf ''no snapshots found, inconsistent state'')
        else retIO (wrap_int (Max (set (sl_IDs l)) + 1))))"

text \<open>The subvolume of the new snapshot and its work directory.\<close>

definition newVolume :: "btrfsBackend \<Rightarrow> string \<Rightarrow> int \<Rightarrow> int \<Rightarrow> (world, string) io" where
  "newVolume b rootDir baseID newID =
     (let path = Join [rootDir, snapshotPathTmpl newID] in
      if baseID = 0 then
        bindIO (RunE (bb_cfg b) ''btrfs'' [''subvolume'', ''create'', path]) (\<lambda>_. retIO path)
      else
        bindIO (RunE (bb_cfg b) ''btrfs'' [''subvolume'', ''snapshot'', Join [rootDir, snapshotPathTmpl baseID], path]) (\<lambda>_.
        let workingDir = Join [rootDir, snapshotsPath, Itoa newID, snapshotWorkDir] in
        thenIO (onErrorIO (MkdirAll workingDir DirPerm) (ignoreIO (bb_DeleteSnapshot b rootDir newID)))
          (retIO workingDir)))"

definition bb_CreateNewSnapshot :: "btrfsBackend \<Rightarrow> string \<Rightarrow> int \<Rightarrow> (world, Snapshot) io" where
  "bb_CreateNewSnapshot b rootDir baseID =
     bindIO (computeNewID b rootDir) (\<lambda>newID.
     thenIO (MkdirAll (Join [rootDir, snapshotsPath, Itoa newID]) DirPerm)
     (bindIO (newVolume b rootDir baseID newID) (\<lambda>workingDir.
      bindIO (\<lambda>w. (Inr (cfg_Now (bb_cfg b) w), w)) (\<lambda>now.
      thenIO (writeSnapperSnapshotXML (Join [rootDir, snapshotInfoPath newID])
         (newSnapperSnapshotXML now newID ''first root filesystem''))
        (retIO \<lparr>sn_ID = newID, sn_MountPoint = [], sn_Path = Join [rootDir, snapshotPathTmpl newID],
           sn_WorkDir = workingDir, sn_Label = [], sn_InProgress = False\<rparr>)))))"

definition clearInProgress :: "SnapperSnapshotXML \<Rightarrow> SnapperSnapshotXML" where
  "clearInProgress x =
     x\<lparr>xs_UserData := filter (\<lambda>(k, _). \<not> (k = updateProgress \<or> k = installProgress)) (xs_UserData x)\<rparr>"

definition clearInProgressMetadata :: "string \<Rightarrow> int \<Rightarrow> (world, unit) io" where
  "clearInProgressMetadata rootDir sid =
     (let snapperXML = Join [rootDir, snapshotInfoPath sid] in
      bindIO (loadSnapperSnapshotXML snapperXML) (\<lambda>snapshotData.
        writeSnapperSnapshotXML snapperXML (clearInProgress snapshotData)))"

definition bb_CommitSnapshot :: "btrfsBackend \<Rightarrow> string \<Rightarrow> Snapshot \<Rightarrow> (world, unit) io" where
  "bb_CommitSnapshot b rootDir snapshot =
     thenIO (clearInProgressMetadata rootDir (sn_ID snapshot))
     (bindIO (RunE (bb_cfg b) ''btrfs'' [''property'', ''set'', sn_Path snapshot, ''ro'', ''true'']) (\<lambda>_.
      bindIO (findSubvolumeByPath b rootDir (snapshotPathTmpl (sn_ID snapshot))) (\<lambda>subvolID.
      bindIO (RunE (bb_cfg b) ''btrfs'' [''subvolume'', ''set-default'', Itoa subvolID, sn_Path snapshot]) (\<lambda>_. retIO ()))))"

subsection \<open>The snapper backend\<close>

definition snapperRootConfig :: string where "snapperRootConfig = ''/etc/snapper/configs/root''"
definition snapperSysconfig :: string where "snapperSysconfig = ''/etc/sysconfig/snapper''"
definition snapperDefaultconfig :: string where "snapperDefaultconfig = ''/etc/default/snapper''"

record snapperBackend =
  sb_cfg :: Config
  sb_currentID :: int
  sb_activeID :: int
  sb_btrfs :: btrfsBackend
  sb_maxSnapshots :: int

definition newSnapperBackend :: "Config \<Rightarrow> int \<Rightarrow> snapperBackend" where
  "newSnapperBackend cfg maxSnapshots = \<lparr>sb_cfg = cfg, sb_currentID = 0, sb_activeID = 0,
     sb_btrfs = newBtrfsBackend cfg maxSnapshots, sb_maxSnapshots = maxSnapshots\<rparr>"

text \<open>A call on the embedded btrfs backend.\<close>

definition inBtrfs :: "(btrfsBackend \<times> world, 'a) io \<Rightarrow> (snapperBackend \<times> world, 'a) io" where
  "inBtrfs = zoom sb_btrfs (\<lambda>b s. s\<lparr>sb_btrfs := b\<rparr>)"

definition sb_Probe :: "string \<Rightarrow> string \<Rightarrow> (snapperBackend \<times> world, backendStat) io" where
  "sb_Probe device mountpoint = bindIO (inBtrfs (bb_Probe device mountpoint)) (\<lambda>stat.
     thenIO (modO (\<lambda>s. s\<lparr>sb_activeID := st_ActiveID stat, sb_currentID := st_CurrentID stat\<rparr>)) (retIO stat))"

definition sb_InitBrfsPartition :: "snapperBackend \<Rightarrow> string \<Rightarrow> (world, unit) io" where
  "sb_InitBrfsPartition s rootDir = bb_InitBrfsPartition (sb_btrfs s) rootDir"

definition rootArgs :: "snapperBackend \<Rightarrow> string \<Rightarrow> string list" where
  "rootArgs s rootDir =
     (if rootDir \<noteq> ''/'' \<and> sb_currentID s = 0 \<and> sb_activeID s > 0
      then [''--no-dbus'', ''--root'', Join [rootDir, snapshotPathTmpl (sb_activeID s)]]
      else if rootDir \<noteq> ''/'' then [''--no-dbus'', ''--root'', rootDir] else [])"

definition snapper :: "snapperBackend \<Rightarrow> string \<Rightarrow> string list \<Rightarrow> (world, string) io" where
  "snapper s rootDir args = RunE (sb_cfg s) ''snapper'' (rootArgs s rootDir @ args)"

definition sb_DeleteSnapshot :: "snapperBackend \<Rightarrow> string \<Rightarrow> int \<Rightarrow> (world, unit) io" where
  "sb_DeleteSnapshot s rootDir sid =
     (if sb_activeID s = 0 \<and> sb_currentID s = 0 then bb_DeleteSnapshot (sb_btrfs s) rootDir sid
      else bindIO (snapper s rootDir [''delete'', ''--sync'', Itoa sid]) (\<lambda>_. retIO ()))"

definition sb_CreateNewSnapshot :: "snapperBackend \<Rightarrow> string \<Rightarrow> int \<Rightarrow> (world, Snapshot) io" where
  "sb_CreateNewSnapshot s rootDir baseID =
     (if baseID = 0 then bb_CreateNewSnapshot (sb_btrfs s) rootDir baseID
      else bindIO (snapper s rootDir [''create'', ''--from'', Itoa baseID, ''--read-write'', ''--print-number'',
             ''--description'', ''Update for snapshot '' @ Itoa baseID, ''-c'', ''number'', ''--userdata'',
             updateProgress @ ''=yes'']) (\<lambda>cmdOut.
        bindIO (sumIO (Atoi (TrimSpace cmdOut))) (\<lambda>newID.
        let workingDir = Join [rootDir, snapshotsPath, Itoa newID, snapshotWorkDir] in
        thenIO (onErrorIO (MkdirAll workingDir DirPerm) (ignoreIO (sb_DeleteSnapshot s rootDir newID)))
          (retIO \<lparr>sn_ID = newID, sn_MountPoint = [], sn_Path = Join [rootDir, snapshotPathTmpl newID],
             sn_WorkDir = workingDir, sn_Label = [], sn_InProgress = False\<rparr>))))"

definition configureSnapper :: "snapperBackend \<Rightarrow> string \<Rightarrow> (world, unit) io" where
  "configureSnapper s snapshotPath =
     bindIO (FindFile snapshotPath configTemplatesPaths) (\<lambda>defaultTmpl.
     bindIO (okIO False (Exists (Join [snapshotPath, snapperDefaultconfig]) False)) (\<lambda>dflt.
     let sysconfig = Join [snapshotPath, if dflt then snapperDefaultconfig else snapperSysconfig] in
     bindIO (okIO False (Exists sysconfig False)) (\<lambda>ok.
     bindIO (if ok then LoadEnvFile (cfg_ParseEnv (sb_cfg s)) sysconfig else retIO []) (\<lambda>sysconfigData.
     thenIO (WriteEnvFile (cfg_PrintEnv (sb_cfg s)) (AList.update ''SNAPPER_CONFIGS'' ''root'' sysconfigData) sysconfig)
     (bindIO (LoadEnvFile (cfg_ParseEnv (sb_cfg s)) defaultTmpl) (\<lambda>snapCfg.
      WriteEnvFile (cfg_PrintEnv (sb_cfg s))
        (AList.update ''NUMBER_LIMIT_IMPORTANT'' (Itoa (sb_maxSnapshots s))
          (AList.update ''NUMBER_LIMIT'' (Itoa (sb_maxSnapshots s))
            (AList.update ''QGROUP'' ''1/0'' (AList.update ''TIMELINE_CREATE'' ''no'' snapCfg))))
        (Join [snapshotPath, snapperRootConfig])))))))"

definition sb_CommitSnapshot :: "snapperBackend \<Rightarrow> string \<Rightarrow> Snapshot \<Rightarrow> (world, unit) io" where
  "sb_CommitSnapshot s rootDir snapshot =
     thenIO (configureSnapper s (sn_Path snapshot))
     (if sb_activeID s = 0 \<and> sb_currentID s = 0 then bb_CommitSnapshot (sb_btrfs s) rootDir snapshot
      else bindIO (snapper s rootDir [''modify'', ''--read-only'', ''--default'', ''--userdata'',
             installProgress @ ''=,'' @ updateProgress @ ''='', Itoa (sn_ID snapshot)]) (\<lambda>_. retIO ()))"

definition snapperRegex :: "rx_item list" where
  "snapperRegex = [Grp 1 is_digit, lit (CHR '',''), Alts [''yes'', ''no''], lit (CHR '',''), Alts [''yes'', ''no'']]"

fun snapperLines :: "string list \<Rightarrow> snapshotsList \<Rightarrow> snapshotsList" where
  "snapperLines [] sl = sl"
| "snapperLines (l # ls) sl =
     (case rx True snapperRegex (TrimSpace l) of
        Some [i, dflt, _] \<Rightarrow>
          (let sid = AtoiVal i in
           if sid = 0 then snapperLines ls sl
           else snapperLines ls \<lparr>sl_IDs = sl_IDs sl @ [sid], sl_ActiveID = (if dflt = ''yes'' then sid else sl_ActiveID sl)\<rparr>)
      | _ \<Rightarrow> snapperLines ls sl)"

definition sb_ListSnapshots :: "snapperBackend \<Rightarrow> string \<Rightarrow> (world, snapshotsList) io" where
  "sb_ListSnapshots s rootDir =
     bindIO (Run (sb_cfg s) ''snapper'' (rootArgs s rootDir @ [''--csvout'', ''list'', ''--columns'', ''number,default,active'']))
       (\<lambda>(e, cmdOut). case e of
          Some e' \<Rightarrow> (if HasPrefix cmdOut ''fsetfilecon on''
             then retIO (snapperLines (ScanLines (TrimSpace cmdOut)) \<lparr>sl_IDs = [], sl_ActiveID = 0\<rparr>) else failIO e')
        | None \<Rightarrow> retIO (snapperLines (ScanLines (TrimSpace cmdOut)) \<lparr>sl_IDs = [], sl_ActiveID = 0\<rparr>))"

definition sb_SnapshotsCleanup :: "snapperBackend \<Rightarrow> string \<Rightarrow> (world, unit) io" where
  "sb_SnapshotsCleanup s rootDir =
     bindIO (snapper s rootDir [''cleanup'', ''--path'', Join [rootDir, snapshotsPath], ''number'']) (\<lambda>_. retIO ())"

subsection \<open>Metadata: reading what was written\<close>

text \<open>The values a metadata file can hold: text in the range of XML, an integer and a date.\<close>

definition wfSnapper :: "SnapperSnapshotXML \<Rightarrow> bool" where
  "wfSnapper x \<longleftrightarrow> xmlOk (xs_Type x) \<and> int_range (xs_Num x) \<and> validTime (xs_Date x) \<and>
     xmlOk (xs_Cleanup x) \<and> xmlOk (xs_Description x) \<and> list_all (\<lambda>(k, v). xmlOk k \<and> xmlOk v) (xs_UserData x)"

lemma wfXml_leaf: "isName n \<Longrightarrow> xmlOk s \<Longrightarrow> wfXml (leaf n s)"
  by (simp add: leaf_def)

lemma wfXml_elems: "isName n \<Longrightarrow> \<forall>c \<in> set cs. wfXml c \<Longrightarrow> wfXml (Elem n cs)"
  by (cases cs; cases "hd cs"; cases "tl cs") (auto simp: list_all_iff)

lemma snapper_names:
  "isName ''snapshot''" "isName ''type''" "isName ''num''" "isName ''date''" "isName ''cleanup''"
  "isName ''description''" "isName ''userdata''" "isName ''key''" "isName ''value''"
  by (simp_all add: isName_def nameChar_def is_digit_def)

lemma digit_xmlChar:
  assumes "is_digit c"
  shows "xmlChar c"
proof -
  have "(of_char c :: int) = int (of_char c)" by (cases c) (simp add: of_char_Char)
  with assms show ?thesis by (simp only: is_digit_def xmlChar_def byteIn_def Let_def) simp
qed

lemma Itoa_xml: "xmlOk (Itoa i)"
proof -
  have "xmlChar (CHR ''-'')" by (simp add: xmlChar_def byteIn_def)
  moreover have "x \<in> set (nat_str n) \<Longrightarrow> xmlChar x" for x n
    using nat_str_digits[of n] digit_xmlChar by (simp add: all_digits_def list_all_iff)
  ultimately show ?thesis by (intro xmlOk_ascii) (auto simp: Itoa_def list_all_iff)
qed

lemma Itoa_trim: "Itoa i \<noteq> []" "TrimSpace (Itoa i) = Itoa i"
proof -
  have d: "nat_str n \<noteq> []" "x \<in> set (nat_str n) \<Longrightarrow> \<not> is_space x" for n x
    using nat_str_digits[of n] digit_not_special by (auto simp: all_digits_def list_all_iff)
  show ne: "Itoa i \<noteq> []" by (simp add: Itoa_def d(1))
  have "x \<in> set (Itoa i) \<Longrightarrow> \<not> is_space x" for x using d(2) by (auto simp: Itoa_def is_space_def split: if_splits)
  then show "TrimSpace (Itoa i) = Itoa i" using ne by (intro TrimSpace_id) simp_all
qed

lemma date_xml: "xmlOk (formatDate t)"
proof (rule xmlOk_ascii, unfold list_all_iff, rule)
  fix c assume "c \<in> set (formatDate t)"
  then show "xmlChar c" using formatDate_plain[of c t] digit_xmlChar by (auto simp: xmlChar_def byteIn_def)
qed

lemma wfXml_toXml: "wfSnapper x \<Longrightarrow> wfXml (toXml x)"
  unfolding toXml_def
  by (rule wfXml_elems)
    (auto simp: wfSnapper_def wfXml_leaf snapper_names Itoa_xml date_xml Date_MarshalXML_def list_all_iff
      dest!: bspec intro!: wfXml_elems)

text \<open>White space between elements does not matter.\<close>

lemma xmlFields_elems: "xmlFields (filter isElem xs) x = xmlFields xs x"
  by (induction xs x rule: xmlFields.induct) (simp_all split: sum.split)

lemma userData_elems: "userData (filter isElem xs) kv = userData xs kv"
  by (induction xs kv rule: userData.induct) simp_all

lemma filter_children:
  "\<forall>c \<in> set cs. isElem c \<Longrightarrow> filter isElem (concat (map (\<lambda>c. (if isElem c then [Text s] else []) @ [indented d c]) cs) @
     (if b then [Text t] else [])) = map (indented d) cs"
proof (induction cs)
  case (Cons c cs)
  then show ?case by (cases c) auto
qed simp

lemma fields_indented:
  "\<forall>c \<in> set cs. isElem c \<Longrightarrow>
     (case indented d (Elem n cs) of Elem _ ds \<Rightarrow> xmlFields ds x) = xmlFields (map (indented (Suc d)) cs) x"
  by (simp add: xmlFields_elems[symmetric, of "_ @ _"] filter_children del: filter_append)

lemma indented_leaf: "indented d (leaf n s) = leaf n s"
  by (simp add: leaf_def)

lemma xmlFields_leaf:
  "xmlFields (leaf ''type'' s # xs) x = xmlFields xs (x\<lparr>xs_Type := s\<rparr>)"
  "xmlFields (leaf ''num'' s # xs) x =
     (case xmlInt s of Inl e \<Rightarrow> Inl e | Inr i \<Rightarrow> xmlFields xs (x\<lparr>xs_Num := i\<rparr>))"
  "xmlFields (leaf ''date'' s # xs) x =
     (case Date_UnmarshalXML s of Inl e \<Rightarrow> Inl e | Inr d \<Rightarrow> xmlFields xs (x\<lparr>xs_Date := d\<rparr>))"
  "xmlFields (leaf ''cleanup'' s # xs) x = xmlFields xs (x\<lparr>xs_Cleanup := s\<rparr>)"
  "xmlFields (leaf ''description'' s # xs) x = xmlFields xs (x\<lparr>xs_Description := s\<rparr>)"
  by (simp_all add: leaf_def)

lemma userData_indented:
  "\<exists>ds. indented d (Elem ''userdata'' [leaf ''key'' k, leaf ''value'' v]) = Elem ''userdata'' ds \<and>
     userData ds ([], []) = (k, v)"
  by (simp add: leaf_def)

lemma fields_userData:
  "xmlFields (map (indented d) (map (\<lambda>(k, v). Elem ''userdata'' [leaf ''key'' k, leaf ''value'' v]) kvs)) x =
     Inr (x\<lparr>xs_UserData := xs_UserData x @ kvs\<rparr>)"
proof (induction kvs arbitrary: x)
  case (Cons kv kvs)
  obtain k v where kv: "kv = (k, v)" by fastforce
  obtain ds where ds: "indented d (Elem ''userdata'' [leaf ''key'' k, leaf ''value'' v]) = Elem ''userdata'' ds"
    "userData ds ([], []) = (k, v)" using userData_indented by blast
  show ?case using Cons.IH[of "x\<lparr>xs_UserData := xs_UserData x @ [kv]\<rparr>"] ds kv
    by (simp del: indented.simps)
qed simp

text \<open>The file has no zone and no fraction of a second: the date that is read is the wall clock time in UTC.\<close>

definition asRead :: "SnapperSnapshotXML \<Rightarrow> SnapperSnapshotXML" where
  "asRead x = x\<lparr>xs_Date := (xs_Date x)\<lparr>tm_nano := 0, tm_zone := ''Z''\<rparr>\<rparr>"

lemma Unmarshal_Marshal:
  assumes "wfSnapper x"
  shows "xmlUnmarshal (MarshalIndent (toXml x)) = Inr (asRead x)"
proof -
  define cs where "cs = [leaf ''type'' (xs_Type x), leaf ''num'' (Itoa (xs_Num x)), leaf ''date'' (Date_MarshalXML (xs_Date x)),
       leaf ''cleanup'' (xs_Cleanup x), leaf ''description'' (xs_Description x)] @
      map (\<lambda>(k, v). Elem ''userdata'' [leaf ''key'' k, leaf ''value'' v]) (xs_UserData x)"
  have tx: "toXml x = Elem ''snapshot'' cs" by (simp add: toXml_def cs_def)
  have el: "\<forall>c \<in> set cs. isElem c" by (auto simp: cs_def leaf_def)
  have ne: "Itoa (xs_Num x) \<noteq> []" "TrimSpace (Itoa (xs_Num x)) = Itoa (xs_Num x)"
    "Atoi (Itoa (xs_Num x)) = Inr (xs_Num x)"
    using Itoa_trim Atoi_Itoa assms by (simp_all add: wfSnapper_def)
  have "xmlUnmarshal (MarshalIndent (toXml x)) = xmlFields (map (indented 1) cs) zeroXML"
    using xmlParse_MarshalIndent[OF wfXml_toXml[OF assms]] fields_indented[OF el, where d = 0 and n = "''snapshot''" and x = zeroXML]
    by (simp add: xmlUnmarshal_def tx)
  also have "\<dots> = Inr (asRead x)"
  proof -
    have "parseDate (formatDate (xs_Date x)) = Some ((xs_Date x)\<lparr>tm_nano := 0, tm_zone := ''Z''\<rparr>)"
      using parseDate_formatDate[of "xs_Date x"] assms by (simp add: wfSnapper_def)
    then show ?thesis using ne
      by (simp add: asRead_def cs_def xmlInt_def Date_UnmarshalXML_def Date_MarshalXML_def fields_userData zeroXML_def
        indented_leaf xmlFields_leaf del: indented.simps map_map)
  qed
  finally show ?thesis .
qed

lemma asRead_clear:
  "wfSnapper x \<Longrightarrow> wfSnapper (asRead x)" "wfSnapper x \<Longrightarrow> wfSnapper (clearInProgress x)"
  "asRead (clearInProgress (asRead x)) = clearInProgress (asRead x)"
  by (auto simp: wfSnapper_def asRead_def clearInProgress_def validTime_def list_all_iff)

text \<open>
  Property C24. The metadata of a snapshot survive the commit: once the file of a snapshot has been written, clearing the
  progress marks and reading the file again succeeds on a system that does not fail. Type, number, clean-up algorithm and
  description are the ones that were written, of the user data exactly the two progress marks are gone and the rest keeps its order,
  and the date is the same wall clock time, with the zone and the fraction of a second dropped, whatever zone it was taken in.
\<close>

theorem metadata_roundtrip:
  assumes write1: "writeSnapperSnapshotXML (Join [rootDir, snapshotInfoPath sid]) x w = (Inr (), w1)"
    and wf: "wfSnapper x" and ok: "\<forall>n. \<not> faults w n"
  shows "\<exists>w2 w3. clearInProgressMetadata rootDir sid w1 = (Inr (), w2) \<and>
    loadSnapperSnapshotXML (Join [rootDir, snapshotInfoPath sid]) w2 =
      (Inr \<lparr>xs_Type = xs_Type x, xs_Num = xs_Num x, xs_Date = (xs_Date x)\<lparr>tm_nano := 0, tm_zone := ''Z''\<rparr>,
            xs_Cleanup = xs_Cleanup x, xs_Description = xs_Description x,
            xs_UserData = filter (\<lambda>(k, v). k \<noteq> installProgress \<and> k \<noteq> updateProgress) (xs_UserData x)\<rparr>, w3)"
proof -
  let ?p = "Join [rootDir, snapshotInfoPath sid]"
  let ?y = "clearInProgress (asRead x)"
  have wfy: "wfSnapper ?y" using wf asRead_clear(1,2) by blast
  have c1: "contentAt w1 ?p = Some (MarshalIndent (toXml x))" and f1: "faults w1 = faults w"
    using WriteFile_content write1 by (auto simp: writeSnapperSnapshotXML_def)
  let ?w1 = "w1\<lparr>ticks := Suc (ticks w1)\<rparr>"
  obtain w2 where w2: "fs_WriteFile ?p (MarshalIndent (toXml ?y)) FilePerm ?w1 = (Inr (), w2)"
    using content_WriteFile[of ?w1 ?p] c1 f1 ok by fastforce
  have clear: "clearInProgressMetadata rootDir sid w1 = (Inr (), w2)"
    using content_ReadFile[OF c1] f1 ok w2 Unmarshal_Marshal[OF wf]
    by (simp add: clearInProgressMetadata_def Let_def loadSnapperSnapshotXML_def bindIO_def sumIO_def
        writeSnapperSnapshotXML_def)
  have "contentAt w2 ?p = Some (MarshalIndent (toXml ?y))" "faults w2 = faults w"
    using WriteFile_content[OF w2] f1 by auto
  from content_ReadFile[OF this(1)] this(2) ok
  have "loadSnapperSnapshotXML ?p w2 = (Inr ?y, w2\<lparr>ticks := Suc (ticks w2)\<rparr>)"
    using Unmarshal_Marshal[OF wfy] asRead_clear(3) by (simp add: loadSnapperSnapshotXML_def bindIO_def sumIO_def)
  moreover have "?y = \<lparr>xs_Type = xs_Type x, xs_Num = xs_Num x, xs_Date = (xs_Date x)\<lparr>tm_nano := 0, tm_zone := ''Z''\<rparr>,
      xs_Cleanup = xs_Cleanup x, xs_Description = xs_Description x,
      xs_UserData = filter (\<lambda>(k, v). k \<noteq> installProgress \<and> k \<noteq> updateProgress) (xs_UserData x)\<rparr>"
    by (cases x) (auto simp: asRead_def clearInProgress_def intro!: filter_cong)
  ultimately show ?thesis using clear by auto
qed

definition demoMeta :: SnapperSnapshotXML where
  "demoMeta = (newSnapperSnapshotXML ((cfg_Now demoConfig demoWorld)\<lparr>tm_nano := 5, tm_zone := ''+02:00''\<rparr>) 2 ''Update & <more>'')
     \<lparr>xs_UserData := [(updateProgress, ''yes''), (''owner'', ''ops'')]\<rparr>"

definition metaWorld :: world where
  "metaWorld = demoWorld\<lparr>files := [([''s''], NDir 493), ([''s'', ''.snapshots''], NDir 493), ([''s'', ''.snapshots'', ''2''], NDir 493)]\<rparr>"

theorem metadata_roundtrip_witness:
  "\<exists>w1 w2 w3 y. writeSnapperSnapshotXML (Join [''/s'', snapshotInfoPath 2]) demoMeta metaWorld = (Inr (), w1) \<and>
     clearInProgressMetadata ''/s'' 2 w1 = (Inr (), w2) \<and>
     loadSnapperSnapshotXML (Join [''/s'', snapshotInfoPath 2]) w2 = (Inr y, w3) \<and>
     xs_UserData y = [(''owner'', ''ops'')] \<and> xs_Description y = ''Update & <more>'' \<and> xs_Date y = cfg_Now demoConfig demoWorld"
proof -
  have wf: "wfSnapper demoMeta" by code_simp
  obtain r w1 where run: "writeSnapperSnapshotXML (Join [''/s'', snapshotInfoPath 2]) demoMeta metaWorld = (r, w1)"
    by fastforce
  have "\<not> isl (fst (writeSnapperSnapshotXML (Join [''/s'', snapshotInfoPath 2]) demoMeta metaWorld))" by code_simp
  with run have r: "r = Inr ()" by (cases r) auto
  have "\<forall>n. \<not> faults metaWorld n" by (simp add: metaWorld_def demoWorld_def)
  from metadata_roundtrip[OF run[unfolded r] wf this] run r show ?thesis
    by (fastforce simp: demoMeta_def newSnapperSnapshotXML_def demoConfig_def updateProgress_def installProgress_def)
qed

subsection \<open>Reading the list of subvolumes\<close>

text \<open>
  A line of \<^verbatim>\<open>btrfs subvolume list -a\<close>: id, generation, parent and path; paths outside the mounted subvolume have
  the prefix \<^verbatim>\<open><FS_TREE>/\<close>.
\<close>

definition volumeLine :: "nat \<Rightarrow> nat \<Rightarrow> bool \<Rightarrow> btrfsSubvol \<Rightarrow> string" where
  "volumeLine gen par out v = ''ID '' @ Itoa (bs_id v) @ '' gen '' @ nat_str gen @ '' top level '' @ nat_str par @
     '' path '' @ (if out then ''<FS_TREE>/'' else []) @ bs_path v"

definition volume_ok :: "btrfsSubvol \<Rightarrow> bool" where
  "volume_ok v \<longleftrightarrow> 0 \<le> bs_id v \<and> int_range (bs_id v) \<and> bs_path v \<noteq> [] \<and> CHR 0x0A \<notin> set (bs_path v) \<and>
     \<not> is_space (last (bs_path v)) \<and> \<not> HasPrefix (bs_path v) ''<FS_TREE>/''"

lemma blank_not_digit: "\<not> is_digit (CHR '' '')"
  by (simp add: is_digit_def)

lemma rx_volumeLine:
  assumes "volume_ok v"
  shows "rx True volumeRegex (volumeLine gen par out v) =
     Some [Itoa (bs_id v), (if out then ''<FS_TREE>/'' else []) @ bs_path v]"
proof -
  let ?p = "(if out then ''<FS_TREE>/'' else []) @ bs_path v"
  have "rx True [Grp 0 anyChar] (?p @ []) = Some [?p]"
    using assms by (intro rx_Grp_class) (auto simp: volume_ok_def)
  then have p: "rx True [Grp 0 anyChar] ?p = Some [?p]" by simp
  note cls = digits_class(1,2)
  have "rx True (Many 1 is_digit # lits '' path '' @ [Grp 0 anyChar]) (nat_str par @ '' path '' @ ?p) = Some [?p]"
    using p cls[of par] by (intro rx_Many_class) (simp_all only: rx_lits, simp_all add: blank_not_digit)
  then have "rx True (Many 1 is_digit # lits '' top level '' @ Many 1 is_digit # lits '' path '' @ [Grp 0 anyChar])
      (nat_str gen @ '' top level '' @ nat_str par @ '' path '' @ ?p) = Some [?p]"
    using cls[of gen] by (intro rx_Many_class) (simp_all only: rx_lits, simp_all add: blank_not_digit)
  then have "rx True (Grp 1 is_digit # lits '' gen '' @ Many 1 is_digit # lits '' top level '' @ Many 1 is_digit #
       lits '' path '' @ [Grp 0 anyChar])
      (nat_str (nat (bs_id v)) @ '' gen '' @ nat_str gen @ '' top level '' @ nat_str par @ '' path '' @ ?p) =
      Some [nat_str (nat (bs_id v)), ?p]"
    using cls[of "nat (bs_id v)"] by (intro rx_Grp_class) (simp_all only: rx_lits, simp_all add: blank_not_digit)
  then have m: "rx True (lits ''ID '' @ Grp 1 is_digit # lits '' gen '' @ Many 1 is_digit # lits '' top level '' @
       Many 1 is_digit # lits '' path '' @ [Grp 0 anyChar])
      (''ID '' @ nat_str (nat (bs_id v)) @ '' gen '' @ nat_str gen @ '' top level '' @ nat_str par @ '' path '' @ ?p) =
      Some [nat_str (nat (bs_id v)), ?p]"
    by (subst rx_lits)
  show ?thesis using m assms by (simp add: volumeRegex_def volumeLine_def volume_ok_def Itoa_def split del: if_split)
qed

lemma volumeLine_ok: "volume_ok v \<Longrightarrow> line_ok (volumeLine gen par out v)"
  using digits_class(3)[of gen] digits_class(3)[of par] digits_class(3)[of "nat (bs_id v)"]
  by (auto simp: line_ok_def volumeLine_def volume_ok_def Itoa_def field_ok_def is_space_def)

lemma TrimPrefix_tree:
  "volume_ok v \<Longrightarrow> TrimPrefix ((if out then ''<FS_TREE>/'' else []) @ bs_path v) ''<FS_TREE>/'' = bs_path v"
  by (simp add: TrimPrefix_def volume_ok_def HasPrefix_def)

lemma parseVolumes_lines:
  assumes "vols \<noteq> []" "\<forall>v \<in> set vols. volume_ok v"
  shows "parseVolumes (TrimSpace (strings_Join (map (\<lambda>v. volumeLine (gen v) (par v) (out v) v) vols) [CHR 0x0A] @ [CHR 0x0A])) = vols"
    (is "parseVolumes (TrimSpace ?s) = vols")
proof -
  let ?f = "\<lambda>line. case rx True volumeRegex line of
       Some [i, p] \<Rightarrow> Some \<lparr>bs_path = TrimPrefix p ''<FS_TREE>/'', bs_id = AtoiVal i\<rparr> | _ \<Rightarrow> None"
  have "scanTrimmed ?s = map (\<lambda>v. volumeLine (gen v) (par v) (out v) v) vols"
    using assms volumeLine_ok by (intro scanTrimmed_lines) auto
  moreover have "parseVolumes (TrimSpace ?s) = List.map_filter ?f (scanTrimmed ?s)"
    by (simp add: parseVolumes_def scanTrimmed_def List.map_filter_def filter_map comp_def)
  moreover have "?f (volumeLine (gen v) (par v) (out v) v) = Some v" if "v \<in> set vols" for v
    using that assms by (simp add: rx_volumeLine TrimPrefix_tree AtoiVal_def Atoi_Itoa volume_ok_def)
  then have "List.map_filter ?f (map (\<lambda>v. volumeLine (gen v) (par v) (out v) v) vols) = vols"
    by (simp add: List.map_filter_def filter_map comp_def cong: map_cong filter_cong)
  ultimately show ?thesis by simp
qed

lemma rx_snapshotPath:
  assumes "0 \<le> i"
  shows "rx_search snapshotPathRegex (''@/'' @ snapshotPathTmpl i) = Some [Itoa i]"
proof -
  have "rx False (Grp 1 is_digit # lits ''/snapshot'' @ []) (Itoa i @ ''/snapshot'' @ []) = Some [Itoa i]"
    using digits_class(1,2)[of "nat i"] assms
    by (intro rx_Grp_class) (simp_all only: rx_lits, simp_all add: Itoa_def is_digit_def)
  then have "rx False (lits ''snapshots/'' @ Grp 1 is_digit # lits ''/snapshot'') (''snapshots/'' @ Itoa i @ ''/snapshot'') =
      Some [Itoa i]" by (subst rx_lits) simp
  then show ?thesis
    by (simp add: snapshotPathRegex_def snapshotPathTmpl_def rx_search_Cons lits_def)
qed

text \<open>The subvolumes of an initialised state partition: the top one, the one of the snapshots, the snapshots.\<close>

definition snapVol :: "(int \<Rightarrow> int) \<Rightarrow> int \<Rightarrow> btrfsSubvol" where
  "snapVol vid i = \<lparr>bs_path = ''@/'' @ snapshotPathTmpl i, bs_id = vid i\<rparr>"

definition stateVols :: "int \<Rightarrow> int \<Rightarrow> (int \<Rightarrow> int) \<Rightarrow> int list \<Rightarrow> btrfsSubvol list" where
  "stateVols r s vid ids = \<lparr>bs_path = ''@'', bs_id = r\<rparr> # \<lparr>bs_path = ''@/.snapshots'', bs_id = s\<rparr> # map (snapVol vid) ids"

lemma ids_snapVols:
  "\<forall>i \<in> set ids. 0 \<le> i \<and> int_range i \<Longrightarrow> subvolumesListToSnapshotsIDs (map (snapVol vid) ids) = ids"
  by (induction ids) (simp_all add: subvolumesListToSnapshotsIDs_def snapVol_def rx_snapshotPath[simplified] AtoiVal_def Atoi_Itoa)

lemma ids_stateVols:
  assumes "\<forall>i \<in> set ids. 0 \<le> i \<and> int_range i"
  shows "subvolumesListToSnapshotsIDs (stateVols r s vid ids) = ids"
proof -
  have "rx_search snapshotPathRegex ''@'' = None" "rx_search snapshotPathRegex ''@/.snapshots'' = None"
    by (simp_all add: rx_search_Cons snapshotPathRegex_def lits_def rx_search_def rx.simps(4) runs_def)
  then show ?thesis using ids_snapVols[OF assms] by (simp add: stateVols_def subvolumesListToSnapshotsIDs_def)
qed

lemma volume_ok_state:
  assumes "0 \<le> r" "int_range r" "0 \<le> s" "int_range s" "\<forall>i \<in> set ids. 0 \<le> vid i \<and> int_range (vid i) \<and> 0 < i"
  shows "\<forall>v \<in> set (stateVols r s vid ids). volume_ok v"
proof -
  have "volume_ok (snapVol vid i)" if "i \<in> set ids" for i
    using that assms digits_class(3)[of "nat i"]
    by (auto simp: volume_ok_def snapVol_def snapshotPathTmpl_def Itoa_def field_ok_def HasPrefix_def is_space_def)
  then show ?thesis using assms by (auto simp: stateVols_def volume_ok_def is_space_def HasPrefix_def)
qed

text \<open>
  Documented behaviour of the btrfs tool: \<^verbatim>\<open>subvolume list\<close> and \<^verbatim>\<open>subvolume get-default\<close> print, here \<open>out\<close> and
  \<open>dflt\<close>, and change nothing. No command writes the log of the commands that were run.
\<close>

definition btrfsLists :: "Config \<Rightarrow> string \<Rightarrow> string \<Rightarrow> string \<Rightarrow> bool" where
  "btrfsLists cfg rootDir out dflt \<longleftrightarrow>
     (\<forall>w. cfg_Run cfg ''btrfs'' [''subvolume'', ''list'', ''-a'', ''--sort=path'', rootDir] w = ((None, out), w)) \<and>
     (\<forall>w. cfg_Run cfg ''btrfs'' [''subvolume'', ''get-default'', rootDir] w = ((None, dflt), w))"

definition listCmds :: "string \<Rightarrow> (string \<times> string list) list" where
  "listCmds rootDir = [(''btrfs'', [''subvolume'', ''list'', ''-a'', ''--sort=path'', rootDir]),
     (''btrfs'', [''subvolume'', ''get-default'', rootDir])]"

definition deleteCmd :: "string \<Rightarrow> int \<Rightarrow> string \<times> string list" where
  "deleteCmd rootDir sid = (''btrfs'', [''subvolume'', ''delete'', Join [rootDir, snapshotPathTmpl sid]])"

definition volLines :: "(btrfsSubvol \<Rightarrow> nat) \<Rightarrow> (btrfsSubvol \<Rightarrow> nat) \<Rightarrow> (btrfsSubvol \<Rightarrow> bool) \<Rightarrow> btrfsSubvol list \<Rightarrow> string" where
  "volLines gen par out vols =
     strings_Join (map (\<lambda>v. volumeLine (gen v) (par v) (out v) v) vols) [CHR 0x0A] @ [CHR 0x0A]"

lemma ListSnapshots_eq:
  assumes "btrfsLists (bb_cfg b) rootDir out dflt"
    and "subvolumesListToSnapshotsIDs (parseVolumes (TrimSpace dflt)) = (if a = 0 then [] else [a])"
  shows "bb_ListSnapshots b rootDir w =
    (Inr \<lparr>sl_IDs = subvolumesListToSnapshotsIDs (parseVolumes (TrimSpace out)), sl_ActiveID = a\<rparr>,
     w\<lparr>cmds := cmds w @ listCmds rootDir\<rparr>)"
  using assms by (simp add: bb_ListSnapshots_def getSubvolumes_def bb_getActiveSnapshot_def RunE_def Run_def bindIO_def
      retIO_def btrfsLists_def listCmds_def)

text \<open>The subvolume ids the tool shows are 64-bit numbers.\<close>

definition vols_ok :: "int \<Rightarrow> int \<Rightarrow> (int \<Rightarrow> int) \<Rightarrow> int list \<Rightarrow> bool" where
  "vols_ok r s vid ids \<longleftrightarrow> 0 \<le> r \<and> int_range r \<and> 0 \<le> s \<and> int_range s \<and>
     (\<forall>i \<in> set ids. 0 < i \<and> int_range i \<and> 0 \<le> vid i \<and> int_range (vid i))"

lemma listing_ids:
  assumes "vols_ok r s vid ids"
  shows "subvolumesListToSnapshotsIDs (parseVolumes (TrimSpace (volLines gen par out (stateVols r s vid ids)))) = ids"
proof -
  have "\<forall>v \<in> set (stateVols r s vid ids). volume_ok v" "\<forall>i \<in> set ids. 0 \<le> i \<and> int_range i"
    using assms volume_ok_state[of r s ids vid] by (auto simp: vols_ok_def)
  moreover have "stateVols r s vid ids \<noteq> []" by (simp add: stateVols_def)
  ultimately show ?thesis using parseVolumes_lines ids_stateVols by (simp add: volLines_def)
qed

lemma default_ids:
  assumes "vols_ok r s vid ids" "a \<in> set ids"
  shows "subvolumesListToSnapshotsIDs (parseVolumes (TrimSpace (volLines gen par out [snapVol vid a]))) = [a]"
proof -
  have "\<forall>v \<in> set [snapVol vid a]. volume_ok v"
    using assms volume_ok_state[of r s ids vid] by (auto simp: vols_ok_def stateVols_def)
  from parseVolumes_lines[OF _ this, of gen par out]
  have "parseVolumes (TrimSpace (volLines gen par out [snapVol vid a])) = [snapVol vid a]" by (simp add: volLines_def)
  moreover have "0 \<le> a" "int_range a" using assms by (auto simp: vols_ok_def)
  ultimately show ?thesis using ids_snapVols[of "[a]" vid] by simp
qed

text \<open>
  Property C31. Listing the snapshots reads the printed tables exactly: for a state partition with the top subvolume, the
  subvolume of the snapshots and the snapshots \<open>ids\<close>, of which \<open>a\<close> is the default, whatever generations, parents and
  path prefixes the tool prints, the list holds \<open>ids\<close> in order with \<open>a\<close> active, and only the two commands were run.
\<close>

theorem ListSnapshots_reads:
  assumes "btrfsLists (bb_cfg b) rootDir (volLines gen par out (stateVols r s vid ids)) (volLines gen' par' out' [snapVol vid a])"
    and "vols_ok r s vid ids" and "a \<in> set ids"
  shows "bb_ListSnapshots b rootDir w =
    (Inr \<lparr>sl_IDs = ids, sl_ActiveID = a\<rparr>, w\<lparr>cmds := cmds w @ listCmds rootDir\<rparr>)"
proof -
  have "a \<noteq> 0" using assms(2,3) by (auto simp: vols_ok_def)
  then show ?thesis using ListSnapshots_eq[OF assms(1)] default_ids[OF assms(2,3)] listing_ids[OF assms(2)] by simp
qed

definition btrfsConfig :: "string \<Rightarrow> string \<Rightarrow> Config" where
  "btrfsConfig out dflt = demoConfig\<lparr>cfg_Run := (\<lambda>c args w. ((None,
     if c = ''btrfs'' \<and> take 2 args = [''subvolume'', ''list''] then out
     else if c = ''btrfs'' \<and> take 2 args = [''subvolume'', ''get-default''] then dflt else []), w))\<rparr>"

definition demoBtrfs :: "int list \<Rightarrow> int \<Rightarrow> int \<Rightarrow> btrfsBackend" where
  "demoBtrfs ids a cur = \<lparr>bb_cfg = btrfsConfig (volLines (\<lambda>_. 7) (\<lambda>_. 5) (\<lambda>_. True) (stateVols 256 257 (\<lambda>i. i + 257) ids))
       (volLines (\<lambda>_. 7) (\<lambda>_. 5) (\<lambda>_. False) [snapVol (\<lambda>i. i + 257) a]),
     bb_currentID = cur, bb_activeID = a, bb_maxSnapshots = 2\<rparr>"

lemma demoBtrfs_lists:
  "btrfsLists (bb_cfg (demoBtrfs ids a cur)) rootDir
     (volLines (\<lambda>_. 7) (\<lambda>_. 5) (\<lambda>_. True) (stateVols 256 257 (\<lambda>i. i + 257) ids))
     (volLines (\<lambda>_. 7) (\<lambda>_. 5) (\<lambda>_. False) [snapVol (\<lambda>i. i + 257) a])"
  "keepsLog (bb_cfg (demoBtrfs ids a cur))" "bb_currentID (demoBtrfs ids a cur) = cur"
  "bb_activeID (demoBtrfs ids a cur) = a" "bb_maxSnapshots (demoBtrfs ids a cur) = 2"
  by (simp_all add: demoBtrfs_def btrfsLists_def btrfsConfig_def demoConfig_def keepsLog_def)

theorem ListSnapshots_reads_witness:
  "fst (bb_ListSnapshots (demoBtrfs [1, 2, 10] 10 2) ''/s'' demoWorld) = Inr \<lparr>sl_IDs = [1, 2, 10], sl_ActiveID = 10\<rparr>"
  using ListSnapshots_reads[OF demoBtrfs_lists(1), of "[1, 2, 10]" 10 2 "''/s''" demoWorld]
  by (simp add: vols_ok_def int_range_def min_int_def max_int_def)

subsection \<open>The clean-up\<close>

lemma demo_ids:
  assumes "vols_ok 256 257 (\<lambda>i. i + 257) ids" "a \<in> set ids"
  shows "subvolumesListToSnapshotsIDs (parseVolumes (TrimSpace
       (volLines (\<lambda>_. 7) (\<lambda>_. 5) (\<lambda>_. True) (stateVols 256 257 (\<lambda>i. i + 257) ids)))) = ids"
    and "subvolumesListToSnapshotsIDs (parseVolumes (TrimSpace
       (volLines (\<lambda>_. 7) (\<lambda>_. 5) (\<lambda>_. False) [snapVol (\<lambda>i. i + 257) a]))) = [a]"
  using listing_ids[OF assms(1)] default_ids[OF assms] by auto

lemma RemoveAll_cmds: "utils_RemoveAll p w = (r, w') \<Longrightarrow> cmds w' = cmds w"
  by (auto simp: utils_RemoveAll_def fs_RemoveAll_def sysIO_def Let_def split: if_splits)

lemma Delete_cmds:
  assumes "keepsLog (bb_cfg b)" "bb_DeleteSnapshot b rootDir i w = (r, w')" "0 < i" "i \<noteq> bb_currentID b"
  shows "cmds w' = cmds w @ [deleteCmd rootDir i]"
proof -
  obtain dr w1 where d: "RunE (bb_cfg b) ''btrfs'' [''subvolume'', ''delete'', Join [rootDir, snapshotPathTmpl i]] w = (dr, w1)"
    by fastforce
  from RunE_cmds[OF assms(1) this] have "cmds w1 = cmds w @ [deleteCmd rootDir i]" by (simp add: deleteCmd_def)
  then show ?thesis using assms(2-4) d RemoveAll_cmds
    by (cases dr) (auto simp: bb_DeleteSnapshot_def bindIO_def)
qed

text \<open>The snapshots the clean-up may delete: the oldest ones beyond the limit, up to the running one.\<close>

definition victims :: "int \<Rightarrow> nat \<Rightarrow> int list \<Rightarrow> int list" where
  "victims cur n ids = takeWhile (\<lambda>i. i \<noteq> cur) (take n ids)"

lemma cleanLoop_cmds:
  assumes "keepsLog (bb_cfg b)" and "n \<le> length ids" and "\<forall>i \<in> set ids. 0 < i"
    and "bb_cleanLoop b rootDir n ids w = (r, w')"
  shows "\<exists>m \<le> length (victims (bb_currentID b) n ids).
      cmds w' = cmds w @ map (deleteCmd rootDir) (take m (victims (bb_currentID b) n ids)) \<and>
      (r = Inr () \<longrightarrow> m = length (victims (bb_currentID b) n ids))"
  using assms(2-)
proof (induction n arbitrary: ids w)
  case 0
  then show ?case by (simp add: retIO_def victims_def)
next
  case (Suc n)
  from Suc.prems(1) obtain i js where ids: "ids = i # js" by (cases ids) auto
  show ?case
  proof (cases "i = bb_currentID b")
    case True
    then show ?thesis using Suc.prems by (simp add: retIO_def ids victims_def)
  next
    case False
    let ?ds = "victims (bb_currentID b) n js"
    have v: "victims (bb_currentID b) (Suc n) ids = i # ?ds" using False by (simp add: victims_def ids)
    obtain dr w1 where d: "bb_DeleteSnapshot b rootDir i w = (dr, w1)" by fastforce
    have c1: "cmds w1 = cmds w @ [deleteCmd rootDir i]"
      using Delete_cmds[OF assms(1) d] Suc.prems(2) False by (simp add: ids)
    show ?thesis
    proof (cases dr)
      case (Inl e)
      then show ?thesis using Suc.prems(3) False d c1 v
        by (intro exI[of _ 1]) (auto simp: ids thenIO_def bindIO_def)
    next
      case (Inr u)
      then have "bb_cleanLoop b rootDir n js w1 = (r, w')" using Suc.prems(3) False d by (simp add: ids thenIO_def bindIO_def)
      from Suc.IH[OF _ _ this] Suc.prems(1,2) obtain m where "m \<le> length ?ds"
        "cmds w' = cmds w1 @ map (deleteCmd rootDir) (take m ?ds)" "r = Inr () \<longrightarrow> m = length ?ds" by (auto simp: ids)
      then show ?thesis using c1 v by (intro exI[of _ "Suc m"]) auto
    qed
  qed
qed

lemma victims_newer:
  assumes "distinct ids" "n \<le> length ids" "i \<in> set (victims cur n (sort ids))"
  shows "i \<in> set ids" and "i \<noteq> cur" and "length ids - n \<le> card {j \<in> set ids. i < j}"
proof -
  have i: "i \<in> set (take n (sort ids))" "i \<noteq> cur" using assms(3) set_takeWhileD by (fastforce simp: victims_def)+
  then show "i \<in> set ids" "i \<noteq> cur" using in_set_takeD by fastforce+
  from i(1) obtain k where k: "k < n" "sort ids ! k = i" using assms(2) by (auto simp: in_set_conv_nth)
  have d: "distinct (sort ids)" using assms(1) by simp
  have "set (drop n (sort ids)) \<subseteq> {j \<in> set ids. i < j}"
  proof
    fix j assume "j \<in> set (drop n (sort ids))"
    then obtain m where m: "n \<le> m" "m < length ids" "sort ids ! m = j" by (auto simp: in_set_conv_nth) (metis le_add1 add.commute less_diff_conv)
    then have "i \<le> j" using sorted_nth_mono[of "sort ids" k m] k by auto
    moreover have "i \<noteq> j" using nth_eq_iff_index_eq[OF d, of k m] k m by auto
    ultimately show "j \<in> {j \<in> set ids. i < j}" using m nth_mem[of m "sort ids"] by auto
  qed
  moreover have "card (set (drop n (sort ids))) = length ids - n" using d by (simp add: distinct_card)
  ultimately show "length ids - n \<le> card {j \<in> set ids. i < j}"
    using card_mono[of "{j \<in> set ids. i < j}" "set (drop n (sort ids))"] by simp
qed

text \<open>
  Property C10. The clean-up of old snapshots, for every outcome: after the two listings it runs only deletions,
  in the order of age, of snapshots that exist, are not the running one and have at least \<open>maxSnapshots\<close> newer ones;
  when it succeeds it has tried all of them up to the running one.
\<close>

theorem SnapshotsCleanup_oldest:
  assumes run: "bb_SnapshotsCleanup b rootDir w = (r, w')"
    and "btrfsLists (bb_cfg b) rootDir out dflt" and log: "keepsLog (bb_cfg b)"
    and "subvolumesListToSnapshotsIDs (parseVolumes (TrimSpace dflt)) = [a]" and "a \<noteq> 0"
    and ids: "ids = subvolumesListToSnapshotsIDs (parseVolumes (TrimSpace out))"
    and pos: "\<forall>i \<in> set ids. 0 < i" and dist: "distinct ids" and len: "int (length ids) \<le> max_int"
    and mx: "0 \<le> bb_maxSnapshots b" "bb_maxSnapshots b \<le> max_int"
  shows "\<exists>ds. cmds w' = cmds w @ listCmds rootDir @ map (deleteCmd rootDir) ds \<and> sorted ds \<and>
    (\<forall>i \<in> set ds. i \<in> set ids \<and> i \<noteq> bb_currentID b \<and> bb_maxSnapshots b \<le> int (card {j \<in> set ids. i < j})) \<and>
    (r = Inr () \<longrightarrow> ds = victims (bb_currentID b) (length ids - nat (bb_maxSnapshots b)) (sort ids))"
proof -
  let ?w = "w\<lparr>cmds := cmds w @ listCmds rootDir\<rparr>"
  let ?n = "length ids - nat (bb_maxSnapshots b)"
  let ?k = "int (length ids) - bb_maxSnapshots b"
  have wrap: "wrap_int ?k = ?k" using len mx by (intro wrap_int_id) (simp add: int_range_def min_int_def max_int_def)
  have n: "nat ?k = ?n" by (simp add: nat_diff_distrib' mx)
  have loop: "whenIO (?k > 0) (bb_cleanLoop b rootDir ?n (sort ids)) ?w = (r, w')"
    using run ListSnapshots_eq[OF assms(2), of a w] assms(4,5) wrap n
    by (simp add: bb_SnapshotsCleanup_def bindIO_def ids[symmetric] Let_def)
  show ?thesis
  proof (cases "?k > 0")
    case False
    then have "?n = 0" by simp
    then show ?thesis using loop False by (intro exI[of _ "[]"]) (auto simp: whenIO_def retIO_def victims_def)
  next
    case True
    then have "bb_cleanLoop b rootDir ?n (sort ids) ?w = (r, w')" using loop by (simp add: whenIO_def)
    from cleanLoop_cmds[OF log _ _ this] pos obtain m where m: "m \<le> length (victims (bb_currentID b) ?n (sort ids))"
      "cmds w' = cmds ?w @ map (deleteCmd rootDir) (take m (victims (bb_currentID b) ?n (sort ids)))"
      "r = Inr () \<longrightarrow> m = length (victims (bb_currentID b) ?n (sort ids))" by auto
    let ?ds = "take m (victims (bb_currentID b) ?n (sort ids))"
    have "sorted ?ds" unfolding victims_def by (intro sorted_wrt_take sorted_wrt_takeWhile) simp
    moreover have "i \<in> set ids \<and> i \<noteq> bb_currentID b \<and> bb_maxSnapshots b \<le> int (card {j \<in> set ids. i < j})"
      if "i \<in> set ?ds" for i
      using victims_newer[OF dist _ in_set_takeD[OF that]] True mx by auto
    ultimately show ?thesis using m by (intro exI[of _ ?ds]) auto
  qed
qed

theorem SnapshotsCleanup_oldest_witness:
  "\<exists>w'. bb_SnapshotsCleanup (demoBtrfs [1, 2, 3, 4, 10] 10 3) ''/s'' demoWorld = (Inr (), w') \<and>
     cmds w' = listCmds ''/s'' @ [deleteCmd ''/s'' 1, deleteCmd ''/s'' 2]"
proof -
  let ?b = "demoBtrfs [1, 2, 3, 4, 10] 10 3"
  have ok: "vols_ok 256 257 (\<lambda>i. i + 257) [1, 2, 3, 4, 10]" by (simp add: vols_ok_def int_range_def min_int_def max_int_def)
  note ids = demo_ids[OF ok, of 10]
  have del: "\<exists>w'. bb_DeleteSnapshot ?b ''/s'' i w = (Inr (), w') \<and> faults w' = faults w"
    if "0 < i" "i \<noteq> 3" "\<forall>n. \<not> faults w n" for i w
    using that by (auto simp: bb_DeleteSnapshot_def RunE_def Run_def bindIO_def retIO_def demoBtrfs_def btrfsConfig_def
        utils_RemoveAll_def fs_RemoveAll_def sysIO_def Let_def)
  obtain w1 where 1: "bb_DeleteSnapshot ?b ''/s'' 1 (demoWorld\<lparr>cmds := cmds demoWorld @ listCmds ''/s''\<rparr>) = (Inr (), w1)"
    "\<forall>n. \<not> faults w1 n"
    using del[of 1 "demoWorld\<lparr>cmds := cmds demoWorld @ listCmds ''/s''\<rparr>"] by (auto simp: demoWorld_def)
  obtain w2 where 2: "bb_DeleteSnapshot ?b ''/s'' 2 w1 = (Inr (), w2)" using del[of 2 w1] 1 by auto
  have lst: "bb_ListSnapshots ?b ''/s'' demoWorld = (Inr \<lparr>sl_IDs = [1, 2, 3, 4, 10], sl_ActiveID = 10\<rparr>,
      demoWorld\<lparr>cmds := cmds demoWorld @ listCmds ''/s''\<rparr>)"
    using ListSnapshots_eq[where b = ?b and rootDir = "''/s''" and a = 10 and w = demoWorld, OF demoBtrfs_lists(1)] ids by simp
  have three: "nat (wrap_int (int (length [1::int, 2, 3, 4, 10]) - 2)) = Suc (Suc (Suc 0))"
    "0 < wrap_int (int (length [1::int, 2, 3, 4, 10]) - 2)"
    by (simp_all add: wrap_int_id int_range_def min_int_def max_int_def)
  have loop: "bb_cleanLoop ?b ''/s'' (Suc (Suc (Suc 0))) (sort [1, 2, 3, 4, 10])
      (demoWorld\<lparr>cmds := cmds demoWorld @ listCmds ''/s''\<rparr>) = (Inr (), w2)"
    using 1(1) 2 by (simp add: demoBtrfs_lists(3) thenIO_def bindIO_def retIO_def)
  have run: "bb_SnapshotsCleanup ?b ''/s'' demoWorld = (Inr (), w2)"
    using lst loop three by (simp add: bb_SnapshotsCleanup_def bindIO_def Let_def whenIO_def demoBtrfs_lists(5) del: bb_cleanLoop.simps)
  have "\<exists>ds. cmds w2 = cmds demoWorld @ listCmds ''/s'' @ map (deleteCmd ''/s'') ds \<and>
      ds = victims 3 (Suc (Suc (Suc 0))) [1, 2, 3, 4, 10]"
    using SnapshotsCleanup_oldest[where ids = "[1, 2, 3, 4, 10]" and a = 10, OF run demoBtrfs_lists(1,2)] ids
    by (simp add: demoBtrfs_lists(3,5) max_int_def)
  then show ?thesis using run by (simp add: victims_def demoWorld_def)
qed

end
