(* ===== verification/Btrfs.thy ===== *)
theory Btrfs
  imports Btrfs_Backend
begin

section \<open>The btrfs snapshotter (pkg/snapshotter/btrfs.go)\<close>

text \<open>
  Snapshots are btrfs subvolumes below \<^verbatim>\<open>.snapshots\<close>, the default subvolume is the one to boot. The state partition is
  mounted at its top subvolume, and the subvolume with the snapshots is mounted inside the active snapshot; the two
  function fields \<open>snapshotsMount\<close> and \<open>snapshotsUmount\<close> do and undo the latter. \<open>InitSnapshotter\<close> also changes the mount
  point of the state partition, so it works on the pair of the snapshotter and the partition.
\<close>

subsection \<open>The backends behind one interface\<close>

datatype subvolumeBackend = BtrfsB btrfsBackend | SnapperB snapperBackend

definition be_Probe :: "string \<Rightarrow> string \<Rightarrow> (subvolumeBackend \<times> world, backendStat) io" where
  "be_Probe device mountpoint = (\<lambda>(be, w). case be of
     BtrfsB b \<Rightarrow> (case bb_Probe device mountpoint (b, w) of (r, (b', w')) \<Rightarrow> (r, (BtrfsB b', w')))
   | SnapperB s \<Rightarrow> (case sb_Probe device mountpoint (s, w) of (r, (s', w')) \<Rightarrow> (r, (SnapperB s', w'))))"

definition be_InitBrfsPartition :: "subvolumeBackend \<Rightarrow> string \<Rightarrow> (world, unit) io" where
  "be_InitBrfsPartition be rootDir =
     (case be of BtrfsB b \<Rightarrow> bb_InitBrfsPartition b rootDir | SnapperB s \<Rightarrow> sb_InitBrfsPartition s rootDir)"

definition be_CreateNewSnapshot :: "subvolumeBackend \<Rightarrow> string \<Rightarrow> int \<Rightarrow> (world, Snapshot) io" where
  "be_CreateNewSnapshot be rootDir baseID =
     (case be of BtrfsB b \<Rightarrow> bb_CreateNewSnapshot b rootDir baseID | SnapperB s \<Rightarrow> sb_CreateNewSnapshot s rootDir baseID)"

definition be_CommitSnapshot :: "subvolumeBackend \<Rightarrow> string \<Rightarrow> Snapshot \<Rightarrow> (world, unit) io" where
  "be_CommitSnapshot be rootDir snapshot =
     (case be of BtrfsB b \<Rightarrow> bb_CommitSnapshot b rootDir snapshot | SnapperB s \<Rightarrow> sb_CommitSnapshot s rootDir snapshot)"

definition be_ListSnapshots :: "subvolumeBackend \<Rightarrow> string \<Rightarrow> (world, snapshotsList) io" where
  "be_ListSnapshots be rootDir =
     (case be of BtrfsB b \<Rightarrow> bb_ListSnapshots b rootDir | SnapperB s \<Rightarrow> sb_ListSnapshots s rootDir)"

definition be_DeleteSnapshot :: "subvolumeBackend \<Rightarrow> string \<Rightarrow> int \<Rightarrow> (world, unit) io" where
  "be_DeleteSnapshot be rootDir sid =
     (case be of BtrfsB b \<Rightarrow> bb_DeleteSnapshot b rootDir sid | SnapperB s \<Rightarrow> sb_DeleteSnapshot s rootDir sid)"

definition be_SnapshotsCleanup :: "subvolumeBackend \<Rightarrow> string \<Rightarrow> (world, unit) io" where
  "be_SnapshotsCleanup be rootDir =
     (case be of BtrfsB b \<Rightarrow> bb_SnapshotsCleanup b rootDir | SnapperB s \<Rightarrow> sb_SnapshotsCleanup s rootDir)"

definition NewSubvolumeBackend :: "Config \<Rightarrow> BtrfsConfig \<Rightarrow> int \<Rightarrow> subvolumeBackend" where
  "NewSubvolumeBackend cfg bCfg maxSnaps =
     (if bt_Snapper bCfg then SnapperB (newSnapperBackend cfg maxSnaps) else BtrfsB (newBtrfsBackend cfg maxSnaps))"

subsection \<open>The snapshotter\<close>

definition GrubActiveSnapshot :: string where "GrubActiveSnapshot = ''active_snap''"

record Btrfs =
  b_cfg :: Config
  b_snapshotterCfg :: SnapshotterConfig
  b_btrfsCfg :: BtrfsConfig
  b_rootDir :: string
  b_efiDir :: string
  b_activeSnapshotID :: int
  b_SetPersistentVariables :: "string \<Rightarrow> (string \<times> string) list \<Rightarrow> (world, unit) io"
  b_backend :: subvolumeBackend
  b_snapshotsUmount :: "(world, unit) io"
  b_snapshotsMount :: "(world, unit) io"

definition newBtrfsSnapshotter ::
  "Config \<Rightarrow> SnapshotterConfig \<Rightarrow> (string \<Rightarrow> (string \<times> string) list \<Rightarrow> (world, unit) io) \<Rightarrow> err + Btrfs" where
  "newBtrfsSnapshotter cfg snapCfg setVars =
     (if sc_Type snapCfg \<noteq> BtrfsSnapshotterType then Inl (Errorf ''invalid snapshotter type'')
      else (case (case sc_Config snapCfg of NilConf \<Rightarrow> Some NewBtrfsConfig | BtrfsConf bc \<Rightarrow> Some bc | _ \<Rightarrow> None) of
              None \<Rightarrow> Inl (Errorf ''failed casting BtrfsConfig type'')
            | Some bc \<Rightarrow> Inr \<lparr>b_cfg = cfg, b_snapshotterCfg = snapCfg, b_btrfsCfg = bc, b_rootDir = [], b_efiDir = [],
                 b_activeSnapshotID = 0, b_SetPersistentVariables = setVars,
                 b_backend = NewSubvolumeBackend cfg bc (sc_MaxSnaps snapCfg),
                 b_snapshotsUmount = retIO (), b_snapshotsMount = retIO ()\<rparr>))"

definition Btrfs_GetSnapshots :: "(Btrfs \<times> world, int list) io" where
  "Btrfs_GetSnapshots = bindIO getO (\<lambda>b.
     let listed = bindIO (liftW (be_ListSnapshots (b_backend b) (b_rootDir b))) (\<lambda>snapList.
           thenIO (modO (\<lambda>b. b\<lparr>b_activeSnapshotID := sl_ActiveID snapList\<rparr>)) (retIO (sl_IDs snapList)));
         snapshotsSubvolume = Join [b_rootDir b, snapshotPathTmpl (b_activeSnapshotID b), snapshotsPath] in
     if b_rootDir b = [] then failIO (Errorf ''snapshotter not initiated yet'')
     else if b_activeSnapshotID b > 0 then
       bindIO (liftW (okIO True (mnt_IsLikelyNotMountPoint snapshotsSubvolume))) (\<lambda>notMnt.
         if notMnt then
           thenIO (liftW (b_snapshotsMount b))
             (finallyIO listed (\<lambda>e. bindIO (tryIO (liftW (b_snapshotsUmount b))) (\<lambda>nErr.
                retIO (if e = None then nErr else None))))
         else listed)
     else retIO [])"

definition Btrfs_DeleteSnapshot :: "int \<Rightarrow> (Btrfs \<times> world, unit) io" where
  "Btrfs_DeleteSnapshot sid = bindIO Btrfs_GetSnapshots (\<lambda>snapshots.
     if sid \<notin> set snapshots then retIO ()
     else bindIO getO (\<lambda>b. liftW (be_DeleteSnapshot (b_backend b) (b_rootDir b) sid)))"

definition Btrfs_getPassiveSnapshots :: "(Btrfs \<times> world, int list) io" where
  "Btrfs_getPassiveSnapshots = bindIO Btrfs_GetSnapshots (\<lambda>snapshots.
     bindIO getO (\<lambda>b. retIO (filter (\<lambda>s. s \<noteq> b_activeSnapshotID b) snapshots)))"

definition Btrfs_setBootloader :: "int \<Rightarrow> (Btrfs \<times> world, unit) io" where
  "Btrfs_setBootloader activeSnapshotID = bindIO Btrfs_getPassiveSnapshots (\<lambda>ids.
     bindIO getO (\<lambda>b.
       let passives = map Itoa (rev ids); fallbacks = map (\<lambda>i. Itoa (int i)) [0..<length ids + 2] in
       liftW (b_SetPersistentVariables b (Join [b_efiDir b, GrubOEMEnv])
         [(GrubFallback, strings_Join fallbacks '' ''), (GrubPassiveSnapshots, strings_Join passives '' ''),
          (GrubActiveSnapshot, Itoa activeSnapshotID), (''snapshotter'', BtrfsSnapshotterType)])))"

text \<open>The mount of the snapshots subvolume inside the given snapshot, and its undoing.\<close>

definition snapshotsMountAt :: "string \<Rightarrow> string \<Rightarrow> int \<Rightarrow> (world, unit) io" where
  "snapshotsMountAt root device snapshotID =
     mnt_Mount device (Join [Join [root, snapshotPathTmpl snapshotID], snapshotsPath]) ''btrfs''
       [''rw'', ''subvol='' @ Join [rootSubvol, snapshotsPath]]"

definition snapshotsUmountAt :: "string \<Rightarrow> int \<Rightarrow> (world, unit) io" where
  "snapshotsUmountAt root snapshotID = mnt_Unmount (Join [Join [root, snapshotPathTmpl snapshotID], snapshotsPath])"

definition mountSnapshotsSubvolumeInSnapshot :: "string \<Rightarrow> string \<Rightarrow> int \<Rightarrow> (Btrfs \<times> world, unit) io" where
  "mountSnapshotsSubvolumeInSnapshot root device snapshotID =
     thenIO (modO (\<lambda>b. b\<lparr>b_snapshotsMount := snapshotsMountAt root device snapshotID\<rparr>))
     (thenIO (liftW (snapshotsMountAt root device snapshotID))
       (modO (\<lambda>b. b\<lparr>b_snapshotsUmount := snapshotsUmountAt root snapshotID\<rparr>)))"

text \<open>The snapshotter of the pair of snapshotter and state partition.\<close>

definition onSnap :: "('a \<times> world, 'r) io \<Rightarrow> (('a \<times> 'b) \<times> world, 'r) io" where
  "onSnap = zoom fst (\<lambda>x p. (x, snd p))"

definition remountStatePartition :: "((Btrfs \<times> Partition) \<times> world, unit) io" where
  "remountStatePartition = bindIO getO (\<lambda>(b, state).
     thenIO (liftW (mnt_Unmount (p_MountPoint state)))
     (thenIO (liftW (mnt_Mount (p_Path state) (p_MountPoint state) ''btrfs'' [''rw'', ''subvol='' @ rootSubvol]))
       (if b_activeSnapshotID b > 0
        then onSnap (mountSnapshotsSubvolumeInSnapshot (p_MountPoint state) (p_Path state) (b_activeSnapshotID b))
        else retIO ())))"

definition be_field :: "(subvolumeBackend \<times> world, 'r) io \<Rightarrow> (Btrfs \<times> world, 'r) io" where
  "be_field = zoom b_backend (\<lambda>be b. b\<lparr>b_backend := be\<rparr>)"

definition isInitiated :: "((Btrfs \<times> Partition) \<times> world, bool) io" where
  "isInitiated = bindIO getO (\<lambda>(b, state).
     if b_activeSnapshotID b > 0 then retIO True
     else if b_rootDir b \<noteq> [] then retIO False
     else bindIO (onSnap (be_field (be_Probe (p_Path state) (p_MountPoint state)))) (\<lambda>bStat.
       thenIO (modO (\<lambda>(b, state). (b\<lparr>b_activeSnapshotID := st_ActiveID bStat, b_rootDir := st_RootDir bStat\<rparr>,
                 state\<lparr>p_MountPoint := st_StateMount bStat\<rparr>)))
         (retIO (st_ActiveID bStat > 0))))"

definition Btrfs_InitSnapshotter :: "string \<Rightarrow> ((Btrfs \<times> Partition) \<times> world, unit) io" where
  "Btrfs_InitSnapshotter efiDir =
     thenIO (modO (\<lambda>(b, state). (b\<lparr>b_efiDir := efiDir\<rparr>, state)))
     (bindIO isInitiated (\<lambda>ok.
        if ok then
          bindIO (liftW IsActiveMode) (\<lambda>active.
          bindIO (if active then retIO True else liftW IsPassiveMode) (\<lambda>mode.
            if mode then retIO () else remountStatePartition))
        else bindIO getO (\<lambda>(b, state).
          thenIO (liftW (be_InitBrfsPartition (b_backend b) (p_MountPoint state))) remountStatePartition)))"

definition Btrfs_StartTransaction :: "(Btrfs \<times> world, Snapshot) io" where
  "Btrfs_StartTransaction = bindIO getO (\<lambda>b.
     if b_rootDir b = [] then failIO (Errorf ''uninitialized snapshotter'')
     else bindIO (liftW (be_CreateNewSnapshot (b_backend b) (b_rootDir b) (b_activeSnapshotID b))) (\<lambda>snapshot.
       thenIO (liftW (MkdirAll WorkingImgDir DirPerm))
       (thenIO (onErrorIO (liftW (mnt_Mount (sn_WorkDir snapshot) WorkingImgDir ''bind'' [''bind'']))
                 (ignoreIO (Btrfs_DeleteSnapshot 0)))
         (retIO (snapshot\<lparr>sn_MountPoint := WorkingImgDir, sn_InProgress := True\<rparr>)))))"

text \<open>The deferred call of both ways to close a transaction.\<close>

definition umountSnapshots :: "err option \<Rightarrow> (Btrfs \<times> world, err option) io" where
  "umountSnapshots e = bindIO getO (\<lambda>b.
     bindIO (tryIO (liftW (b_snapshotsUmount b))) (\<lambda>newErr. retIO (if e = None then newErr else None)))"

definition Btrfs_CloseTransactionOnError :: "Snapshot \<Rightarrow> (Btrfs \<times> world, unit) io" where
  "Btrfs_CloseTransactionOnError snapshot =
     thenIO (whenIO (sn_InProgress snapshot) (ignoreIO (liftW (mnt_Unmount (sn_MountPoint snapshot)))))
       (finallyIO (Btrfs_DeleteSnapshot (sn_ID snapshot)) umountSnapshots)"

definition closeBody :: "Snapshot \<Rightarrow> (Btrfs \<times> world, unit) io" where
  "closeBody snapshot = bindIO getO (\<lambda>b.
     thenIO (liftW (MkdirAll (Join [sn_WorkDir snapshot, snapshotsPath]) DirPerm))
     (thenIO (liftW (mnt_Unmount (sn_MountPoint snapshot)))
     (thenIO (whenIO (sn_ID snapshot > 1)
        (thenIO (liftW (MirrorData (b_cfg b) (sn_WorkDir snapshot) (sn_Path snapshot) []))
          (liftW (fs_RemoveAll (sn_WorkDir snapshot)))))
     (thenIO (liftW (ApplySELinuxLabels (b_cfg b) (sn_Path snapshot)
        [(Join [b_rootDir b, snapshotsPath], Join [''/'', snapshotsPath])]))
     (thenIO (liftW (be_CommitSnapshot (b_backend b) (b_rootDir b) snapshot))
     (thenIO (liftW (ignoreIO (be_SnapshotsCleanup (b_backend b) (b_rootDir b))))
       (ignoreIO (Btrfs_setBootloader (sn_ID snapshot)))))))))"

definition Btrfs_CloseTransaction :: "Snapshot \<Rightarrow> (Btrfs \<times> world, unit) io" where
  "Btrfs_CloseTransaction snapshot =
     (if \<not> sn_InProgress snapshot then failIO (Errorf ''given snapshot is not in progress'')
      else finallyIO (closeBody snapshot) (\<lambda>e.
        thenIO (whenIO (e \<noteq> None) (ignoreIO (Btrfs_DeleteSnapshot (sn_ID snapshot)))) (umountSnapshots e)))"

definition Btrfs_SnapshotToImageSource :: "Snapshot \<Rightarrow> (world, ImageSource) io" where
  "Btrfs_SnapshotToImageSource snap =
     bindIO (Exists (sn_Path snap) False) (\<lambda>ok.
       if ok then retIO (NewDirSrc (sn_Path snap)) else failIO (Errorf ''snapshot path does not exist''))"

subsection \<open>Interface: what the snapshotter relies on\<close>

text \<open>
  The laws both backends promise: after a successful probe the backend knows the active snapshot it reports, and a new
  snapshot has the path and the work directory its id and base determine; a snapshot of another one has got its
  work directory.
\<close>

locale subvolume_backend =
  fixes probe :: "string \<Rightarrow> string \<Rightarrow> ('b \<times> world, backendStat) io"
    and create :: "'b \<Rightarrow> string \<Rightarrow> int \<Rightarrow> (world, Snapshot) io"
    and active :: "'b \<Rightarrow> int"
  assumes probe_active: "probe d m (b, w) = (Inr st, (b', w')) \<Longrightarrow> active b' = st_ActiveID st"
    and create_path: "create b root base w = (Inr sn, w') \<Longrightarrow> sn_Path sn = Join [root, snapshotPathTmpl (sn_ID sn)]"
    and create_work: "create b root base w = (Inr sn, w') \<Longrightarrow> sn_WorkDir sn =
       (if base = 0 then sn_Path sn else Join [root, snapshotsPath, Itoa (sn_ID sn), snapshotWorkDir])"
    and create_dir: "create b root base w = (Inr sn, w') \<Longrightarrow> base \<noteq> 0 \<Longrightarrow> is_dir_at w' (pathOf (sn_WorkDir sn))"
begin

lemma open_snapshot:
  assumes "create b root base w = (Inr sn, w1)" and "MkdirAll WorkingImgDir DirPerm w1 = (Inr (), w2)"
    and "mnt_Mount (sn_WorkDir sn) WorkingImgDir ''bind'' [''bind''] w2 = (Inr (), w3)"
  shows "mounts w3 = \<lparr>mSource = sn_WorkDir sn, mTarget = WorkingImgDir, mType = ''bind'', mOpts = [''bind'']\<rparr> # mounts w2"
    and "base \<noteq> 0 \<Longrightarrow> is_dir_at w3 (pathOf (sn_WorkDir sn))"
proof -
  show "mounts w3 = \<lparr>mSource = sn_WorkDir sn, mTarget = WorkingImgDir, mType = ''bind'', mOpts = [''bind'']\<rparr> # mounts w2"
    using assms(3) by (auto simp: mnt_Mount_def sysIO_def Let_def split: if_splits)
  show "is_dir_at w3 (pathOf (sn_WorkDir sn))" if "base \<noteq> 0"
    using create_dir[OF assms(1) that] MkdirAll_more(1)[OF assms(2)] sameFiles_more[OF Mount_files[OF assms(3)]] is_dir_more
    by blast
qed

end

lemma WriteFile_dirs:
  assumes "fs_WriteFile p d mode w = (Inr (), w')" "is_dir_at w q"
  shows "is_dir_at w' q"
proof -
  from assms(1) obtain p' where p': "resolve w (pathOf p) = Some p'" "\<forall>m. fs_lookup w p' \<noteq> Some (NDir m)"
    and w': "\<exists>m. w' = fs_set p' (NFile m d) (w\<lparr>ticks := Suc (ticks w)\<rparr>)"
    by (auto simp: fs_WriteFile_def sysIO_def Let_def split: if_splits option.splits node.splits)
  from p'(2) have "p' \<noteq> q" "p' \<noteq> []" using assms(2) by (auto simp: is_dir_at_def split: option.splits node.splits)
  then show ?thesis using assms(2) w' by (auto simp: is_dir_at_def fs_lookup_set)
qed

interpretation bb: subvolume_backend bb_Probe bb_CreateNewSnapshot bb_activeID
proof
  fix d m b w st b' w'
  assume run: "bb_Probe d m (b, w) = (Inr st, (b', w'))"
  have "returns (\<lambda>st s. bb_activeID (fst s) = st_ActiveID st) (statOf c r sm)" for c r sm
    by (auto simp: returns_def statOf_def bindIO_def getO_def retIO_def)
  then have "returns (\<lambda>st s. bb_activeID (fst s) = st_ActiveID st) (bb_Probe d m)"
    unfolding bb_Probe_def by (auto intro!: returns_bind returns_then split: prod.split)
  from returnsD[OF this run] show "bb_activeID b' = st_ActiveID st" by simp
next
  fix b root base w sn w'
  assume run: "bb_CreateNewSnapshot b root base w = (Inr sn, w')"
  then show "sn_Path sn = Join [root, snapshotPathTmpl (sn_ID sn)]"
    by (auto simp: bb_CreateNewSnapshot_def returns_iff retIO_def)
  from run obtain newID w1 wd w2 now where nv: "newVolume b root base newID w1 = (Inr wd, w2)"
    and wr: "writeSnapperSnapshotXML (Join [root, snapshotInfoPath newID]) (newSnapperSnapshotXML now newID ''first root filesystem'') w2 = (Inr (), w')"
    and sn: "sn_WorkDir sn = wd" "sn_ID sn = newID" "sn_Path sn = Join [root, snapshotPathTmpl newID]"
    by (auto simp: bb_CreateNewSnapshot_def returns_iff retIO_def)
  show "sn_WorkDir sn = (if base = 0 then sn_Path sn else Join [root, snapshotsPath, Itoa (sn_ID sn), snapshotWorkDir])"
    using nv sn by (auto simp: newVolume_def returns_iff Let_def retIO_def split: if_splits)
  show "is_dir_at w' (pathOf (sn_WorkDir sn))" if "base \<noteq> 0"
  proof -
    from nv that obtain w3 where "MkdirAll wd DirPerm w3 = (Inr (), w2)"
      by (auto simp: newVolume_def returns_iff Let_def retIO_def onErrorIO_Inr_iff)
    from MkdirAll_more(2)[OF this] show ?thesis
      using WriteFile_dirs wr sn(1) by (simp add: writeSnapperSnapshotXML_def)
  qed
qed

interpretation sb: subvolume_backend sb_Probe sb_CreateNewSnapshot sb_activeID
proof
  fix d m b w st b' w'
  assume "sb_Probe d m (b, w) = (Inr st, (b', w'))"
  then show "sb_activeID b' = st_ActiveID st"
    by (auto simp: sb_Probe_def returns_iff modO_def retIO_def split: prod.splits)
next
  fix b root base w sn w'
  assume run: "sb_CreateNewSnapshot b root base w = (Inr sn, w')"
  then show "sn_Path sn = Join [root, snapshotPathTmpl (sn_ID sn)]"
    "sn_WorkDir sn = (if base = 0 then sn_Path sn else Join [root, snapshotsPath, Itoa (sn_ID sn), snapshotWorkDir])"
    using bb.create_path bb.create_work
    by (auto simp: sb_CreateNewSnapshot_def returns_iff retIO_def Let_def split: if_splits)
  show "is_dir_at w' (pathOf (sn_WorkDir sn))" if "base \<noteq> 0"
    using run that MkdirAll_more(2)
    by (auto simp: sb_CreateNewSnapshot_def returns_iff retIO_def Let_def onErrorIO_Inr_iff)
qed

definition be_active :: "subvolumeBackend \<Rightarrow> int" where
  "be_active be = (case be of BtrfsB b \<Rightarrow> bb_activeID b | SnapperB s \<Rightarrow> sb_activeID s)"

interpretation be: subvolume_backend be_Probe be_CreateNewSnapshot be_active
proof
  fix d m b w st b' w'
  assume "be_Probe d m (b, w) = (Inr st, (b', w'))"
  then show "be_active b' = st_ActiveID st"
    by (auto simp: be_Probe_def be_active_def dest: bb.probe_active sb.probe_active
        split: subvolumeBackend.splits prod.splits)
next
  fix b root base w sn w'
  assume "be_CreateNewSnapshot b root base w = (Inr sn, w')"
  then show "sn_Path sn = Join [root, snapshotPathTmpl (sn_ID sn)]"
    "sn_WorkDir sn = (if base = 0 then sn_Path sn else Join [root, snapshotsPath, Itoa (sn_ID sn), snapshotWorkDir])"
    "base \<noteq> 0 \<Longrightarrow> is_dir_at w' (pathOf (sn_WorkDir sn))"
    unfolding be_CreateNewSnapshot_def
    using bb.create_path sb.create_path bb.create_work sb.create_work bb.create_dir sb.create_dir
    by (cases b; simp; blast)+
qed

text \<open>
  Property C32. An open btrfs transaction, with either backend: the snapshot is in progress, lives below
  \<^verbatim>\<open>.snapshots\<close> under its id, and its work directory is the source of the latest mount, the bind mount at the working
  tree; for a snapshot of the active one the work directory exists.
\<close>

theorem Btrfs_StartTransaction_opens:
  assumes run: "Btrfs_StartTransaction (b, w) = (Inr sn, (b', w'))"
  shows "sn_InProgress sn \<and> sn_MountPoint sn = WorkingImgDir \<and> sn_Path sn = Join [b_rootDir b, snapshotPathTmpl (sn_ID sn)] \<and>
    mounts w' \<noteq> [] \<and>
    hd (mounts w') = \<lparr>mSource = sn_WorkDir sn, mTarget = WorkingImgDir, mType = ''bind'', mOpts = [''bind'']\<rparr> \<and>
    (b_activeSnapshotID b \<noteq> 0 \<longrightarrow> is_dir_at w' (pathOf (sn_WorkDir sn)))"
proof -
  from run obtain s0 w1 w2 where cr: "be_CreateNewSnapshot (b_backend b) (b_rootDir b) (b_activeSnapshotID b) w = (Inr s0, w1)"
    and mk: "MkdirAll WorkingImgDir DirPerm w1 = (Inr (), w2)"
    and mnt: "mnt_Mount (sn_WorkDir s0) WorkingImgDir ''bind'' [''bind''] w2 = (Inr (), w')"
    and sn: "sn = s0\<lparr>sn_MountPoint := WorkingImgDir, sn_InProgress := True\<rparr>"
    by (auto simp: Btrfs_StartTransaction_def returns_iff getO_def liftW_iff onErrorIO_Inr_iff retIO_def failIO_def
        split: if_splits)
  show ?thesis using be.open_snapshot[OF cr mk mnt] be.create_path[OF cr] sn by simp
qed

definition demoSnapshotter :: "subvolumeBackend \<Rightarrow> int \<Rightarrow> Btrfs" where
  "demoSnapshotter be a = \<lparr>b_cfg = demoConfig, b_snapshotterCfg = NewBtrfs, b_btrfsCfg = NewBtrfsConfig, b_rootDir = ''/s'',
     b_efiDir = ''/efi'', b_activeSnapshotID = a, b_SetPersistentVariables = (\<lambda>_ _. retIO ()), b_backend = be,
     b_snapshotsUmount = snapshotsUmountAt ''/s'' a, b_snapshotsMount = snapshotsMountAt ''/s'' ''/dev/sda3'' a\<rparr>"

theorem Btrfs_StartTransaction_opens_witness:
  "\<exists>sn b' w'. Btrfs_StartTransaction (demoSnapshotter (BtrfsB (newBtrfsBackend demoConfig 4)) 0, metaWorld) = (Inr sn, (b', w')) \<and>
     sn_InProgress sn \<and> mSource (hd (mounts w')) = sn_WorkDir sn"
proof -
  let ?s = "(demoSnapshotter (BtrfsB (newBtrfsBackend demoConfig 4)) 0, metaWorld)"
  obtain r b' w' where run: "Btrfs_StartTransaction ?s = (r, (b', w'))" by (metis prod_cases3)
  have "\<not> isl (fst (Btrfs_StartTransaction ?s))" by code_simp
  with run obtain sn where "r = Inr sn" by (cases r) auto
  with run Btrfs_StartTransaction_opens[of "fst ?s" "snd ?s" sn b' w'] show ?thesis by auto
qed

text \<open>
  When the bind mount of a new transaction fails, the snapshot that was just created stays behind: the roll-back
  deletes the snapshot with the id 0. Here the first transaction of a fresh state partition fails at its mount; no
  deletion is run and the metadata of snapshot 1 are still there.
\<close>

theorem Btrfs_start_leaks:
  "let s = (demoSnapshotter (BtrfsB (newBtrfsBackend demoConfig 4)) 0, metaWorld\<lparr>faults := (\<lambda>n. n = 3)\<rparr>);
       (r, (b', w')) = Btrfs_StartTransaction s
   in isl r \<and> mounts w' = [] \<and>
      cmds w' = [(''btrfs'', [''subvolume'', ''create'', ''/s/.snapshots/1/snapshot''])] \<and>
      contentAt w' ''/s/.snapshots/1/info.xml'' \<noteq> None"
  by code_simp

subsection \<open>Listing leaves the mounts alone\<close>

definition be_quiet :: "subvolumeBackend \<Rightarrow> bool" where
  "be_quiet be = quiet (case be of BtrfsB b \<Rightarrow> bb_cfg b | SnapperB s \<Rightarrow> sb_cfg s)"

lemma keeps_List: "be_quiet be \<Longrightarrow> keeps sameMounts (be_ListSnapshots be rootDir)"
  by (auto simp: be_ListSnapshots_def be_quiet_def bb_ListSnapshots_def getSubvolumes_def bb_getActiveSnapshot_def
      sb_ListSnapshots_def intro!: mnts.keeps_bind keeps_RunE keeps_Run mnts.keeps_ret mnts.keeps_fail
      split: subvolumeBackend.splits list.splits option.splits prod.splits)

lemma keeps_notMnt: "keeps sameMounts (mnt_IsLikelyNotMountPoint p)"
  unfolding mnt_IsLikelyNotMountPoint_def
  by (intro mnts.keeps_bind keeps_fs) (simp add: keeps_def sameMounts_def)

lemma try_liftW_None: "tryIO (liftW m) (obj, w) = (Inr None, (obj', w')) \<longleftrightarrow> obj' = obj \<and> m w = (Inr (), w')"
  by (auto simp: tryIO_def liftW_def split: prod.splits sum.splits)

lemma remount_restores:
  assumes "snapshotsMountAt root dev i w = (Inr (), w1)" "sameMounts w1 w2" "snapshotsUmountAt root i w2 = (Inr (), w3)"
  shows "mounts w3 = mounts w"
  using assms by (auto simp: snapshotsMountAt_def snapshotsUmountAt_def mnt_Mount_def mnt_Unmount_def sysIO_def Let_def
      sameMounts_def split: if_splits option.splits)

text \<open>
  Listing the snapshots leaves the mount table as it was: the snapshots subvolume is mounted for the
  listing only, when it is not mounted already.
\<close>

theorem Btrfs_GetSnapshots_restores:
  assumes run: "Btrfs_GetSnapshots (b, w) = (Inr ids, (b', w'))"
    and q: "be_quiet (b_backend b)"
    and fields: "b_snapshotsMount b = snapshotsMountAt root dev i" "b_snapshotsUmount b = snapshotsUmountAt root i"
  shows "mounts w' = mounts w"
proof -
  let ?list = "be_ListSnapshots (b_backend b) (b_rootDir b)"
  let ?p = "Join [b_rootDir b, snapshotPathTmpl (b_activeSnapshotID b), snapshotsPath]"
  note kl = keeps_List[OF q, of "b_rootDir b"]
  consider "w' = w" | (listed) nm w1 where "okIO True (mnt_IsLikelyNotMountPoint ?p) w = (Inr nm, w1)"
      "(nm \<and> (\<exists>w2 w3 sl. b_snapshotsMount b w1 = (Inr (), w2) \<and> ?list w2 = (Inr sl, w3) \<and> b_snapshotsUmount b w3 = (Inr (), w'))) \<or>
       (\<not> nm \<and> (\<exists>sl. ?list w1 = (Inr sl, w')))"
    using run
    by (auto simp: Btrfs_GetSnapshots_def Let_def returns_iff getO_def liftW_iff modO_def retIO_def failIO_def
        try_liftW_None split: if_splits elim!: finallyIO_cases)
  then show ?thesis
  proof cases
    case listed
    have s1: "sameMounts w w1" using keepsD[OF mnts.keeps_ok[OF keeps_notMnt] listed(1)] .
    have "mounts w' = mounts w1"
    proof (cases nm)
      case True
      with listed(2) obtain w2 w3 sl where "b_snapshotsMount b w1 = (Inr (), w2)" "?list w2 = (Inr sl, w3)"
        "b_snapshotsUmount b w3 = (Inr (), w')" by blast
      then show ?thesis using remount_restores[OF _ keepsD[OF kl]] unfolding fields by blast
    next
      case False
      with listed(2) show ?thesis using keepsD[OF kl] by (auto simp: sameMounts_def)
    qed
    then show ?thesis using s1 by (simp add: sameMounts_def)
  qed simp
qed

theorem Btrfs_GetSnapshots_restores_witness:
  "\<exists>ids b' w'. Btrfs_GetSnapshots (demoSnapshotter (SnapperB (newSnapperBackend demoConfig 4)) 3, metaWorld) = (Inr ids, (b', w')) \<and>
     mounts w' = mounts metaWorld"
proof -
  let ?b = "demoSnapshotter (SnapperB (newSnapperBackend demoConfig 4)) 3"
  obtain r b' w' where run: "Btrfs_GetSnapshots (?b, metaWorld) = (r, (b', w'))" by (metis prod_cases3)
  have "\<not> isl (fst (Btrfs_GetSnapshots (?b, metaWorld)))" by code_simp
  with run obtain ids where r: "r = Inr ids" by (cases r) auto
  have "be_quiet (b_backend ?b)"
    by (simp add: be_quiet_def demoSnapshotter_def newSnapperBackend_def quiet_def demoConfig_def sameMounts_def mnts.keeps_ret)
  from Btrfs_GetSnapshots_restores[OF run[unfolded r] this, of "''/s''" "''/dev/sda3''" 3] run r show ?thesis
    by (simp add: demoSnapshotter_def)
qed

end
