(* ===== verification/Snapshotter.thy ===== *)
theory Snapshotter
  imports Btrfs
begin

section \<open>The snapshotter interface and its factory (pkg/types/snapshotter.go, pkg/snapshotter/common.go)\<close>

text \<open>
  The actions work with the interface \<^verbatim>\<open>types.Snapshotter\<close>. Its two implementations become the constructors of one type,
  and each method of the interface dispatches on it. A method with a pointer argument it may change works on the pair of
  the snapshotter and that object.
\<close>

datatype Snapshotter = LoopS LoopDevice | BtrfsS Btrfs

definition inLoop :: "(LoopDevice \<times> world, 'a) io \<Rightarrow> LoopDevice \<Rightarrow> world \<Rightarrow> (err + 'a) \<times> Snapshotter \<times> world" where
  "inLoop m l w = (case m (l, w) of (r, (l', w')) \<Rightarrow> (r, (LoopS l', w')))"

definition inBtrfsS :: "(Btrfs \<times> world, 'a) io \<Rightarrow> Btrfs \<Rightarrow> world \<Rightarrow> (err + 'a) \<times> Snapshotter \<times> world" where
  "inBtrfsS m b w = (case m (b, w) of (r, (b', w')) \<Rightarrow> (r, (BtrfsS b', w')))"

definition snap_InitSnapshotter :: "string \<Rightarrow> ((Snapshotter \<times> Partition) \<times> world, unit) io" where
  "snap_InitSnapshotter efiDir = (\<lambda>((sp, state), w). case sp of
     LoopS l \<Rightarrow> (case InitSnapshotter state efiDir (l, w) of (r, (l', w')) \<Rightarrow> (r, ((LoopS l', state), w')))
   | BtrfsS b \<Rightarrow> (case Btrfs_InitSnapshotter efiDir ((b, state), w) of
       (r, ((b', state'), w')) \<Rightarrow> (r, ((BtrfsS b', state'), w'))))"

definition snap_StartTransaction :: "(Snapshotter \<times> world, Snapshot) io" where
  "snap_StartTransaction = (\<lambda>(sp, w). case sp of
     LoopS l \<Rightarrow> inLoop StartTransaction l w | BtrfsS b \<Rightarrow> inBtrfsS Btrfs_StartTransaction b w)"

definition snap_CloseTransaction :: "((Snapshotter \<times> Snapshot) \<times> world, unit) io" where
  "snap_CloseTransaction = (\<lambda>((sp, sn), w). case sp of
     LoopS l \<Rightarrow> (case CloseTransaction l (sn, w) of (r, (sn', w')) \<Rightarrow> (r, ((LoopS l, sn'), w')))
   | BtrfsS b \<Rightarrow> (case Btrfs_CloseTransaction sn (b, w) of (r, (b', w')) \<Rightarrow> (r, ((BtrfsS b', sn), w'))))"

definition snap_CloseTransactionOnError :: "Snapshot option \<Rightarrow> (Snapshotter \<times> world, unit) io" where
  "snap_CloseTransactionOnError so = (\<lambda>(sp, w). case sp of
     LoopS l \<Rightarrow> inLoop (liftW (CloseTransactionOnError l so)) l w
   | BtrfsS b \<Rightarrow> inBtrfsS (case so of None \<Rightarrow> failIO Panic | Some sn \<Rightarrow> Btrfs_CloseTransactionOnError sn) b w)"

definition snap_DeleteSnapshot :: "int \<Rightarrow> (Snapshotter \<times> world, unit) io" where
  "snap_DeleteSnapshot sid = (\<lambda>(sp, w). case sp of
     LoopS l \<Rightarrow> inLoop (liftW (DeleteSnapshot l sid)) l w | BtrfsS b \<Rightarrow> inBtrfsS (Btrfs_DeleteSnapshot sid) b w)"

definition snap_GetSnapshots :: "(Snapshotter \<times> world, int list) io" where
  "snap_GetSnapshots = (\<lambda>(sp, w). case sp of
     LoopS l \<Rightarrow> inLoop (liftW (GetSnapshots l)) l w | BtrfsS b \<Rightarrow> inBtrfsS Btrfs_GetSnapshots b w)"

definition snap_SnapshotToImageSource :: "Snapshotter \<Rightarrow> Snapshot \<Rightarrow> (world, ImageSource) io" where
  "snap_SnapshotToImageSource sp sn =
     (case sp of LoopS _ \<Rightarrow> SnapshotToImageSource sn | BtrfsS _ \<Rightarrow> Btrfs_SnapshotToImageSource sn)"

text \<open>The table of factories, filled by \<^verbatim>\<open>init\<close>, and the look-up in it.\<close>

definition snapshotterFactories :: "(string \<times> (Config \<Rightarrow> SnapshotterConfig \<Rightarrow>
    (string \<Rightarrow> (string \<times> string) list \<Rightarrow> (world, unit) io) \<Rightarrow> err + Snapshotter)) list" where
  "snapshotterFactories =
     [(LoopDeviceSnapshotterType, \<lambda>cfg sc f. map_sum id LoopS (newLoopDeviceSnapshotter cfg sc f)),
      (BtrfsSnapshotterType, \<lambda>cfg sc f. map_sum id BtrfsS (newBtrfsSnapshotter cfg sc f))]"

definition NewSnapshotter ::
  "Config \<Rightarrow> SnapshotterConfig \<Rightarrow> (string \<Rightarrow> (string \<times> string) list \<Rightarrow> (world, unit) io) \<Rightarrow> err + Snapshotter" where
  "NewSnapshotter cfg snapCfg setVars =
     (case map_of snapshotterFactories (sc_Type snapCfg) of
        Some factory \<Rightarrow> factory cfg snapCfg setVars
      | None \<Rightarrow> Inl (Errorf (''unsupported snapshotter type: '' @ sc_Type snapCfg)))"

end
