(* ===== verification/Efi.thy ===== *)
theory Efi
  imports Fs_Utils
begin

section \<open>The EFI boot manager (pkg/efi)\<close>

text \<open>
  The boot entries of the firmware are variables \<^verbatim>\<open>Boot0000\<close> to \<^verbatim>\<open>BootFFFF\<close>, their order is the variable
  \<^verbatim>\<open>BootOrder\<close>, a sequence of 16-bit numbers in little-endian bytes. The access to the variables and the encoding of load
  options are the library go-efilib and the kernel: the record \<open>Variables\<close> holds the calls. Data are byte strings.
\<close>

record Variables =
  ev_ListVariables :: "(world, (string \<times> string) list) io"
  ev_GetVariable :: "string \<Rightarrow> string \<Rightarrow> (world, string \<times> 32 word) io"
  ev_SetVariable :: "string \<Rightarrow> string \<Rightarrow> string \<Rightarrow> 32 word \<Rightarrow> (world, unit) io"
  ev_NewFileDevicePath :: "string \<Rightarrow> (world, string) io"
  ev_ReadLoadOption :: "string \<Rightarrow> err + string"
  ev_LoadOptionBytes :: "string \<Rightarrow> string \<Rightarrow> string \<Rightarrow> err + string"
  ev_ConvertUTF8ToUCS2 :: "string \<Rightarrow> 16 word list"

definition GlobalVariable :: string where "GlobalVariable = ''8be4df61-93ca-11d2-aa0d-00e098032b8c''"
definition maxBootEntries :: nat where "maxBootEntries = 65535"

text \<open>Non-volatile, accessible at boot and at run time.\<close>

definition defaultAttrs :: "32 word" where "defaultAttrs = 7"

record BootEntryVariable =
  be_BootNumber :: int
  be_Data :: string
  be_Attributes :: "32 word"
  be_LoadOption :: string

record BootManager =
  bm_efivars :: Variables
  bm_entries :: "(int \<times> BootEntryVariable) list"
  bm_bootOrder :: "int list"
  bm_bootOrderAttrs :: "32 word"

record BootEntry =
  en_Filename :: string
  en_Label :: string
  en_Options :: string
  en_Description :: string

subsection \<open>Numbers\<close>

definition byte :: "nat \<Rightarrow> char" where "byte n = char_of (n mod 256)"

text \<open>\<^verbatim>\<open>binary.LittleEndian.PutUint16\<close> and \<^verbatim>\<open>Uint16\<close>.\<close>

definition PutUint16 :: "16 word \<Rightarrow> string" where
  "PutUint16 v = [byte (unat v), byte (unat v div 256)]"

definition Uint16 :: "char \<Rightarrow> char \<Rightarrow> int" where
  "Uint16 a b = of_char a + 256 * of_char b"

text \<open>The bytes of \<^verbatim>\<open>BootOrder\<close>: an odd number of them is read past the end.\<close>

fun decodeOrder :: "string \<Rightarrow> err + int list" where
  "decodeOrder [] = Inr []"
| "decodeOrder [a] = Inl Panic"
| "decodeOrder (a # b # s) = (case decodeOrder s of Inl e \<Rightarrow> Inl e | Inr ns \<Rightarrow> Inr (Uint16 a b # ns))"

definition encodeOrder :: "int list \<Rightarrow> string" where
  "encodeOrder order = concat (map (\<lambda>num. PutUint16 (word_of_int num)) order)"

definition hex_val :: "char \<Rightarrow> nat option" where
  "hex_val c = (let n = (of_char c :: nat) in
     if 48 \<le> n \<and> n \<le> 57 then Some (n - 48) else if 65 \<le> n \<and> n \<le> 70 then Some (n - 55)
     else if 97 \<le> n \<and> n \<le> 102 then Some (n - 87) else None)"

definition hexNum :: "string \<Rightarrow> int" where
  "hexNum s = foldl (\<lambda>a c. 16 * a + int (the (hex_val c))) 0 s"

text \<open>\<^verbatim>\<open>fmt.Sscanf(name, "Boot%04X", ...)\<close>: blanks, an optional sign and hexadecimal digits, four characters at most.\<close>

definition scanBoot :: "string \<Rightarrow> int option" where
  "scanBoot name =
     (if \<not> HasPrefix name ''Boot'' then None
      else (let s = take 4 (dropWhile (\<lambda>c. c = CHR '' '' \<or> c = CHR 0x09) (drop 4 name));
                neg = (s \<noteq> [] \<and> hd s = CHR ''-'');
                ds = takeWhile (\<lambda>c. hex_val c \<noteq> None) (if neg \<or> (s \<noteq> [] \<and> hd s = CHR ''+'') then tl s else s)
            in if ds = [] then None else Some (if neg then - hexNum ds else hexNum ds)))"

definition hexDigit :: "nat \<Rightarrow> char" where
  "hexDigit n = (if n < 10 then char_of (48 + n) else char_of (55 + n))"

definition bootName :: "int \<Rightarrow> string" where
  "bootName i = ''Boot'' @ map (\<lambda>k. hexDigit (nat i div 16 ^ k mod 16)) [3, 2, 1, 0]"

subsection \<open>The manager\<close>

definition VariablesSupported :: "Variables \<Rightarrow> (world, bool) io" where
  "VariablesSupported ev = okIO False (bindIO (ev_ListVariables ev) (\<lambda>_. retIO True))"

definition GetVariableNames :: "Variables \<Rightarrow> string \<Rightarrow> (world, string list) io" where
  "GetVariableNames ev filterGUID = bindIO (ev_ListVariables ev) (\<lambda>vars.
     retIO (map snd (filter (\<lambda>(g, _). g = filterGUID) vars)))"

text \<open>The loop over the names: names that are no boot entries and entries that cannot be decoded are skipped.\<close>

fun readEntries :: "Variables \<Rightarrow> string list \<Rightarrow> (int \<times> BootEntryVariable) list \<Rightarrow> (world, (int \<times> BootEntryVariable) list) io" where
  "readEntries ev [] es = retIO es"
| "readEntries ev (name # names) es =
     (case scanBoot name of
        None \<Rightarrow> readEntries ev names es
      | Some num \<Rightarrow>
          (if length name \<noteq> 8 then readEntries ev names es
           else bindIO (ev_GetVariable ev GlobalVariable name) (\<lambda>(data, attrs).
             case ev_ReadLoadOption ev data of
               Inl _ \<Rightarrow> readEntries ev names es
             | Inr opt \<Rightarrow> readEntries ev names (AList.update num
                 \<lparr>be_BootNumber = num, be_Data = data, be_Attributes = attrs, be_LoadOption = opt\<rparr> es))))"

definition NewBootManagerForVariables :: "Variables \<Rightarrow> (world, BootManager) io" where
  "NewBootManagerForVariables ev =
     bindIO (VariablesSupported ev) (\<lambda>ok.
       if \<not> ok then failIO (Errorf ''variables not supported'')
       else bindIO (okIO ([], defaultAttrs) (ev_GetVariable ev GlobalVariable ''BootOrder'')) (\<lambda>(orderBytes, attrs).
         bindIO (sumIO (decodeOrder orderBytes)) (\<lambda>order.
         bindIO (GetVariableNames ev GlobalVariable) (\<lambda>names.
         bindIO (readEntries ev names []) (\<lambda>es.
           retIO \<lparr>bm_efivars = ev, bm_entries = es, bm_bootOrder = order, bm_bootOrderAttrs = attrs\<rparr>)))))"

definition NextFreeEntry :: "BootManager \<Rightarrow> err + int" where
  "NextFreeEntry bm =
     (case find (\<lambda>i. map_of (bm_entries bm) (int i) = None) [0..<maxBootEntries] of
        Some i \<Rightarrow> Inr (int i) | None \<Rightarrow> Inl (Errorf ''maximum number of boot entries exceeded''))"

definition ucs2Bytes :: "16 word list \<Rightarrow> string" where
  "ucs2Bytes ws = concat (map PutUint16 ws)"

definition FindOrCreateEntry :: "BootEntry \<Rightarrow> string \<Rightarrow> (BootManager \<times> world, int) io" where
  "FindOrCreateEntry entry relativeTo = bindIO getO (\<lambda>bm.
     bindIO (sumIO (NextFreeEntry bm)) (\<lambda>bootNext.
     bindIO (liftW (ev_NewFileDevicePath (bm_efivars bm) (Join [relativeTo, en_Filename entry]))) (\<lambda>dp.
     let optionalData = ucs2Bytes (ev_ConvertUTF8ToUCS2 (bm_efivars bm) (en_Options entry @ [CHR 0x00])) in
     bindIO (sumIO (ev_LoadOptionBytes (bm_efivars bm) (en_Label entry) dp optionalData)) (\<lambda>data.
     let entryVar = \<lparr>be_BootNumber = bootNext, be_Data = data, be_Attributes = defaultAttrs, be_LoadOption = en_Label entry\<rparr> in
     (case find (\<lambda>(_, v). be_Data v = data \<and> be_Attributes v = defaultAttrs) (bm_entries bm) of
        Some (_, v) \<Rightarrow> retIO (be_BootNumber v)
      | None \<Rightarrow>
          thenIO (liftW (ev_SetVariable (bm_efivars bm) GlobalVariable (bootName bootNext) data defaultAttrs))
          (thenIO (modO (\<lambda>bm. bm\<lparr>bm_entries := AList.update bootNext entryVar (bm_entries bm)\<rparr>))
            (retIO bootNext)))))))"

fun mergeOrder :: "BootManager \<Rightarrow> int list \<Rightarrow> int list \<Rightarrow> int list" where
  "mergeOrder bm [] newOrder = newOrder"
| "mergeOrder bm (num # nums) newOrder =
     mergeOrder bm nums
       (if map_of (bm_entries bm) num \<noteq> None \<and> num \<notin> set newOrder then newOrder @ [num] else newOrder)"

definition PrependAndSetBootOrder :: "int list \<Rightarrow> (BootManager \<times> world, unit) io" where
  "PrependAndSetBootOrder head = bindIO getO (\<lambda>bm.
     let newOrder = mergeOrder bm (head @ bm_bootOrder bm) [] in
     thenIO (liftW (ev_SetVariable (bm_efivars bm) GlobalVariable ''BootOrder'' (encodeOrder newOrder) (bm_bootOrderAttrs bm)))
       (modO (\<lambda>bm. bm\<lparr>bm_bootOrder := newOrder\<rparr>)))"

definition DelVariable :: "Variables \<Rightarrow> string \<Rightarrow> string \<Rightarrow> (world, unit) io" where
  "DelVariable ev guid name = bindIO (ev_GetVariable ev guid name) (\<lambda>(_, attrs). ev_SetVariable ev guid name [] attrs)"

subsection \<open>The boot order\<close>

text \<open>The reference: the first occurrence of every number that has an entry.\<close>

definition hasEntry :: "BootManager \<Rightarrow> int \<Rightarrow> bool" where
  "hasEntry bm n \<longleftrightarrow> map_of (bm_entries bm) n \<noteq> None"

definition firsts :: "'a list \<Rightarrow> 'a list" where
  "firsts xs = rev (remdups (rev xs))"

lemma remdups_snoc: "remdups (xs @ [n]) = remdups (filter (\<lambda>x. x \<noteq> n) xs) @ [n]"
  by (induction xs) auto

lemma firsts_Cons: "firsts (n # xs) = n # firsts (filter (\<lambda>x. x \<noteq> n) xs)"
  by (simp add: firsts_def remdups_snoc rev_filter)

lemma mergeOrder_acc:
  "mergeOrder bm nums acc = acc @ firsts (filter (\<lambda>n. hasEntry bm n \<and> n \<notin> set acc) nums)"
proof (induction nums arbitrary: acc)
  case (Cons n nums)
  show ?case
  proof (cases "hasEntry bm n \<and> n \<notin> set acc")
    case True
    have "filter (\<lambda>x. x \<noteq> n) (filter (\<lambda>n. hasEntry bm n \<and> n \<notin> set acc) nums) =
        filter (\<lambda>m. hasEntry bm m \<and> m \<notin> set (acc @ [n])) nums"
      by (simp add: filter_filter conj_commute conj_left_commute)
    then show ?thesis using True Cons[of "acc @ [n]"] by (simp add: hasEntry_def firsts_Cons)
  next
    case False
    then show ?thesis using Cons[of acc] by (auto simp: hasEntry_def)
  qed
qed (simp add: firsts_def)

lemma mergeOrder_eq: "mergeOrder bm nums [] = firsts (filter (hasEntry bm) nums)"
  using mergeOrder_acc[of bm nums "[]"] by simp

lemma firsts_props: "distinct (firsts xs)" "set (firsts xs) = set xs"
  by (simp_all add: firsts_def)

lemma firsts_hd: "firsts (x # xs) \<noteq> [] \<and> hd (firsts (x # xs)) = x"
  by (simp add: firsts_Cons)

lemma byte_val: "of_char (byte n) = n mod 256"
  by (simp add: byte_def of_char_of)

lemma Uint16_Put:
  assumes "0 \<le> n" "n < 65536"
  shows "\<exists>a b. PutUint16 (word_of_int n) = [a, b] \<and> Uint16 a b = n"
proof -
  let ?k = "unat (word_of_int n :: 16 word)"
  have k: "?k = nat n" using assms by (simp add: unat_eq_nat_uint uint_word_of_int)
  have "int (nat n mod 256) + 256 * int (nat n div 256) = n"
    using assms by (simp add: zmod_int zdiv_int)
  moreover have "nat n div 256 mod 256 = nat n div 256" using assms by simp
  moreover have "of_char (byte m) = (int (m mod 256))" for m
    using of_nat_of_char[where 'a = int, of "byte m"] by (simp add: byte_val)
  ultimately show ?thesis by (simp add: PutUint16_def Uint16_def k)
qed

lemma decode_encode: "\<forall>n \<in> set ns. 0 \<le> n \<and> n < 65536 \<Longrightarrow> decodeOrder (encodeOrder ns) = Inr ns"
proof (induction ns)
  case (Cons n ns)
  then obtain a b where "PutUint16 (word_of_int n) = [a, b]" "Uint16 a b = n" using Uint16_Put[of n] by auto
  then show ?case using Cons by (simp add: encodeOrder_def)
qed (simp add: encodeOrder_def)

text \<open>
  Property C21. Committing a boot order: the new order holds every number of the given list and of the old order that has
  an entry, once, in the order of first occurrence; these bytes are what is written to the firmware, and they read
  back as that order. An entry that was just created becomes the first one.
\<close>

theorem PrependAndSetBootOrder_order:
  assumes run: "PrependAndSetBootOrder heads (bm, w) = (Inr (), (bm', w'))"
    and range: "\<forall>n. hasEntry bm n \<longrightarrow> 0 \<le> n \<and> n < 65536"
  shows "bm_bootOrder bm' = firsts (filter (hasEntry bm) (heads @ bm_bootOrder bm)) \<and> distinct (bm_bootOrder bm') \<and>
    ev_SetVariable (bm_efivars bm) GlobalVariable ''BootOrder'' (encodeOrder (bm_bootOrder bm')) (bm_bootOrderAttrs bm) w = (Inr (), w') \<and>
    decodeOrder (encodeOrder (bm_bootOrder bm')) = Inr (bm_bootOrder bm') \<and>
    (\<forall>n. heads = [n] \<and> hasEntry bm n \<longrightarrow> bm_bootOrder bm' \<noteq> [] \<and> hd (bm_bootOrder bm') = n)"
proof -
  let ?order = "firsts (filter (hasEntry bm) (heads @ bm_bootOrder bm))"
  have set: "ev_SetVariable (bm_efivars bm) GlobalVariable ''BootOrder'' (encodeOrder ?order) (bm_bootOrderAttrs bm) w = (Inr (), w')"
    and bm': "bm_bootOrder bm' = ?order"
    using run by (auto simp: PrependAndSetBootOrder_def Let_def returns_iff getO_def modO_def liftW_iff mergeOrder_eq)
  have "\<forall>n \<in> set ?order. 0 \<le> n \<and> n < 65536" using range by (auto simp: firsts_props(2))
  then show ?thesis using set bm' decode_encode[of ?order] firsts_props(1) by (auto simp: firsts_hd)
qed

definition demoVars :: Variables where
  "demoVars = \<lparr>ev_ListVariables = retIO [], ev_GetVariable = (\<lambda>_ _. failIO ENOENT), ev_SetVariable = (\<lambda>_ _ _ _. retIO ()),
     ev_NewFileDevicePath = retIO, ev_ReadLoadOption = Inr, ev_LoadOptionBytes = (\<lambda>l d ods. Inr (l @ d @ ods)),
     ev_ConvertUTF8ToUCS2 = map (\<lambda>c. of_char c)\<rparr>"

definition demoManager :: BootManager where
  "demoManager = \<lparr>bm_efivars = demoVars, bm_entries = map (\<lambda>i. (i, \<lparr>be_BootNumber = i, be_Data = Itoa i, be_Attributes = 7,
     be_LoadOption = []\<rparr>)) [0, 1, 700], bm_bootOrder = [1, 5, 0, 700], bm_bootOrderAttrs = 7\<rparr>"

theorem PrependAndSetBootOrder_order_witness:
  "\<exists>bm' w'. PrependAndSetBootOrder [700] (demoManager, demoWorld) = (Inr (), (bm', w')) \<and> bm_bootOrder bm' = [700, 1, 0]"
proof -
  obtain r bm' w' where run: "PrependAndSetBootOrder [700] (demoManager, demoWorld) = (r, (bm', w'))" by (metis prod_cases3)
  have "r = Inr ()" using run by (simp add: PrependAndSetBootOrder_def Let_def bindIO_def thenIO_def getO_def modO_def liftW_def
        demoManager_def demoVars_def retIO_def)
  moreover have "\<forall>n. hasEntry demoManager n \<longrightarrow> 0 \<le> n \<and> n < 65536" by (simp add: hasEntry_def demoManager_def)
  moreover have "firsts (filter (hasEntry demoManager) ([700] @ bm_bootOrder demoManager)) = [700, 1, 0]" by code_simp
  ultimately show ?thesis using PrependAndSetBootOrder_order[of "[700]" demoManager demoWorld bm' w'] run by simp
qed

text \<open>
  A new entry takes the smallest number that is free; there is none only when all numbers
  below the limit are taken.
\<close>

theorem NextFreeEntry_least:
  "(case NextFreeEntry bm of
      Inr i \<Rightarrow> 0 \<le> i \<and> i < int maxBootEntries \<and> \<not> hasEntry bm i \<and> (\<forall>j. 0 \<le> j \<and> j < i \<longrightarrow> hasEntry bm j)
    | Inl e \<Rightarrow> \<forall>j. 0 \<le> j \<and> j < int maxBootEntries \<longrightarrow> hasEntry bm j)"
proof (cases "find (\<lambda>i. map_of (bm_entries bm) (int i) = None) [0..<maxBootEntries]")
  case None
  then have "\<forall>i < maxBootEntries. hasEntry bm (int i)" by (auto simp: find_None_iff hasEntry_def)
  then have "hasEntry bm j" if "0 \<le> j" "j < int maxBootEntries" for j using that by (metis nat_0_le nat_less_iff)
  then show ?thesis using None by (simp add: NextFreeEntry_def)
next
  case (Some k)
  then have k: "k < maxBootEntries" "\<not> hasEntry bm (int k)" "\<forall>i < k. hasEntry bm (int i)"
    by (auto simp: find_Some_iff hasEntry_def)
  then have "hasEntry bm j" if "0 \<le> j" "j < int k" for j using that by (metis nat_0_le nat_less_iff)
  then show ?thesis using Some k by (simp add: NextFreeEntry_def)
qed

theorem NextFreeEntry_least_witness: "NextFreeEntry demoManager = Inr 2"
proof -
  have one: "hasEntry demoManager 0" "hasEntry demoManager 1" "\<not> hasEntry demoManager 2" by (simp_all add: hasEntry_def demoManager_def)
  have "0 \<le> i \<and> (\<forall>j. 0 \<le> j \<and> j < i \<longrightarrow> hasEntry demoManager j) \<and> \<not> hasEntry demoManager i \<longrightarrow> i = 2" for i
  proof
    assume i: "0 \<le> i \<and> (\<forall>j. 0 \<le> j \<and> j < i \<longrightarrow> hasEntry demoManager j) \<and> \<not> hasEntry demoManager i"
    then have "\<not> 2 < i" "i \<noteq> 0" "i \<noteq> 1" using one by auto
    with i show "i = 2" by linarith
  qed
  moreover have "\<not> (\<forall>j. 0 \<le> j \<and> j < int maxBootEntries \<longrightarrow> hasEntry demoManager j)"
    using one(3) by (auto simp: maxBootEntries_def intro!: exI[of _ 2])
  ultimately show ?thesis using NextFreeEntry_least[of demoManager] by (auto split: sum.splits)
qed

end
