(* ===== verification/Grub.thy ===== *)
theory Grub
  imports Snapshotter Efi
begin

section \<open>The bootloader (pkg/bootloader/grub.go)\<close>

text \<open>
  Installation of GRUB into the EFI partition: modules, binaries, configuration, the boot entry of the firmware and the
  persistent variables. The methods work on the pair of the \<open>Grub\<close> object, which remembers the binaries it has found, and
  the world. The real EFI variables are the field \<open>g_efivars\<close>. A map of variables is an association list in the order
  the loop visits it.
\<close>

definition ArchAmd64 :: string where "ArchAmd64 = ''amd64''"
definition Archx86 :: string where "Archx86 = ''x86_64''"
definition ArchArm64 :: string where "ArchArm64 = ''arm64''"
definition ArchRiscV64 :: string where "ArchRiscV64 = ''riscv64''"
definition EfiImgX86 :: string where "EfiImgX86 = ''bootx64.efi''"
definition EfiImgArm64 :: string where "EfiImgArm64 = ''bootaa64.efi''"
definition EfiImgRiscv64 :: string where "EfiImgRiscv64 = ''bootriscv64.efi''"
definition EntryEFIPath :: string where "EntryEFIPath = ''/EFI/ELEMENTAL''"
definition FallbackEFIPath :: string where "FallbackEFIPath = ''/EFI/BOOT''"
definition BootEntryName :: string where "BootEntryName = ''elemental-shim''"
definition grubCfgFile :: string where "grubCfgFile = ''grub.cfg''"
definition LegacyGrubCfgPath :: string where "LegacyGrubCfgPath = ''/etc/cos''"
definition EfivarsMountPath :: string where "EfivarsMountPath = ''/sys/firmware/efi/efivars''"
definition BootDir :: string where "BootDir = ''/run/elemental/efi''"
definition ElementalBootloaderBin :: string where "ElementalBootloaderBin = ''/usr/lib/elemental/bootloader''"

definition GetShimFilePatterns :: "string list" where
  "GetShimFilePatterns = [Join [ElementalBootloaderBin, ''shim*''], ''/usr/share/efi/*/shim.efi'', ''/boot/efi/EFI/*/shim*.efi'']"

definition GetGrubEFIFilePatterns :: "string list" where
  "GetGrubEFIFilePatterns = [Join [ElementalBootloaderBin, ''grub*''], ''/usr/share/grub2/*-efi/grub.efi'',
     ''/boot/efi/EFI/*/grub*.efi'']"

definition GetMokMngrFilePatterns :: "string list" where
  "GetMokMngrFilePatterns = [Join [ElementalBootloaderBin, ''mm*''], ''/boot/efi/EFI/*/mm*.efi'', ''/usr/share/efi/*/MokManager.efi'']"

definition GetDefaultGrubModules :: "string list" where
  "GetDefaultGrubModules = [''loopback.mod'', ''squash4.mod'', ''xzio.mod'']"

definition GetDefaultGrubModulesPatterns :: "string list" where
  "GetDefaultGrubModulesPatterns = [''/boot/grub2/*-efi'', ''/usr/share/grub*/*-efi'', ''/usr/lib/grub*/*-efi'']"

definition defaultGrubPrefixes :: "string list" where
  "defaultGrubPrefixes = [FallbackEFIPath, EntryEFIPath]"

definition getGModulePatterns :: "string \<Rightarrow> string list" where
  "getGModulePatterns module = map (\<lambda>pattern. Join [pattern, module]) GetDefaultGrubModulesPatterns"

record Grub =
  g_cfg :: Config
  g_efivars :: Variables
  g_platform :: Platform
  g_shimImg :: string
  g_grubEfiImg :: string
  g_mokMngr :: string
  g_grubPrefixes :: "string list"
  g_configFile :: string
  g_elementalCfg :: string
  g_legacyElementalCfg :: string
  g_disableBootEntry :: bool
  g_clearBootEntry :: bool
  g_secureBoot :: bool

subsection \<open>Construction\<close>

type_synonym GrubOptions = "(Grub \<times> world, unit) io"

fun applyGrubOpts :: "GrubOptions list \<Rightarrow> Grub \<Rightarrow> (world, Grub option) io" where
  "applyGrubOpts [] g = retIO (Some g)"
| "applyGrubOpts (opt # opts) g = (\<lambda>w. case opt (g, w) of
     (Inl _, (_, w')) \<Rightarrow> (Inr None, w') | (Inr _, (g', w')) \<Rightarrow> applyGrubOpts opts g' w')"

definition NewGrub :: "Config \<Rightarrow> Variables \<Rightarrow> GrubOptions list \<Rightarrow> (world, Grub option) io" where
  "NewGrub cfg efivars opts =
     (case cfg_Platform cfg of
        None \<Rightarrow> failIO Panic
      | Some platform \<Rightarrow> applyGrubOpts opts
          \<lparr>g_cfg = cfg, g_efivars = efivars, g_platform = platform, g_shimImg = [], g_grubEfiImg = [], g_mokMngr = [],
           g_grubPrefixes = defaultGrubPrefixes, g_configFile = grubCfgFile,
           g_elementalCfg = Join [GrubCfgPath, grubCfgFile], g_legacyElementalCfg = Join [LegacyGrubCfgPath, grubCfgFile],
           g_disableBootEntry = False, g_clearBootEntry = True, g_secureBoot = (pl_Arch platform \<noteq> ArchRiscV64)\<rparr>)"

definition WithSecureBoot :: "bool \<Rightarrow> GrubOptions" where
  "WithSecureBoot b = modO (\<lambda>g. g\<lparr>g_secureBoot := b\<rparr>)"

definition WithGrubPrefixes :: "string list \<Rightarrow> GrubOptions" where
  "WithGrubPrefixes pfxs = modO (\<lambda>g. g\<lparr>g_grubPrefixes := pfxs\<rparr>)"

definition WithGrubDisableBootEntry :: "bool \<Rightarrow> GrubOptions" where
  "WithGrubDisableBootEntry b = modO (\<lambda>g. g\<lparr>g_disableBootEntry := b\<rparr>)"

definition WithGrubAutoDisableBootEntry :: GrubOptions where
  "WithGrubAutoDisableBootEntry = bindIO getO (\<lambda>g.
     if g_disableBootEntry g then retIO ()
     else bindIO (liftW (IsRWMountPoint (g_cfg g) EfivarsMountPath)) (\<lambda>rw.
       whenIO (\<not> rw) (modO (\<lambda>g. g\<lparr>g_disableBootEntry := True\<rparr>))))"

definition WithGrubClearBootEntry :: "bool \<Rightarrow> GrubOptions" where
  "WithGrubClearBootEntry b = modO (\<lambda>g. g\<lparr>g_clearBootEntry := b\<rparr>)"

subsection \<open>Files\<close>

text \<open>An image that was found is remembered; a failed search leaves the field empty.\<close>

definition findEFIImages :: "string \<Rightarrow> (Grub \<times> world, unit) io" where
  "findEFIImages rootDir = bindIO getO (\<lambda>g.
     thenIO (whenIO (g_secureBoot g \<and> g_shimImg g = [])
       (bindIO (liftW (FindFile rootDir GetShimFilePatterns)) (\<lambda>f. modO (\<lambda>g. g\<lparr>g_shimImg := f\<rparr>))))
     (thenIO (whenIO (g_grubEfiImg g = [])
       (bindIO (liftW (FindFile rootDir GetGrubEFIFilePatterns)) (\<lambda>f. modO (\<lambda>g. g\<lparr>g_grubEfiImg := f\<rparr>))))
     (whenIO (g_secureBoot g \<and> g_mokMngr g = [])
       (bindIO (liftW (FindFile rootDir GetMokMngrFilePatterns)) (\<lambda>f. modO (\<lambda>g. g\<lparr>g_mokMngr := f\<rparr>))))))"

fun findModules :: "string \<Rightarrow> string list \<Rightarrow> (world, string list) io" where
  "findModules rootDir [] = retIO []"
| "findModules rootDir (module # modules) =
     bindIO (FindFile rootDir (getGModulePatterns module)) (\<lambda>found.
     bindIO (findModules rootDir modules) (\<lambda>rest. retIO (found # rest)))"

text \<open>A call whose error is wrapped into a new message.\<close>

definition wrapErr :: "string \<Rightarrow> ('s, unit) io \<Rightarrow> ('s, unit) io" where
  "wrapErr msg m = bindIO (tryIO m) (\<lambda>e. case e of None \<Rightarrow> retIO () | Some _ \<Rightarrow> failIO (Errorf msg))"

definition installModules :: "Grub \<Rightarrow> string \<Rightarrow> string \<Rightarrow> string list \<Rightarrow> (world, unit) io" where
  "installModules g rootDir bootDir modules =
     bindIO (findModules rootDir modules) (\<lambda>found.
       forIO (g_grubPrefixes g) (\<lambda>grubPrefix. forIO found (\<lambda>module.
         let fileWriteName = Join [bootDir, grubPrefix, pl_Arch (g_platform g) @ ''-efi'', Base module] in
         thenIO (wrapErr ''error creating destination folder'' (MkdirAll (Dir fileWriteName) DirPerm))
           (wrapErr ''error copying'' (CopyFile module fileWriteName)))))"

definition fallbackImg :: "Grub \<Rightarrow> string \<Rightarrow> err + string" where
  "fallbackImg g installPath =
     (let arch = pl_Arch (g_platform g) in
      if arch = ArchAmd64 \<or> arch = Archx86 then Inr (Join [installPath, EfiImgX86])
      else if arch = ArchArm64 then Inr (Join [installPath, EfiImgArm64])
      else if arch = ArchRiscV64 then Inr (Join [installPath, EfiImgRiscv64])
      else Inl (Errorf (''Not supported architecture: '' @ arch)))"

text \<open>Where the shim and GRUB go: in the fallback directory the first stage has the name the firmware looks for.\<close>

definition efiTargets :: "Grub \<Rightarrow> string \<Rightarrow> string \<Rightarrow> err + string \<times> string" where
  "efiTargets g efiPrefix installPath =
     (let shimImg = Join [installPath, Base (g_shimImg g)]; grubEfi = Join [installPath, Base (g_grubEfiImg g)] in
      if efiPrefix = FallbackEFIPath then
        (case fallbackImg g installPath of
           Inl e \<Rightarrow> Inl e
         | Inr bootImg \<Rightarrow> Inr (if g_secureBoot g then (bootImg, grubEfi) else (shimImg, bootImg)))
      else Inr (shimImg, grubEfi))"

definition InstallEFIBinaries :: "string \<Rightarrow> string \<Rightarrow> string \<Rightarrow> (Grub \<times> world, unit) io" where
  "InstallEFIBinaries rootDir efiDir efiPrefix =
     thenIO (findEFIImages rootDir)
     (bindIO getO (\<lambda>g.
      let installPath = Join [efiDir, efiPrefix] in
      thenIO (liftW (MkdirAll installPath DirPerm))
      (bindIO (sumIO (efiTargets g efiPrefix installPath)) (\<lambda>(shimImg, grubEfi).
       liftW (thenIO (whenIO (g_secureBoot g)
           (thenIO (wrapErr ''failed copying'' (CopyFile (g_mokMngr g) installPath))
             (wrapErr ''failed copying'' (CopyFile (g_shimImg g) shimImg))))
         (wrapErr ''failed copying'' (CopyFile (g_grubEfiImg g) grubEfi)))))))"

definition InstallEFI :: "string \<Rightarrow> string \<Rightarrow> (Grub \<times> world, unit) io" where
  "InstallEFI rootDir efiDir = bindIO getO (\<lambda>g.
     thenIO (liftW (installModules g rootDir efiDir GetDefaultGrubModules))
       (forIO (g_grubPrefixes g) (\<lambda>efiPrefix. InstallEFIBinaries rootDir efiDir efiPrefix)))"

definition InstallConfig :: "Grub \<Rightarrow> string \<Rightarrow> string \<Rightarrow> (world, unit) io" where
  "InstallConfig g rootDir bootDir = forIO (g_grubPrefixes g) (\<lambda>path.
     bindIO (okIO False (Exists (Join [rootDir, g_elementalCfg g]) False)) (\<lambda>exists.
     let grubFile = Join [rootDir, if exists then g_elementalCfg g else g_legacyElementalCfg g] in
     thenIO (wrapErr ''error creating grub dir'' (MkdirAll (Join [bootDir, path]) DirPerm))
       (CopyFile grubFile (Join [bootDir, path, g_configFile g]))))"

subsection \<open>Firmware entries\<close>

definition bootVarRegex :: "rx_item list" where
  "bootVarRegex = lits ''Boot'' @ replicate 4 (One (\<lambda>c. hex_val c \<noteq> None))"

definition clearOne :: "Variables \<Rightarrow> string \<times> string \<Rightarrow> (world, unit) io" where
  "clearOne ev v = (case v of (guid, name) \<Rightarrow>
     (if rx_search bootVarRegex name = None then retIO ()
      else bindIO (okIO ([], 0) (ev_GetVariable ev guid name)) (\<lambda>(variable, _).
        case ev_ReadLoadOption ev variable of
          Inl _ \<Rightarrow> retIO ()
        | Inr descr \<Rightarrow>
            (if descr = BootEntryName then
               bindIO (ev_GetVariable ev guid name) (\<lambda>(_, attrs). ev_SetVariable ev guid name [] attrs)
             else retIO ()))))"

definition clearEntry :: "Variables \<Rightarrow> (world, unit) io" where
  "clearEntry ev = bindIO (okIO [] (ev_ListVariables ev)) (\<lambda>variables. forIO variables (clearOne ev))"

definition CreateEntry :: "string \<Rightarrow> string \<Rightarrow> Variables \<Rightarrow> (world, unit) io" where
  "CreateEntry shimName relativeTo ev =
     bindIO (NewBootManagerForVariables ev) (\<lambda>bm.
     bindIO (withObj bm
       (bindIO (FindOrCreateEntry \<lparr>en_Filename = shimName, en_Label = BootEntryName, en_Options = [],
           en_Description = BootEntryName\<rparr> relativeTo)
         (\<lambda>bootEntryNumber. PrependAndSetBootOrder [bootEntryNumber]))) (\<lambda>_. retIO ()))"

definition DoEFIEntries :: "Grub \<Rightarrow> string \<Rightarrow> string \<Rightarrow> (world, unit) io" where
  "DoEFIEntries g shimName efiDir =
     thenIO (whenIO (g_clearBootEntry g) (clearEntry (g_efivars g)))
       (CreateEntry shimName (Join [efiDir, EntryEFIPath]) (g_efivars g))"

subsection \<open>Variables\<close>

definition SetPersistentVariables :: "Config \<Rightarrow> string \<Rightarrow> (string \<times> string) list \<Rightarrow> (world, unit) io" where
  "SetPersistentVariables cfg grubEnvFile vars =
     (let cmd = (if cfg_CommandExists cfg ''grub2-editenv'' then ''grub2-editenv'' else ''grub-editenv'') in
      forIO vars (\<lambda>(key, val). bindIO (RunE cfg cmd [grubEnvFile, ''set'', key @ ''='' @ val]) (\<lambda>_. retIO ())))"

definition osReleaseEntry :: "(string \<times> string) list \<Rightarrow> string" where
  "osReleaseEntry osRelease = (case map_of osRelease ''GRUB_ENTRY_NAME'' of None \<Rightarrow> [] | Some e \<Rightarrow> e)"

definition SetDefaultEntry :: "Config \<Rightarrow> string \<Rightarrow> string \<Rightarrow> string \<Rightarrow> (world, unit) io" where
  "SetDefaultEntry cfg partMountPoint imgMountPoint defaultEntry =
     bindIO (okIO [] (LoadEnvFile (cfg_ParseEnv cfg) (Join [imgMountPoint, ''etc'', ''os-release'']))) (\<lambda>osRelease.
       let configEntry = osReleaseEntry osRelease;
           entry = (if configEntry \<noteq> [] then configEntry else defaultEntry) in
       if entry = [] then retIO ()
       else SetPersistentVariables cfg (Join [partMountPoint, GrubOEMEnv]) [(''default_menu_entry'', entry)])"

definition Grub_Install :: "string \<Rightarrow> string \<Rightarrow> (Grub \<times> world, unit) io" where
  "Grub_Install rootDir bootDir =
     thenIO (InstallEFI rootDir bootDir)
     (bindIO getO (\<lambda>g.
      thenIO (whenIO (\<not> g_disableBootEntry g)
        (liftW (DoEFIEntries g (Base (if g_secureBoot g then g_shimImg g else g_grubEfiImg g)) BootDir)))
        (liftW (InstallConfig g rootDir bootDir))))"

end
