(* ===== verification/Go_Url.thy ===== *)
theory Go_Url
  imports Go_Lib
begin

section \<open>The Go package net/url: parsing\<close>

text \<open>
  The program parses URIs to tell local files from remote ones and to read image sources. It uses the scheme, the
  opaque part, the host and the path of the result, so \<open>url_Parse\<close> returns these. The order of the checks and the inputs that are refused are those of
  \<^verbatim>\<open>url.Parse\<close>: control characters, a missing scheme before a colon, a colon in the first segment of a relative
  path, an invalid authority and invalid escapes in the path or the fragment.
\<close>

record URL =
  u_Scheme :: string
  u_Opaque :: string
  u_Host :: string
  u_Path :: string

definition is_alpha :: "char \<Rightarrow> bool" where
  "is_alpha c \<longleftrightarrow> (CHR ''a'' \<le> c \<and> c \<le> CHR ''z'') \<or> (CHR ''A'' \<le> c \<and> c \<le> CHR ''Z'')"

definition hex_digit :: "char \<Rightarrow> nat option" where
  "hex_digit c =
     (if is_digit c then Some (digit_val c)
      else if CHR ''a'' \<le> c \<and> c \<le> CHR ''f'' then Some (of_char c - 87)
      else if CHR ''A'' \<le> c \<and> c \<le> CHR ''F'' then Some (of_char c - 55)
      else None)"

text \<open>\<^verbatim>\<open>strings.Cut\<close> at a byte: what stands before and after its first occurrence.\<close>

definition Cut :: "string \<Rightarrow> char \<Rightarrow> string \<times> string" where
  "Cut s c = (takeWhile (\<lambda>x. x \<noteq> c) s, drop 1 (dropWhile (\<lambda>x. x \<noteq> c) s))"

fun getScheme :: "string \<Rightarrow> string \<Rightarrow> string \<Rightarrow> err + string \<times> string" where
  "getScheme raw seen [] = Inr ([], raw)"
| "getScheme raw seen (c # cs) =
     (if is_alpha c then getScheme raw (seen @ [c]) cs
      else if is_digit c \<or> c \<in> set ''+-.'' then
        (if seen = [] then Inr ([], raw) else getScheme raw (seen @ [c]) cs)
      else if c = CHR '':'' then
        (if seen = [] then Inl (Errorf ''missing protocol scheme'') else Inr (seen, cs))
      else Inr ([], raw))"

text \<open>\<^verbatim>\<open>unescape\<close> in a path, a fragment or a user name: every percent sign starts a two-digit hexadecimal escape.\<close>

fun unescape :: "string \<Rightarrow> err + string" where
  "unescape [] = Inr []"
| "unescape (c # cs) =
     (if c = CHR ''%'' then
        (case cs of
           a # b # rest \<Rightarrow> (case (hex_digit a, hex_digit b) of
              (Some x, Some y) \<Rightarrow> map_sum id (\<lambda>s. char_of (16 * x + y) # s) (unescape rest)
            | _ \<Rightarrow> Inl (Errorf ''invalid URL escape''))
         | _ \<Rightarrow> Inl (Errorf ''invalid URL escape''))
      else map_sum id (\<lambda>s. c # s) (unescape cs))"

text \<open>The bytes that need no escape in a host name.\<close>

definition host_ok :: "char \<Rightarrow> bool" where
  "host_ok c \<longleftrightarrow> is_alpha c \<or> is_digit c \<or> c \<in> set ''!$&()*+,;=:[]<>-_.~'' \<or> c = CHR 0x27 \<or> c = CHR 0x22"

text \<open>
  \<^verbatim>\<open>unescape\<close> in a host (\<open>zone\<close> is false) or in the zone of an IPv6 address. Escapes of ASCII bytes other than
  the percent sign are refused in a host; a zone may also escape a blank and the bytes a host may contain.
\<close>

definition hostEscape_ok :: "bool \<Rightarrow> nat \<Rightarrow> nat \<Rightarrow> bool" where
  "hostEscape_ok zone x y \<longleftrightarrow> (x = 2 \<and> y = 5) \<or>
     (if zone then 16 * x + y = 32 \<or> host_ok (char_of (16 * x + y)) else 8 \<le> x)"

fun unescapeHost :: "bool \<Rightarrow> string \<Rightarrow> string option" where
  "unescapeHost zone [] = Some []"
| "unescapeHost zone (c # cs) =
     (if c = CHR ''%'' then
        (case cs of
           a # b # rest \<Rightarrow> (case (hex_digit a, hex_digit b) of
              (Some x, Some y) \<Rightarrow>
                (if hostEscape_ok zone x y then map_option (\<lambda>s. char_of (16 * x + y) # s) (unescapeHost zone rest) else None)
            | _ \<Rightarrow> None)
         | _ \<Rightarrow> None)
      else if host_ok c \<or> 128 \<le> (of_char c :: nat) then map_option (\<lambda>s. c # s) (unescapeHost zone cs) else None)"

definition validOptionalPort :: "string \<Rightarrow> bool" where
  "validOptionalPort port = (case port of [] \<Rightarrow> True | c # ds \<Rightarrow> c = CHR '':'' \<and> list_all is_digit ds)"

definition parseHost :: "string \<Rightarrow> string option" where
  "parseHost host =
     (if HasPrefix host ''['' then
        (case LastIndexByte host (CHR '']'') of
           None \<Rightarrow> None
         | Some i \<Rightarrow>
             (if \<not> validOptionalPort (drop (Suc i) host) then None
              else (case strings_Index (take i host) ''%25'' of
                None \<Rightarrow> unescapeHost False host
              | Some z \<Rightarrow> (case (unescapeHost False (take z host), unescapeHost True (drop z (take i host)),
                    unescapeHost False (drop i host)) of
                  (Some h1, Some h2, Some h3) \<Rightarrow> Some (h1 @ h2 @ h3) | _ \<Rightarrow> None))))
      else (case LastIndexByte host (CHR '':'') of
              None \<Rightarrow> unescapeHost False host
            | Some i \<Rightarrow> (if validOptionalPort (drop i host) then unescapeHost False host else None)))"

definition validUserinfo :: "string \<Rightarrow> bool" where
  "validUserinfo = list_all (\<lambda>c. is_alpha c \<or> is_digit c \<or> c \<in> set ''-._:~!$&()*+,;=%@'' \<or> c = CHR 0x27)"

definition parseAuthority :: "string \<Rightarrow> string option" where
  "parseAuthority authority =
     (case LastIndexByte authority (CHR ''@'') of
        None \<Rightarrow> parseHost authority
      | Some i \<Rightarrow>
          (let userinfo = take i authority; (username, password) = Cut userinfo (CHR '':'') in
           if validUserinfo userinfo \<and> \<not> isl (unescape username) \<and> \<not> isl (unescape password)
           then parseHost (drop (Suc i) authority) else None))"

definition url_parse :: "string \<Rightarrow> err + URL" where
  "url_parse rawURL =
     (if \<exists>c \<in> set rawURL. of_char c < (32 :: nat) \<or> of_char c = (127 :: nat)
      then Inl (Errorf ''invalid control character in URL'')
      else if rawURL = ''*'' then Inr \<lparr>u_Scheme = [], u_Opaque = [], u_Host = [], u_Path = ''*''\<rparr>
      else case getScheme rawURL [] rawURL of
        Inl e \<Rightarrow> Inl e
      | Inr (sch, rest0) \<Rightarrow>
          (let scheme = ToLower sch; rest = fst (Cut rest0 (CHR ''?'')) in
           if \<not> HasPrefix rest ''/'' \<and> scheme \<noteq> [] 
           then Inr \<lparr>u_Scheme = scheme, u_Opaque = rest, u_Host = [], u_Path = []\<rparr>
           else if \<not> HasPrefix rest ''/'' \<and> CHR '':'' \<in> set (fst (Cut rest slash))
           then Inl (Errorf ''first path segment in URL cannot contain colon'')
           else
             (let hasAuth = (scheme \<noteq> [] \<or> \<not> HasPrefix rest ''///'') \<and> HasPrefix rest ''//'';
                  after = drop 2 rest;
                  authority = takeWhile (\<lambda>c. c \<noteq> slash) after;
                  path = (if hasAuth then dropWhile (\<lambda>c. c \<noteq> slash) after else rest)
              in case (if hasAuth then parseAuthority authority else Some []) of
                   None \<Rightarrow> Inl (Errorf ''invalid authority in URL'')
                 | Some host \<Rightarrow>
                     map_sum id (\<lambda>p. \<lparr>u_Scheme = scheme, u_Opaque = [], u_Host = host, u_Path = p\<rparr>) (unescape path))))"

definition url_Parse :: "string \<Rightarrow> err + URL" where
  "url_Parse rawURL =
     (case Cut rawURL (CHR ''#'') of (u, frag) \<Rightarrow>
        (case url_parse u of
           Inl e \<Rightarrow> Inl e
         | Inr url \<Rightarrow> (case unescape frag of Inl e \<Rightarrow> Inl e | Inr _ \<Rightarrow> Inr url)))"

subsection \<open>Local paths\<close>

text \<open>An absolute path without the bytes that are special in a URI parses to itself.\<close>

definition uri_plain :: "string \<Rightarrow> bool" where
  "uri_plain p \<longleftrightarrow> (\<forall>c \<in> set p. c \<notin> set ''%?#'' \<and> 32 \<le> (of_char c :: nat) \<and> of_char c \<noteq> (127 :: nat))"

lemma unescape_plain: "CHR ''%'' \<notin> set s \<Longrightarrow> unescape s = Inr s"
  by (induction s) auto

lemma Cut_none: "c \<notin> set s \<Longrightarrow> Cut s c = (s, [])"
proof -
  assume "c \<notin> set s"
  then have "takeWhile (\<lambda>x. x \<noteq> c) s = s" "dropWhile (\<lambda>x. x \<noteq> c) s = []"
    by (auto simp: takeWhile_eq_all_conv dropWhile_eq_Nil_conv)
  then show ?thesis by (simp only: Cut_def) simp
qed

lemma uri_plainD:
  assumes "uri_plain p"
  shows "CHR ''%'' \<notin> set p" "CHR ''?'' \<notin> set p" "CHR ''#'' \<notin> set p"
    "\<not> (\<exists>c \<in> set p. of_char c < (32 :: nat) \<or> of_char c = (127 :: nat))"
  using assms by (auto simp: uri_plain_def not_less)

lemma url_Parse_path:
  assumes "uri_plain p" and "HasPrefix p ''/''" and "\<not> HasPrefix p ''//''"
  shows "url_Parse p = Inr \<lparr>u_Scheme = [], u_Opaque = [], u_Host = [], u_Path = p\<rparr>"
proof -
  obtain r where p: "p = CHR ''/'' # r" using assms(2) by (cases p) (auto simp: HasPrefix_def)
  note no = uri_plainD[OF assms(1)]
  have sch: "getScheme p [] p = Inr ([], p)" by (simp add: p is_alpha_def is_digit_def less_eq_char_def)
  have "url_parse p = Inr \<lparr>u_Scheme = [], u_Opaque = [], u_Host = [], u_Path = p\<rparr>"
    using assms(2,3) sch no(4)
    by (simp add: url_parse_def Cut_none[OF no(2)] ToLower_def Let_def unescape_plain[OF no(1)])
  then show ?thesis by (simp add: url_Parse_def Cut_none[OF no(3)])
qed

text \<open>A URI with one of the two local schemes, an empty host and an absolute path.\<close>

lemma getScheme_run:
  assumes "list_all is_alpha s" "s \<noteq> [] \<or> seen \<noteq> []"
  shows "getScheme raw seen (s @ CHR '':'' # r) = Inr (seen @ s, r)"
  using assms
proof (induction s arbitrary: seen)
  case Nil
  then show ?case by (simp add: is_alpha_def is_digit_def less_eq_char_def)
qed simp

lemma url_Parse_local:
  assumes p: "uri_plain p" "HasPrefix p ''/''" and s: "s \<noteq> []" "list_all is_alpha s" "ToLower s = s" "uri_plain s"
  shows "url_Parse (s @ ''://'' @ p) = Inr \<lparr>u_Scheme = s, u_Opaque = [], u_Host = [], u_Path = p\<rparr>"
proof -
  let ?u = "s @ CHR '':'' # ''//'' @ p"
  have u: "uri_plain ?u" using p(1) s(4) by (auto simp: uri_plain_def)
  note no = uri_plainD[OF u] and nop = uri_plainD[OF p(1)]
  obtain r where pr: "p = CHR ''/'' # r" using p(2) by (cases p) (auto simp: HasPrefix_def)
  have sch: "getScheme ?u [] ?u = Inr (s, ''//'' @ p)" using getScheme_run[OF s(2), of "[]" ?u "''//'' @ p"] s(1) by simp
  have q: "Cut (''//'' @ p) (CHR ''?'') = (''//'' @ p, [])" by (rule Cut_none) (use nop(2) in simp)
  have ne: "?u \<noteq> ''*''" by (cases s) auto
  have un: "unescape r = Inr r" using nop(1) by (intro unescape_plain) (simp add: pr)
  have "url_parse ?u = Inr \<lparr>u_Scheme = s, u_Opaque = [], u_Host = [], u_Path = p\<rparr>"
    using sch no(4) q ne s(1)
    by (simp add: url_parse_def s(3) Let_def HasPrefix_def parseAuthority_def parseHost_def pr un)
  moreover have "Cut ?u (CHR ''#'') = (?u, [])" by (rule Cut_none[OF no(3)])
  ultimately show ?thesis by (simp add: url_Parse_def)
qed

end
