(* ===== verification/Sources.thy ===== *)
theory Sources
  imports Elemental_Ops Go_Url
begin

section \<open>Sources of images and files (pkg/types/common.go, pkg/utils/common.go, pkg/elemental/elemental.go)\<close>

text \<open>
  Image sources are written as URIs; files given by the user are local paths or URLs. The parsers of container
  references are third-party code: \<open>parseNorm\<close> (the field \<open>cfg_ParseNormalizedNamed\<close>) tells whether a
  reference is valid and whether it has a name only, \<open>parseNamed\<close> whether it is a fully qualified one.
\<close>

subsection \<open>Image sources as URIs\<close>

definition SetDigest :: "string \<Rightarrow> ImageSource \<Rightarrow> ImageSource" where
  "SetDigest digest i = i\<lparr>src_digest := digest\<rparr>"

definition parseImageReference :: "(string \<Rightarrow> bool option) \<Rightarrow> string \<Rightarrow> ImageSource \<Rightarrow> err + ImageSource" where
  "parseImageReference parseNorm ref i =
     (case parseNorm ref of
        None \<Rightarrow> Inl (Errorf (''invalid image reference '' @ ref))
      | Some nameOnly \<Rightarrow> Inr (i\<lparr>src_srcType := ''oci'', src_source := (if nameOnly then ref @ '':latest'' else ref)\<rparr>))"

definition updateFromURI :: "(string \<Rightarrow> bool option) \<Rightarrow> string \<Rightarrow> ImageSource \<Rightarrow> err + ImageSource" where
  "updateFromURI parseNorm uri i =
     (case url_Parse uri of
        Inl e \<Rightarrow> Inl e
      | Inr u \<Rightarrow>
          (let scheme = u_Scheme u;
               val = (if u_Opaque u = [] then Join [u_Host u, u_Path u] else u_Opaque u)
           in if scheme = ''oci'' \<or> scheme = ''docker'' then parseImageReference parseNorm val i
              else if scheme = ''dir'' then Inr (i\<lparr>src_srcType := ''dir'', src_source := val\<rparr>)
              else if scheme = ''file'' then Inr (i\<lparr>src_srcType := ''file'', src_source := val\<rparr>)
              else parseImageReference parseNorm uri i))"

definition NewSrcFromURI :: "(string \<Rightarrow> bool option) \<Rightarrow> string \<Rightarrow> err + ImageSource" where
  "NewSrcFromURI parseNorm uri = updateFromURI parseNorm uri NewEmptySrc"

definition ImageSource_CustomUnmarshal :: "(string \<Rightarrow> bool option) \<Rightarrow> iface \<Rightarrow> ImageSource \<Rightarrow> err + ImageSource" where
  "ImageSource_CustomUnmarshal parseNorm data i =
     (case data of IStr src \<Rightarrow> updateFromURI parseNorm src i | _ \<Rightarrow> Inl (Errorf ''can't unmarshal to an ImageSource type''))"

subsection \<open>Platforms (pkg/types/platform.go)\<close>

text \<open>\<open>regParse\<close> is the platform parser of the container registry library: operating system and architecture.\<close>

definition ParsePlatform :: "(string \<Rightarrow> err + string \<times> string) \<Rightarrow> string \<Rightarrow> err + Platform" where
  "ParsePlatform regParse platform =
     (case regParse platform of Inl e \<Rightarrow> Inl e | Inr (os, arch) \<Rightarrow> NewPlatform os arch)"

definition Platform_updateFrom :: "Platform option \<Rightarrow> Platform \<Rightarrow> Platform" where
  "Platform_updateFrom platform p = (case platform of None \<Rightarrow> p | Some q \<Rightarrow>
     p\<lparr>pl_OS := pl_OS q, pl_Arch := pl_Arch q, pl_GolangArch := pl_GolangArch q\<rparr>)"

definition Platform_UnmarshalYAML :: "(string \<Rightarrow> err + string \<times> string) \<Rightarrow> string \<Rightarrow> Platform \<Rightarrow> err option \<times> Platform" where
  "Platform_UnmarshalYAML regParse val p =
     (case ParsePlatform regParse val of Inl e \<Rightarrow> (Some e, p) | Inr q \<Rightarrow> (None, Platform_updateFrom (Some q) p))"

definition Platform_CustomUnmarshal :: "(string \<Rightarrow> err + string \<times> string) \<Rightarrow> iface \<Rightarrow> Platform \<Rightarrow> err option \<times> Platform" where
  "Platform_CustomUnmarshal regParse data p =
     (case data of
        IStr str \<Rightarrow> (case ParsePlatform regParse str of
           Inl e \<Rightarrow> (Some e, Platform_updateFrom None p) | Inr q \<Rightarrow> (None, Platform_updateFrom (Some q) p))
      | _ \<Rightarrow> (Some (Errorf ''can't unmarshal to a Platform type''), p))"

subsection \<open>Local and remote files\<close>

definition IsLocalURI :: "(string \<Rightarrow> bool) \<Rightarrow> string \<Rightarrow> err + bool" where
  "IsLocalURI parseNamed uri =
     (case url_Parse uri of
        Inl e \<Rightarrow> Inl e
      | Inr u \<Rightarrow> Inr (if u_Scheme u = ''file'' then True else if u_Scheme u = [] then \<not> parseNamed uri else False))"

definition IsHTTPURI :: "string \<Rightarrow> err + bool" where
  "IsHTTPURI uri = (case url_Parse uri of Inl e \<Rightarrow> Inl e | Inr u \<Rightarrow> Inr (u_Scheme u = ''http'' \<or> u_Scheme u = ''https''))"

definition GetSource :: "Config \<Rightarrow> string \<Rightarrow> string \<Rightarrow> (world, unit) io" where
  "GetSource config source destination =
     bindIO (sumIO (IsLocalURI (cfg_ParseNamed config) source)) (\<lambda>local.
       thenIO (os_MkdirAll (Dir destination) DirPerm)
         (if local then (case url_Parse source of Inl _ \<Rightarrow> failIO Panic | Inr u \<Rightarrow> CopyFile (u_Path u) destination)
          else cfg_GetURL config source destination))"

definition ValidContainerReference :: "(string \<Rightarrow> bool option) \<Rightarrow> string \<Rightarrow> bool" where
  "ValidContainerReference parseNorm ref \<longleftrightarrow> parseNorm ref \<noteq> None"

definition ValidTaggedContainerReference :: "(string \<Rightarrow> bool option) \<Rightarrow> string \<Rightarrow> bool" where
  "ValidTaggedContainerReference parseNorm ref = (case parseNorm ref of None \<Rightarrow> False | Some nameOnly \<Rightarrow> \<not> nameOnly)"

definition CopyCloudConfig :: "Config \<Rightarrow> string \<Rightarrow> string list \<Rightarrow> (world, unit) io" where
  "CopyCloudConfig c path cloudInit =
     (if path = [] then retIO ()
      else forIO (enumerate 0 cloudInit) (\<lambda>(i, ci).
        let customConfig = Join [path, ''9'' @ nat_str i @ ''_custom.yaml''] in
        thenIO (GetSource c ci customConfig) (fs_Chmod customConfig FilePerm)))"

definition ISORootFile :: string where "ISORootFile = ''rootfs.squashfs''"

text \<open>
  The source in an ISO image. The function returns a clean-up operation beside the error, so it is a value in both
  cases: the source or the error, and the operation.
\<close>

definition SourceFormISO :: "Config \<Rightarrow> string \<Rightarrow> (world, (err + ImageSource) \<times> (world, unit) io) io" where
  "SourceFormISO c isoURI = (\<lambda>w. case TempDir [] ''elemental'' w of
     (Inl e, w1) \<Rightarrow> (Inr (Inl e, retIO ()), w1)
   | (Inr tmpDir, w1) \<Rightarrow>
       (let cleanTmpDir = fs_RemoveAll tmpDir;
            tmpFile = Join [tmpDir, ''elemental.iso''];
            isoMnt = Join [tmpDir, ''iso''];
            squashfsImg = Join [isoMnt, ISORootFile]
        in case thenIO (GetSource c isoURI tmpFile)
             (thenIO (MkdirAll isoMnt DirPerm) (mnt_Mount tmpFile isoMnt ''auto'' [''loop''])) w1 of
             (Inl e, w2) \<Rightarrow> (Inr (Inl e, cleanTmpDir), w2)
           | (Inr _, w2) \<Rightarrow>
               bindIO (okIO False (Exists squashfsImg False)) (\<lambda>ok.
                 retIO (if ok then Inr (NewFileSrc squashfsImg) else Inl (Errorf ''squashfs image not found in ISO''),
                   thenIO (mnt_Unmount isoMnt) cleanTmpDir)) w2))"

text \<open>\<open>loadState\<close> reads the installation state; \<open>random\<close> is the number for the name when no suffix is given.\<close>

definition GetTempDir :: "Config \<Rightarrow> (world, InstallState) io \<Rightarrow> nat \<Rightarrow> string \<Rightarrow> (world, string) io" where
  "GetTempDir c loadState random sfx =
     (let elementalTmpDir = ''elemental-'' @ (if sfx = [] then nat_str random else sfx);
          dflt = Join [''/'', ''tmp'', elementalTmpDir];
          dir = cfg_Getenv c ''TMPDIR''
      in if dir \<noteq> [] then retIO (Join [dir, elementalTmpDir])
         else (\<lambda>w. case cfg_AllPartitions c w of
            (Inl _, w1) \<Rightarrow> (Inr dflt, w1)
          | (Inr parts, w1) \<Rightarrow>
              bindIO (okIO None (bindIO loadState (\<lambda>st. retIO (Some st)))) (\<lambda>state.
                case ep_Persistent (NewElementalPartitionsFromList parts state) of
                  None \<Rightarrow> retIO dflt
                | Some persistent \<Rightarrow> bindIO (okIO False (IsMounted (Some persistent))) (\<lambda>mnt.
                    retIO (if mnt then Join [p_MountPoint persistent, ''tmp'', elementalTmpDir] else dflt))) w1))"

subsection \<open>Properties\<close>

text \<open>
  Property C33. A directory or file source survives being written as a URI and read again: for a clean absolute path
  without the bytes that are special in URIs, the printed form parses to the same source, whatever the parser of
  container references does.
\<close>

theorem ImageSource_roundtrip:
  assumes "src_srcType i \<in> {''dir'', ''file''}" and "HasPrefix (src_source i) ''/''" and "Clean (src_source i) = src_source i"
    and "uri_plain (src_source i)" and "src_digest i = []"
  shows "NewSrcFromURI parseNorm (ImageSource_String i) = Inr i"
proof -
  let ?p = "src_source i"
  have ne: "?p \<noteq> []" using assms(2) by (auto simp: HasPrefix_def)
  have J: "Join [[], ?p] = ?p" using assms(3) ne by (simp add: Join_def)
  have "url_Parse (src_srcType i @ ''://'' @ ?p) =
      Inr \<lparr>u_Scheme = src_srcType i, u_Opaque = [], u_Host = [], u_Path = ?p\<rparr>"
    using assms(1) by (intro url_Parse_local[OF assms(4,2)])
      (auto simp: is_alpha_def less_eq_char_def ToLower_def ToLower_char_def uri_plain_def)
  moreover have "ImageSource_String i = src_srcType i @ ''://'' @ ?p"
    using assms(1) ne by (auto simp: ImageSource_String_def IsEmpty_def)
  ultimately show ?thesis using assms(1,5) J
    by (cases i) (auto simp: NewSrcFromURI_def updateFromURI_def Let_def NewEmptySrc_def)
qed

theorem ImageSource_roundtrip_witness:
  "NewSrcFromURI (\<lambda>_. None) (ImageSource_String (NewDirSrc ''/some/root'')) = Inr (NewDirSrc ''/some/root'')"
proof (rule ImageSource_roundtrip)
  show "Clean (src_source (NewDirSrc ''/some/root'')) = src_source (NewDirSrc ''/some/root'')" by code_simp
qed (simp_all add: NewDirSrc_def HasPrefix_def uri_plain_def)

end
