(* ===== verification/Action_Common.thy ===== *)
theory Action_Common
  imports Clean_Stack Types_Spec Grub Sources
begin

section \<open>What the actions share (pkg/action/common.go, pkg/error, pkg/utils/runstage.go)\<close>

text \<open>
  An action is a record with the configuration, its specification, the bootloader, the snapshotter and the open
  snapshot; its methods work on the pair of the action and the world. \<open>Run\<close> keeps a clean-up stack of jobs on that
  pair. Errors leave an action with an exit code. The hooks run the stages of cloud-init, whose executor is the
  function field \<open>cfg_CloudInitRun\<close> of the configuration.
\<close>

record RunConfig =
  rc_Config :: Config
  rc_Reboot :: bool
  rc_PowerOff :: bool
  rc_EjectCD :: bool
  rc_Snapshotter :: SnapshotterConfig
  rc_MarshalState :: "InstallState \<Rightarrow> err + string"
  rc_EfiVars :: Variables

subsection \<open>Exit codes (pkg/error)\<close>

definition exit_CreateFile :: nat where "exit_CreateFile = 16"
definition exit_DumpSource :: nat where "exit_DumpSource = 18"
definition exit_MountStatePartition :: nat where "exit_MountStatePartition = 34"
definition exit_MountRecoveryPartition :: nat where "exit_MountRecoveryPartition = 35"
definition exit_HookBeforeUpgrade :: nat where "exit_HookBeforeUpgrade = 36"
definition exit_HookAfterUpgrade :: nat where "exit_HookAfterUpgrade = 38"
definition exit_HookAfterUpgradeChroot :: nat where "exit_HookAfterUpgradeChroot = 39"
definition exit_Cleanup :: nat where "exit_Cleanup = 41"
definition exit_Reboot :: nat where "exit_Reboot = 42"
definition exit_PowerOff :: nat where "exit_PowerOff = 43"
definition exit_SetDefaultGrubEntry :: nat where "exit_SetDefaultGrubEntry = 45"
definition exit_DeployImage :: nat where "exit_DeployImage = 48"
definition exit_InstallGrub :: nat where "exit_InstallGrub = 49"
definition exit_HookBeforeInstall :: nat where "exit_HookBeforeInstall = 50"
definition exit_HookAfterInstall :: nat where "exit_HookAfterInstall = 51"
definition exit_HookAfterInstallChroot :: nat where "exit_HookAfterInstallChroot = 52"
definition exit_MountPartitions :: nat where "exit_MountPartitions = 54"
definition exit_DeactivatingDevices :: nat where "exit_DeactivatingDevices = 55"
definition exit_PartitioningDevice :: nat where "exit_PartitioningDevice = 56"
definition exit_AlreadyInstalled :: nat where "exit_AlreadyInstalled = 57"
definition exit_UnmountPartitions :: nat where "exit_UnmountPartitions = 59"
definition exit_FormatPartitions :: nat where "exit_FormatPartitions = 60"
definition exit_HookBeforeReset :: nat where "exit_HookBeforeReset = 61"
definition exit_HookAfterResetChroot :: nat where "exit_HookAfterResetChroot = 62"
definition exit_HookAfterReset :: nat where "exit_HookAfterReset = 63"
definition exit_HookPostUpgrade :: nat where "exit_HookPostUpgrade = 72"
definition exit_HookPostReset :: nat where "exit_HookPostReset = 73"
definition exit_HookPostInstall :: nat where "exit_HookPostInstall = 74"
definition exit_CopyFile :: nat where "exit_CopyFile = 13"
definition exit_SetGrubVariables :: nat where "exit_SetGrubVariables = 78"
definition exit_SnapshotterInit :: nat where "exit_SnapshotterInit = 84"
definition exit_SnapshotterStart :: nat where "exit_SnapshotterStart = 85"
definition exit_MountBootPartition :: nat where "exit_MountBootPartition = 86"
definition exit_MountPersistentPartition :: nat where "exit_MountPersistentPartition = 87"
definition exit_UpgradeRecovery :: nat where "exit_UpgradeRecovery = 88"
definition exit_Unknown :: nat where "exit_Unknown = 255"

text \<open>\<open>NewFromError\<close> gives an error an exit code; a panic is not an error value and passes through.\<close>

definition NewFromError :: "err option \<Rightarrow> nat \<Rightarrow> err option" where
  "NewFromError e code = map_option (\<lambda>e'. Coded e' code) e"

definition coded :: "nat \<Rightarrow> ('s, 'a) io \<Rightarrow> ('s, 'a) io" where
  "coded code m = (\<lambda>s. case m s of
     (Inl e, s') \<Rightarrow> (Inl (if e = Panic then Panic else Coded e code), s') | (Inr x, s') \<Rightarrow> (Inr x, s'))"

definition error_New :: "string \<Rightarrow> nat \<Rightarrow> err" where
  "error_New msg code = Coded (Errorf msg) code"

subsection \<open>The scope of a clean-up stack\<close>

text \<open>
  The body of \<^verbatim>\<open>Run\<close> works on the stack and the state. \<open>withCleanup\<close> is the deferred clean-up: it sees the
  error the body returns. During a panic the deferred function sees no error, and the panic goes on afterwards.
\<close>

definition inScope :: "('s, 'a) io \<Rightarrow> ('s CleanStack \<times> 's, 'a) io" where
  "inScope m = (\<lambda>(st, s). case m s of (r, s') \<Rightarrow> (r, (st, s')))"

definition pushS :: "('s, unit) io \<Rightarrow> ('s CleanStack \<times> 's, unit) io" where
  "pushS job = (\<lambda>(st, s). (Inr (), (Push job st, s)))"

definition pushErrorOnlyS :: "('s, unit) io \<Rightarrow> ('s CleanStack \<times> 's, unit) io" where
  "pushErrorOnlyS job = (\<lambda>(st, s). (Inr (), (PushErrorOnly job st, s)))"

text \<open>\<^verbatim>\<open>err = cleanup.Cleanup(err)\<close> at the end of a body, with the value \<open>eo\<close> of the error variable.\<close>

definition cleanupS :: "err option \<Rightarrow> ('s CleanStack \<times> 's, unit) io" where
  "cleanupS eo = (\<lambda>(st, s). case Cleanup st eo s of
     (eo', s', st') \<Rightarrow> (case eo' of None \<Rightarrow> Inr () | Some e \<Rightarrow> Inl e, (st', s')))"

definition seenError :: "err + 'a \<Rightarrow> err option" where
  "seenError r = (case r of Inl e \<Rightarrow> (if e = Panic then None else Some e) | Inr _ \<Rightarrow> None)"

definition withCleanup :: "('s CleanStack \<times> 's, unit) io \<Rightarrow> ('s, unit) io" where
  "withCleanup body = (\<lambda>s. case body (NewCleanStack, s) of
     (r, (st, s')) \<Rightarrow> (case Cleanup st (seenError r) s' of
        (eo, s'', _) \<Rightarrow> (if r = Inl Panic then Inl Panic else case eo of None \<Rightarrow> Inr () | Some e \<Rightarrow> Inl e, s'')))"

subsection \<open>Pointer fields\<close>

text \<open>A method of the object a pointer field points to; a nil pointer panics.\<close>

definition onSome :: "('o \<Rightarrow> 'p option) \<Rightarrow> ('p option \<Rightarrow> 'o \<Rightarrow> 'o) \<Rightarrow> ('p \<times> world, 'a) io \<Rightarrow> ('o \<times> world, 'a) io" where
  "onSome get put m = bindIO getO (\<lambda>obj. case get obj of
     None \<Rightarrow> failIO Panic | Some p \<Rightarrow> zoom (\<lambda>_. p) (\<lambda>p'. put (Some p')) m)"

definition deref :: "'p option \<Rightarrow> ('s, 'p) io" where
  "deref po = (case po of None \<Rightarrow> failIO Panic | Some p \<Rightarrow> retIO p)"

text \<open>Partitions are shared by pointer: the partitions of a list that was changed are put back by their address.\<close>

definition sameRef :: "Partition list \<Rightarrow> Partition \<Rightarrow> Partition" where
  "sameRef ps p = (case find (\<lambda>q. p_ref q = p_ref p) ps of None \<Rightarrow> p | Some q \<Rightarrow> q)"

definition putParts :: "Partition list \<Rightarrow> ElementalPartitions \<Rightarrow> ElementalPartitions" where
  "putParts ps ep = ep\<lparr>ep_BIOS := map_option (sameRef ps) (ep_BIOS ep), ep_Boot := map_option (sameRef ps) (ep_Boot ep),
     ep_OEM := map_option (sameRef ps) (ep_OEM ep), ep_Recovery := map_option (sameRef ps) (ep_Recovery ep),
     ep_State := map_option (sameRef ps) (ep_State ep), ep_Persistent := map_option (sameRef ps) (ep_Persistent ep)\<rparr>"

subsection \<open>Stages (pkg/utils/runstage.go)\<close>

definition onlyYAMLPartialErrors :: "err \<Rightarrow> bool" where
  "onlyYAMLPartialErrors er = (case er of Multi es \<Rightarrow> list_all (\<lambda>e. e = YamlTypeError) es | _ \<Rightarrow> True)"

definition checkYAMLError :: "err option \<Rightarrow> err \<Rightarrow> err option" where
  "checkYAMLError allErrors e =
     (if \<not> onlyYAMLPartialErrors e then Some (multierror_Append allErrors e) else allErrors)"

definition cmdlineURIs :: "string \<Rightarrow> string list" where
  "cmdlineURIs cmdLineOut = List.map_filter (\<lambda>line.
     (case splitOn (CHR ''='') line of
        k # v # _ \<Rightarrow> (if k = ''cos.setup'' \<or> k = ''elemental.setup'' then Some (TrimSpace v) else None)
      | _ \<Rightarrow> None)) (splitOn (CHR '' '') cmdLineOut)"

text \<open>\<open>base\<close> is the root of the process: local paths are looked up below it.\<close>

fun filterNonExistingLocalURIs :: "string \<Rightarrow> Config \<Rightarrow> string list \<Rightarrow> (world, string list) io" where
  "filterNonExistingLocalURIs base cfg [] = retIO []"
| "filterNonExistingLocalURIs base cfg (cp # uris) =
     bindIO (case IsLocalURI (cfg_ParseNamed cfg) cp of
         Inr True \<Rightarrow> okIO False (Exists (Join [base, cp]) False)
       | _ \<Rightarrow> retIO True) (\<lambda>keep.
     bindIO (filterNonExistingLocalURIs base cfg uris) (\<lambda>rest. retIO (if keep then cp # rest else rest)))"

text \<open>A stage that fails does not stop the others: the errors are collected by \<open>add\<close>.\<close>

fun runStages :: "(err option \<Rightarrow> err \<Rightarrow> err option) \<Rightarrow> (string \<Rightarrow> (world, unit) io) \<Rightarrow> string list \<Rightarrow> err option \<Rightarrow>
    (world, err option) io" where
  "runStages add run [] allErrors = retIO allErrors"
| "runStages add run (s # stages) allErrors = bindIO (tryIO (run s)) (\<lambda>e.
     runStages add run stages (case e of None \<Rightarrow> allErrors | Some e' \<Rightarrow> add allErrors e'))"

definition RunStageIn :: "string \<Rightarrow> Config \<Rightarrow> string \<Rightarrow> bool \<Rightarrow> string list \<Rightarrow> (world, unit) io" where
  "RunStageIn base cfg stage strict cloudInitPaths = (\<lambda>w.
     case fs_ReadFile ''/proc/cmdline'' w of (r, w1) \<Rightarrow>
       (let cmdLineOut = (case r of Inl _ \<Rightarrow> [] | Inr out \<Rightarrow> out);
            errs0 = (case r of Inl e \<Rightarrow> Some (multierror_Append None e) | Inr _ \<Rightarrow> None);
            paths = cloudInitPaths @ cmdlineURIs cmdLineOut;
            stages = [stage @ ''.before'', stage, stage @ ''.after'']
        in bindIO (if paths = [] then retIO errs0
                   else runStages (\<lambda>es e. Some (multierror_Append es e))
                     (\<lambda>s. bindIO (filterNonExistingLocalURIs base cfg paths) (cfg_CloudInitRun cfg False s)) stages errs0)
           (\<lambda>errs1. bindIO (runStages checkYAMLError (\<lambda>s. cfg_CloudInitRun cfg True s [cmdLineOut]) stages errs1)
             (\<lambda>allErrors. if strict then raiseIO allErrors else retIO ())) w1))"

definition RunStage :: "Config \<Rightarrow> string \<Rightarrow> bool \<Rightarrow> string list \<Rightarrow> (world, unit) io" where
  "RunStage = RunStageIn ''/''"

subsection \<open>Hooks and power\<close>

definition HookIn :: "string \<Rightarrow> Config \<Rightarrow> string \<Rightarrow> bool \<Rightarrow> string list \<Rightarrow> (world, unit) io" where
  "HookIn base config hook strict cloudInitPaths =
     bindIO (tryIO (RunStageIn base config hook strict cloudInitPaths)) (\<lambda>e. if strict then raiseIO e else retIO ())"

definition Hook :: "Config \<Rightarrow> string \<Rightarrow> bool \<Rightarrow> string list \<Rightarrow> (world, unit) io" where
  "Hook = HookIn ''/''"

text \<open>Inside the chroot local paths are those of the new root; \<^verbatim>\<open>/proc\<close> is bind mounted there.\<close>

definition ChrootHook ::
  "Config \<Rightarrow> string \<Rightarrow> bool \<Rightarrow> string \<Rightarrow> (string \<times> string) list \<Rightarrow> string list \<Rightarrow> (world, unit) io" where
  "ChrootHook config hook strict chrootDir bindMounts cloudInitPaths =
     ChrootedCallback config chrootDir bindMounts (HookIn chrootDir config hook strict cloudInitPaths) []"

definition PowerAction :: "RunConfig \<Rightarrow> (world, unit) io" where
  "PowerAction cfg =
     (if rc_Reboot cfg then coded exit_Reboot (Reboot (rc_Config cfg))
      else if rc_PowerOff cfg then coded exit_PowerOff (Shutdown (rc_Config cfg))
      else retIO ())"

text \<open>The method of the configuration that writes the state files (pkg/types/config.go).\<close>

definition rc_WriteInstallState :: "RunConfig \<Rightarrow> InstallState \<Rightarrow> string \<Rightarrow> string \<Rightarrow> (world, unit) io" where
  "rc_WriteInstallState cfg = WriteInstallState (rc_MarshalState cfg)"

definition nowRFC3339 :: "Config \<Rightarrow> (world, string) io" where
  "nowRFC3339 cfg = (\<lambda>w. (Inr (formatRFC3339 (cfg_Now cfg w)), w))"

subsection \<open>Labels for the bootloader (pkg/types/grub.go)\<close>

definition partLabel :: "Partition option \<Rightarrow> err + string" where
  "partLabel po = (case po of None \<Rightarrow> Inl Panic | Some p \<Rightarrow> Inr (p_FilesystemLabel p))"

definition baseLabels :: "ElementalPartitions \<Rightarrow> err + (string \<times> string) list" where
  "baseLabels ep =
     (case (partLabel (ep_State ep), partLabel (ep_Recovery ep), partLabel (ep_OEM ep)) of
        (Inr st, Inr re, Inr oe) \<Rightarrow> Inr [(''state_label'', st), (''recovery_label'', re), (''oem_label'', oe)]
      | _ \<Rightarrow> Inl Panic)"

definition persistentLabels :: "ElementalPartitions \<Rightarrow> (string \<times> string) list \<Rightarrow> (string \<times> string) list" where
  "persistentLabels ep env =
     (case ep_Persistent ep of None \<Rightarrow> env | Some p \<Rightarrow> env @ [(''persistent_label'', p_FilesystemLabel p)])"

definition Install_GetGrubLabels :: "InstallSpec \<Rightarrow> err + (string \<times> string) list" where
  "Install_GetGrubLabels i = map_sum id (persistentLabels (ins_Partitions i)) (baseLabels (ins_Partitions i))"

definition Upgrade_GetGrubLabels :: "UpgradeSpec \<Rightarrow> err + (string \<times> string) list" where
  "Upgrade_GetGrubLabels u = map_sum id (persistentLabels (upg_Partitions u)) (baseLabels (upg_Partitions u))"

definition Reset_GetGrubLabels :: "ResetSpec \<Rightarrow> err + (string \<times> string) list" where
  "Reset_GetGrubLabels r =
     (case baseLabels (rst_Partitions r) of
        Inl e \<Rightarrow> Inl e
      | Inr env \<Rightarrow>
          (case (case rst_State r of None \<Rightarrow> None | Some st \<Rightarrow> is_Partitions st RecoveryPartName) of
             None \<Rightarrow> Inr (persistentLabels (rst_Partitions r) env)
           | Some recoveryPart \<Rightarrow>
               (case ps_RecoveryImage recoveryPart of
                  None \<Rightarrow> Inl Panic
                | Some img \<Rightarrow> Inr (persistentLabels (rst_Partitions r)
                    (AList.update ''recovery_label'' (ps_FSLabel recoveryPart) env @ [(''system_label'', ss_Label img)])))))"

definition Disk_GetGrubLabels :: "DiskSpec \<Rightarrow> err + (string \<times> string) list" where
  "Disk_GetGrubLabels d =
     (let ep = dsk_Partitions d in
      case (partLabel (ep_Boot ep), partLabel (ep_OEM ep), partLabel (ep_Recovery ep), partLabel (ep_State ep),
            partLabel (ep_Persistent ep)) of
        (Inr b, Inr oe, Inr re, Inr st, Inr pe) \<Rightarrow>
          Inr [(''efi_label'', b), (''oem_label'', oe), (''recovery_label'', re), (''state_label'', st), (''persistent_label'', pe)]
      | _ \<Rightarrow> Inl Panic)"

subsection \<open>Shared steps of the actions\<close>

definition OEMPath :: string where "OEMPath = ''/oem''"
definition PersistentPath :: string where "PersistentPath = ''/run/elemental/persistent''"

fun applyOpts :: "('a \<Rightarrow> err + 'a) list \<Rightarrow> 'a \<Rightarrow> err + 'a" where
  "applyOpts [] u = Inr u"
| "applyOpts (opt # opts) u = (case opt u of Inl e \<Rightarrow> Inl e | Inr u' \<Rightarrow> applyOpts opts u')"

text \<open>The method of the bootloader the snapshotter uses.\<close>

definition blSetVars :: "Grub option \<Rightarrow> string \<Rightarrow> (string \<times> string) list \<Rightarrow> (world, unit) io" where
  "blSetVars bl = (case bl of None \<Rightarrow> (\<lambda>_ _. failIO Panic) | Some g \<Rightarrow> SetPersistentVariables (g_cfg g))"

definition both :: "'a option \<Rightarrow> 'b option \<Rightarrow> ('a \<times> 'b) option" where
  "both a b = (case (a, b) of (Some x, Some y) \<Rightarrow> Some (x, y) | _ \<Rightarrow> None)"

text \<open>The partitions bind mounted into the chroot: a map from their mount points to paths inside.\<close>

definition bindFor :: "Partition option \<Rightarrow> string \<Rightarrow> (string \<times> string) list \<Rightarrow> (string \<times> string) list" where
  "bindFor po path m =
     (case po of None \<Rightarrow> m | Some p \<Rightarrow> (if p_MountPoint p = [] then m else AList.update (p_MountPoint p) path m))"

type_synonym 'a run = "(('a \<times> world) CleanStack \<times> ('a \<times> world), unit) io"

definition mountRW :: "nat \<Rightarrow> ((Partition \<times> world, (Partition \<times> world, unit) io) io \<Rightarrow> ('a \<times> world, (Partition \<times> world, unit) io) io) \<Rightarrow>
    ((Partition \<times> world, unit) io \<Rightarrow> ('a \<times> world, unit) io) \<Rightarrow> Config \<Rightarrow> 'a run" where
  "mountRW code onP onJ cfg = bindIO (inScope (coded code (onP (MountRWPartition cfg)))) (\<lambda>umount. pushS (onJ umount))"


subsection \<open>A hook that is not strict never fails\<close>

lemma runStages_total: "\<exists>es w'. runStages add run stages errs w = (Inr es, w')"
proof (induction stages arbitrary: errs w)
  case (Cons s stages)
  obtain e w1 where "tryIO (run s) w = (Inr e, w1)" by (cases "run s w"; cases "fst (run s w)") (auto simp: tryIO_def)
  then show ?case using Cons.IH by (simp add: bindIO_def)
qed (simp add: retIO_def)

definition aggregate :: "err option \<Rightarrow> bool" where
  "aggregate eo \<longleftrightarrow> (\<forall>e. eo = Some e \<longrightarrow> (\<exists>es. e = Multi es))"

lemma runStages_aggregate:
  assumes "aggregate errs" "runStages add run stages errs w = (Inr out, w')" "\<And>es e. aggregate es \<Longrightarrow> aggregate (add es e)"
  shows "aggregate out"
  using assms(1,2)
proof (induction stages arbitrary: errs w)
  case (Cons s stages)
  then obtain e w1 where "runStages add run stages (case e of None \<Rightarrow> errs | Some e' \<Rightarrow> add errs e') w1 = (Inr out, w')"
    by (auto simp: bindIO_Inr_iff)
  moreover have "aggregate (case e of None \<Rightarrow> errs | Some e' \<Rightarrow> add errs e')"
    using Cons.prems(1) assms(3) by (cases e) simp_all
  ultimately show ?case using Cons.IH by blast
qed (simp add: retIO_def)

lemma RunStage_result:
  "\<exists>out w'. RunStageIn base cfg stage strict paths w = (if strict then raiseIO out else retIO ()) w' \<and> aggregate out"
proof -
  obtain r w1 where r: "fs_ReadFile ''/proc/cmdline'' w = (r, w1)" by fastforce
  let ?cmd = "case r of Inl _ \<Rightarrow> [] | Inr out \<Rightarrow> out"
  let ?e0 = "case r of Inl e \<Rightarrow> Some (multierror_Append None e) | Inr _ \<Rightarrow> None"
  let ?st = "[stage @ ''.before'', stage, stage @ ''.after'']" and ?p = "paths @ cmdlineURIs ?cmd"
  let ?m = "if ?p = [] then retIO ?e0 else runStages (\<lambda>es e. Some (multierror_Append es e))
    (\<lambda>s. bindIO (filterNonExistingLocalURIs base cfg ?p) (cfg_CloudInitRun cfg False s)) ?st ?e0"
  have e0: "aggregate ?e0" by (auto simp: aggregate_def multierror_Append_def split: sum.splits)
  have "\<exists>e1 w2. ?m w1 = (Inr e1, w2)"
    by (cases "?p = []") (simp add: retIO_def, simp only: if_False runStages_total)
  then obtain e1 w2 where m: "?m w1 = (Inr e1, w2)" by blast
  have add: "aggregate (Some (multierror_Append es e))" for es e by (simp add: aggregate_def multierror_Append_def)
  have e1: "aggregate e1"
  proof (cases "?p = []")
    case True
    then show ?thesis using m e0 by (simp add: retIO_def)
  next
    case False
    then show ?thesis using runStages_aggregate[OF e0 _ add] m by (simp only: if_False)
  qed
  obtain out w3 where o: "runStages checkYAMLError (\<lambda>s. cfg_CloudInitRun cfg True s [?cmd]) ?st e1 w2 = (Inr out, w3)"
    using runStages_total by blast
  have "aggregate out"
    by (rule runStages_aggregate[OF e1 o]) (auto simp: checkYAMLError_def add)
  then show ?thesis using r m o by (auto simp: RunStageIn_def Let_def bindIO_def simp del: runStages.simps)
qed

text \<open>
  Hooks: without the strict flag a hook never fails, whatever the stages, the reading of the kernel command line
  and the cloud-init executor do; with it, the hook reports an aggregate of errors or succeeds, so no error of a
  single stage is lost or stops the stages after it.
\<close>

theorem Hook_result:
  "fst (Hook config hook strict paths w) = Inr () \<or> strict \<and> (\<exists>es. fst (Hook config hook strict paths w) = Inl (Multi es))"
proof -
  obtain out w' where "RunStageIn ''/'' config hook strict paths w = (if strict then raiseIO out else retIO ()) w'" "aggregate out"
    using RunStage_result by blast
  then show ?thesis
    by (cases out; cases strict) (auto simp: Hook_def HookIn_def bindIO_def tryIO_def raiseIO_def retIO_def failIO_def aggregate_def)
qed

text \<open>A run configuration for the examples.\<close>

definition demoRunConfig :: "bool \<Rightarrow> RunConfig" where
  "demoRunConfig reboot = \<lparr>rc_Config = demoConfig, rc_Reboot = reboot, rc_PowerOff = False, rc_EjectCD = False, rc_Snapshotter = NewLoopDevice,
     rc_MarshalState = (\<lambda>_. Inr []), rc_EfiVars = demoVars\<rparr>"

end
