(* ===== verification/Upgrade_Recovery.thy ===== *)
theory Upgrade_Recovery
  imports Action_Common
begin

section \<open>The upgrade of the recovery system (pkg/action/upgrade-recovery.go)\<close>

text \<open>
  A new recovery system is deployed into a transition directory of the recovery partition, which then takes the place of
  the boot directory; the old boot directory is kept under another name until the new one is in place.
\<close>

definition BootTransitionPath :: string where "BootTransitionPath = ''boot-transition''"
definition BootPath :: string where "BootPath = ''boot''"
definition OldBootPath :: string where "OldBootPath = ''boot-old''"
definition ActionUpgradeRecovery :: string where "ActionUpgradeRecovery = ''upgrade-recovery''"

definition ErrUpgradeRecoveryFromRecovery :: err where
  "ErrUpgradeRecoveryFromRecovery = Errorf ''can not upgrade recovery from recovery partition''"

record UpgradeRecoveryAction =
  ur_cfg :: RunConfig
  ur_spec :: UpgradeSpec
  ur_updateInstallState :: bool

type_synonym UpgradeRecoveryActionOption = "UpgradeRecoveryAction \<Rightarrow> err + UpgradeRecoveryAction"

definition WithUpdateInstallState :: "bool \<Rightarrow> UpgradeRecoveryActionOption" where
  "WithUpdateInstallState b u = Inr (u\<lparr>ur_updateInstallState := b\<rparr>)"

definition NewUpgradeRecoveryAction ::
  "RunConfig \<Rightarrow> UpgradeSpec \<Rightarrow> UpgradeRecoveryActionOption list \<Rightarrow> (world, UpgradeRecoveryAction) io" where
  "NewUpgradeRecoveryAction config spec opts =
     bindIO (sumIO (applyOpts opts \<lparr>ur_cfg = config, ur_spec = spec, ur_updateInstallState = False\<rparr>)) (\<lambda>u.
     bindIO IsRecoveryMode (\<lambda>rec.
       if rec then failIO ErrUpgradeRecoveryFromRecovery
       else if ep_Recovery (upg_Partitions (ur_spec u)) = None then failIO (Errorf ''undefined recovery partition'')
       else if ur_updateInstallState u \<and> ep_State (upg_Partitions (ur_spec u)) = None
       then failIO (Errorf ''undefined state partition'')
       else if ur_updateInstallState u \<and> upg_State (ur_spec u) = None
       then failIO (Errorf ''could not load current install state'')
       else retIO u))"

subsection \<open>Parts of the specification\<close>

definition setRecoveryPart :: "Partition option \<Rightarrow> UpgradeSpec \<Rightarrow> UpgradeSpec" where
  "setRecoveryPart po s = s\<lparr>upg_Partitions := (upg_Partitions s)\<lparr>ep_Recovery := po\<rparr>\<rparr>"

definition ur_onRecovery :: "(Partition \<times> world, 'a) io \<Rightarrow> (UpgradeRecoveryAction \<times> world, 'a) io" where
  "ur_onRecovery = onSome (\<lambda>u. ep_Recovery (upg_Partitions (ur_spec u)))
     (\<lambda>po u. u\<lparr>ur_spec := setRecoveryPart po (ur_spec u)\<rparr>)"

definition ur_onRecoverySystem :: "(Image \<times> world, 'a) io \<Rightarrow> (UpgradeRecoveryAction \<times> world, 'a) io" where
  "ur_onRecoverySystem = zoom (\<lambda>u. upg_RecoverySystem (ur_spec u))
     (\<lambda>img u. u\<lparr>ur_spec := (ur_spec u)\<lparr>upg_RecoverySystem := img\<rparr>\<rparr>)"

subsection \<open>The state file\<close>

text \<open>The entry of the recovery partition after an upgrade by the given action.\<close>

definition upgradeRecoveryState :: "string \<Rightarrow> UpgradeSpec \<Rightarrow> InstallState \<Rightarrow> err + InstallState" where
  "upgradeRecoveryState fromAction spec st =
     (case is_Partitions st RecoveryPartName of
        None \<Rightarrow>
          (case (ep_Recovery (upg_Partitions spec), img_Source (upg_RecoverySystem spec)) of
             (Some part, Some src) \<Rightarrow>
               Inr (st\<lparr>is_Partitions := (is_Partitions st)(RecoveryPartName \<mapsto>
                 \<lparr>ps_FSLabel = p_FilesystemLabel part,
                  ps_RecoveryImage = Some \<lparr>ss_Source = Some src, ss_Digest = src_digest src, ss_Active = False,
                    ss_Label = img_Label (upg_RecoverySystem spec), ss_FS = img_FS (upg_RecoverySystem spec),
                    ss_Labels = upg_SnapshotLabels spec, ss_Date = is_Date st, ss_FromAction = fromAction\<rparr>,
                  ps_Snapshots = []\<rparr>)\<rparr>)
           | _ \<Rightarrow> Inl Panic)
      | Some rp \<Rightarrow>
          (case ps_RecoveryImage rp of
             None \<Rightarrow> Inr st
           | Some img \<Rightarrow> Inr (st\<lparr>is_Partitions := (is_Partitions st)(RecoveryPartName \<mapsto>
               rp\<lparr>ps_RecoveryImage := Some (img\<lparr>ss_Date := is_Date st, ss_Labels := upg_SnapshotLabels spec,
                 ss_FromAction := fromAction\<rparr>)\<rparr>)\<rparr>)))"

definition ur_upgradeInstallStateYaml :: "(UpgradeRecoveryAction \<times> world, unit) io" where
  "ur_upgradeInstallStateYaml = bindIO getO (\<lambda>u.
     bindIO (deref (upg_State (ur_spec u))) (\<lambda>st0.
     bindIO (liftW (nowRFC3339 (rc_Config (ur_cfg u)))) (\<lambda>date.
     bindIO (sumIO (upgradeRecoveryState ActionUpgradeRecovery (ur_spec u) (st0\<lparr>is_Date := date\<rparr>))) (\<lambda>st.
     thenIO (modO (\<lambda>u. u\<lparr>ur_spec := (ur_spec u)\<lparr>upg_State := Some st\<rparr>\<rparr>))
     (bindIO (deref (ep_Recovery (upg_Partitions (ur_spec u)))) (\<lambda>rec.
       liftW (rc_WriteInstallState (ur_cfg u) st (Join [RunningStateDir, InstallStateFile])
         (Join [p_MountPoint rec, InstallStateFile]))))))))"

subsection \<open>Run\<close>

text \<open>
  The exchange of the boot directories. The result says whether the new system is in place and gives the value
  the error variable has then: a failure to remove the old directory is only logged but stays in the variable. When
  the new directory cannot be moved and the old one could be moved back, the variable is nil and \<open>Run\<close> returns it.
\<close>

definition moveNewBoot :: "string \<Rightarrow> string \<Rightarrow> string \<Rightarrow> (world, bool \<times> err option) io" where
  "moveNewBoot transitionDir bootDir oldBootDir = bindIO (tryIO (fs_Rename transitionDir bootDir)) (\<lambda>e.
     case e of
       None \<Rightarrow> bindIO (tryIO (utils_RemoveAll oldBootDir)) (\<lambda>pending. retIO (True, pending))
     | Some e' \<Rightarrow> bindIO (okIO False (Exists oldBootDir False)) (\<lambda>old.
         if old then thenIO (fs_Rename oldBootDir bootDir) (retIO (False, None)) else failIO e'))"

definition switchRecovery :: "string \<Rightarrow> (world, bool \<times> err option) io" where
  "switchRecovery mnt =
     (let transitionDir = Join [mnt, BootTransitionPath]; bootDir = Join [mnt, BootPath]; oldBootDir = Join [mnt, OldBootPath] in
      thenIO (utils_RemoveAll oldBootDir)
      (bindIO (okIO False (Exists bootDir False)) (\<lambda>ok.
       thenIO (whenIO ok (fs_Rename bootDir oldBootDir)) (moveNewBoot transitionDir bootDir oldBootDir))))"

definition ur_mountRWPartitions ::
  "((UpgradeRecoveryAction \<times> world) CleanStack \<times> (UpgradeRecoveryAction \<times> world), unit) io" where
  "ur_mountRWPartitions = bindIO (inScope getO) (\<lambda>u.
     bindIO (inScope (coded exit_MountRecoveryPartition (ur_onRecovery (MountRWPartition (rc_Config (ur_cfg u))))))
       (\<lambda>umount. pushS (ur_onRecovery umount)))"

definition UpgradeRecovery_body ::
  "((UpgradeRecoveryAction \<times> world) CleanStack \<times> (UpgradeRecoveryAction \<times> world), unit) io" where
  "UpgradeRecovery_body =
     thenIO ur_mountRWPartitions
     (bindIO (inScope getO) (\<lambda>u.
      bindIO (inScope (deref (ep_Recovery (upg_Partitions (ur_spec u))))) (\<lambda>rec.
      let mnt = p_MountPoint rec; cfg = rc_Config (ur_cfg u) in
      thenIO (inScope (liftW (utils_RemoveAll (Join [mnt, BootTransitionPath]))))
      (thenIO (inScope (coded exit_DeployImage (ur_onRecoverySystem (DeployRecoverySystem cfg (cfg_Debug cfg)))))
      (bindIO (inScope (liftW (switchRecovery mnt))) (\<lambda>(inPlace, pending).
       if \<not> inPlace then retIO ()
       else bindIO (if ur_updateInstallState u then thenIO (inScope ur_upgradeInstallStateYaml) (retIO None)
                    else retIO pending) (\<lambda>pending'.
         thenIO (coded exit_Cleanup (cleanupS pending')) (inScope (liftW (PowerAction (ur_cfg u)))))))))))"

definition UpgradeRecovery_Run :: "(UpgradeRecoveryAction \<times> world, unit) io" where
  "UpgradeRecovery_Run = withCleanup UpgradeRecovery_body"

subsection \<open>The exchange never loses a bootable system\<close>

definition treeAt :: "world \<Rightarrow> string \<Rightarrow> string list \<Rightarrow> node option" where
  "treeAt w d p = fs_lookup w (pathOf d @ p)"

lemma RemoveAll_tree:
  assumes "utils_RemoveAll d w = (r, w')" "d \<noteq> []"
  shows "\<not> is_below (pathOf d) q \<Longrightarrow> fs_lookup w' q = fs_lookup w q"
    and "r = Inr () \<Longrightarrow> pathOf d \<noteq> [] \<Longrightarrow> fs_lookup w' (pathOf d @ p) = None"
  using assms by (auto simp: utils_RemoveAll_def fs_RemoveAll_def sysIO_def Let_def fs_lookup_del split: if_splits sum.splits)

lemma resolve_absent: "fs_lookup w p = None \<Longrightarrow> resolve w p = Some p"
  by (simp only: resolve_def follow.simps option.case)

lemma Exists_absent:
  "fs_lookup w (pathOf p) = None \<Longrightarrow> okIO False (Exists p False) w = (Inr b, w') \<Longrightarrow> \<not> b"
  by (auto simp: okIO_def Exists_def fs_Stat_def sysIO_def Let_def resolve_absent split: if_splits prod.splits sum.splits option.splits)

lemma okExists_files: "okIO d (Exists p nf) w = (r, w') \<Longrightarrow> fs_lookup w' q = fs_lookup w q"
  using keepsD[OF fls.keeps_ok[OF Exists_sameFiles]] lookup_sameFiles by blast

text \<open>Directories side by side: operations on one leave the trees of the others alone.\<close>

lemma pathOf_child: "IsAbs mnt \<Longrightarrow> plain a \<Longrightarrow> pathOf (Join [mnt, a]) = pathOf mnt @ [a]"
  by (rule pathOf_Join_plain) simp_all

lemma below_child: "is_below (d @ [a]) (d @ b # p) \<longleftrightarrow> a = b"
  by (auto simp: is_below_iff)

lemmas tree_simps = treeAt_def fun_eq_iff pathOf_child below_child

lemma Rename_sibling:
  assumes "fs_Rename (Join [mnt, a]) (Join [mnt, b]) w = (Inr (), w')" "IsAbs mnt" "plain a" "plain b" "a \<noteq> b"
  shows "treeAt w' (Join [mnt, b]) = treeAt w (Join [mnt, a])"
    and "plain c \<Longrightarrow> c \<noteq> a \<Longrightarrow> c \<noteq> b \<Longrightarrow> treeAt w' (Join [mnt, c]) = treeAt w (Join [mnt, c])"
  using Rename_Inr[OF assms(1)] assms(2-5) by (simp_all add: tree_simps)

lemma RemoveAll_sibling:
  assumes "utils_RemoveAll (Join [mnt, a]) w = (r, w')" "IsAbs mnt" "plain a"
  shows "plain c \<Longrightarrow> c \<noteq> a \<Longrightarrow> treeAt w' (Join [mnt, c]) = treeAt w (Join [mnt, c])"
    and "r = Inr () \<Longrightarrow> fs_lookup w' (pathOf (Join [mnt, a])) = None"
proof -
  have ne: "Join [mnt, a] \<noteq> []" using IsAbs_Join[OF assms(2), of "[a]"] by (auto simp: IsAbs_def)
  show "plain c \<Longrightarrow> c \<noteq> a \<Longrightarrow> treeAt w' (Join [mnt, c]) = treeAt w (Join [mnt, c])"
    using RemoveAll_tree(1)[OF assms(1) ne] assms(2,3) by (simp add: tree_simps)
  show "r = Inr () \<Longrightarrow> fs_lookup w' (pathOf (Join [mnt, a])) = None"
    using RemoveAll_tree(2)[OF assms(1) ne, of "[]"] assms(2,3) by (simp add: tree_simps)
qed

lemma sameLookup_tree: "(\<And>q. fs_lookup w' q = fs_lookup w q) \<Longrightarrow> treeAt w' = treeAt w"
  by (simp add: treeAt_def fun_eq_iff)

lemma Rename_Inl_tree: "fs_Rename old new w = (Inl e, w') \<Longrightarrow> treeAt w' = treeAt w"
  by (rule sameLookup_tree) (rule Rename_Inl)

lemma bootNames: "plain BootPath" "plain OldBootPath" "plain BootTransitionPath"
    "BootPath \<noteq> OldBootPath" "BootPath \<noteq> BootTransitionPath" "OldBootPath \<noteq> BootTransitionPath"
  by (auto simp: BootPath_def OldBootPath_def BootTransitionPath_def plain_def)

lemma tryIO_cases:
  assumes "tryIO m s = (r, t)"
  obtains (ok) x where "r = Inr None" "m s = (Inr x, t)" | (err) e where "r = Inr (Some e)" "m s = (Inl e, t)"
  using assms by (auto simp: tryIO_def split: prod.splits sum.splits)

lemma okIO_total: "\<exists>x s'. okIO d m s = (Inr x, s')"
  by (cases "m s"; cases "fst (m s)") (auto simp: okIO_def)

lemma moveNewBoot_trees:
  assumes run: "moveNewBoot (Join [mnt, BootTransitionPath]) (Join [mnt, BootPath]) (Join [mnt, OldBootPath]) w = (r, w')"
    and abs: "IsAbs mnt"
  shows "case r of
      Inr (True, _) \<Rightarrow> treeAt w' (Join [mnt, BootPath]) = treeAt w (Join [mnt, BootTransitionPath])
    | Inr (False, _) \<Rightarrow> treeAt w' (Join [mnt, BootPath]) = treeAt w (Join [mnt, OldBootPath]) \<and>
        fs_lookup w (pathOf (Join [mnt, OldBootPath])) \<noteq> None
    | Inl _ \<Rightarrow> treeAt w' = treeAt w"
proof -
  let ?B = "Join [mnt, BootPath]" and ?O = "Join [mnt, OldBootPath]" and ?T = "Join [mnt, BootTransitionPath]"
  obtain eo w1 where mv: "tryIO (fs_Rename ?T ?B) w = (Inr eo, w1)"
    and rest: "(case eo of None \<Rightarrow> bindIO (tryIO (utils_RemoveAll ?O)) (\<lambda>pending. retIO (True, pending))
     | Some e' \<Rightarrow> bindIO (okIO False (Exists ?O False)) (\<lambda>old.
         if old then thenIO (fs_Rename ?O ?B) (retIO (False, None)) else failIO e')) w1 = (r, w')"
    using run by (auto simp: moveNewBoot_def bindIO_def tryIO_def split: prod.splits sum.splits)
  from mv show ?thesis
  proof (cases rule: tryIO_cases)
    case (ok u)
    then obtain p r2 where "utils_RemoveAll ?O w1 = (r2, w')" "r = Inr (True, p)"
      using rest by (auto simp: bindIO_def tryIO_def retIO_def split: prod.splits sum.splits)
    then show ?thesis using Rename_sibling(1)[OF _ abs] RemoveAll_sibling(1)[OF _ abs] ok bootNames by simp
  next
    case (err e)
    note same1 = Rename_Inl[OF err(2)]
    obtain old w2 where ex: "okIO False (Exists ?O False) w1 = (Inr old, w2)" using okIO_total[of False "Exists ?O False" w1] by auto
    note same2 = okExists_files[OF ex]
    have same: "fs_lookup w2 q = fs_lookup w q" for q using same1 same2 by simp
    show ?thesis
    proof (cases old)
      case True
      then have "fs_lookup w (pathOf ?O) \<noteq> None" using Exists_absent[OF _ ex] same1 by auto
      then show ?thesis
        using True err rest ex sameLookup_tree[OF same] Rename_sibling(1)[OF _ abs] bootNames
        by (cases "fs_Rename ?O ?B w2"; cases "fst (fs_Rename ?O ?B w2)")
          (auto simp: bindIO_def thenIO_def retIO_def dest!: Rename_Inl_tree)
    next
      case False
      then have "r = Inl e" "w' = w2" using err rest ex by (auto simp: bindIO_def failIO_def)
      then show ?thesis using sameLookup_tree[OF same] by simp
    qed
  qed
qed

text \<open>
  Property C2. Exchanging the boot directories of the recovery partition never loses a bootable system, whatever calls
  fail: when the exchange reports that the new system is in place, the boot directory holds the deployed tree; when it
  gives up without an error, the boot directory holds the old tree; when it fails, the old tree is still complete, in the
  boot directory or in the directory it was put aside to.
\<close>

theorem switchRecovery_safe:
  assumes run: "switchRecovery mnt w = (r, w')" and abs: "IsAbs mnt"
  shows "case r of
      Inr (inPlace, _) \<Rightarrow> treeAt w' (Join [mnt, BootPath]) = treeAt w (Join [mnt, if inPlace then BootTransitionPath else BootPath])
    | Inl _ \<Rightarrow> treeAt w' (Join [mnt, BootPath]) = treeAt w (Join [mnt, BootPath]) \<or>
        treeAt w' (Join [mnt, OldBootPath]) = treeAt w (Join [mnt, BootPath])"
proof -
  let ?B = "Join [mnt, BootPath]" and ?O = "Join [mnt, OldBootPath]" and ?T = "Join [mnt, BootTransitionPath]"
  note sib = Rename_sibling[OF _ abs] and rm = RemoveAll_sibling[OF _ abs] and nm = bootNames bootNames(4-6)[symmetric]
  obtain r1 w1 where r1: "utils_RemoveAll ?O w = (r1, w1)" by fastforce
  have t1: "treeAt w1 ?B = treeAt w ?B" "treeAt w1 ?T = treeAt w ?T" using rm(1)[OF r1] nm by auto
  show ?thesis
  proof (cases r1)
    case (Inl e)
    then have "r = Inl e" "w' = w1" using run r1 by (auto simp: switchRecovery_def Let_def thenIO_def bindIO_def)
    then show ?thesis using t1 by simp
  next
    case (Inr u)
    have o1: "fs_lookup w1 (pathOf ?O) = None" using rm(2)[OF r1] Inr nm by simp
    obtain ok w2 where ex: "okIO False (Exists ?B False) w1 = (Inr ok, w2)" using okIO_total[of False "Exists ?B False" w1] by auto
    note l2 = okExists_files[OF ex]
    have t2: "treeAt w2 = treeAt w1" by (rule sameLookup_tree[OF l2])
    obtain r3 w3 where r3: "whenIO ok (fs_Rename ?B ?O) w2 = (r3, w3)" by fastforce
    have seq: "(case r3 of Inl e \<Rightarrow> (Inl e, w3) | Inr _ \<Rightarrow> moveNewBoot ?T ?B ?O w3) = (r, w')"
      using run r1 Inr ex r3 by (auto simp: switchRecovery_def Let_def thenIO_def bindIO_def split: sum.splits)
    show ?thesis
    proof (cases r3)
      case (Inl e)
      then have "treeAt w3 = treeAt w2"
        using r3 by (auto simp: whenIO_def retIO_def split: if_splits dest!: Rename_Inl_tree)
      then show ?thesis using Inl seq t1 t2 by auto
    next
      case (Inr u)
      then have tail: "moveNewBoot ?T ?B ?O w3 = (r, w')" using seq by simp
      have t3: "treeAt w3 ?T = treeAt w ?T" "if ok then treeAt w3 ?O = treeAt w ?B else w3 = w2"
        using r3 Inr sib(1)[of BootPath OldBootPath w2 w3] sib(2)[of BootPath OldBootPath w2 w3 BootTransitionPath] t1 t2 nm
        by (auto simp: whenIO_def retIO_def split: if_splits)
      show ?thesis
        using moveNewBoot_trees[OF tail abs] t1 t2 t3 o1 l2 by (auto split: sum.splits if_splits)
    qed
  qed
qed

subsection \<open>An example system\<close>

definition demoRecovery :: Partition where
  "demoRecovery = \<lparr>p_ref = 1, p_Name = ''recovery'', p_FilesystemLabel = ''COS_RECOVERY'', p_Size = 0, p_FS = ''ext4'', p_Flags = [],
     p_MountPoint = ''/r'', p_Path = ''/dev/sda4'', p_Disk = ''/dev/sda''\<rparr>"
definition demoUpgradeSpec :: UpgradeSpec where
  "demoUpgradeSpec = \<lparr>upg_RecoveryUpgrade = True, upg_System = Some (NewDirSrc ''/rs''),
     upg_RecoverySystem = \<lparr>img_File = ''/r/boot-transition/recovery.img'', img_Label = [], img_Size = 0, img_FS = SquashFs,
       img_Source = Some (NewDirSrc ''/rs''), img_MountPoint = [], img_LoopDevice = []\<rparr>,
     upg_GrubDefEntry = [], upg_BootloaderUpgrade = False, upg_SnapshotLabels = [],
     upg_Partitions = \<lparr>ep_BIOS = None, ep_Boot = None, ep_OEM = None, ep_Recovery = Some demoRecovery, ep_State = None,
       ep_Persistent = None\<rparr>, upg_State = None\<rparr>"
definition bootWorld :: world where
  "bootWorld = demoWorld\<lparr>files := [([''r''], NDir 493), ([''r'', ''boot''], NDir 493), ([''r'', ''boot'', ''vmlinuz''], NFile 420 ''old''),
     ([''rs''], NDir 493), ([''rs'', ''boot''], NDir 493), ([''rs'', ''boot'', ''uImage-1''], NFile 420 ''new''),
     ([''rs'', ''boot'', ''elemental.initrd''], NFile 420 ''ini''), ([''rs'', ''lib''], NDir 493), ([''rs'', ''lib'', ''modules''], NDir 493),
     ([''rs'', ''lib'', ''modules'', ''1''], NDir 493)]\<rparr>"
definition demoUR :: "bool \<Rightarrow> UpgradeRecoveryAction" where
  "demoUR b = \<lparr>ur_cfg = demoRunConfig b, ur_spec = demoUpgradeSpec, ur_updateInstallState = False\<rparr>"

theorem switchRecovery_safe_witness:
  "fst (switchRecovery ''/r'' (bootWorld\<lparr>faults := (\<lambda>n. n = 5)\<rparr>)) = Inl EFault \<and>
   (treeAt (snd (switchRecovery ''/r'' (bootWorld\<lparr>faults := (\<lambda>n. n = 5)\<rparr>))) ''/r/boot'' = treeAt bootWorld ''/r/boot'' \<or>
    treeAt (snd (switchRecovery ''/r'' (bootWorld\<lparr>faults := (\<lambda>n. n = 5)\<rparr>))) ''/r/boot-old'' = treeAt bootWorld ''/r/boot'')"
proof -
  let ?w = "bootWorld\<lparr>faults := (\<lambda>n. n = 5)\<rparr>"
  have r: "fst (switchRecovery ''/r'' ?w) = Inl EFault" by code_simp
  have J: "Join [''/r'', BootPath] = ''/r/boot''" "Join [''/r'', OldBootPath] = ''/r/boot-old''" by code_simp+
  have f: "treeAt ?w = treeAt bootWorld" by (rule sameLookup_tree) (simp add: fs_lookup_def)
  have "IsAbs ''/r''" by code_simp
  from switchRecovery_safe[OF prod.collapse[symmetric] this, of ?w] r show ?thesis by (simp add: J f)
qed

text \<open>
  An example. A recovery upgrade whose new system cannot be moved into place, but whose old system could be moved
  back, reports success: the error variable is overwritten by the successful second renaming. Here the renaming of
  the transition directory fails; \<open>Run\<close> returns no error and the old kernel is still the one to boot.
\<close>

lemma UpgradeRecovery_silent_example:
  "let (r, (u, w)) = UpgradeRecovery_Run (demoUR True, bootWorld\<lparr>faults := (\<lambda>n. n = 40)\<rparr>)
   in r = Inr () \<and> fs_lookup w [''r'', ''boot'', ''vmlinuz''] = Some (NFile 420 ''old'') \<and>
      fs_lookup w [''r'', ''boot-old''] = None \<and> (''reboot'', [''-f'']) \<notin> set (cmds w)"
  by code_simp

end
