(* ===== verification/Upgrade.thy ===== *)
theory Upgrade
  imports Upgrade_Recovery
begin

section \<open>The upgrade action (pkg/action/upgrade.go)\<close>

text \<open>
  An upgrade deploys the new system into a fresh snapshot inside a transaction of the snapshotter, refines it (bootloader,
  hooks, variables), commits the snapshot, upgrades the recovery system on request and writes the state files. A
  bootloader field with the value \<open>None\<close> is the nil pointer \<open>NewGrub\<close> returns after a failed option.
\<close>

definition BeforeUpgradeHook :: string where "BeforeUpgradeHook = ''before-upgrade''"
definition AfterUpgradeHook :: string where "AfterUpgradeHook = ''after-upgrade''"
definition AfterUpgradeChrootHook :: string where "AfterUpgradeChrootHook = ''after-upgrade-chroot''"
definition PostUpgradeHook :: string where "PostUpgradeHook = ''post-upgrade''"
definition ActionUpgrade :: string where "ActionUpgrade = ''upgrade''"

record UpgradeAction =
  ua_cfg :: RunConfig
  ua_spec :: UpgradeSpec
  ua_bootloader :: "Grub option"
  ua_snapshotter :: "Snapshotter option"
  ua_snapshot :: "Snapshot option"

type_synonym UpgradeActionOption = "UpgradeAction \<Rightarrow> err + UpgradeAction"

definition WithUpgradeBootloader :: "Grub \<Rightarrow> UpgradeActionOption" where
  "WithUpgradeBootloader bl u = Inr (u\<lparr>ua_bootloader := Some bl\<rparr>)"

text \<open>On upgrades the type of the snapshotter cannot change: the one of the installation state wins.\<close>

definition upgradeSnapshotterCfg :: "UpgradeSpec \<Rightarrow> RunConfig \<Rightarrow> RunConfig" where
  "upgradeSnapshotterCfg spec config =
     (case upg_State spec of
        None \<Rightarrow> config
      | Some st \<Rightarrow> (if sc_Type (is_Snapshotter st) \<noteq> sc_Type (rc_Snapshotter config)
           then config\<lparr>rc_Snapshotter := is_Snapshotter st\<rparr> else config))"

definition NewUpgradeAction :: "RunConfig \<Rightarrow> UpgradeSpec \<Rightarrow> UpgradeActionOption list \<Rightarrow> (world, UpgradeAction) io" where
  "NewUpgradeAction config spec opts =
     bindIO (sumIO (applyOpts opts \<lparr>ua_cfg = config, ua_spec = spec, ua_bootloader = None, ua_snapshotter = None,
        ua_snapshot = None\<rparr>)) (\<lambda>u.
     bindIO (if ua_bootloader u = None then NewGrub (rc_Config config) (rc_EfiVars config) [WithGrubDisableBootEntry True]
             else retIO (ua_bootloader u)) (\<lambda>bl.
     let config' = upgradeSnapshotterCfg spec config in
     bindIO (case ua_snapshotter u of
               Some sp \<Rightarrow> retIO sp
             | None \<Rightarrow> sumIO (NewSnapshotter (rc_Config config') (rc_Snapshotter config') (blSetVars bl))) (\<lambda>sp.
     bindIO (if upg_RecoveryUpgrade (ua_spec u) then IsRecoveryMode else retIO False) (\<lambda>rec.
       if rec then failIO ErrUpgradeRecoveryFromRecovery
       else retIO (u\<lparr>ua_cfg := config', ua_bootloader := bl, ua_snapshotter := Some sp\<rparr>)))))"

subsection \<open>Parts of the action\<close>

definition ua_onPart ::
  "(ElementalPartitions \<Rightarrow> Partition option) \<Rightarrow> (Partition option \<Rightarrow> ElementalPartitions \<Rightarrow> ElementalPartitions) \<Rightarrow>
     (Partition \<times> world, 'a) io \<Rightarrow> (UpgradeAction \<times> world, 'a) io" where
  "ua_onPart get put = onSome (\<lambda>u. get (upg_Partitions (ua_spec u)))
     (\<lambda>po u. u\<lparr>ua_spec := (ua_spec u)\<lparr>upg_Partitions := put po (upg_Partitions (ua_spec u))\<rparr>\<rparr>)"

abbreviation "ua_onBoot \<equiv> ua_onPart ep_Boot (\<lambda>po ep. ep\<lparr>ep_Boot := po\<rparr>)"
abbreviation "ua_onRecovery \<equiv> ua_onPart ep_Recovery (\<lambda>po ep. ep\<lparr>ep_Recovery := po\<rparr>)"
abbreviation "ua_onState \<equiv> ua_onPart ep_State (\<lambda>po ep. ep\<lparr>ep_State := po\<rparr>)"
abbreviation "ua_onPersistent \<equiv> ua_onPart ep_Persistent (\<lambda>po ep. ep\<lparr>ep_Persistent := po\<rparr>)"

definition ua_onSnapshotter :: "(Snapshotter \<times> world, 'a) io \<Rightarrow> (UpgradeAction \<times> world, 'a) io" where
  "ua_onSnapshotter = onSome ua_snapshotter (\<lambda>sp u. u\<lparr>ua_snapshotter := sp\<rparr>)"

definition ua_initSnapshotter :: "string \<Rightarrow> (UpgradeAction \<times> world, unit) io" where
  "ua_initSnapshotter efiDir =
     onSome (\<lambda>u. both (ua_snapshotter u) (ep_State (upg_Partitions (ua_spec u))))
       (\<lambda>sp u. u\<lparr>ua_snapshotter := map_option fst sp,
          ua_spec := (ua_spec u)\<lparr>upg_Partitions := (upg_Partitions (ua_spec u))\<lparr>ep_State := map_option snd sp\<rparr>\<rparr>\<rparr>)
       (snap_InitSnapshotter efiDir)"

definition ua_closeTransaction :: "(UpgradeAction \<times> world, unit) io" where
  "ua_closeTransaction =
     onSome (\<lambda>u. both (ua_snapshotter u) (ua_snapshot u))
       (\<lambda>sp u. u\<lparr>ua_snapshotter := map_option fst sp, ua_snapshot := map_option snd sp\<rparr>) snap_CloseTransaction"

definition ua_bootMount :: "(UpgradeAction \<times> world, string) io" where
  "ua_bootMount = bindIO getO (\<lambda>u. bindIO (deref (ep_Boot (upg_Partitions (ua_spec u)))) (\<lambda>p. retIO (p_MountPoint p)))"

subsection \<open>Hooks\<close>

definition upgradeHook :: "string \<Rightarrow> (UpgradeAction \<times> world, unit) io" where
  "upgradeHook hook = bindIO getO (\<lambda>u.
     let cfg = rc_Config (ua_cfg u);
         cIPaths = cfg_CloudInitPaths cfg @
           (if hook = AfterUpgradeHook then PreAppendRoot WorkingImgDir (cfg_CloudInitPaths cfg) else [])
     in liftW (Hook cfg hook (cfg_Strict cfg) cIPaths))"

definition upgradeChrootHook :: "string \<Rightarrow> string \<Rightarrow> (UpgradeAction \<times> world, unit) io" where
  "upgradeChrootHook hook root = bindIO getO (\<lambda>u.
     let cfg = rc_Config (ua_cfg u); ep = upg_Partitions (ua_spec u);
         mountPoints = bindFor (ep_Boot ep) BootDir (bindFor (ep_Persistent ep) PersistentPath (bindFor (ep_OEM ep) OEMPath []))
     in liftW (ChrootHook cfg hook (cfg_Strict cfg) root mountPoints (cfg_CloudInitPaths cfg)))"

subsection \<open>The state file\<close>

text \<open>The id the loop over the old entries ends with: the last one that is active, 0 if there is none.\<close>

definition oldActiveID :: "(int \<times> SystemState) list \<Rightarrow> int" where
  "oldActiveID m = foldl (\<lambda>acc (sid, st). if ss_Active st then sid else acc) 0 m"

definition updateSnapshots :: "int list \<Rightarrow> int \<Rightarrow> SystemState \<Rightarrow> (int \<times> SystemState) list \<Rightarrow> (int \<times> SystemState) list" where
  "updateSnapshots snapshots newID new m =
     (let oldID = oldActiveID m;
          deletedIDs = filter (\<lambda>sid. sid \<notin> set snapshots) (map fst m);
          m1 = AList.update newID new m;
          m2 = (case map_of m1 oldID of None \<Rightarrow> m1 | Some st \<Rightarrow> AList.update oldID (st\<lparr>ss_Active := False\<rparr>) m1)
      in filter (\<lambda>(sid, _). sid \<notin> set deletedIDs) m2)"

definition upgradeStateParts :: "UpgradeSpec \<Rightarrow> int list \<Rightarrow> int \<Rightarrow> InstallState \<Rightarrow> err + InstallState" where
  "upgradeStateParts spec snapshots newID st =
     (case (ep_State (upg_Partitions spec), upg_System spec) of
        (Some statePart, Some sys) \<Rightarrow>
          (let ps = (case is_Partitions st StatePartName of
                 None \<Rightarrow> \<lparr>ps_FSLabel = p_FilesystemLabel statePart, ps_RecoveryImage = None, ps_Snapshots = []\<rparr> | Some ps \<Rightarrow> ps);
               new = \<lparr>ss_Source = Some sys, ss_Digest = src_digest sys, ss_Active = True, ss_Label = [], ss_FS = [],
                 ss_Labels = upg_SnapshotLabels spec, ss_Date = is_Date st, ss_FromAction = ActionUpgrade\<rparr>;
               st1 = st\<lparr>is_Partitions := (is_Partitions st)(StatePartName \<mapsto>
                 ps\<lparr>ps_Snapshots := updateSnapshots snapshots newID new (ps_Snapshots ps)\<rparr>)\<rparr>
           in if upg_RecoveryUpgrade spec then upgradeRecoveryState ActionUpgrade spec st1 else Inr st1)
      | _ \<Rightarrow> Inl Panic)"

definition upgradeInstallStateYaml :: "(UpgradeAction \<times> world, unit) io" where
  "upgradeInstallStateYaml = bindIO getO (\<lambda>u0.
     case (ep_Recovery (upg_Partitions (ua_spec u0)), ep_State (upg_Partitions (ua_spec u0))) of
       (Some _, Some _) \<Rightarrow>
         bindIO (ua_onSnapshotter snap_GetSnapshots) (\<lambda>snapshots.
         bindIO getO (\<lambda>u.
         bindIO (liftW (nowRFC3339 (rc_Config (ua_cfg u)))) (\<lambda>date.
         let st0 = (case upg_State (ua_spec u) of
               None \<Rightarrow> \<lparr>is_Date = [], is_Partitions = Map.empty, is_Snapshotter = rc_Snapshotter (ua_cfg u)\<rparr> | Some st \<Rightarrow> st);
             st1 = st0\<lparr>is_Snapshotter := rc_Snapshotter (ua_cfg u), is_Date := date\<rparr> in
         bindIO (deref (ua_snapshot u)) (\<lambda>snapshot.
         bindIO (sumIO (upgradeStateParts (ua_spec u) snapshots (sn_ID snapshot) st1)) (\<lambda>st.
         thenIO (modO (\<lambda>u. u\<lparr>ua_spec := (ua_spec u)\<lparr>upg_State := Some st\<rparr>\<rparr>))
         (bindIO (deref (ep_State (upg_Partitions (ua_spec u)))) (\<lambda>statePart.
          bindIO (deref (ep_Recovery (upg_Partitions (ua_spec u)))) (\<lambda>recoveryPart.
            liftW (rc_WriteInstallState (ua_cfg u) st (Join [p_MountPoint statePart, InstallStateFile])
              (Join [p_MountPoint recoveryPart, InstallStateFile]))))))))))
     | _ \<Rightarrow> failIO (Errorf ''undefined state or recovery partition''))"

subsection \<open>Run\<close>

definition ua_mountRWPartitions :: "UpgradeAction run" where
  "ua_mountRWPartitions = bindIO (inScope getO) (\<lambda>u. let cfg = rc_Config (ua_cfg u) in
     thenIO (mountRW exit_MountBootPartition ua_onBoot ua_onBoot cfg)
     (bindIO (inScope (liftW IsRecoveryMode)) (\<lambda>rec.
      thenIO (if \<not> rec then mountRW exit_MountRecoveryPartition ua_onRecovery ua_onRecovery cfg
              else mountRW exit_MountStatePartition ua_onState ua_onState cfg)
        (if ep_Persistent (upg_Partitions (ua_spec u)) \<noteq> None
         then mountRW exit_MountPersistentPartition ua_onPersistent ua_onPersistent cfg else retIO ()))))"

definition ua_refineDeployment :: "(UpgradeAction \<times> world, unit) io" where
  "ua_refineDeployment = bindIO getO (\<lambda>u.
     thenIO (whenIO (upg_BootloaderUpgrade (ua_spec u))
       (bindIO (deref (ua_snapshot u)) (\<lambda>snapshot. bindIO ua_bootMount (\<lambda>boot.
          coded exit_InstallGrub (onSome ua_bootloader (\<lambda>bl u. u\<lparr>ua_bootloader := bl\<rparr>) (Grub_Install (sn_WorkDir snapshot) boot))))))
     (thenIO (coded exit_HookAfterUpgradeChroot (upgradeChrootHook AfterUpgradeChrootHook WorkingImgDir))
     (thenIO (coded exit_HookAfterUpgrade (upgradeHook AfterUpgradeHook))
     (bindIO (sumIO (Upgrade_GetGrubLabels (ua_spec u))) (\<lambda>grubVars.
      bindIO ua_bootMount (\<lambda>boot.
      thenIO (coded exit_SetGrubVariables (liftW (blSetVars (ua_bootloader u) (Join [boot, GrubOEMEnv]) grubVars)))
        (coded exit_SetDefaultGrubEntry (bindIO (deref (ua_bootloader u)) (\<lambda>g.
           liftW (SetDefaultEntry (g_cfg g) boot WorkingImgDir (upg_GrubDefEntry (ua_spec u))))))))))))"

text \<open>The source of the new recovery system: the new snapshot, when the system has the same source.\<close>

definition ua_recoverySource :: "(UpgradeAction \<times> world, unit) io" where
  "ua_recoverySource = bindIO getO (\<lambda>u.
     bindIO (deref (img_Source (upg_RecoverySystem (ua_spec u)))) (\<lambda>recSrc.
     bindIO (deref (upg_System (ua_spec u))) (\<lambda>sys.
     whenIO (ImageSource_String recSrc = ImageSource_String sys)
       (bindIO (deref (ua_snapshotter u)) (\<lambda>sp. bindIO (deref (ua_snapshot u)) (\<lambda>sn.
        bindIO (liftW (snap_SnapshotToImageSource sp sn)) (\<lambda>src.
          modO (\<lambda>u. u\<lparr>ua_spec := (ua_spec u)\<lparr>upg_RecoverySystem := (upg_RecoverySystem (ua_spec u))
            \<lparr>img_Source := Some (SetDigest (src_digest sys) src)\<rparr>\<rparr>\<rparr>))))))))"

definition ua_upgradeRecovery :: "(UpgradeAction \<times> world, unit) io" where
  "ua_upgradeRecovery = bindIO getO (\<lambda>u.
     coded exit_UpgradeRecovery
       (bindIO (liftW (NewUpgradeRecoveryAction (ua_cfg u) (ua_spec u) [WithUpdateInstallState False])) (\<lambda>a.
          zoom (\<lambda>u. a\<lparr>ur_spec := ua_spec u\<rparr>) (\<lambda>a u. u\<lparr>ua_spec := ur_spec a\<rparr>) UpgradeRecovery_Run)))"

definition ua_deploy :: "UpgradeAction run" where
  "ua_deploy =
     bindIO (inScope (coded exit_SnapshotterStart (ua_onSnapshotter snap_StartTransaction))) (\<lambda>snapshot.
     thenIO (inScope (modO (\<lambda>u. u\<lparr>ua_snapshot := Some snapshot\<rparr>)))
     (thenIO (pushErrorOnlyS (bindIO getO (\<lambda>u. ua_onSnapshotter (snap_CloseTransactionOnError (ua_snapshot u)))))
     (bindIO (inScope getO) (\<lambda>u. let cfg = rc_Config (ua_cfg u) in
      thenIO (inScope (coded exit_DumpSource (onSome (\<lambda>u. upg_System (ua_spec u)) (\<lambda>src u. u\<lparr>ua_spec := (ua_spec u)\<lparr>upg_System := src\<rparr>\<rparr>)
        (MirrorRoot cfg (sn_WorkDir snapshot) (cfg_Debug cfg)))))
      (thenIO (inScope ua_refineDeployment)
        (inScope ua_closeTransaction))))))"

definition Upgrade_body :: "UpgradeAction run" where
  "Upgrade_body =
     thenIO ua_mountRWPartitions
     (thenIO (inScope (bindIO ua_bootMount (\<lambda>boot. coded exit_SnapshotterInit (ua_initSnapshotter boot))))
     (thenIO (inScope (coded exit_HookBeforeUpgrade (upgradeHook BeforeUpgradeHook)))
     (thenIO ua_deploy
     (bindIO (inScope getO) (\<lambda>u.
      thenIO (whenIO (upg_RecoveryUpgrade (ua_spec u)) (inScope (thenIO ua_recoverySource ua_upgradeRecovery)))
      (thenIO (inScope (coded exit_HookPostUpgrade (upgradeHook PostUpgradeHook)))
      (thenIO (inScope upgradeInstallStateYaml)
      (thenIO (coded exit_Cleanup (cleanupS None))
        (inScope (liftW (PowerAction (ua_cfg u))))))))))))"

definition Upgrade_Run :: "(UpgradeAction \<times> world, unit) io" where
  "Upgrade_Run = withCleanup Upgrade_body"

subsection \<open>The recorded snapshots\<close>

definition activeIDs :: "(int \<times> SystemState) list \<Rightarrow> int set" where
  "activeIDs m = {sid. \<exists>st. map_of m sid = Some st \<and> ss_Active st}"

lemma oldActiveID_unique:
  assumes "distinct (map fst m)" "activeIDs m \<subseteq> {a}" "a = 0 \<or> activeIDs m = {a}"
  shows "oldActiveID m = (if activeIDs m = {} then 0 else a)"
proof -
  have "foldl (\<lambda>acc (sid, st). if ss_Active st then sid else acc) z m = (if \<exists>(s, st) \<in> set m. ss_Active st then a else z)"
    if "\<forall>(s, st) \<in> set m. ss_Active st \<longrightarrow> s = a" for z and m :: "(int \<times> SystemState) list"
    using that by (induction m arbitrary: z) auto
  moreover have "\<forall>(s, st) \<in> set m. ss_Active st \<longrightarrow> s = a" "(\<exists>(s, st) \<in> set m. ss_Active st) \<longleftrightarrow> activeIDs m \<noteq> {}"
    using assms(1,2) by (fastforce simp: activeIDs_def)+
  ultimately show ?thesis using assms(3) by (auto simp: oldActiveID_def)
qed

lemma updateSnapshots_lookup:
  assumes "newID \<in> set snapshots"
  shows "map_of (updateSnapshots snapshots newID new m) k =
    (if k \<notin> set snapshots then None
     else map_option (\<lambda>st. if k = oldActiveID m then st\<lparr>ss_Active := False\<rparr> else st) (if k = newID then Some new else map_of m k))"
proof -
  let ?m1 = "AList.update newID new m"
  let ?m2 = "case map_of ?m1 (oldActiveID m) of None \<Rightarrow> ?m1 | Some st \<Rightarrow> AList.update (oldActiveID m) (st\<lparr>ss_Active := False\<rparr>) ?m1"
  have m2: "map_of ?m2 k = map_option (\<lambda>st. if k = oldActiveID m then st\<lparr>ss_Active := False\<rparr> else st) (if k = newID then Some new else map_of m k)" for k
    by (cases "map_of m k") (auto simp: update_conv' split: option.splits)
  have del: "k \<in> set (filter (\<lambda>sid. sid \<notin> set snapshots) (map fst m)) \<longleftrightarrow> k \<notin> set snapshots \<and> map_of m k \<noteq> None" for k
    by (auto simp: map_of_eq_None_iff)
  have "map_of (updateSnapshots snapshots newID new m) k =
      (if k \<notin> set (filter (\<lambda>sid. sid \<notin> set snapshots) (map fst m)) then map_of ?m2 k else None)"
    by (simp only: updateSnapshots_def Let_def map_of_filter_key)
  then show ?thesis using assms by (simp only: del m2) auto
qed

lemma updateSnapshots_distinct:
  assumes "distinct (map fst m)"
  shows "distinct (map fst (updateSnapshots snapshots newID new m))"
proof -
  have 1: "distinct (map fst (AList.update newID new m))" using assms by (rule distinct_update)
  have "distinct (map fst (case map_of (AList.update newID new m) i of None \<Rightarrow> AList.update newID new m
      | Some st \<Rightarrow> AList.update i (st\<lparr>ss_Active := False\<rparr>) (AList.update newID new m)))" for i
    by (cases "map_of (AList.update newID new m) i") (use 1 distinct_update[OF 1] in \<open>simp_all only: option.case\<close>)
  then show ?thesis unfolding updateSnapshots_def Let_def by (rule distinct_map_filter)
qed

lemma updateSnapshots_active:
  assumes "distinct (map fst m)" "activeIDs m = {old}" "newID \<in> set snapshots" "newID \<noteq> old" "ss_Active new"
  shows "activeIDs (updateSnapshots snapshots newID new m) = {newID}"
proof -
  have o: "oldActiveID m = old" using oldActiveID_unique[OF assms(1), of old] assms(2) by simp
  let ?U = "updateSnapshots snapshots newID new m"
  have new: "map_of ?U newID = Some new" using assms(3,4) by (simp add: updateSnapshots_lookup[OF assms(3)] o)
  have "\<not> ss_Active st" if "map_of ?U k = Some st" "k \<noteq> newID" for k st
  proof (cases "k = old")
    case True
    then show ?thesis using that by (auto simp: updateSnapshots_lookup[OF assms(3)] o split: if_splits)
  next
    case False
    then have "map_of m k = Some st" using that by (simp add: updateSnapshots_lookup[OF assms(3)] o split: if_splits)
    then show ?thesis using False assms(2) by (auto simp: activeIDs_def)
  qed
  then show ?thesis using new assms(5) by (auto simp: activeIDs_def)
qed

subsection \<open>The type of the snapshotter\<close>

lemma map_sum_Inr: "map_sum f g x = Inr y \<longleftrightarrow> (\<exists>z. x = Inr z \<and> y = g z)"
  by (cases x) auto

text \<open>
  A new upgrade action has a snapshotter that implements the configured type, and with a recorded
  installation this is the recorded type, whatever type the configuration asks for.
\<close>

theorem NewUpgradeAction_type:
  assumes "NewUpgradeAction config spec opts w = (Inr u, w')" "\<forall>opt \<in> set opts. \<exists>bl. opt = WithUpgradeBootloader bl"
  shows "(\<forall>st. upg_State spec = Some st \<longrightarrow> sc_Type (rc_Snapshotter (ua_cfg u)) = sc_Type (is_Snapshotter st)) \<and>
    (case ua_snapshotter u of
       None \<Rightarrow> False
     | Some (LoopS _) \<Rightarrow> sc_Type (rc_Snapshotter (ua_cfg u)) = LoopDeviceSnapshotterType
     | Some (BtrfsS _) \<Rightarrow> sc_Type (rc_Snapshotter (ua_cfg u)) = BtrfsSnapshotterType)"
proof -
  let ?u0 = "\<lparr>ua_cfg = config, ua_spec = spec, ua_bootloader = None, ua_snapshotter = None, ua_snapshot = None\<rparr>"
  have opts: "applyOpts opts a = Inr b \<Longrightarrow> ua_snapshotter b = ua_snapshotter a" for a b
    using assms(2) by (induction opts arbitrary: a) (auto simp: WithUpgradeBootloader_def)
  obtain u1 bl w1 sp where u1: "applyOpts opts ?u0 = Inr u1"
    and sp: "NewSnapshotter (rc_Config (upgradeSnapshotterCfg spec config)) (rc_Snapshotter (upgradeSnapshotterCfg spec config)) (blSetVars bl) = Inr sp"
    and u: "ua_cfg u = upgradeSnapshotterCfg spec config" "ua_snapshotter u = Some sp"
    using assms(1) opts[of ?u0]
    by (auto simp: NewUpgradeAction_def returns_iff sumIO_def Let_def retIO_def failIO_def split: if_splits option.splits)
  have "sc_Type (rc_Snapshotter (upgradeSnapshotterCfg spec config)) = (case sp of LoopS _ \<Rightarrow> LoopDeviceSnapshotterType | BtrfsS _ \<Rightarrow> BtrfsSnapshotterType)"
    using sp by (auto simp: NewSnapshotter_def snapshotterFactories_def map_sum_Inr split: if_splits)
  then show ?thesis using u by (auto simp: upgradeSnapshotterCfg_def split: option.splits Snapshotter.splits if_splits)
qed

theorem NewUpgradeAction_type_witness:
  "case fst (NewUpgradeAction (demoRunConfig False\<lparr>rc_Config := demoConfig\<lparr>cfg_Platform := Some \<lparr>pl_OS = ''linux'', pl_Arch = ''x86_64'', pl_GolangArch = ''amd64''\<rparr>\<rparr>\<rparr>)
     (demoUpgradeSpec\<lparr>upg_State := Some \<lparr>is_Date = [], is_Partitions = Map.empty, is_Snapshotter = NewBtrfs\<rparr>\<rparr>) [] bootWorld) of
     Inl _ \<Rightarrow> False | Inr u \<Rightarrow> sc_Type (rc_Snapshotter (ua_cfg u)) = BtrfsSnapshotterType"
proof -
  let ?cfg = "demoRunConfig False\<lparr>rc_Config := demoConfig\<lparr>cfg_Platform := Some \<lparr>pl_OS = ''linux'', pl_Arch = ''x86_64'', pl_GolangArch = ''amd64''\<rparr>\<rparr>\<rparr>"
  let ?spec = "demoUpgradeSpec\<lparr>upg_State := Some \<lparr>is_Date = [], is_Partitions = Map.empty, is_Snapshotter = NewBtrfs\<rparr>\<rparr>"
  have "\<not> isl (fst (NewUpgradeAction ?cfg ?spec [] bootWorld))" by code_simp
  then obtain u w' where u: "NewUpgradeAction ?cfg ?spec [] bootWorld = (Inr u, w')"
    by (metis isl_def prod.collapse sum.collapse(2))
  from NewUpgradeAction_type[OF this] have "sc_Type (rc_Snapshotter (ua_cfg u)) = BtrfsSnapshotterType" by (simp add: NewBtrfs_def)
  then show ?thesis unfolding u by simp
qed

subsection \<open>The reboot of a recovery upgrade inside an upgrade\<close>

definition demoUpgrade :: UpgradeAction where
  "demoUpgrade = \<lparr>ua_cfg = demoRunConfig True, ua_spec = demoUpgradeSpec, ua_bootloader = None, ua_snapshotter = None, ua_snapshot = None\<rparr>"

text \<open>
  An example. The step that upgrades the recovery system runs the power action when it is done: here it ends with the reboot
  command, although no state file has been written on the recovery partition. The upgrade goes on only behind this step.
\<close>

lemma recovery_step_reboots_example:
  "let (r, (u, w)) = ua_upgradeRecovery (demoUpgrade, bootWorld)
   in r = Inr () \<and> last (cmds w) = (''reboot'', [''-f'']) \<and> fs_lookup w [''r'', ''state.yaml''] = None"
  by code_simp

end
