(* ===== verification/Install.thy ===== *)
theory Install
  imports Action_Common
begin

section \<open>The install action (pkg/action/install.go)\<close>

text \<open>
  The specification after \<open>Sanitize\<close> may hold the same pointer as source of the system and of the recovery system; then
  the digest that deploying the system records shows in both. The field \<open>ia_sharedSource\<close> says whether
  the two pointers are equal.
\<close>

definition BeforeInstallHook :: string where "BeforeInstallHook = ''before-install''"
definition AfterInstallHook :: string where "AfterInstallHook = ''after-install''"
definition AfterInstallChrootHook :: string where "AfterInstallChrootHook = ''after-install-chroot''"
definition PostInstallHook :: string where "PostInstallHook = ''post-install''"
definition ActionInstall :: string where "ActionInstall = ''install''"
definition BtrfsFs :: string where "BtrfsFs = ''btrfs''"
definition EjectScript :: string where "EjectScript = ''#!/bin/sh'' @ [CHR 0x0A] @ ''/usr/bin/eject -rmF''"

record InstallAction =
  ia_cfg :: RunConfig
  ia_spec :: InstallSpec
  ia_sharedSource :: bool
  ia_bootloader :: "Grub option"
  ia_snapshotter :: "Snapshotter option"
  ia_snapshot :: "Snapshot option"

type_synonym InstallActionOption = "InstallAction \<Rightarrow> err + InstallAction"

definition WithInstallBootloader :: "Grub \<Rightarrow> InstallActionOption" where
  "WithInstallBootloader bl i = Inr (i\<lparr>ia_bootloader := Some bl\<rparr>)"

text \<open>The btrfs snapshotter needs a btrfs file system on the state partition.\<close>

definition forceBtrfs :: "string \<Rightarrow> ElementalPartitions \<Rightarrow> err + ElementalPartitions" where
  "forceBtrfs snapType ep =
     (if snapType = BtrfsSnapshotterType then
        (case ep_State ep of None \<Rightarrow> Inl Panic | Some p \<Rightarrow> Inr (ep\<lparr>ep_State := Some (p\<lparr>p_FS := BtrfsFs\<rparr>)\<rparr>))
      else Inr ep)"

text \<open>The constructor returns the action also beside the error of the snapshotter factory; callers drop it then.\<close>

definition NewInstallAction :: "RunConfig \<Rightarrow> InstallSpec \<Rightarrow> bool \<Rightarrow> InstallActionOption list \<Rightarrow> (world, InstallAction) io" where
  "NewInstallAction cfg spec shared opts =
     bindIO (sumIO (applyOpts opts \<lparr>ia_cfg = cfg, ia_spec = spec, ia_sharedSource = shared, ia_bootloader = None,
        ia_snapshotter = None, ia_snapshot = None\<rparr>)) (\<lambda>i.
     bindIO (if ia_bootloader i = None
             then NewGrub (rc_Config cfg) (rc_EfiVars cfg)
               [WithGrubDisableBootEntry (ins_DisableBootEntry spec), WithGrubAutoDisableBootEntry]
             else retIO (ia_bootloader i)) (\<lambda>bl.
     bindIO (sumIO (forceBtrfs (sc_Type (rc_Snapshotter cfg)) (ins_Partitions spec))) (\<lambda>ep.
     bindIO (case ia_snapshotter i of
               Some sp \<Rightarrow> retIO sp
             | None \<Rightarrow> sumIO (NewSnapshotter (rc_Config cfg) (rc_Snapshotter cfg) (blSetVars bl))) (\<lambda>sp.
       retIO (i\<lparr>ia_bootloader := bl, ia_snapshotter := Some sp, ia_spec := spec\<lparr>ins_Partitions := ep\<rparr>\<rparr>)))))"

subsection \<open>Parts of the action\<close>

definition ia_onSnapshotter :: "(Snapshotter \<times> world, 'a) io \<Rightarrow> (InstallAction \<times> world, 'a) io" where
  "ia_onSnapshotter = onSome ia_snapshotter (\<lambda>sp i. i\<lparr>ia_snapshotter := sp\<rparr>)"

definition ia_initSnapshotter :: "string \<Rightarrow> (InstallAction \<times> world, unit) io" where
  "ia_initSnapshotter efiDir =
     onSome (\<lambda>i. both (ia_snapshotter i) (ep_State (ins_Partitions (ia_spec i))))
       (\<lambda>sp i. i\<lparr>ia_snapshotter := map_option fst sp,
          ia_spec := (ia_spec i)\<lparr>ins_Partitions := (ins_Partitions (ia_spec i))\<lparr>ep_State := map_option snd sp\<rparr>\<rparr>\<rparr>)
       (snap_InitSnapshotter efiDir)"

definition ia_closeTransaction :: "(InstallAction \<times> world, unit) io" where
  "ia_closeTransaction =
     onSome (\<lambda>i. both (ia_snapshotter i) (ia_snapshot i))
       (\<lambda>sp i. i\<lparr>ia_snapshotter := map_option fst sp, ia_snapshot := map_option snd sp\<rparr>) snap_CloseTransaction"

definition ia_bootMount :: "(InstallAction \<times> world, string) io" where
  "ia_bootMount = bindIO getO (\<lambda>i. bindIO (deref (ep_Boot (ins_Partitions (ia_spec i)))) (\<lambda>p. retIO (p_MountPoint p)))"

text \<open>Setting the source of the system through its pointer.\<close>

definition setSystem :: "ImageSource option \<Rightarrow> InstallAction \<Rightarrow> InstallAction" where
  "setSystem src i = i\<lparr>ia_spec := (ia_spec i)\<lparr>ins_System := src,
     ins_RecoverySystem := (if ia_sharedSource i then (ins_RecoverySystem (ia_spec i))\<lparr>img_Source := src\<rparr>
       else ins_RecoverySystem (ia_spec i))\<rparr>\<rparr>"

subsection \<open>Hooks\<close>

definition installHook :: "string \<Rightarrow> (InstallAction \<times> world, unit) io" where
  "installHook hook = bindIO getO (\<lambda>i.
     let cfg = rc_Config (ia_cfg i);
         cIPaths = cfg_CloudInitPaths cfg @
           (if hook = AfterInstallHook then PreAppendRoot WorkingImgDir (cfg_CloudInitPaths cfg) else [])
     in liftW (Hook cfg hook (cfg_Strict cfg) cIPaths))"

definition installChrootHook :: "string \<Rightarrow> string \<Rightarrow> (InstallAction \<times> world, unit) io" where
  "installChrootHook hook root = bindIO getO (\<lambda>i.
     let cfg = rc_Config (ia_cfg i); ep = ins_Partitions (ia_spec i);
         extraMounts = bindFor (ep_Boot ep) BootDir (bindFor (ep_OEM ep) OEMPath (bindFor (ep_Persistent ep) PersistentPath []))
     in liftW (ChrootHook cfg hook (cfg_Strict cfg) root extraMounts (cfg_CloudInitPaths cfg)))"

subsection \<open>The state file\<close>

definition labelState :: "string \<Rightarrow> Partition option \<Rightarrow> (string \<rightharpoonup> PartitionState) \<Rightarrow> (string \<rightharpoonup> PartitionState)" where
  "labelState name po m =
     (case po of None \<Rightarrow> m
      | Some p \<Rightarrow> m(name \<mapsto> \<lparr>ps_FSLabel = p_FilesystemLabel p, ps_RecoveryImage = None, ps_Snapshots = []\<rparr>))"

text \<open>The state an installation writes: one active snapshot, the recovery image and the labels of the other partitions.\<close>

definition installStateOf :: "RunConfig \<Rightarrow> InstallSpec \<Rightarrow> int \<Rightarrow> string \<Rightarrow> err + InstallState" where
  "installStateOf cfg spec snapID date =
     (case (ep_State (ins_Partitions spec), ep_Recovery (ins_Partitions spec), ins_System spec, img_Source (ins_RecoverySystem spec)) of
        (Some statePart, Some recoveryPart, Some sys, Some recSrc) \<Rightarrow>
          (let ep = ins_Partitions spec; rs = ins_RecoverySystem spec;
               m0 = [StatePartName \<mapsto> \<lparr>ps_FSLabel = p_FilesystemLabel statePart, ps_RecoveryImage = None, ps_Snapshots =
                       [(snapID, \<lparr>ss_Source = Some sys, ss_Digest = src_digest sys, ss_Active = True, ss_Label = [], ss_FS = [],
                          ss_Labels = ins_SnapshotLabels spec, ss_Date = date, ss_FromAction = ActionInstall\<rparr>)]\<rparr>,
                     RecoveryPartName \<mapsto> \<lparr>ps_FSLabel = p_FilesystemLabel recoveryPart, ps_RecoveryImage =
                       Some \<lparr>ss_Source = Some recSrc, ss_Digest = src_digest recSrc, ss_Active = False, ss_Label = img_Label rs,
                         ss_FS = img_FS rs, ss_Labels = ins_SnapshotLabels spec, ss_Date = date, ss_FromAction = ActionInstall\<rparr>,
                       ps_Snapshots = []\<rparr>]
           in Inr \<lparr>is_Date = date, is_Partitions = labelState BootPartName (ep_Boot ep)
                (labelState PersistentPartName (ep_Persistent ep) (labelState OEMPartName (ep_OEM ep) m0)),
                is_Snapshotter = rc_Snapshotter cfg\<rparr>)
      | _ \<Rightarrow> Inl Panic)"

definition createInstallStateYaml :: "(InstallAction \<times> world, unit) io" where
  "createInstallStateYaml = bindIO getO (\<lambda>i.
     case (ep_State (ins_Partitions (ia_spec i)), ep_Recovery (ins_Partitions (ia_spec i))) of
       (Some statePart, Some recoveryPart) \<Rightarrow>
         (case ia_snapshot i of
            None \<Rightarrow> failIO (Errorf ''undefined installed snapshot'')
          | Some snapshot \<Rightarrow>
              bindIO (liftW (nowRFC3339 (rc_Config (ia_cfg i)))) (\<lambda>date.
              bindIO (sumIO (installStateOf (ia_cfg i) (ia_spec i) (sn_ID snapshot) date)) (\<lambda>st.
                liftW (rc_WriteInstallState (ia_cfg i) st (Join [p_MountPoint statePart, InstallStateFile])
                  (Join [p_MountPoint recoveryPart, InstallStateFile])))))
     | _ \<Rightarrow> failIO (Errorf ''undefined state or recovery partition''))"

subsection \<open>Run\<close>

definition prepareDevice :: "(InstallAction \<times> world, unit) io" where
  "prepareDevice = bindIO getO (\<lambda>i. let cfg = rc_Config (ia_cfg i) in
     if ins_NoFormat (ia_spec i) then
       bindIO (liftW CheckActiveDeployment) (\<lambda>active.
         if active \<and> \<not> ins_Force (ia_spec i)
         then failIO (error_New ''use `force` flag to run an installation over the current running deployment'' exit_AlreadyInstalled)
         else retIO ())
     else
       thenIO (coded exit_DeactivatingDevices (liftW (DeactivateDevices cfg)))
       (bindIO (coded exit_PartitioningDevice (liftW (PartitionAndFormatDevice cfg (ia_spec i)))) (\<lambda>parts.
          modO (\<lambda>i. i\<lparr>ia_spec := (ia_spec i)\<lparr>ins_Partitions := putParts parts (ins_Partitions (ia_spec i)),
            ins_ExtraPartitions := map (sameRef parts) (ins_ExtraPartitions (ia_spec i))\<rparr>\<rparr>))))"

definition ia_mountPartitions :: "(InstallAction \<times> world, unit) io" where
  "ia_mountPartitions = bindIO getO (\<lambda>i.
     coded exit_MountPartitions (zoom (\<lambda>i. PartitionsByMountPoint (ins_Partitions (ia_spec i)) False [])
       (\<lambda>parts i. i\<lparr>ia_spec := (ia_spec i)\<lparr>ins_Partitions := putParts parts (ins_Partitions (ia_spec i))\<rparr>\<rparr>)
       (MountPartitions (rc_Config (ia_cfg i)) [''rw''])))"

definition ia_unmountPartitions :: "(InstallAction \<times> world, unit) io" where
  "ia_unmountPartitions = bindIO getO (\<lambda>i.
     liftW (UnmountPartitions (PartitionsByMountPoint (ins_Partitions (ia_spec i)) True [])))"

definition ia_isoSource :: "InstallAction run" where
  "ia_isoSource = bindIO (inScope getO) (\<lambda>i.
     if ins_Iso (ia_spec i) = [] then retIO ()
     else bindIO (inScope (liftW (SourceFormISO (rc_Config (ia_cfg i)) (ins_Iso (ia_spec i))))) (\<lambda>(isoSrc, isoCleaner).
       thenIO (pushS (liftW isoCleaner))
         (bindIO (coded exit_Unknown (sumIO isoSrc)) (\<lambda>src.
           inScope (modO (\<lambda>i. i\<lparr>ia_sharedSource := False, ia_spec := (ia_spec i)\<lparr>ins_System := Some src\<rparr>\<rparr>))))))"

definition ia_refineDeployment :: "(InstallAction \<times> world, unit) io" where
  "ia_refineDeployment = bindIO getO (\<lambda>i. let cfg = rc_Config (ia_cfg i); spec = ia_spec i in
     thenIO (coded exit_CopyFile (liftW (CopyCloudConfig cfg (GetConfigStorage (ins_Partitions spec)) (ins_CloudInit spec))))
     (bindIO (deref (ia_snapshot i)) (\<lambda>snapshot.
      bindIO ia_bootMount (\<lambda>boot.
      thenIO (coded exit_InstallGrub (onSome ia_bootloader (\<lambda>bl i. i\<lparr>ia_bootloader := bl\<rparr>) (Grub_Install (sn_WorkDir snapshot) boot)))
      (thenIO (coded exit_HookAfterInstallChroot (installChrootHook AfterInstallChrootHook WorkingImgDir))
      (thenIO (coded exit_HookAfterInstall (installHook AfterInstallHook))
      (bindIO (sumIO (Install_GetGrubLabels spec)) (\<lambda>grubVars.
       thenIO (coded exit_SetGrubVariables (liftW (blSetVars (ia_bootloader i) (Join [boot, GrubOEMEnv]) grubVars)))
         (coded exit_SetDefaultGrubEntry (bindIO (deref (ia_bootloader i)) (\<lambda>g.
            liftW (SetDefaultEntry (g_cfg g) boot WorkingImgDir (ins_GrubDefEntry spec)))))))))))))"

definition ia_deploy :: "InstallAction run" where
  "ia_deploy =
     bindIO (inScope (coded exit_SnapshotterStart (ia_onSnapshotter snap_StartTransaction))) (\<lambda>snapshot.
     thenIO (inScope (modO (\<lambda>i. i\<lparr>ia_snapshot := Some snapshot\<rparr>)))
     (thenIO (pushErrorOnlyS (bindIO getO (\<lambda>i. ia_onSnapshotter (snap_CloseTransactionOnError (ia_snapshot i)))))
     (bindIO (inScope getO) (\<lambda>i. let cfg = rc_Config (ia_cfg i) in
      thenIO (inScope (coded exit_DumpSource (onSome (\<lambda>i. ins_System (ia_spec i)) setSystem
        (MirrorRoot cfg (sn_WorkDir snapshot) (cfg_Debug cfg)))))
      (thenIO (inScope ia_refineDeployment)
        (inScope ia_closeTransaction))))))"

text \<open>
  The recovery system is a copy of the one of the specification. When its source differs from the one of the system
  the digest is recorded through the pointer both copies share.
\<close>

definition ia_deployRecovery :: "(InstallAction \<times> world, unit) io" where
  "ia_deployRecovery = bindIO getO (\<lambda>i.
     bindIO (deref (ep_Recovery (ins_Partitions (ia_spec i)))) (\<lambda>rec.
     thenIO (liftW (MkdirAll (Join [p_MountPoint rec, ''boot'']) DirPerm))
     (bindIO (deref (img_Source (ins_RecoverySystem (ia_spec i)))) (\<lambda>recSrc.
      bindIO (deref (ins_System (ia_spec i))) (\<lambda>sys.
      let cfg = rc_Config (ia_cfg i); reuse = (ImageSource_String recSrc = ImageSource_String sys) in
      bindIO (if reuse then
                bindIO (deref (ia_snapshotter i)) (\<lambda>sp. bindIO (deref (ia_snapshot i)) (\<lambda>sn.
                bindIO (liftW (snap_SnapshotToImageSource sp sn)) (\<lambda>src. retIO (SetDigest (src_digest sys) src))))
              else retIO recSrc) (\<lambda>src.
      bindIO (coded exit_DeployImage (liftW (withObj ((ins_RecoverySystem (ia_spec i))\<lparr>img_Source := Some src\<rparr>)
         (DeployRecoverySystem cfg (cfg_Debug cfg))))) (\<lambda>(_, img).
        whenIO (\<not> reuse) (modO (\<lambda>i. i\<lparr>ia_spec := (ia_spec i)\<lparr>ins_RecoverySystem :=
          (ins_RecoverySystem (ia_spec i))\<lparr>img_Source := img_Source img\<rparr>\<rparr>\<rparr>)))))))))"

definition ia_eject :: "RunConfig \<Rightarrow> (world, unit) io" where
  "ia_eject cfg =
     (if rc_EjectCD cfg then bindIO (BootedFrom (rc_Config cfg) ''cdroot'') (\<lambda>cd.
        whenIO cd (ignoreIO (fs_WriteFile ''/usr/lib/systemd/system-shutdown/eject'' EjectScript 484)))
      else retIO ())"

definition Install_body :: "InstallAction run" where
  "Install_body =
     thenIO ia_isoSource
     (thenIO (inScope prepareDevice)
     (thenIO (inScope ia_mountPartitions)
     (thenIO (pushS ia_unmountPartitions)
     (thenIO (inScope (bindIO ia_bootMount (\<lambda>boot. coded exit_SnapshotterInit (ia_initSnapshotter boot))))
     (thenIO (inScope (coded exit_HookBeforeInstall (installHook BeforeInstallHook)))
     (thenIO ia_deploy
     (thenIO (inScope ia_deployRecovery)
     (thenIO (inScope (coded exit_HookPostInstall (installHook PostInstallHook)))
     (thenIO (inScope (coded exit_CreateFile createInstallStateYaml))
     (thenIO (coded exit_Cleanup (cleanupS None))
     (bindIO (inScope getO) (\<lambda>i.
        inScope (liftW (thenIO (ia_eject (ia_cfg i)) (PowerAction (ia_cfg i))))))))))))))))"

definition Install_Run :: "(InstallAction \<times> world, unit) io" where
  "Install_Run = withCleanup Install_body"

end
