(* ===== verification/Reset.thy ===== *)
theory Reset
  imports Install
begin

section \<open>The reset action (pkg/action/reset.go)\<close>

text \<open>
  A reset runs from the recovery system: it formats the state partition and, on request, the persistent and the OEM
  partition, deploys the system into a fresh snapshot and writes the state files. The recovery partition is
  only mounted for writing the state file.
\<close>

definition BeforeResetHook :: string where "BeforeResetHook = ''before-reset''"
definition AfterResetHook :: string where "AfterResetHook = ''after-reset''"
definition AfterResetChrootHook :: string where "AfterResetChrootHook = ''after-reset-chroot''"
definition PostResetHook :: string where "PostResetHook = ''post-reset''"
definition ActionReset :: string where "ActionReset = ''reset''"
definition RecoveryImgFile :: string where "RecoveryImgFile = ''recovery.img''"

record ResetAction =
  ra_cfg :: RunConfig
  ra_spec :: ResetSpec
  ra_bootloader :: "Grub option"
  ra_snapshotter :: "Snapshotter option"
  ra_snapshot :: "Snapshot option"

type_synonym ResetActionOption = "ResetAction \<Rightarrow> err + ResetAction"

definition WithResetBootloader :: "Grub \<Rightarrow> ResetActionOption" where
  "WithResetBootloader bl r = Inr (r\<lparr>ra_bootloader := Some bl\<rparr>)"

definition NewResetAction :: "RunConfig \<Rightarrow> ResetSpec \<Rightarrow> ResetActionOption list \<Rightarrow> (world, ResetAction) io" where
  "NewResetAction cfg spec opts =
     bindIO (sumIO (applyOpts opts \<lparr>ra_cfg = cfg, ra_spec = spec, ra_bootloader = None, ra_snapshotter = None,
        ra_snapshot = None\<rparr>)) (\<lambda>r.
     bindIO (if ra_bootloader r = None
             then NewGrub (rc_Config cfg) (rc_EfiVars cfg) [WithGrubDisableBootEntry (rst_DisableBootEntry spec),
               WithGrubAutoDisableBootEntry, WithGrubClearBootEntry False]
             else retIO (ra_bootloader r)) (\<lambda>bl.
     bindIO (case ra_snapshotter r of
               Some sp \<Rightarrow> retIO sp
             | None \<Rightarrow> sumIO (NewSnapshotter (rc_Config cfg) (rc_Snapshotter cfg) (blSetVars bl))) (\<lambda>sp.
     bindIO (sumIO (forceBtrfs (sc_Type (rc_Snapshotter cfg)) (rst_Partitions spec))) (\<lambda>ep.
       retIO (r\<lparr>ra_bootloader := bl, ra_snapshotter := Some sp, ra_spec := spec\<lparr>rst_Partitions := ep\<rparr>\<rparr>)))))"

subsection \<open>Parts of the action\<close>

definition ra_setParts :: "(ElementalPartitions \<Rightarrow> ElementalPartitions) \<Rightarrow> ResetAction \<Rightarrow> ResetAction" where
  "ra_setParts f r = r\<lparr>ra_spec := (ra_spec r)\<lparr>rst_Partitions := f (rst_Partitions (ra_spec r))\<rparr>\<rparr>"

definition ra_onRecovery :: "(Partition \<times> world, 'a) io \<Rightarrow> (ResetAction \<times> world, 'a) io" where
  "ra_onRecovery = onSome (\<lambda>r. ep_Recovery (rst_Partitions (ra_spec r))) (\<lambda>po. ra_setParts (\<lambda>ep. ep\<lparr>ep_Recovery := po\<rparr>))"

definition ra_onSnapshotter :: "(Snapshotter \<times> world, 'a) io \<Rightarrow> (ResetAction \<times> world, 'a) io" where
  "ra_onSnapshotter = onSome ra_snapshotter (\<lambda>sp r. r\<lparr>ra_snapshotter := sp\<rparr>)"

definition ra_initSnapshotter :: "string \<Rightarrow> (ResetAction \<times> world, unit) io" where
  "ra_initSnapshotter efiDir =
     onSome (\<lambda>r. both (ra_snapshotter r) (ep_State (rst_Partitions (ra_spec r))))
       (\<lambda>sp r. ra_setParts (\<lambda>ep. ep\<lparr>ep_State := map_option snd sp\<rparr>) (r\<lparr>ra_snapshotter := map_option fst sp\<rparr>))
       (snap_InitSnapshotter efiDir)"

definition ra_closeTransaction :: "(ResetAction \<times> world, unit) io" where
  "ra_closeTransaction =
     onSome (\<lambda>r. both (ra_snapshotter r) (ra_snapshot r))
       (\<lambda>sp r. r\<lparr>ra_snapshotter := map_option fst sp, ra_snapshot := map_option snd sp\<rparr>) snap_CloseTransaction"

definition ra_bootMount :: "(ResetAction \<times> world, string) io" where
  "ra_bootMount = bindIO getO (\<lambda>r. bindIO (deref (ep_Boot (rst_Partitions (ra_spec r)))) (\<lambda>p. retIO (p_MountPoint p)))"

subsection \<open>Hooks\<close>

definition resetHook :: "string \<Rightarrow> (ResetAction \<times> world, unit) io" where
  "resetHook hook = bindIO getO (\<lambda>r.
     let cfg = rc_Config (ra_cfg r);
         cIPaths = cfg_CloudInitPaths cfg @
           (if hook = AfterResetHook then PreAppendRoot WorkingImgDir (cfg_CloudInitPaths cfg) else [])
     in liftW (Hook cfg hook (cfg_Strict cfg) cIPaths))"

definition resetChrootHook :: "string \<Rightarrow> string \<Rightarrow> (ResetAction \<times> world, unit) io" where
  "resetChrootHook hook root = bindIO getO (\<lambda>r.
     let cfg = rc_Config (ra_cfg r); ep = rst_Partitions (ra_spec r);
         extraMounts = bindFor (ep_Boot ep) BootDir (bindFor (ep_OEM ep) OEMPath (bindFor (ep_Persistent ep) PersistentPath []))
     in liftW (ChrootHook cfg hook (cfg_Strict cfg) root extraMounts (cfg_CloudInitPaths cfg)))"

subsection \<open>The state file\<close>

definition recoveryEntry :: "ResetSpec \<Rightarrow> PartitionState option" where
  "recoveryEntry spec = (case rst_State spec of None \<Rightarrow> None | Some st \<Rightarrow> is_Partitions st RecoveryPartName)"

text \<open>When the system comes from the recovery image, its source and digest are those recorded for the recovery system.\<close>

definition resetSource :: "ResetSpec \<Rightarrow> err + ImageSource" where
  "resetSource spec =
     (case rst_System spec of
        None \<Rightarrow> Inl Panic
      | Some src \<Rightarrow>
          (if IsFile src \<and> HasSuffix (src_source src) RecoveryImgFile then
             (case recoveryEntry spec of
                None \<Rightarrow> Inr src
              | Some rp \<Rightarrow> (case ps_RecoveryImage rp of
                   None \<Rightarrow> Inr src
                 | Some img \<Rightarrow> (case ss_Source img of None \<Rightarrow> Inl Panic | Some s \<Rightarrow> Inr (SetDigest (ss_Digest img) s))))
           else Inr src))"

definition resetStateOf :: "RunConfig \<Rightarrow> ResetSpec \<Rightarrow> Partition \<Rightarrow> ImageSource \<Rightarrow> int \<Rightarrow> string \<Rightarrow> InstallState" where
  "resetStateOf cfg spec statePart src snapID date =
     (let ep = rst_Partitions spec;
          m0 = [StatePartName \<mapsto> \<lparr>ps_FSLabel = p_FilesystemLabel statePart, ps_RecoveryImage = None, ps_Snapshots =
                  [(snapID, \<lparr>ss_Source = Some src, ss_Digest = src_digest src, ss_Active = True, ss_Label = [], ss_FS = [],
                     ss_Labels = rst_SnapshotLabels spec, ss_Date = date, ss_FromAction = ActionReset\<rparr>)]\<rparr>];
          m1 = labelState PersistentPartName (ep_Persistent ep) (labelState OEMPartName (ep_OEM ep) m0)
      in \<lparr>is_Date = date, is_Partitions = (case recoveryEntry spec of None \<Rightarrow> m1 | Some rp \<Rightarrow> m1(RecoveryPartName \<mapsto> rp)),
          is_Snapshotter = rc_Snapshotter cfg\<rparr>)"

definition updateInstallState :: "ResetAction run" where
  "updateInstallState = bindIO (inScope getO) (\<lambda>r.
     case (ep_Recovery (rst_Partitions (ra_spec r)), ep_State (rst_Partitions (ra_spec r))) of
       (Some _, Some statePart) \<Rightarrow>
         (case ra_snapshot r of
            None \<Rightarrow> failIO (Errorf ''undefined reset snapshot'')
          | Some snapshot \<Rightarrow>
              bindIO (sumIO (resetSource (ra_spec r))) (\<lambda>src.
              bindIO (inScope (liftW (nowRFC3339 (rc_Config (ra_cfg r))))) (\<lambda>date.
              let st = resetStateOf (ra_cfg r) (ra_spec r) statePart src (sn_ID snapshot) date in
              bindIO (inScope (ra_onRecovery (MountRWPartition (rc_Config (ra_cfg r))))) (\<lambda>umount.
              thenIO (pushS (ra_onRecovery umount))
              (bindIO (inScope getO) (\<lambda>r'.
               bindIO (deref (ep_Recovery (rst_Partitions (ra_spec r')))) (\<lambda>recoveryPart.
                 inScope (liftW (rc_WriteInstallState (ra_cfg r) st (Join [p_MountPoint statePart, InstallStateFile])
                   (Join [p_MountPoint recoveryPart, InstallStateFile]))))))))))
     | _ \<Rightarrow> failIO (Errorf ''undefined state or recovery partition''))"

subsection \<open>Run\<close>

definition ra_unmountPartitions :: "(ResetAction \<times> world, unit) io" where
  "ra_unmountPartitions = bindIO getO (\<lambda>r. let ep = rst_Partitions (ra_spec r) in
     liftW (UnmountPartitions (PartitionsByMountPoint ep True [ep_Recovery ep])))"

definition formatSome :: "Config \<Rightarrow> Partition option \<Rightarrow> (world, unit) io" where
  "formatSome cfg po = (case po of None \<Rightarrow> retIO () | Some p \<Rightarrow> coded exit_FormatPartitions (elemental_FormatPartition cfg p []))"

definition formatPartitions :: "Config \<Rightarrow> ResetSpec \<Rightarrow> (world, unit) io" where
  "formatPartitions cfg spec = (let ep = rst_Partitions spec in
     thenIO (bindIO (deref (ep_State ep)) (\<lambda>p. formatSome cfg (Some p)))
     (thenIO (whenIO (rst_FormatPersistent spec) (formatSome cfg (ep_Persistent ep)))
       (whenIO (rst_FormatOEM spec) (formatSome cfg (ep_OEM ep)))))"

definition ra_mountPartitions :: "(ResetAction \<times> world, unit) io" where
  "ra_mountPartitions = bindIO getO (\<lambda>r.
     coded exit_MountPartitions
       (zoom (\<lambda>r. let ep = rst_Partitions (ra_spec r) in PartitionsByMountPoint ep False [ep_Recovery ep])
         (\<lambda>parts. ra_setParts (putParts parts)) (MountPartitions (rc_Config (ra_cfg r)) [''rw''])))"

definition ra_refineDeployment :: "(ResetAction \<times> world, unit) io" where
  "ra_refineDeployment = bindIO getO (\<lambda>r. let cfg = rc_Config (ra_cfg r); spec = ra_spec r in
     thenIO (coded exit_CopyFile (liftW (CopyCloudConfig cfg (GetConfigStorage (rst_Partitions spec)) (rst_CloudInit spec))))
     (bindIO (deref (ra_snapshot r)) (\<lambda>snapshot.
      bindIO ra_bootMount (\<lambda>boot.
      thenIO (coded exit_InstallGrub (onSome ra_bootloader (\<lambda>bl r. r\<lparr>ra_bootloader := bl\<rparr>) (Grub_Install (sn_WorkDir snapshot) boot)))
      (thenIO (coded exit_HookAfterResetChroot (resetChrootHook AfterResetChrootHook WorkingImgDir))
      (thenIO (coded exit_HookAfterReset (resetHook AfterResetHook))
      (bindIO (sumIO (Reset_GetGrubLabels spec)) (\<lambda>grubVars.
       thenIO (coded exit_SetGrubVariables (liftW (blSetVars (ra_bootloader r) (Join [boot, GrubOEMEnv]) grubVars)))
         (coded exit_SetDefaultGrubEntry (bindIO (deref (ra_bootloader r)) (\<lambda>g.
            liftW (SetDefaultEntry (g_cfg g) boot WorkingImgDir (rst_GrubDefEntry spec)))))))))))))"

definition ra_deploy :: "ResetAction run" where
  "ra_deploy =
     bindIO (inScope (coded exit_SnapshotterStart (ra_onSnapshotter snap_StartTransaction))) (\<lambda>snapshot.
     thenIO (inScope (modO (\<lambda>r. r\<lparr>ra_snapshot := Some snapshot\<rparr>)))
     (thenIO (pushErrorOnlyS (bindIO getO (\<lambda>r. ra_onSnapshotter (snap_CloseTransactionOnError (ra_snapshot r)))))
     (bindIO (inScope getO) (\<lambda>r. let cfg = rc_Config (ra_cfg r) in
      thenIO (inScope (coded exit_DumpSource (onSome (\<lambda>r. rst_System (ra_spec r))
          (\<lambda>src r. r\<lparr>ra_spec := (ra_spec r)\<lparr>rst_System := src\<rparr>\<rparr>) (MirrorRoot cfg (sn_WorkDir snapshot) (cfg_Debug cfg)))))
      (thenIO (inScope ra_refineDeployment)
        (inScope ra_closeTransaction))))))"

definition Reset_body :: "ResetAction run" where
  "Reset_body =
     thenIO (inScope (coded exit_UnmountPartitions ra_unmountPartitions))
     (thenIO (inScope (bindIO getO (\<lambda>r. liftW (formatPartitions (rc_Config (ra_cfg r)) (ra_spec r)))))
     (thenIO (inScope ra_mountPartitions)
     (thenIO (pushS ra_unmountPartitions)
     (thenIO (inScope (bindIO ra_bootMount (\<lambda>boot. coded exit_SnapshotterInit (ra_initSnapshotter boot))))
     (thenIO (inScope (coded exit_HookBeforeReset (resetHook BeforeResetHook)))
     (thenIO ra_deploy
     (thenIO (inScope (coded exit_HookPostReset (resetHook PostResetHook)))
     (thenIO (coded exit_CreateFile updateInstallState)
     (thenIO (coded exit_Cleanup (cleanupS None))
     (bindIO (inScope getO) (\<lambda>r. inScope (liftW (PowerAction (ra_cfg r))))))))))))))"

definition Reset_Run :: "(ResetAction \<times> world, unit) io" where
  "Reset_Run = withCleanup Reset_body"

subsection \<open>What a reset formats\<close>

definition formatTargets :: "ResetSpec \<Rightarrow> Partition list" where
  "formatTargets spec = (let ep = rst_Partitions spec; some = (\<lambda>po. case po of None \<Rightarrow> [] | Some p \<Rightarrow> [p]) in
     some (ep_State ep) @ (if rst_FormatPersistent spec then some (ep_Persistent ep) else []) @
     (if rst_FormatOEM spec then some (ep_OEM ep) else []))"

definition mkfsOf :: "Partition \<Rightarrow> (string \<times> string list) \<Rightarrow> bool" where
  "mkfsOf p c \<longleftrightarrow> fst c = ''mkfs.'' @ p_FS p \<and> snd c \<noteq> [] \<and> last (snd c) = p_Path p"

text \<open>\<open>formats cs ps w w'\<close>: between the two worlds exactly the commands \<open>cs\<close> were run, which format the partitions \<open>ps\<close>.\<close>

definition formats :: "Partition list \<Rightarrow> world \<Rightarrow> world \<Rightarrow> bool" where
  "formats ps w w' \<longleftrightarrow> (\<exists>cs. cmds w' = cmds w @ cs \<and> list_all2 mkfsOf ps cs)"

lemma formats_Nil: "formats [] w w' \<longleftrightarrow> cmds w' = cmds w"
  by (simp add: formats_def)

lemma formats_append: "formats ps w w1 \<Longrightarrow> formats qs w1 w2 \<Longrightarrow> formats (ps @ qs) w w2"
  unfolding formats_def by (metis append.assoc list_all2_appendI)

lemma buildOptions_dev: "mk_buildOptions (NewMkfsCall dev fs label opts) = Inr args \<Longrightarrow> args \<noteq> [] \<and> last args = dev"
  by (auto simp: mk_buildOptions_def NewMkfsCall_def split: if_splits)

lemma FormatPartition_formats:
  assumes "keepsLog cfg" "elemental_FormatPartition cfg p [] w = (r, w')"
  shows "formats [p] w w' \<or> isl r \<and> formats [] w w'"
proof (cases "mk_buildOptions (NewMkfsCall (p_Path p) (p_FS p) (p_FilesystemLabel p) [])")
  case (Inl e)
  then show ?thesis using assms(2)
    by (auto simp: elemental_FormatPartition_def FormatDevice_def Mkfs_Apply_def bindIO_def sumIO_def formats_Nil)
next
  case (Inr args)
  let ?c = "''mkfs.'' @ p_FS p"
  obtain r1 w1 where run: "RunE cfg ?c args w = (r1, w1)" by fastforce
  then have "w' = w1" using assms(2) Inr
    by (cases r1) (auto simp: elemental_FormatPartition_def FormatDevice_def Mkfs_Apply_def bindIO_def sumIO_def retIO_def NewMkfsCall_def)
  then have "cmds w' = cmds w @ [(?c, args)]" using RunE_cmds[OF assms(1) run] by simp
  then have "formats [p] w w'" using buildOptions_dev[OF Inr] by (simp add: formats_def mkfsOf_def)
  then show ?thesis ..
qed

lemma formatSome_formats:
  assumes "keepsLog cfg" "formatSome cfg po w = (r, w')"
  shows "formats (case po of None \<Rightarrow> [] | Some p \<Rightarrow> [p]) w w' \<or> isl r \<and> formats [] w w'"
proof (cases po)
  case (Some p)
  obtain r1 w1 where f: "elemental_FormatPartition cfg p [] w = (r1, w1)" by fastforce
  then have "w' = w1" "isl r \<longleftrightarrow> isl r1" using assms(2) Some by (cases r1; auto simp: formatSome_def coded_def)+
  then show ?thesis using FormatPartition_formats[OF assms(1) f] Some by simp
qed (use assms(2) in \<open>auto simp: formatSome_def retIO_def formats_Nil\<close>)

lemma formatStep:
  assumes "thenIO m k w = (r, w')" "\<And>r1 w1. m w = (r1, w1) \<Longrightarrow> formats ps w w1 \<or> isl r1 \<and> formats [] w w1"
    "\<And>w1 r2 w2. k w1 = (r2, w2) \<Longrightarrow> \<exists>qs. prefix qs rest \<and> formats qs w1 w2 \<and> (r2 = Inr () \<longrightarrow> qs = rest)"
  shows "\<exists>qs. prefix qs (ps @ rest) \<and> formats qs w w' \<and> (r = Inr () \<longrightarrow> qs = ps @ rest)"
proof -
  obtain r1 w1 where m: "m w = (r1, w1)" by fastforce
  show ?thesis
  proof (cases r1)
    case (Inl e)
    then have "r = Inl e" "w' = w1" using assms(1) m by (auto simp: thenIO_def bindIO_def)
    then show ?thesis using assms(2)[OF m] by (metis Inl_Inr_False append_prefixD prefix_order.refl Nil_prefix)
  next
    case (Inr u)
    then have k: "k w1 = (r, w')" and f: "formats ps w w1" using assms(1) assms(2)[OF m] m by (auto simp: thenIO_def bindIO_def)
    from assms(3)[OF k] obtain qs where "prefix qs rest" "formats qs w1 w'" "r = Inr () \<longrightarrow> qs = rest" by blast
    then show ?thesis using formats_append[OF f] by (intro exI[of _ "ps @ qs"]) auto
  qed
qed

abbreviation partList :: "Partition option \<Rightarrow> Partition list" where
  "partList po \<equiv> (case po of None \<Rightarrow> [] | Some p \<Rightarrow> [p])"

lemma whenFormat:
  "keepsLog cfg \<Longrightarrow> whenIO b (formatSome cfg po) w = (r, w') \<Longrightarrow>
     formats (if b then partList po else []) w w' \<or> isl r \<and> formats [] w w'"
  using formatSome_formats by (cases b) (auto simp: whenIO_def retIO_def formats_Nil)

lemma formatLast:
  "formats ps w w' \<or> isl r \<and> formats [] w w' \<Longrightarrow> \<exists>qs. prefix qs ps \<and> formats qs w w' \<and> (r = Inr () \<longrightarrow> qs = ps)"
  by (metis Nil_prefix isl_def sum.distinct(1) prefix_order.refl)

text \<open>
  Property C9. A reset formats the state partition, the persistent and the OEM partition only on request, and nothing else:
  whatever the outcome, the commands run are the file system creations for an initial part of this list, in this order, each
  on the device of its partition; after success all of them have been run.
\<close>

theorem formatPartitions_targets:
  assumes "keepsLog cfg" "formatPartitions cfg spec w = (r, w')"
  shows "\<exists>ps. prefix ps (formatTargets spec) \<and> formats ps w w' \<and> (r = Inr () \<longrightarrow> ps = formatTargets spec)"
proof (cases "ep_State (rst_Partitions spec)")
  case None
  then have "r = Inl Panic" "w' = w" using assms(2)
    by (auto simp: formatPartitions_def Let_def deref_def thenIO_def bindIO_def failIO_def)
  then show ?thesis by (intro exI[of _ "[]"]) (simp add: formats_Nil)
next
  case (Some p)
  let ?P = "if rst_FormatPersistent spec then partList (ep_Persistent (rst_Partitions spec)) else []"
  let ?O = "if rst_FormatOEM spec then partList (ep_OEM (rst_Partitions spec)) else []"
  have run: "thenIO (formatSome cfg (Some p)) (thenIO (whenIO (rst_FormatPersistent spec) (formatSome cfg (ep_Persistent (rst_Partitions spec))))
      (whenIO (rst_FormatOEM spec) (formatSome cfg (ep_OEM (rst_Partitions spec))))) w = (r, w')"
    using assms(2) Some by (simp add: formatPartitions_def Let_def deref_def bindIO_retIO)
  note last = formatLast[OF whenFormat[OF assms(1)]]
  have "\<exists>qs. prefix qs ([p] @ ?P @ ?O) \<and> formats qs w w' \<and> (r = Inr () \<longrightarrow> qs = [p] @ ?P @ ?O)"
    using formatSome_formats[OF assms(1), of "Some p"]
    by (intro formatStep[OF run] formatStep[OF _ whenFormat[OF assms(1)] last]) auto
  then show ?thesis using Some by (simp add: formatTargets_def Let_def)
qed

definition demoReset :: ResetSpec where
  "demoReset = \<lparr>rst_FormatPersistent = True, rst_FormatOEM = False, rst_CloudInit = [], rst_GrubDefEntry = [], rst_System = None,
      rst_Partitions = demoParts, rst_Target = [], rst_Efi = True, rst_State = None, rst_DisableBootEntry = False,
      rst_SnapshotLabels = []\<rparr>"

theorem formatPartitions_targets_witness:
  "formats [demoPart 4 ''state'' 8192 ''/s'', demoPart 5 ''persistent'' 0 ''/p''] demoWorld
     (snd (formatPartitions demoConfig demoReset demoWorld))"
proof -
  have "keepsLog demoConfig" by (simp add: keepsLog_def demoConfig_def)
  from formatPartitions_targets[OF this prod.collapse[symmetric], of demoReset demoWorld]
  have "fst (formatPartitions demoConfig demoReset demoWorld) = Inr () \<Longrightarrow>
      formats (formatTargets demoReset) demoWorld (snd (formatPartitions demoConfig demoReset demoWorld))" by blast
  moreover have "fst (formatPartitions demoConfig demoReset demoWorld) = Inr ()" by code_simp
  ultimately show ?thesis by (simp add: formatTargets_def demoReset_def demoParts_def)
qed

end
