(* ===== verification/State_History.thy ===== *)
theory State_History
  imports Upgrade Reset
begin

section \<open>The recorded state over the life of a system\<close>

text \<open>
  The state file is written by the installation, by upgrades of the system and of the recovery system and by resets.
  A history is a sequence of these; the step relation follows what the actions write. Two conditions on an upgrade come
  from the snapshotter: the new snapshot is among the existing ones and its id is fresh.
\<close>

inductive recorded :: "int \<Rightarrow> InstallState \<Rightarrow> bool" where
  installed: "installStateOf cfg spec sid date = Inr st \<Longrightarrow> recorded sid st"
| upgraded: "recorded old st \<Longrightarrow> upgradeStateParts spec snapshots new (st\<lparr>is_Snapshotter := sc, is_Date := date\<rparr>) = Inr st' \<Longrightarrow>
    new \<in> set snapshots \<Longrightarrow> new \<noteq> old \<Longrightarrow> recorded new st'"
| recovery_upgraded: "recorded sid st \<Longrightarrow> upgradeRecoveryState ActionUpgradeRecovery spec (st\<lparr>is_Date := date\<rparr>) = Inr st' \<Longrightarrow>
    recorded sid st'"
| reset: "rst_State spec = None \<or> rst_State spec = Some st \<and> recorded old st \<Longrightarrow>
    recorded sid (resetStateOf cfg spec statePart src sid date)"

text \<open>The invariant: the ids are distinct and exactly one snapshot is recorded as active.\<close>

definition recordsActive :: "int \<Rightarrow> InstallState \<Rightarrow> bool" where
  "recordsActive sid st \<longleftrightarrow> (\<exists>ps. is_Partitions st StatePartName = Some ps \<and> distinct (map fst (ps_Snapshots ps)) \<and>
     activeIDs (ps_Snapshots ps) = {sid})"

lemmas partNames = StatePartName_def RecoveryPartName_def BootPartName_def OEMPartName_def PersistentPartName_def

lemma labelState_other: "name \<noteq> k \<Longrightarrow> labelState name po m k = m k"
  by (auto simp: labelState_def split: option.split)

lemma activeIDs_single: "activeIDs [(sid, st)] = (if ss_Active st then {sid} else {})"
  by (auto simp: activeIDs_def)

lemma install_records: "installStateOf cfg spec sid date = Inr st \<Longrightarrow> recordsActive sid st"
  by (auto simp: installStateOf_def recordsActive_def labelState_other partNames activeIDs_single Let_def split: option.splits)

lemma reset_records: "recordsActive sid (resetStateOf cfg spec statePart src sid date)"
  by (auto simp: resetStateOf_def recordsActive_def labelState_other partNames activeIDs_single Let_def split: option.splits)

lemma recoveryState_records:
  "upgradeRecoveryState act spec st = Inr st' \<Longrightarrow> recordsActive sid st \<Longrightarrow> recordsActive sid st'"
  by (auto simp: upgradeRecoveryState_def recordsActive_def partNames split: option.splits)

lemma upgrade_records:
  assumes "upgradeStateParts spec snapshots new st = Inr st'" "recordsActive old st" "new \<in> set snapshots" "new \<noteq> old"
  shows "recordsActive new st'"
proof -
  obtain ps where ps: "is_Partitions st StatePartName = Some ps" "distinct (map fst (ps_Snapshots ps))"
      "activeIDs (ps_Snapshots ps) = {old}" using assms(2) by (auto simp: recordsActive_def)
  obtain sys where sys: "upg_System spec = Some sys" using assms(1) by (auto simp: upgradeStateParts_def split: option.splits)
  let ?e = "\<lparr>ss_Source = Some sys, ss_Digest = src_digest sys, ss_Active = True, ss_Label = [], ss_FS = [],
    ss_Labels = upg_SnapshotLabels spec, ss_Date = is_Date st, ss_FromAction = ActionUpgrade\<rparr>"
  let ?st1 = "st\<lparr>is_Partitions := (is_Partitions st)(StatePartName \<mapsto>
    ps\<lparr>ps_Snapshots := updateSnapshots snapshots new ?e (ps_Snapshots ps)\<rparr>)\<rparr>"
  have st1: "st' = ?st1 \<or> upgradeRecoveryState ActionUpgrade spec ?st1 = Inr st'"
    using assms(1) ps(1) sys by (auto simp: upgradeStateParts_def Let_def split: option.splits if_splits)
  have "recordsActive new ?st1"
    using updateSnapshots_distinct[OF ps(2)] updateSnapshots_active[OF ps(2,3) assms(3,4), of ?e]
    by (simp add: recordsActive_def)
  then show ?thesis using st1 recoveryState_records by blast
qed

text \<open>
  Property C3. Whatever sequence of installations, upgrades, recovery upgrades and resets has been run, the state file
  records the snapshots under distinct ids and exactly one of them as active, the one the last action deployed.
\<close>

theorem recorded_one_active:
  assumes "recorded sid st"
  shows "recordsActive sid st"
  using assms
proof induction
  case (upgraded old st spec snapshots new date sc st')
  have "recordsActive old (st\<lparr>is_Snapshotter := sc, is_Date := date\<rparr>)" using upgraded.IH by (simp add: recordsActive_def)
  then show ?case using upgrade_records[OF upgraded.hyps(2)] upgraded.hyps(3,4) by blast
next
  case (recovery_upgraded sid st spec date st')
  have "recordsActive sid (st\<lparr>is_Date := date\<rparr>)" using recovery_upgraded.IH by (simp add: recordsActive_def)
  then show ?case using recoveryState_records[OF recovery_upgraded.hyps(2)] by blast
qed (auto intro: install_records reset_records)

definition firstState :: InstallState where
  "firstState = (case installStateOf (demoRunConfig False) demoInstall 1 ''2026'' of
     Inr st \<Rightarrow> st | Inl _ \<Rightarrow> \<lparr>is_Date = [], is_Partitions = Map.empty, is_Snapshotter = NewLoopDevice\<rparr>)"

definition laterReset :: ResetSpec where
  "laterReset = demoReset\<lparr>rst_State := Some firstState\<rparr>"

lemma firstState_recorded: "recorded 1 firstState"
  by (rule recorded.installed[of "demoRunConfig False" demoInstall 1 "''2026''"]) (simp add: firstState_def installStateOf_def demo_defs Let_def)

theorem recorded_one_active_witness:
  "recordsActive 1 firstState \<and>
   recordsActive 2 (resetStateOf (demoRunConfig False) laterReset demoRecovery (NewDirSrc ''/src'') 2 ''2027'')"
proof -
  have "recorded 2 (resetStateOf (demoRunConfig False) laterReset demoRecovery (NewDirSrc ''/src'') 2 ''2027'')"
    by (rule recorded.reset[of _ firstState 1]) (simp add: laterReset_def firstState_recorded)
  then show ?thesis using recorded_one_active firstState_recorded by blast
qed

end
