(* ===== verification/Mount_Action.thy ===== *)
theory Mount_Action
  imports Action_Common
begin

section \<open>The mount command (pkg/action/mount.go)\<close>

text \<open>
  The command that prepares the root of the booting system: it mounts the volumes, the ephemeral and the persistent
  paths, writes the fstab of the new root and the list of paths to relabel. Volumes are collected in a Go map by mount
  point, here an association list with its keys in order of insertion; the keys are sorted as strings. The properties:
  a volume is mounted after every volume whose mount point is a prefix of its own, and the table
  of \<^verbatim>\<open>findmnt\<close> is read back as it was printed.
\<close>

definition overlaySuffix :: string where "overlaySuffix = ''.overlay''"
definition labelPref :: string where "labelPref = ''LABEL=''"
definition partLabelPref :: string where "partLabelPref = ''PARTLABEL=''"
definition uuidPref :: string where "uuidPref = ''UUID=''"
definition devPref :: string where "devPref = ''/dev/''"
definition diskByLabel :: string where "diskByLabel = ''/dev/disk/by-label''"
definition diskByPartLabel :: string where "diskByPartLabel = ''/dev/disk/by-partlabel''"
definition diskByUUID :: string where "diskByUUID = ''/dev/disk/by-uuid''"
definition runPath :: string where "runPath = ''/run''"

definition Tmpfs :: string where "Tmpfs = ''tmpfs''"
definition Autofs :: string where "Autofs = ''auto''"
definition Block :: string where "Block = ''block''"
definition OverlayMode :: string where "OverlayMode = ''overlay''"
definition BindMode :: string where "BindMode = ''bind''"
definition RunElementalDir :: string where "RunElementalDir = ''/run/elemental''"
definition PersistentDir :: string where "PersistentDir = ''/run/elemental/persistent''"
definition OverlayDir :: string where "OverlayDir = ''/run/elemental/overlay''"
definition PersistentStateDir :: string where "PersistentStateDir = ''.state''"
definition SELinuxRelabelDir :: string where "SELinuxRelabelDir = ''/run/systemd/relabel-extra.d''"
definition SELinuxRelabelFile :: string where "SELinuxRelabelFile = ''elemental.relabel''"
definition SELinuxRelabelledFlag :: string where "SELinuxRelabelledFlag = ''.relabelled''"

abbreviation tabChar :: char where "tabChar \<equiv> CHR 0x09"
abbreviation nlChar :: char where "nlChar \<equiv> CHR 0x0A"

subsection \<open>Volumes\<close>

definition volumeDevice :: "string \<Rightarrow> string option" where
  "volumeDevice device =
     (if HasPrefix device labelPref then Some (Join [diskByLabel, TrimPrefix device labelPref])
      else if HasPrefix device partLabelPref then Some (Join [diskByPartLabel, TrimPrefix device partLabelPref])
      else if HasPrefix device uuidPref then Some (Join [diskByUUID, TrimPrefix device uuidPref])
      else if HasPrefix device devPref then Some device
      else None)"

definition underSysroot :: "MountSpec \<Rightarrow> string \<Rightarrow> string" where
  "underSysroot spec p = (if \<not> HasPrefix p runPath then Join [ms_Sysroot spec, p] else p)"

definition volumesOf :: "MountSpec \<Rightarrow> (string \<times> VolumeMount) list \<times> string list" where
  "volumesOf spec =
     (let start = (if HasPersistent spec
                   then (let v = pm_Volume (ms_Persistent spec) in ([(vm_Mountpoint v, v)], [vm_Mountpoint v]))
                   else ([], []))
      in foldl (\<lambda>(volumes, ks) v. (AList.update (vm_Mountpoint v) v volumes, ks @ [vm_Mountpoint v])) start (ms_Volumes spec))"

definition mountVolume :: "MountSpec \<Rightarrow> VolumeMount \<Rightarrow> (world, unit) io" where
  "mountVolume spec v =
     (case volumeDevice (vm_Device v) of
        None \<Rightarrow> failIO (Errorf (''unkown device reference: '' @ vm_Device v))
      | Some dev \<Rightarrow>
          (let mountpoint = underSysroot spec (vm_Mountpoint v);
               fstype = (if vm_FSType v = [] then ''auto'' else vm_FSType v)
           in thenIO (MkdirAll mountpoint DirPerm) (mnt_Mount dev mountpoint fstype (vm_Options v))))"

fun mountVolumesLoop :: "MountSpec \<Rightarrow> (string \<times> VolumeMount) list \<Rightarrow> string list \<Rightarrow> err option \<Rightarrow> (world, unit) io" where
  "mountVolumesLoop spec volumes [] errs = raiseIO errs"
| "mountVolumesLoop spec volumes (k # ks) errs =
     (case map_of volumes k of
        None \<Rightarrow> failIO Panic
      | Some v \<Rightarrow> bindIO (tryIO (mountVolume spec v)) (\<lambda>e.
          mountVolumesLoop spec volumes ks (case e of None \<Rightarrow> errs | Some e' \<Rightarrow> Some (multierror_Append errs e'))))"

definition MountVolumes :: "RunConfig \<Rightarrow> MountSpec \<Rightarrow> (world, unit) io" where
  "MountVolumes cfg spec = (case volumesOf spec of (volumes, ks) \<Rightarrow> mountVolumesLoop spec volumes (sort ks) None)"

subsection \<open>Ephemeral and persistent paths\<close>

type_synonym MountFunc = "RunConfig \<Rightarrow> string \<Rightarrow> string \<Rightarrow> string \<Rightarrow> (world, unit) io"

definition pathName :: "string \<Rightarrow> string \<Rightarrow> string" where
  "pathName path ending = ReplaceAll (TrimPrefix path ''/'') (CHR ''/'') (CHR ''-'') @ ending"

definition MountBindPath :: MountFunc where
  "MountBindPath cfg sysroot overlayDir path =
     (let base = Join [sysroot, path]; stateDir = overlayDir @ ''/'' @ pathName path ''.bind'' in
      thenIO (MkdirAll base DirPerm)
      (thenIO (MkdirAll stateDir DirPerm)
      (thenIO (SyncData (rc_Config cfg) base stateDir [])
        (mnt_Mount stateDir base ''none'' [''defaults'', ''bind'']))))"

definition overlayOptions :: "string \<Rightarrow> string \<Rightarrow> string \<Rightarrow> string list" where
  "overlayOptions lower upper work =
     [''defaults'', ''lowerdir='' @ lower, ''upperdir='' @ upper, ''workdir='' @ work]"

definition MountOverlayPath :: MountFunc where
  "MountOverlayPath cfg sysroot overlayDir path =
     (let lower = Join [sysroot, path];
          upper = overlayDir @ ''/'' @ pathName path overlaySuffix @ ''/upper'';
          work = overlayDir @ ''/'' @ pathName path overlaySuffix @ ''/work'' in
      thenIO (MkdirAll lower DirPerm)
      (thenIO (MkdirAll upper DirPerm)
      (thenIO (MkdirAll work DirPerm)
        (mnt_Mount ''overlay'' lower ''overlay'' (overlayOptions lower upper work)))))"

definition MountEphemeral :: "RunConfig \<Rightarrow> string \<Rightarrow> EphemeralMounts \<Rightarrow> (world, unit) io" where
  "MountEphemeral cfg sysroot overlay =
     thenIO (MkdirAll OverlayDir DirPerm)
     (case (if em_Type overlay = Tmpfs then Some (Tmpfs, Tmpfs, [''defaults'', ''size='' @ em_Size overlay])
            else if em_Type overlay = Block then Some (em_Device overlay, Autofs, [''defaults''])
            else None) of
        None \<Rightarrow> failIO (Errorf (''unknown overlay type '' @ [CHR 0x27] @ em_Type overlay @ [CHR 0x27]))
      | Some (overlaySource, overlayFS, overlayOpts) \<Rightarrow>
          thenIO (mnt_Mount overlaySource OverlayDir overlayFS overlayOpts)
            (forIO (em_Paths overlay) (MountOverlayPath cfg sysroot OverlayDir)))"

definition MountPersistent :: "RunConfig \<Rightarrow> MountSpec \<Rightarrow> (world, unit) io" where
  "MountPersistent cfg spec =
     (let mountFunc = (if pm_Mode (ms_Persistent spec) = ''bind'' then MountBindPath else MountOverlayPath);
          target = underSysroot spec (Join [vm_Mountpoint (pm_Volume (ms_Persistent spec)), PersistentStateDir]) in
      if \<not> HasPersistent spec then retIO ()
      else forIO (pm_Paths (ms_Persistent spec)) (mountFunc cfg (ms_Sysroot spec) target))"

subsection \<open>The fstab file\<close>

definition fstab :: "string \<Rightarrow> string \<Rightarrow> string \<Rightarrow> string list \<Rightarrow> string" where
  "fstab device path fstype flags =
     (let flags' = (if flags = [] then [''defaults''] else flags);
          fstype' = (if fstype = [] then ''auto'' else fstype)
      in device @ [tabChar] @ path @ [tabChar] @ fstype' @ [tabChar] @ strings_Join flags' '','' @ [tabChar] @ ''0'' @ [tabChar] @ ''0'' @ [nlChar])"

definition overlayLine :: "string \<Rightarrow> string \<Rightarrow> string \<Rightarrow> string" where
  "overlayLine path upperPath requiredMount =
     (let upper = upperPath @ ''/'' @ pathName path overlaySuffix @ ''/upper'';
          work = upperPath @ ''/'' @ pathName path overlaySuffix @ ''/work''
      in fstab ''overlay'' path ''overlay''
           (overlayOptions path upper work @ [''x-systemd.requires-mounts-for='' @ requiredMount]))"

definition persistentLine :: "MountSpec \<Rightarrow> string \<Rightarrow> string" where
  "persistentLine spec path =
     (let pVol = pm_Volume (ms_Persistent spec) in
      if pm_Mode (ms_Persistent spec) = OverlayMode
      then overlayLine path (Join [vm_Mountpoint pVol, PersistentStateDir]) PersistentDir
      else if pm_Mode (ms_Persistent spec) = BindMode
      then fstab (Join [vm_Mountpoint pVol, PersistentStateDir, pathName path ''.bind'']) path ''none'' [''defaults'', ''bind'']
      else [])"

definition fstabVolume :: "VolumeMount \<Rightarrow> string" where
  "fstabVolume v = fstab (vm_Device v) (vm_Mountpoint v) (vm_FSType v) (vm_Options v)"

definition fstabData :: "MountSpec \<Rightarrow> string \<Rightarrow> string" where
  "fstabData spec data =
     data @ concat (map fstabVolume (ms_Volumes spec)) @
     (if HasPersistent spec
      then fstabVolume (pm_Volume (ms_Persistent spec)) @ concat (map (persistentLine spec) (pm_Paths (ms_Persistent spec)))
      else []) @
     fstab ''tmpfs'' OverlayDir ''tmpfs'' [''defaults'', ''size='' @ em_Size (ms_Ephemeral spec)] @
     concat (map (\<lambda>rw. overlayLine rw OverlayDir OverlayDir) (em_Paths (ms_Ephemeral spec)))"

text \<open>The aggregate of the unknown modes is built but never returned.\<close>

definition WriteFstab :: "MountSpec \<Rightarrow> string \<Rightarrow> (world, unit) io" where
  "WriteFstab spec data =
     whenIO (ms_WriteFstab spec) (fs_WriteFile (Join [ms_Sysroot spec, ''/etc/fstab'']) (fstabData spec data) 420)"

text \<open>\<^verbatim>\<open>^(/[^\\[\\]]+)\<close>: the longest bracket-free beginning of the device of a subvolume.\<close>

definition btrfsDevice :: "string \<Rightarrow> string" where
  "btrfsDevice dev = (case dev of
     c # cs \<Rightarrow> (let run = takeWhile (\<lambda>x. x \<noteq> CHR ''['' \<and> x \<noteq> CHR '']'') cs in
                if c = CHR ''/'' \<and> run \<noteq> [] then c # run else dev)
   | [] \<Rightarrow> dev)"

definition findmntLine :: "string \<Rightarrow> VolumeMount option" where
  "findmntLine line = (case Fields line of
     [dev, target, fstype, opts] \<Rightarrow>
       Some \<lparr>vm_Mountpoint = target, vm_Device = (if fstype = ''btrfs'' then btrfsDevice dev else dev),
             vm_Options = splitOn (CHR '','') opts, vm_FSType = fstype\<rparr>
   | _ \<Rightarrow> None)"

definition findmntMounts :: "string \<Rightarrow> VolumeMount list" where
  "findmntMounts out = List.map_filter findmntLine (ScanLines (TrimSpace out))"

definition findmnt :: "Config \<Rightarrow> string \<Rightarrow> (world, VolumeMount list) io" where
  "findmnt cfg mountpoint =
     bindIO (RunE cfg ''findmnt'' [''-Rrfno'', ''SOURCE,TARGET,FSTYPE,OPTIONS'', mountpoint]) (\<lambda>out. retIO (findmntMounts out))"

definition initialLine :: "string \<Rightarrow> VolumeMount \<Rightarrow> string" where
  "initialLine sysroot mnt =
     (if vm_Mountpoint mnt = sysroot then fstab (vm_Device mnt) ''/'' (vm_FSType mnt) (vm_Options mnt)
      else if HasPrefix (vm_Mountpoint mnt) sysroot
      then fstab (vm_Device mnt) (TrimPrefix (vm_Mountpoint mnt) sysroot) (vm_FSType mnt) (vm_Options mnt)
      else if HasPrefix (vm_Mountpoint mnt) RunElementalDir then fstabVolume mnt
      else if vm_Mountpoint mnt = RunningStateDir then fstabVolume mnt
      else [])"

definition InitialFstabData :: "Config \<Rightarrow> string \<Rightarrow> (world, string) io" where
  "InitialFstabData cfg sysroot =
     bindIO (findmnt cfg ''/'') (\<lambda>ms. retIO (concat (map (initialLine sysroot) ms)))"

subsection \<open>SELinux\<close>

definition relabelCandidates :: "MountSpec \<Rightarrow> string list" where
  "relabelCandidates spec =
     em_Paths (ms_Ephemeral spec) @
     map vm_Mountpoint (filter (\<lambda>vol. \<not> (HasPrefix (vm_Mountpoint vol) ''/run'' \<or> ''ro'' \<in> set (vm_Options vol)))
       (ms_Volumes spec @ [pm_Volume (ms_Persistent spec)])) @
     pm_Paths (ms_Persistent spec)"

fun relabelLoop :: "string \<Rightarrow> string list \<Rightarrow> string list \<Rightarrow> (world, string list) io" where
  "relabelLoop sysroot [] filteredPaths = retIO filteredPaths"
| "relabelLoop sysroot (path # paths) filteredPaths =
     (let relabelledFile = Join [sysroot, path, SELinuxRelabelledFlag] in
      bindIO (okIO False (Exists (Join [relabelledFile]) False)) (\<lambda>ok.
        if ok then relabelLoop sysroot paths filteredPaths
        else thenIO (ignoreIO (fs_WriteFile relabelledFile ''1'' FilePerm))
               (relabelLoop sysroot paths (filteredPaths @ [path]))))"

definition getRelabelPaths :: "MountSpec \<Rightarrow> (world, string list) io" where
  "getRelabelPaths spec = relabelLoop (ms_Sysroot spec) (relabelCandidates spec) []"

definition mount_SelinuxRelabel :: "MountSpec \<Rightarrow> (world, unit) io" where
  "mount_SelinuxRelabel spec =
     whenIO (ms_SelinuxRelabel spec)
       (thenIO (MkdirAll SELinuxRelabelDir DirPerm)
       (bindIO (okIO False (Exists (ms_Sysroot spec) False)) (\<lambda>exists.
          whenIO exists (bindIO (getRelabelPaths spec) (\<lambda>paths.
            fs_WriteFile (Join [SELinuxRelabelDir, SELinuxRelabelFile]) (strings_Join paths [nlChar]) FilePerm)))))"

subsection \<open>The command\<close>

definition RunMount :: "RunConfig \<Rightarrow> MountSpec \<Rightarrow> (world, unit) io" where
  "RunMount cfg spec =
     bindIO (if ms_WriteFstab spec then InitialFstabData (rc_Config cfg) (ms_Sysroot spec) else retIO []) (\<lambda>data.
     thenIO (MountVolumes cfg spec)
     (thenIO (MountEphemeral cfg (ms_Sysroot spec) (ms_Ephemeral spec))
     (thenIO (MountPersistent cfg spec)
     (thenIO (WriteFstab spec data)
       (mount_SelinuxRelabel spec)))))"

subsection \<open>The order of the volumes\<close>

definition allVolumes :: "MountSpec \<Rightarrow> VolumeMount list" where
  "allVolumes spec = (if HasPersistent spec then [pm_Volume (ms_Persistent spec)] else []) @ ms_Volumes spec"

definition mountOf :: "MountSpec \<Rightarrow> string \<Rightarrow> VolumeMount \<Rightarrow> mount" where
  "mountOf spec dev v = \<lparr>mSource = dev, mTarget = underSysroot spec (vm_Mountpoint v),
     mType = (if vm_FSType v = [] then ''auto'' else vm_FSType v), mOpts = vm_Options v\<rparr>"

lemma volumesOf_fold:
  "foldl (\<lambda>(volumes, ks) v. (AList.update (vm_Mountpoint v) v volumes, ks @ [vm_Mountpoint v])) (vm, ks) vs =
     (foldl (\<lambda>volumes v. AList.update (vm_Mountpoint v) v volumes) vm vs, ks @ map vm_Mountpoint vs)"
  by (induction vs arbitrary: vm ks) auto

lemma update_fresh: "k \<notin> fst ` set al \<Longrightarrow> AList.update k v al = al @ [(k, v)]"
  by (induction al) auto

lemma volumes_fold:
  "distinct (map fst vm @ map vm_Mountpoint vs) \<Longrightarrow>
   foldl (\<lambda>volumes v. AList.update (vm_Mountpoint v) v volumes) vm vs = vm @ map (\<lambda>v. (vm_Mountpoint v, v)) vs"
proof (induction vs arbitrary: vm)
  case (Cons v vs)
  then show ?case by (simp add: update_fresh)
qed simp

lemma volumesOf_eq:
  assumes "distinct (map vm_Mountpoint (allVolumes spec))"
  shows "volumesOf spec = (map (\<lambda>v. (vm_Mountpoint v, v)) (allVolumes spec), map vm_Mountpoint (allVolumes spec))"
  using assms by (auto simp: volumesOf_def allVolumes_def Let_def volumesOf_fold volumes_fold)

lemma mountVolume_returns:
  assumes "mountVolume spec v w = (Inr (), w')"
  shows "\<exists>dev. volumeDevice (vm_Device v) = Some dev \<and> mounts w' = mountOf spec dev v # mounts w"
proof -
  obtain dev where dev: "volumeDevice (vm_Device v) = Some dev"
    using assms by (cases "volumeDevice (vm_Device v)") (auto simp: mountVolume_def failIO_def)
  obtain w1 where w1: "MkdirAll (underSysroot spec (vm_Mountpoint v)) DirPerm w = (Inr (), w1)"
    and m: "mnt_Mount dev (underSysroot spec (vm_Mountpoint v)) (if vm_FSType v = [] then ''auto'' else vm_FSType v)
       (vm_Options v) w1 = (Inr (), w')"
    using assms dev by (auto simp: mountVolume_def Let_def returns_iff)
  have "mounts w1 = mounts w"
    using keepsD[of sameMounts "MkdirAll (underSysroot spec (vm_Mountpoint v)) DirPerm" w "Inr ()" w1] w1 keeps_fs
    by (simp add: MkdirAll_def sameMounts_def)
  then show ?thesis using m dev by (auto simp: mountOf_def mnt_Mount_def sysIO_def Let_def split: if_splits)
qed

lemma mountVolumesLoop_fails: "fst (mountVolumesLoop spec vm ks (Some e) w) \<noteq> Inr ()"
proof (induction ks arbitrary: e w)
  case Nil
  then show ?case by (simp add: raiseIO_def failIO_def)
next
  case (Cons k ks)
  then show ?case by (auto simp: bindIO_def tryIO_def failIO_def split: option.splits prod.splits sum.splits)
qed

lemma mountVolumesLoop_returns:
  assumes "mountVolumesLoop spec vm ks None w = (Inr (), w')"
  shows "\<exists>ms. list_all2 (\<lambda>k (dev, v). map_of vm k = Some v \<and> volumeDevice (vm_Device v) = Some dev) ks ms \<and>
    mounts w' = rev (map (\<lambda>(dev, v). mountOf spec dev v) ms) @ mounts w"
  using assms
proof (induction ks arbitrary: w)
  case Nil
  then show ?case by (simp add: raiseIO_def retIO_def)
next
  case (Cons k ks)
  obtain v where v: "map_of vm k = Some v"
    using Cons.prems by (cases "map_of vm k") (auto simp: failIO_def)
  obtain r w1 where m: "mountVolume spec v w = (r, w1)" by (cases "mountVolume spec v w")
  show ?case
  proof (cases r)
    case (Inl e)
    then have "mountVolumesLoop spec vm ks (Some (multierror_Append None e)) w1 = (Inr (), w')"
      using Cons.prems v m by (simp add: bindIO_def tryIO_def)
    then show ?thesis using mountVolumesLoop_fails by (metis fst_conv)
  next
    case (Inr u)
    then obtain dev where dev: "volumeDevice (vm_Device v) = Some dev" "mounts w1 = mountOf spec dev v # mounts w"
      using mountVolume_returns[of spec v w w1] m by auto
    have "mountVolumesLoop spec vm ks None w1 = (Inr (), w')"
      using Cons.prems v m Inr by (simp add: bindIO_def tryIO_def)
    from Cons.IH[OF this] obtain ms where
      "list_all2 (\<lambda>k (dev, v). map_of vm k = Some v \<and> volumeDevice (vm_Device v) = Some dev) ks ms"
      "mounts w' = rev (map (\<lambda>(dev, v). mountOf spec dev v) ms) @ mounts w1" by blast
    then show ?thesis using v dev by (intro exI[of _ "(dev, v) # ms"]) simp
  qed
qed

lemma prefix_le: "prefix a b \<Longrightarrow> (a :: string) \<le> b"
proof (induction a arbitrary: b)
  case (Cons x a)
  then show ?case by (cases b) auto
qed simp

lemma list_all2_keys:
  assumes "list_all2 (\<lambda>k (dev, v). map_of (map (\<lambda>v. (vm_Mountpoint v, v)) vols) k = Some v \<and> Q dev v) ks ms"
  shows "map (vm_Mountpoint \<circ> snd) ms = ks" and "snd ` set ms \<subseteq> set vols" and "\<forall>(dev, v) \<in> set ms. Q dev v"
  using assms by (induction rule: list_all2_induct) (auto dest!: map_of_SomeD)

text \<open>
  Property C14. When the volumes of a mount specification have different mount points and \<open>MountVolumes\<close> returns without an
  error, every volume was mounted exactly once, from the device its reference names and below the system root
  (outside it when the mount point is under \<^verbatim>\<open>/run\<close>), and no volume was mounted before a volume whose mount
  point is a proper prefix of its own, whatever the order of the specification.
\<close>

theorem MountVolumes_parents_first:
  assumes "distinct (map vm_Mountpoint (allVolumes spec))" and "MountVolumes cfg spec w = (Inr (), w')"
  shows "\<exists>ms. mset (map snd ms) = mset (allVolumes spec) \<and>
    mounts w' = rev (map (\<lambda>(dev, v). mountOf spec dev v) ms) @ mounts w \<and>
    (\<forall>(dev, v) \<in> set ms. volumeDevice (vm_Device v) = Some dev) \<and>
    sorted_wrt (\<lambda>(_, u) (_, v). \<not> strict_prefix (vm_Mountpoint v) (vm_Mountpoint u)) ms"
proof -
  let ?mps = "map vm_Mountpoint (allVolumes spec)"
  let ?vm = "map (\<lambda>v. (vm_Mountpoint v, v)) (allVolumes spec)"
  have "mountVolumesLoop spec ?vm (sort ?mps) None w = (Inr (), w')"
    using assms by (simp add: MountVolumes_def volumesOf_eq)
  from mountVolumesLoop_returns[OF this] obtain ms where
    all: "list_all2 (\<lambda>k (dev, v). map_of ?vm k = Some v \<and> volumeDevice (vm_Device v) = Some dev) (sort ?mps) ms"
    and mounts: "mounts w' = rev (map (\<lambda>(dev, v). mountOf spec dev v) ms) @ mounts w" by blast
  note ks = list_all2_keys[OF all]
  have d: "distinct (map snd ms)"
    using assms(1) ks(1) by (metis distinct_map distinct_sort list.map_comp)
  have len: "length ms = length (allVolumes spec)" using ks(1) by (metis length_map length_sort)
  have "set (map snd ms) = set (allVolumes spec)"
    using ks(2) d len assms(1) by (metis card_subset_eq distinct_card distinct_map finite_set length_map list.set_map)
  then have "mset (map snd ms) = mset (allVolumes spec)"
    using d assms(1) by (metis distinct_map set_eq_iff_mset_eq_distinct)
  moreover have "sorted_wrt (\<lambda>(_, u) (_, v). \<not> strict_prefix (vm_Mountpoint v) (vm_Mountpoint u)) ms"
  proof -
    have "sorted (map (vm_Mountpoint \<circ> snd) ms)" using ks(1) by simp
    then have "sorted_wrt (\<lambda>a b. vm_Mountpoint (snd a) \<le> vm_Mountpoint (snd b)) ms" by (simp add: sorted_map)
    then show ?thesis
      by (rule sorted_wrt_mono_rel[rotated]) (auto simp: strict_prefix_def dest: prefix_le)
  qed
  ultimately show ?thesis using mounts ks(3) by blast
qed

definition demoMountSpec :: MountSpec where
  "demoMountSpec = \<lparr>ms_WriteFstab = False, ms_Disable = False, ms_Sysroot = ''/s'', ms_Mode = [], ms_SelinuxRelabel = False,
     ms_Volumes = [\<lparr>vm_Mountpoint = ''/a/b'', vm_Device = ''LABEL=B'', vm_Options = [], vm_FSType = []\<rparr>,
        \<lparr>vm_Mountpoint = ''/a'', vm_Device = ''/dev/x'', vm_Options = [''ro''], vm_FSType = ''ext4''\<rparr>],
     ms_Ephemeral = \<lparr>em_Type = Tmpfs, em_Device = [], em_Size = [], em_Paths = []\<rparr>,
     ms_Persistent = \<lparr>pm_Mode = [], pm_Paths = [], pm_Volume = \<lparr>vm_Mountpoint = [], vm_Device = [], vm_Options = [], vm_FSType = []\<rparr>\<rparr>\<rparr>"

theorem MountVolumes_parents_first_witness:
  "\<exists>ms. mset (map snd ms) = mset (allVolumes demoMountSpec) \<and>
    mounts (snd (MountVolumes (demoRunConfig False) demoMountSpec demoWorld)) =
      rev (map (\<lambda>(dev, v). mountOf demoMountSpec dev v) ms) @ mounts demoWorld \<and>
    (\<forall>(dev, v) \<in> set ms. volumeDevice (vm_Device v) = Some dev) \<and>
    sorted_wrt (\<lambda>(_, u) (_, v). \<not> strict_prefix (vm_Mountpoint v) (vm_Mountpoint u)) ms"
proof -
  have d: "distinct (map vm_Mountpoint (allVolumes demoMountSpec))" by code_simp
  have "fst (MountVolumes (demoRunConfig False) demoMountSpec demoWorld) = Inr ()" by code_simp
  then have m: "MountVolumes (demoRunConfig False) demoMountSpec demoWorld = (Inr (), snd (MountVolumes (demoRunConfig False) demoMountSpec demoWorld))"
    by (metis prod.collapse)
  show ?thesis by (rule MountVolumes_parents_first[OF d m])
qed

end
