(* ===== verification/Init_Action.thy ===== *)
theory Init_Action
  imports Action_Common
begin

section \<open>The init command and the features (pkg/action/init.go, pkg/features, pkg/systemd)\<close>

text \<open>
  The command that prepares a container image: it unpacks the enabled features, links the kernel and builds an initrd.
  The archives of the features are generated at build time; the function \<open>embedded\<close> gives the members of an archive by
  its path, or the error of opening it. A member carries the error of reading its data and the archive the error that
  ends it before its end. Regular files are opened without truncation, so a member is written over the beginning of an
  existing file.
\<close>

subsection \<open>Units (pkg/systemd)\<close>

record Unit =
  un_Name :: string

definition NewUnit :: "string \<Rightarrow> Unit" where "NewUnit name = \<lparr>un_Name = name\<rparr>"

definition systemd_Enable :: "Config \<Rightarrow> Unit \<Rightarrow> (world, unit) io" where
  "systemd_Enable cfg u = bindIO (RunE cfg ''systemctl'' [''enable'', un_Name u]) (\<lambda>_. retIO ())"

definition systemd_Start :: "Config \<Rightarrow> Unit \<Rightarrow> (world, unit) io" where
  "systemd_Start cfg u = bindIO (RunE cfg ''systemctl'' [''start'', un_Name u]) (\<lambda>_. retIO ())"

subsection \<open>Features (pkg/features)\<close>

definition FeatureImmutableRootfs :: string where "FeatureImmutableRootfs = ''immutable-rootfs''"
definition FeatureElementalRootfs :: string where "FeatureElementalRootfs = ''elemental-rootfs''"
definition FeatureElementalSysroot :: string where "FeatureElementalSysroot = ''elemental-sysroot''"
definition FeatureGrubConfig :: string where "FeatureGrubConfig = ''grub-config''"
definition FeatureGrubDefaultBootargs :: string where "FeatureGrubDefaultBootargs = ''grub-default-bootargs''"
definition FeatureElementalSetup :: string where "FeatureElementalSetup = ''elemental-setup''"
definition FeatureDracutConfig :: string where "FeatureDracutConfig = ''dracut-config''"
definition FeatureCloudConfigDefaults :: string where "FeatureCloudConfigDefaults = ''cloud-config-defaults''"
definition FeatureCloudConfigEssentials :: string where "FeatureCloudConfigEssentials = ''cloud-config-essentials''"
definition FeatureBootAssessment :: string where "FeatureBootAssessment = ''boot-assessment''"
definition FeatureAutologin :: string where "FeatureAutologin = ''autologin''"
definition FeatureArmFirmware :: string where "FeatureArmFirmware = ''arm-firmware''"

lemmas feature_names = FeatureImmutableRootfs_def FeatureElementalRootfs_def FeatureElementalSysroot_def FeatureGrubConfig_def
  FeatureGrubDefaultBootargs_def FeatureElementalSetup_def FeatureDracutConfig_def FeatureCloudConfigDefaults_def
  FeatureCloudConfigEssentials_def FeatureBootAssessment_def FeatureAutologin_def FeatureArmFirmware_def

definition AllFeatures :: "string list" where
  "AllFeatures = [FeatureElementalRootfs, FeatureElementalSysroot, FeatureGrubConfig, FeatureGrubDefaultBootargs,
     FeatureElementalSetup, FeatureDracutConfig, FeatureCloudConfigDefaults, FeatureCloudConfigEssentials,
     FeatureBootAssessment, FeatureAutologin, FeatureArmFirmware]"

definition DefaultFeatures :: "string list" where
  "DefaultFeatures = [FeatureElementalRootfs, FeatureElementalSysroot, FeatureGrubConfig, FeatureGrubDefaultBootargs,
     FeatureElementalSetup, FeatureDracutConfig, FeatureCloudConfigDefaults, FeatureCloudConfigEssentials,
     FeatureBootAssessment]"

record Feature =
  ft_Name :: string
  ft_Units :: "Unit list"

definition Feature_New :: "string \<Rightarrow> Unit list \<Rightarrow> Feature" where
  "Feature_New name units = \<lparr>ft_Name = name, ft_Units = units\<rparr>"

fun getLoop :: "string list \<Rightarrow> string list \<Rightarrow> Feature list \<Rightarrow> string list \<Rightarrow> err + Feature list" where
  "getLoop names [] features notFound =
     (if notFound \<noteq> [] then Inl (Errorf (''unknown features: '' @ strings_Join notFound '', '')) else Inr features)"
| "getLoop names (name # rest) features notFound =
     (if name = FeatureCloudConfigDefaults then getLoop names rest (features @ [Feature_New name []]) notFound
      else if name = FeatureCloudConfigEssentials then getLoop names rest (features @ [Feature_New name []]) notFound
      else if name = FeatureImmutableRootfs
      then Inl (Errorf (''Feature immutable-rootfs no longer supported, please use '' @ [CHR 0x27] @ ''elemental-rootfs'' @ [CHR 0x27] @ '' instead''))
      else if name = FeatureElementalRootfs
      then (if FeatureImmutableRootfs \<in> set names
            then Inl (Errorf (''conflicting features: '' @ FeatureElementalRootfs @ '' and '' @ FeatureImmutableRootfs))
            else getLoop names rest (features @ [Feature_New name [NewUnit ''elemental-rootfs.service'']]) notFound)
      else if name = FeatureElementalSysroot then getLoop names rest (features @ [Feature_New name []]) notFound
      else if name = FeatureDracutConfig then getLoop names rest (features @ [Feature_New name []]) notFound
      else if name = FeatureGrubConfig then getLoop names rest (features @ [Feature_New name []]) notFound
      else if name = FeatureGrubDefaultBootargs then getLoop names rest (features @ [Feature_New name []]) notFound
      else if name = FeatureElementalSetup
      then getLoop names rest (features @ [Feature_New name
             [NewUnit ''elemental-setup-reconcile.service'', NewUnit ''elemental-setup-reconcile.timer'',
              NewUnit ''elemental-setup-boot.service'', NewUnit ''elemental-setup-network.service'',
              NewUnit ''elemental-setup-fs.service'', NewUnit ''elemental-setup-initramfs.service'',
              NewUnit ''elemental-setup-rootfs.service'']]) notFound
      else if name = FeatureBootAssessment
      then getLoop names rest (features @ [Feature_New name [NewUnit ''elemental-boot-assessment.service'']]) notFound
      else if name = FeatureAutologin then getLoop names rest (features @ [Feature_New name []]) notFound
      else if name = FeatureArmFirmware then getLoop names rest (features @ [Feature_New name []]) notFound
      else getLoop names rest features (notFound @ [name]))"

definition features_Get :: "string list \<Rightarrow> err + Feature list" where
  "features_Get names = (if names = [] then Inr [] else getLoop names names [] [])"

subsection \<open>Unpacking an archive\<close>

datatype tarType = TypeDir | TypeReg | TypeOther

record tarHeader =
  th_Name :: string
  th_Typeflag :: tarType
  th_Mode :: nat
  th_Data :: string
  th_Err :: "err option"

type_synonym archive = "tarHeader list \<times> err option"

text \<open>\<^verbatim>\<open>OpenFile\<close> with \<^verbatim>\<open>O_CREATE|O_RDWR\<close> and the write at offset 0 that follows.\<close>

definition fs_OpenRdwr :: "string \<Rightarrow> nat \<Rightarrow> (world, unit) io" where
  "fs_OpenRdwr p mode = sysIO (\<lambda>w. case resolve w (pathOf p) of
     None \<Rightarrow> (Inl EFault, w)
   | Some q \<Rightarrow> (case fs_lookup w q of
        Some (NDir _) \<Rightarrow> (Inl EFault, w)
      | Some (NFile _ _) \<Rightarrow> (Inr (), w)
      | _ \<Rightarrow> (if is_dir_at w (butlast q) then (Inr (), fs_set q (NFile mode []) w) else (Inl ENOENT, w))))"

definition fs_WriteStart :: "string \<Rightarrow> string \<Rightarrow> (world, unit) io" where
  "fs_WriteStart p d = sysIO (\<lambda>w. case resolve w (pathOf p) of
     None \<Rightarrow> (Inl EFault, w)
   | Some q \<Rightarrow> (case fs_lookup w q of
        Some (NFile m c) \<Rightarrow> (Inr (), fs_set q (NFile m (d @ drop (length d) c)) w)
      | _ \<Rightarrow> (Inl EFault, w)))"

definition extractEntry :: "string \<Rightarrow> tarHeader \<Rightarrow> (world, unit) io" where
  "extractEntry featureName header =
     (let target = Join [''/'', TrimPrefix (th_Name header) featureName] in
      case th_Typeflag header of
        TypeDir \<Rightarrow> bindIO (okIO False (bindIO (fs_Stat target) (\<lambda>_. retIO True))) (\<lambda>there.
          whenIO (\<not> there) (MkdirAll target (th_Mode header)))
      | TypeReg \<Rightarrow> thenIO (fs_OpenRdwr target (th_Mode header))
          (thenIO (fs_WriteStart target (th_Data header)) (raiseIO (th_Err header)))
      | TypeOther \<Rightarrow> retIO ())"

definition extractTarGzip :: "archive \<Rightarrow> string \<Rightarrow> (world, unit) io" where
  "extractTarGzip tarFile featureName =
     thenIO (forIO (fst tarFile) (extractEntry featureName)) (raiseIO (snd tarFile))"

definition Feature_Install :: "(string \<Rightarrow> err + archive) \<Rightarrow> Config \<Rightarrow> Feature \<Rightarrow> (world, unit) io" where
  "Feature_Install embedded cfg f =
     bindIO (sumIO (embedded (Join [''generated'', ft_Name f @ ''.tar.gz'']))) (\<lambda>tar.
     thenIO (extractTarGzip tar (ft_Name f)) (forIO (ft_Units f) (systemd_Enable cfg)))"

subsection \<open>Relative paths\<close>

fun dropCommon :: "'a list \<Rightarrow> 'a list \<Rightarrow> 'a list \<times> 'a list" where
  "dropCommon (b # bs) (t # ts) = (if b = t then dropCommon bs ts else (b # bs, t # ts))"
| "dropCommon bs ts = (bs, ts)"

definition filepath_Rel :: "string \<Rightarrow> string \<Rightarrow> err + string" where
  "filepath_Rel basepath targpath =
     (let base = Clean basepath; targ = Clean targpath; base' = (if base = ''.'' then [] else base) in
      if targ = base then Inr ''.''
      else if IsAbs base' \<noteq> IsAbs targ then Inl (Errorf (''Rel: cannot make '' @ targpath @ '' relative to '' @ basepath))
      else (case dropCommon (filter (\<lambda>c. c \<noteq> []) (splitOn slash base')) (filter (\<lambda>c. c \<noteq> []) (splitOn slash targ)) of
        (bs, ts) \<Rightarrow>
          (if bs \<noteq> [] \<and> hd bs = ''..'' then Inl (Errorf (''Rel: cannot make '' @ targpath @ '' relative to '' @ basepath))
           else Inr (strings_Join (replicate (length bs) ''..'' @ ts) ''/''))))"

subsection \<open>The command\<close>

record InitSpec =
  is_Mkinitrd :: bool
  is_Force :: bool
  is_Features :: "string list"

definition KernelPath :: string where "KernelPath = ''/boot/vmlinuz''"
definition InitrdPath :: string where "InitrdPath = ''/boot/initrd''"
definition ElementalInitrd :: string where "ElementalInitrd = ''/boot/elemental.initrd''"
definition exit_StatFile :: nat where "exit_StatFile = 28"

definition linkTo :: "string \<Rightarrow> string \<Rightarrow> (world, unit) io" where
  "linkTo linkPath file =
     thenIO (ignoreIO (fs_Remove linkPath))
     (bindIO (sumIO (filepath_Rel (Dir linkPath) file)) (\<lambda>rel. fs_Symlink rel linkPath))"

definition removeElementalInitrds :: "(world, unit) io" where
  "removeElementalInitrds =
     bindIO (FindFiles ''/'' (ElementalInitrd @ ''-*'')) (\<lambda>initImgs. forIO initImgs fs_Remove)"

text \<open>An initrd that is not one of Elemental ends the command with the error of \<open>FindInitrd\<close>, which is nil there.\<close>

definition makeInitrd :: "Config \<Rightarrow> string \<Rightarrow> (world, unit) io" where
  "makeInitrd cfg version =
     thenIO removeElementalInitrds
     (bindIO (Run cfg ''dracut'' [''-f'', ElementalInitrd @ ''-'' @ version, version]) (\<lambda>_.
      bindIO (FindInitrd ''/'') (\<lambda>initrd.
        if \<not> HasPrefix initrd ElementalInitrd then retIO ()
        else linkTo InitrdPath initrd)))"

definition RunInit :: "(string \<Rightarrow> err + archive) \<Rightarrow> RunConfig \<Rightarrow> InitSpec \<Rightarrow> (world, unit) io" where
  "RunInit embedded rcfg spec = (let cfg = rc_Config rcfg in
     bindIO (okIO False (Exists ''/.dockerenv'' False)) (\<lambda>exists.
     if \<not> exists \<and> \<not> is_Force spec
     then failIO (error_New ''running outside of container, pass --force to run anyway'' exit_StatFile)
     else bindIO (sumIO (features_Get (is_Features spec))) (\<lambda>features.
     thenIO (CreateDirStructure ''/'')
     (thenIO (forIO features (Feature_Install embedded cfg))
     (whenIO (is_Mkinitrd spec)
       (bindIO (FindKernel ''/'') (\<lambda>(kernel, version).
        thenIO (whenIO (kernel \<noteq> KernelPath) (linkTo KernelPath kernel))
          (makeInitrd cfg version))))))))"

subsection \<open>Properties\<close>

definition featureUnits :: "string \<Rightarrow> Unit list" where
  "featureUnits name =
     (if name = FeatureElementalRootfs then [NewUnit ''elemental-rootfs.service'']
      else if name = FeatureElementalSetup then
        [NewUnit ''elemental-setup-reconcile.service'', NewUnit ''elemental-setup-reconcile.timer'',
         NewUnit ''elemental-setup-boot.service'', NewUnit ''elemental-setup-network.service'',
         NewUnit ''elemental-setup-fs.service'', NewUnit ''elemental-setup-initramfs.service'',
         NewUnit ''elemental-setup-rootfs.service'']
      else if name = FeatureBootAssessment then [NewUnit ''elemental-boot-assessment.service'']
      else [])"

lemma getLoop_known:
  assumes "name \<in> set AllFeatures"
  shows "getLoop names (name # rest) features notFound =
    (if name = FeatureElementalRootfs \<and> FeatureImmutableRootfs \<in> set names
     then Inl (Errorf (''conflicting features: '' @ FeatureElementalRootfs @ '' and '' @ FeatureImmutableRootfs))
     else getLoop names rest (features @ [Feature_New name (featureUnits name)]) notFound)"
proof -
  have "list_all (\<lambda>name. getLoop names (name # rest) features notFound =
    (if name = FeatureElementalRootfs \<and> FeatureImmutableRootfs \<in> set names
     then Inl (Errorf (''conflicting features: '' @ FeatureElementalRootfs @ '' and '' @ FeatureImmutableRootfs))
     else getLoop names rest (features @ [Feature_New name (featureUnits name)]) notFound)) AllFeatures"
    by (simp add: AllFeatures_def feature_names featureUnits_def)
  then show ?thesis using assms by (simp add: list_all_iff del: getLoop.simps)
qed

lemma getLoop_unknown:
  assumes "name \<notin> set AllFeatures" "name \<noteq> FeatureImmutableRootfs"
  shows "getLoop names (name # rest) features notFound = getLoop names rest features (notFound @ [name])"
  using assms by (simp add: AllFeatures_def)

lemma getLoop_result:
  "case getLoop names rest features notFound of
     Inr fs \<Rightarrow> notFound = [] \<and> set rest \<subseteq> set AllFeatures \<and> map ft_Name fs = map ft_Name features @ rest
   | Inl _ \<Rightarrow> notFound \<noteq> [] \<or> \<not> set rest \<subseteq> set AllFeatures \<or> FeatureImmutableRootfs \<in> set names"
proof (induction rest arbitrary: features notFound)
  case Nil
  then show ?case by simp
next
  case (Cons name rest)
  consider (known) "name \<in> set AllFeatures" | (old) "name = FeatureImmutableRootfs" "name \<notin> set AllFeatures"
    | (unknown) "name \<notin> set AllFeatures" "name \<noteq> FeatureImmutableRootfs" by blast
  then show ?case
  proof cases
    case known
    show ?thesis unfolding getLoop_known[OF known]
      using known Cons.IH[where features = "features @ [Feature_New name (featureUnits name)]" and notFound = notFound]
      by (auto simp: Feature_New_def split: sum.splits)
  next
    case old
    then show ?thesis by (simp add: feature_names AllFeatures_def)
  next
    case unknown
    show ?thesis unfolding getLoop_unknown[OF unknown]
      using unknown Cons.IH[where features = features and notFound = "notFound @ [name]"] by (auto split: sum.splits)
  qed
qed

text \<open>
  \<open>features.Get\<close> returns a feature for every name, in the order of the names, exactly when all of them are
  features of the list \<open>All\<close>; the removed feature immutable-rootfs and every unknown name make it fail.
\<close>

theorem features_Get_result:
  "case features_Get names of
     Inr fs \<Rightarrow> set names \<subseteq> set AllFeatures \<and> map ft_Name fs = names
   | Inl _ \<Rightarrow> \<not> set names \<subseteq> set AllFeatures"
proof -
  have "FeatureImmutableRootfs \<notin> set AllFeatures" by (simp add: AllFeatures_def feature_names)
  then show ?thesis
    using getLoop_result[where names = names and rest = names and features = "[]" and notFound = "[]"]
    by (auto simp: features_Get_def split: sum.splits)
qed

lemma WriteStart_content:
  assumes "fs_WriteStart p d w = (Inr (), w')"
  shows "\<exists>c. contentAt w p = Some c \<and> contentAt w' p = Some (d @ drop (length d) c)"
proof -
  obtain q m c where q: "resolve w (pathOf p) = Some q" "fs_lookup w q = Some (NFile m c)"
    and w': "w' = fs_set q (NFile m (d @ drop (length d) c)) (w\<lparr>ticks := Suc (ticks w)\<rparr>)"
    using assms by (auto simp: fs_WriteStart_def sysIO_def Let_def split: if_splits option.splits node.splits)
  have "q \<noteq> []" using q(2) by (auto simp: fs_lookup_def)
  then show ?thesis using q w' content_set[of "w\<lparr>ticks := Suc (ticks w)\<rparr>" p q]
    by (simp add: contentAt_def[of w p])
qed

lemma OpenRdwr_content:
  assumes "fs_OpenRdwr p mode w = (Inr (), w')"
  shows "contentAt w' p = Some (case contentAt w p of None \<Rightarrow> [] | Some c \<Rightarrow> c)"
proof -
  obtain q where q: "resolve w (pathOf p) = Some q"
    using assms by (auto simp: fs_OpenRdwr_def sysIO_def Let_def split: if_splits option.splits)
  show ?thesis
  proof (cases "fs_lookup w q")
    case None
    then have "w' = fs_set q (NFile mode []) (w\<lparr>ticks := Suc (ticks w)\<rparr>)" "q \<noteq> []"
      using assms q by (auto simp: fs_OpenRdwr_def sysIO_def Let_def fs_lookup_def split: if_splits)
    then show ?thesis using q None content_set[of "w\<lparr>ticks := Suc (ticks w)\<rparr>" p q]
      by (simp add: contentAt_def[of w p])
  next
    case (Some n)
    then show ?thesis using assms q follow_not_link[OF q[unfolded resolve_def]]
      by (cases n) (auto simp: fs_OpenRdwr_def sysIO_def Let_def contentAt_def split: if_splits)
  qed
qed


lemma raiseIO_Inr: "raiseIO eo w = (Inr (), w') \<longleftrightarrow> eo = None \<and> w' = w"
  by (auto simp: raiseIO_def retIO_def failIO_def split: option.splits)

text \<open>
  Property C37. A regular file of a feature archive is written over the beginning of the file it replaces: what the old
  file has beyond the length of the member is left there, because the file is not truncated. The member
  is installed exactly only when the old file does not exist or is not longer.
\<close>

theorem extractEntry_content:
  assumes "th_Typeflag h = TypeReg" and "extractEntry name h w = (Inr (), w')"
  shows "contentAt w' (Join [''/'', TrimPrefix (th_Name h) name]) =
    Some (th_Data h @ drop (length (th_Data h)) (case contentAt w (Join [''/'', TrimPrefix (th_Name h) name]) of None \<Rightarrow> [] | Some c \<Rightarrow> c))"
proof -
  let ?t = "Join [''/'', TrimPrefix (th_Name h) name]"
  obtain w1 where w1: "fs_OpenRdwr ?t (th_Mode h) w = (Inr (), w1)" and w': "fs_WriteStart ?t (th_Data h) w1 = (Inr (), w')"
    using assms by (auto simp: extractEntry_def Let_def returns_iff raiseIO_Inr)
  show ?thesis using OpenRdwr_content[OF w1] WriteStart_content[OF w'] by auto
qed

definition demoHeader :: tarHeader where
  "demoHeader = \<lparr>th_Name = ''f/etc/x'', th_Typeflag = TypeReg, th_Mode = 420, th_Data = ''new'', th_Err = None\<rparr>"

definition featureWorld :: world where
  "featureWorld = demoWorld\<lparr>files := [([''etc''], NDir 493), ([''etc'', ''x''], NFile 420 ''before'')]\<rparr>"

theorem extractEntry_content_witness:
  "contentAt (snd (extractEntry ''f'' demoHeader featureWorld)) ''/etc/x'' = Some ''newore''"
proof -
  have m: "extractEntry ''f'' demoHeader featureWorld = (Inr (), snd (extractEntry ''f'' demoHeader featureWorld))"
    using surjective_pairing[of "extractEntry ''f'' demoHeader featureWorld"] by (simp add: prod_eq_iff) code_simp
  have t: "Join [''/'', TrimPrefix (th_Name demoHeader) ''f''] = ''/etc/x''" "contentAt featureWorld ''/etc/x'' = Some ''before''"
    "th_Typeflag demoHeader = TypeReg" "th_Data demoHeader = ''new''"
    by code_simp+
  show ?thesis using extractEntry_content[OF t(3) m] by (simp add: t)
qed

definition dracutFails :: RunConfig where
  "dracutFails = (demoRunConfig False)\<lparr>rc_Config := demoConfig\<lparr>cfg_Run := (\<lambda>c _ w. ((if c = ''dracut'' then Some EFault else None, []), w))\<rparr>\<rparr>"

definition initWorld :: world where
  "initWorld = demoWorld\<lparr>files := [([''.dockerenv''], NFile 420 []), ([''boot''], NDir 493), ([''boot'', ''vmlinuz-6''], NFile 420 []),
     ([''boot'', ''initrd-6''], NFile 420 []), ([''lib''], NDir 493), ([''lib'', ''modules''], NDir 493), ([''lib'', ''modules'', ''6''], NDir 493)]\<rparr>"

text \<open>
  A failing dracut is not reported: the command returns without an error when the distribution's initrd is
  the only one there, and no initrd link is made although an initrd was asked for.
\<close>

theorem RunInit_silent:
  "fst (RunInit (\<lambda>_. Inl ENOENT) dracutFails \<lparr>is_Mkinitrd = True, is_Force = False, is_Features = []\<rparr> initWorld) = Inr () \<and>
   fs_lookup (snd (RunInit (\<lambda>_. Inl ENOENT) dracutFails \<lparr>is_Mkinitrd = True, is_Force = False, is_Features = []\<rparr> initWorld)) [''boot'', ''initrd''] = None"
  by code_simp

end
