(* ===== verification/Config_Defaults.thy ===== *)
theory Config_Defaults
  imports State_History Mount_Action Init_Action
begin

section \<open>Default configurations and specifications (pkg/config/config.go)\<close>

text \<open>
  The constructors of the configurations and of the specifications of every command. The interfaces of a configuration are
  the function fields of \<open>Config\<close>; \<open>sys\<close> supplies those of the real system, which the options replace. A partition is a
  pointer in the source: its address is \<open>p_ref\<close>, and a change through one field of \<open>ElementalPartitions\<close> is seen through
  every field that holds the same pointer (\<open>putParts\<close>). The properties: the default specifications are accepted by the
  \<open>Sanitize\<close> method of their type, a reset specification has every partition the reset needs, and the device of every
  partition of an upgrade is the one \<^verbatim>\<open>blkid\<close> finds by its label.
\<close>

definition partSuffix :: string where "partSuffix = ''.part''"
definition mountSuffix :: string where "mountSuffix = ''.mount''"
definition kernelSecurity :: string where "kernelSecurity = ''/sys/kernel/security/lsm''"

definition BootSize :: uint where "BootSize = MinPartSize"
definition OEMSize :: uint where "OEMSize = MinPartSize"
definition RecoverySize :: uint where "RecoverySize = 4096"
definition StateSize :: uint where "StateSize = 8192"
definition PersistentSize :: uint where "PersistentSize = 0"
definition ImgSize :: uint where "ImgSize = 0"
definition BootFs :: string where "BootFs = ''vfat''"
definition LinuxFs :: string where "LinuxFs = ''ext4''"
definition OEMDir :: string where "OEMDir = ''/run/elemental/oem''"
definition RecoveryDir :: string where "RecoveryDir = ''/run/elemental/recovery''"
definition StateDir :: string where "StateDir = ''/run/elemental/state''"
definition ISOBaseTree :: string where "ISOBaseTree = ''/run/rootfsbase''"
definition TransitionDir :: string where "TransitionDir = ''/run/elemental/transition''"
definition EfiDevice :: string where "EfiDevice = ''/sys/firmware/efi''"
definition DiskWorkDir :: string where "DiskWorkDir = ''build''"
definition ISOLabel :: string where "ISOLabel = ''COS_LIVE''"
definition BuildImgName :: string where "BuildImgName = ''elemental''"
definition RawType :: string where "RawType = ''raw''"
definition GrubDefEntry :: string where "GrubDefEntry = ''Elemental''"
definition ISODefaultExtraCmdline :: string where
  "ISODefaultExtraCmdline = ''security=selinux enforcing=0 console=tty1 console=ttyS0''"
definition RecoveryImgName :: string where "RecoveryImgName = ''recovery''"

definition GetDefaultSquashfsCompressionOptions :: "string list" where
  "GetDefaultSquashfsCompressionOptions = [''-b'', ''1024k'']"

subsection \<open>Configurations\<close>

type_synonym GenericOptions = "Config \<Rightarrow> err option \<times> Config"

definition WithRunner ::
  "(string \<Rightarrow> string list \<Rightarrow> world \<Rightarrow> (err option \<times> string) \<times> world) \<Rightarrow> (string \<Rightarrow> bool) \<Rightarrow> GenericOptions" where
  "WithRunner run commandExists r = (None, r\<lparr>cfg_Run := run, cfg_CommandExists := commandExists\<rparr>)"

definition WithClient :: "(string \<Rightarrow> string \<Rightarrow> (world, unit) io) \<Rightarrow> GenericOptions" where
  "WithClient client r = (None, r\<lparr>cfg_GetURL := client\<rparr>)"

definition WithCloudInitRunner :: "(bool \<Rightarrow> string \<Rightarrow> string list \<Rightarrow> (world, unit) io) \<Rightarrow> GenericOptions" where
  "WithCloudInitRunner ci r = (None, r\<lparr>cfg_CloudInitRun := ci\<rparr>)"

definition WithImageExtractor ::
  "(string \<Rightarrow> string \<Rightarrow> string \<Rightarrow> bool \<Rightarrow> bool \<Rightarrow> (world, string) io) \<Rightarrow> GenericOptions" where
  "WithImageExtractor extractor r = (None, r\<lparr>cfg_ExtractImage := extractor\<rparr>)"

definition WithPlatform :: "(string \<Rightarrow> err + string \<times> string) \<Rightarrow> string \<Rightarrow> GenericOptions" where
  "WithPlatform parse platform r = (case ParsePlatform parse platform of
     Inl e \<Rightarrow> (Some e, r\<lparr>cfg_Platform := None\<rparr>) | Inr p \<Rightarrow> (None, r\<lparr>cfg_Platform := Some p\<rparr>))"

fun applyOptions :: "GenericOptions list \<Rightarrow> Config \<Rightarrow> Config option" where
  "applyOptions [] c = Some c"
| "applyOptions (opt # opts) c = (case opt c of (Some e, _) \<Rightarrow> None | (None, c') \<Rightarrow> applyOptions opts c')"

definition NewConfig :: "string \<Rightarrow> Config \<Rightarrow> GenericOptions list \<Rightarrow> Config option" where
  "NewConfig goarch sys opts = (case NewPlatformFromArch goarch of
     Inl e \<Rightarrow> None
   | Inr defaultPlatform \<Rightarrow> applyOptions opts
       (sys\<lparr>cfg_Platform := Some defaultPlatform, cfg_SquashFsCompressionConfig := GetDefaultSquashfsCompressionOptions,
            cfg_TLSVerify := True, cfg_Cosign := False, cfg_Verify := False, cfg_CosignPubKey := [], cfg_LocalImage := False,
            cfg_Arch := [], cfg_SquashFsNoCompression := False, cfg_CloudInitPaths := [], cfg_Strict := False\<rparr>))"

type_synonym yamlState = "string \<Rightarrow> InstallState \<Rightarrow> err + InstallState"

text \<open>\<^verbatim>\<open>installState, _ := cfg.LoadInstallState()\<close>: nil when the state cannot be read.\<close>

definition loadedState :: "yamlState \<Rightarrow> (world, InstallState option) io" where
  "loadedState yaml = (\<lambda>w. case LoadInstallState yaml w of
     (Inl e, w') \<Rightarrow> (if e = Panic then Inl Panic else Inr None, w') | (Inr st, w') \<Rightarrow> (Inr (Some st), w'))"

definition NewRunConfig :: "string \<Rightarrow> yamlState \<Rightarrow> RunConfig \<Rightarrow> GenericOptions list \<Rightarrow> (world, RunConfig) io" where
  "NewRunConfig goarch yaml sys opts =
     bindIO (deref (NewConfig goarch (rc_Config sys) opts)) (\<lambda>config.
     bindIO (loadedState yaml) (\<lambda>installState.
       retIO (sys\<lparr>rc_Config := config, rc_Reboot := False, rc_PowerOff := False, rc_EjectCD := False,
         rc_Snapshotter := (case installState of None \<Rightarrow> NewLoopDevice | Some st \<Rightarrow> is_Snapshotter st)\<rparr>)))"

record BuildConfig =
  bc_Date :: bool
  bc_Name :: string
  bc_OutDir :: string
  bc_Snapshotter :: SnapshotterConfig
  bc_Config :: Config

definition BuildConfig_Sanitize :: "string \<Rightarrow> BuildConfig \<Rightarrow> err option \<times> BuildConfig" where
  "BuildConfig_Sanitize goarch b =
     (let c = (bc_Config b)\<lparr>cfg_CloudInitPaths := GetCloudInitPaths @ cfg_CloudInitPaths (bc_Config b)\<rparr>
      in case Config_Sanitize goarch c of (e, c') \<Rightarrow> (e, b\<lparr>bc_Config := c'\<rparr>))"

text \<open>A nil configuration is dereferenced: the failure of an option is a panic.\<close>

definition NewBuildConfig :: "string \<Rightarrow> Config \<Rightarrow> GenericOptions list \<Rightarrow> err + BuildConfig" where
  "NewBuildConfig goarch sys opts = (case NewConfig goarch sys opts of
     None \<Rightarrow> Inl Panic
   | Some c \<Rightarrow> Inr \<lparr>bc_Date = False, bc_Name = BuildImgName, bc_OutDir = [], bc_Snapshotter = NewLoopDevice, bc_Config = c\<rparr>)"

subsection \<open>Specifications without a host\<close>

definition newPartition :: "nat \<Rightarrow> string \<Rightarrow> uint \<Rightarrow> string \<Rightarrow> string \<Rightarrow> string \<Rightarrow> string \<Rightarrow> string list \<Rightarrow> Partition" where
  "newPartition ref label sz name fs mnt path flags =
     \<lparr>p_ref = ref, p_Name = name, p_FilesystemLabel = label, p_Size = sz, p_FS = fs, p_Flags = flags, p_MountPoint = mnt,
      p_Path = path, p_Disk = []\<rparr>"

definition NewInstallElementalPartitions :: "nat \<Rightarrow> ElementalPartitions" where
  "NewInstallElementalPartitions ref =
     snd (SetFirmwarePartitions (ref + 5) ''efi'' ''gpt''
       \<lparr>ep_BIOS = None,
        ep_Boot = Some (newPartition ref BootLabel BootSize BootPartName BootFs BootDir [] [''esp'']),
        ep_OEM = Some (newPartition (ref + 1) OEMLabel OEMSize OEMPartName LinuxFs OEMDir [] []),
        ep_Recovery = Some (newPartition (ref + 2) RecoveryLabel RecoverySize RecoveryPartName LinuxFs RecoveryDir [] []),
        ep_State = Some (newPartition (ref + 3) StateLabel StateSize StatePartName LinuxFs StateDir [] []),
        ep_Persistent = Some (newPartition (ref + 4) PersistentLabel PersistentSize PersistentPartName LinuxFs PersistentDir [] [])\<rparr>)"

definition NewInstallSpec :: "nat \<Rightarrow> (world, InstallSpec) io" where
  "NewInstallSpec ref = bindIO (okIO False (Exists ISOBaseTree False)) (\<lambda>isoRootExists.
     let system = (if isoRootExists then NewDirSrc ISOBaseTree else NewEmptySrc) in
     retIO \<lparr>ins_Target = [], ins_Firmware = ''efi'', ins_PartTable = ''gpt'',
       ins_Partitions = NewInstallElementalPartitions ref, ins_ExtraPartitions = [], ins_NoFormat = False, ins_Force = False,
       ins_CloudInit = [], ins_Iso = [], ins_GrubDefEntry = [], ins_System = Some system,
       ins_RecoverySystem = \<lparr>img_File = Join [RecoveryDir, BootPath, RecoveryImgFile], img_Label = [], img_Size = 0,
          img_FS = SquashFs, img_Source = Some system, img_MountPoint = TransitionDir, img_LoopDevice = []\<rparr>,
       ins_DisableBootEntry = False, ins_SnapshotLabels = []\<rparr>)"

definition NewInitSpec :: InitSpec where
  "NewInitSpec = \<lparr>is_Mkinitrd = True, is_Force = False, is_Features = AllFeatures\<rparr>"

definition NewMountSpec :: "(world, MountSpec) io" where
  "NewMountSpec = bindIO (okIO [] (fs_ReadFile kernelSecurity)) (\<lambda>lsm.
     retIO \<lparr>ms_WriteFstab = True, ms_Disable = False, ms_Sysroot = ''/sysroot'', ms_Mode = [],
       ms_SelinuxRelabel = Contains lsm ''selinux'',
       ms_Volumes =
         [\<lparr>vm_Mountpoint = OEMPath, vm_Device = ''PARTLABEL='' @ OEMPartName, vm_Options = [''rw'', ''defaults''], vm_FSType = []\<rparr>,
          \<lparr>vm_Mountpoint = BootDir, vm_Device = ''PARTLABEL='' @ BootPartName, vm_Options = [''ro'', ''defaults''], vm_FSType = []\<rparr>],
       ms_Ephemeral = \<lparr>em_Type = Tmpfs, em_Device = [], em_Size = ''25%'', em_Paths = [''/var'', ''/etc'', ''/srv'']\<rparr>,
       ms_Persistent = \<lparr>pm_Mode = OverlayMode,
         pm_Paths = [''/etc/systemd'', ''/etc/ssh'', ''/home'', ''/opt'', ''/root'', ''/var/log''],
         pm_Volume = \<lparr>vm_Mountpoint = PersistentDir, vm_Device = ''PARTLABEL='' @ PersistentPartName,
           vm_Options = [''rw'', ''defaults''], vm_FSType = []\<rparr>\<rparr>\<rparr>)"

definition NewDiskElementalPartitions :: "nat \<Rightarrow> string \<Rightarrow> ElementalPartitions" where
  "NewDiskElementalPartitions ref workdir =
     (let mnt = (\<lambda>name. Join [workdir, name @ mountSuffix]); path = (\<lambda>name. Join [workdir, name @ partSuffix]) in
      \<lparr>ep_BIOS = None,
       ep_Boot = Some (newPartition ref BootLabel BootSize BootPartName BootFs BootDir (path BootPartName) [''esp'']),
       ep_OEM = Some (newPartition (ref + 1) OEMLabel OEMSize OEMPartName LinuxFs (mnt OEMPartName) (path OEMPartName) []),
       ep_Recovery = Some (newPartition (ref + 2) RecoveryLabel RecoverySize RecoveryPartName LinuxFs
         (mnt RecoveryPartName) (path RecoveryPartName) []),
       ep_State = Some (newPartition (ref + 3) StateLabel StateSize StatePartName LinuxFs (mnt StatePartName) (path StatePartName) []),
       ep_Persistent = Some (newPartition (ref + 4) PersistentLabel PersistentSize PersistentPartName LinuxFs
         (mnt PersistentPartName) (path PersistentPartName) [])\<rparr>)"

definition NewDiskSpec :: "nat \<Rightarrow> BuildConfig \<Rightarrow> DiskSpec" where
  "NewDiskSpec ref cfg =
     (let workdir = Join [bc_OutDir cfg, DiskWorkDir];
          parts = NewDiskElementalPartitions ref workdir
      in \<lparr>dsk_Size = 0,
          dsk_Partitions = (if sc_Type (bc_Snapshotter cfg) = BtrfsSnapshotterType
            then parts\<lparr>ep_State := map_option (\<lambda>p. p\<lparr>p_FS := BtrfsFs\<rparr>) (ep_State parts)\<rparr> else parts),
          dsk_Expandable = False, dsk_System = Some NewEmptySrc,
          dsk_RecoverySystem = \<lparr>img_File = Join [workdir, RecoveryPartName, BootPath, RecoveryImgFile], img_Label = [],
            img_Size = ImgSize, img_FS = SquashFs, img_Source = Some NewEmptySrc,
            img_MountPoint = Join [workdir, TrimSuffix RecoveryImgFile (Ext RecoveryImgFile) @ mountSuffix], img_LoopDevice = []\<rparr>,
          dsk_GrubConf = Join [GrubCfgPath, grubCfgFile], dsk_CloudInit = [], dsk_GrubDefEntry = [], dsk_Type = RawType,
          dsk_DeployCmd = [''elemental'', ''--debug'', ''reset'', ''--reboot'']\<rparr>)"

definition NewISO :: LiveISO where
  "NewISO = \<lparr>iso_RootFS = [], iso_UEFI = [], iso_Image = [], iso_Label = ISOLabel, iso_GrubEntry = GrubDefEntry,
     iso_BootloaderInRootFs = True, iso_Firmware = ''efi'', iso_ExtraCmdline = ISODefaultExtraCmdline\<rparr>"

subsection \<open>Specifications of an installed host\<close>

definition getRecoveryState :: "InstallState option \<Rightarrow> SystemState" where
  "getRecoveryState state =
     (let recovery = \<lparr>ss_Source = None, ss_Digest = [], ss_Active = False, ss_Label = SystemLabel, ss_FS = SquashFs,
        ss_Labels = [], ss_Date = [], ss_FromAction = []\<rparr> in
      case state of None \<Rightarrow> recovery
      | Some st \<Rightarrow> (case is_Partitions st RecoveryPartName of
           None \<Rightarrow> recovery
         | Some rPart \<Rightarrow> (case ps_RecoveryImage rPart of None \<Rightarrow> recovery | Some img \<Rightarrow> img)))"

definition setPart :: "(ElementalPartitions \<Rightarrow> Partition option) \<Rightarrow> (Partition \<Rightarrow> Partition) \<Rightarrow>
    ElementalPartitions \<Rightarrow> ElementalPartitions" where
  "setPart sel f ep = (case sel ep of None \<Rightarrow> ep | Some p \<Rightarrow> putParts [f p] ep)"

definition defMount :: "string \<Rightarrow> Partition \<Rightarrow> Partition" where
  "defMount d p = (if p_MountPoint p = [] then p\<lparr>p_MountPoint := d\<rparr> else p)"

definition hostPartitions :: "yamlState \<Rightarrow> Config \<Rightarrow> (world, ElementalPartitions \<times> InstallState option) io" where
  "hostPartitions yaml cfg = bindIO (loadedState yaml) (\<lambda>installState. (\<lambda>w.
     case cfg_AllPartitions cfg w of
       (Inl _, w') \<Rightarrow> (Inl (Errorf ''could not read host partitions''), w')
     | (Inr parts, w') \<Rightarrow> (Inr (NewElementalPartitionsFromList parts installState, installState), w')))"

definition NewUpgradeSpec :: "yamlState \<Rightarrow> Config \<Rightarrow> (world, UpgradeSpec) io" where
  "NewUpgradeSpec yaml cfg = bindIO (hostPartitions yaml cfg) (\<lambda>(ep0, installState).
     let rState = getRecoveryState installState;
         ep1 = setPart ep_Recovery (defMount RecoveryDir) ep0;
         recovery = (case ep_Recovery ep1 of
           None \<Rightarrow> \<lparr>img_File = [], img_Label = [], img_Size = 0, img_FS = [], img_Source = None, img_MountPoint = [], img_LoopDevice = []\<rparr>
         | Some p \<Rightarrow> \<lparr>img_File = Join [p_MountPoint p, BootTransitionPath, RecoveryImgFile], img_Label = ss_Label rState,
             img_Size = ImgSize, img_FS = ss_FS rState, img_Source = Some NewEmptySrc, img_MountPoint = TransitionDir,
             img_LoopDevice = []\<rparr>);
         ep2 = setPart ep_State (defMount StateDir) ep1;
         ep3 = setPart ep_Boot (defMount BootDir) ep2;
         ep4 = setPart ep_Persistent (defMount PersistentDir) ep3
     in retIO \<lparr>upg_RecoveryUpgrade = False, upg_System = Some NewEmptySrc, upg_RecoverySystem = recovery, upg_GrubDefEntry = [],
          upg_BootloaderUpgrade = False, upg_SnapshotLabels = [], upg_Partitions = ep4, upg_State = installState\<rparr>)"

definition named :: "string \<Rightarrow> string \<Rightarrow> Partition \<Rightarrow> Partition" where
  "named d name p = (defMount d p)\<lparr>p_Name := name\<rparr>"

definition resetSourceImage :: "(world, ImageSource) io" where
  "resetSourceImage =
     (let recoveryImg = Join [RunningStateDir, BootPath, RecoveryImgFile];
          oldRecoveryImg = Join [RunningStateDir, RecoveryImgFile] in
      bindIO (okIO False (Exists recoveryImg False)) (\<lambda>e1.
        if e1 then retIO (NewFileSrc recoveryImg)
        else bindIO (okIO False (Exists oldRecoveryImg False)) (\<lambda>e2.
          retIO (if e2 then NewFileSrc oldRecoveryImg else NewEmptySrc))))"

definition resetPartitions :: "bool \<Rightarrow> ElementalPartitions \<Rightarrow> err + (ElementalPartitions \<times> string)" where
  "resetPartitions efiExists ep0 =
     (if efiExists \<and> ep_Boot ep0 = None then Inl (Errorf ''Bootloader partition not found'')
      else let ep1 = (if efiExists then setPart ep_Boot (named BootDir BootPartName) ep0 else ep0) in
      if ep_State ep1 = None then Inl (Errorf ''state partition not found'')
      else let ep2 = setPart ep_State (named StateDir StatePartName) ep1 in
      if ep_Recovery ep2 = None then Inl (Errorf ''recovery partition not found'')
      else let ep3 = setPart ep_Recovery (defMount RecoveryDir) ep2;
               target = (case ep_State ep3 of None \<Rightarrow> [] | Some p \<Rightarrow> p_Disk p);
               ep4 = setPart ep_OEM (named OEMDir OEMPartName) ep3;
               ep5 = setPart ep_Persistent (named PersistentDir PersistentPartName) ep4
           in Inr (ep5, target))"

definition NewResetSpec :: "yamlState \<Rightarrow> Config \<Rightarrow> (world, ResetSpec) io" where
  "NewResetSpec yaml cfg = bindIO (BootedFrom cfg RecoveryImgName) (\<lambda>booted.
     if \<not> booted then failIO (Errorf ''reset can only be called from the recovery system'')
     else bindIO (okIO False (Exists EfiDevice False)) (\<lambda>efiExists.
     bindIO (hostPartitions yaml cfg) (\<lambda>(ep0, installState).
     bindIO (sumIO (resetPartitions efiExists ep0)) (\<lambda>(ep, target).
     bindIO resetSourceImage (\<lambda>imgSource.
       retIO \<lparr>rst_FormatPersistent = False, rst_FormatOEM = False, rst_CloudInit = [], rst_GrubDefEntry = GrubDefEntry,
         rst_System = Some imgSource, rst_Partitions = ep, rst_Target = target, rst_Efi = efiExists, rst_State = installState,
         rst_DisableBootEntry = False, rst_SnapshotLabels = []\<rparr>)))))"

subsection \<open>The devices of an upgrade\<close>

definition execBlkid :: "RunConfig \<Rightarrow> string \<Rightarrow> (world, string) io" where
  "execBlkid r name =
     (if cfg_CommandExists (rc_Config r) ''blkid'' then RunE (rc_Config r) ''blkid'' [''-L'', name]
      else failIO (Errorf ''blkid not found''))"

definition reconcilePartition :: "RunConfig \<Rightarrow> Partition \<Rightarrow> (world, Partition) io" where
  "reconcilePartition r part = (\<lambda>w. case execBlkid r (p_FilesystemLabel part) w of
     (Inl e, w') \<Rightarrow> (Inl (Errorf (''error discovering current partition using label '' @ p_FilesystemLabel part)), w')
   | (Inr out, w') \<Rightarrow> (let discoveredMount = TrimSpace out in
       (Inr (if p_Path part \<noteq> discoveredMount then part\<lparr>p_Path := discoveredMount\<rparr> else part), w')))"

definition reconcileField :: "RunConfig \<Rightarrow> (ElementalPartitions \<Rightarrow> Partition option) \<Rightarrow> ElementalPartitions \<Rightarrow>
    (world, ElementalPartitions) io" where
  "reconcileField r sel ep = (case sel ep of None \<Rightarrow> retIO ep
     | Some p \<Rightarrow> bindIO (reconcilePartition r p) (\<lambda>p'. retIO (putParts [p'] ep)))"

definition ReconcileUpgradeSpec :: "RunConfig \<Rightarrow> UpgradeSpec \<Rightarrow> (world, UpgradeSpec) io" where
  "ReconcileUpgradeSpec r spec =
     bindIO (reconcileField r ep_State (upg_Partitions spec)) (\<lambda>ep1.
     bindIO (reconcileField r ep_Recovery ep1) (\<lambda>ep2.
     bindIO (reconcileField r ep_Persistent ep2) (\<lambda>ep3.
     bindIO (reconcileField r ep_OEM ep3) (\<lambda>ep4. retIO (spec\<lparr>upg_Partitions := ep4\<rparr>)))))"

subsection \<open>Changes through a shared partition\<close>

lemmas part_fields = ElementalPartitions.simps

text \<open>The fields of \<open>ElementalPartitions\<close> commute with the update of a list of partitions.\<close>

lemma putParts_sel:
  "sel \<in> {ep_BIOS, ep_Boot, ep_OEM, ep_Recovery, ep_State, ep_Persistent} \<Longrightarrow>
   sel (putParts ps ep) = map_option (sameRef ps) (sel ep)"
  by (auto simp: putParts_def)

lemma sameRef_single: "sameRef [q] p = (if p_ref q = p_ref p then q else p)"
  by (simp add: sameRef_def)

lemma pred_sameRef: "Q q \<Longrightarrow> pred_option Q po \<Longrightarrow> pred_option Q (map_option (sameRef [q]) po)"
  by (cases po) (simp_all add: sameRef_single)

lemma setPart_all:
  assumes "sel \<in> {ep_BIOS, ep_Boot, ep_OEM, ep_Recovery, ep_State, ep_Persistent}" and "\<And>p. Q (f p)"
  shows "pred_option Q (sel ep) \<Longrightarrow> pred_option Q (sel (setPart sel' f ep))"
  by (cases "sel' ep") (simp_all add: setPart_def putParts_sel[OF assms(1)] pred_sameRef assms(2))

lemma setPart_own:
  assumes "sel \<in> {ep_BIOS, ep_Boot, ep_OEM, ep_Recovery, ep_State, ep_Persistent}" and "\<And>p. Q (f p)" "\<And>p. p_ref (f p) = p_ref p"
  shows "pred_option Q (sel (setPart sel f ep))"
  by (cases "sel ep") (simp_all add: setPart_def putParts_sel[OF assms(1)] sameRef_single assms(2,3))

lemma defMount_props: "d \<noteq> [] \<Longrightarrow> p_MountPoint (defMount d p) \<noteq> []" "p_ref (defMount d p) = p_ref p"
  by (simp_all add: defMount_def)

lemma named_props: "d \<noteq> [] \<Longrightarrow> p_MountPoint (named d n p) \<noteq> []" "p_ref (named d n p) = p_ref p"
  by (simp_all add: named_def defMount_props)

lemmas default_dirs = BootDir_def StateDir_def RecoveryDir_def OEMDir_def PersistentDir_def

abbreviation mountable :: "Partition option \<Rightarrow> bool" where
  "mountable \<equiv> pred_option (\<lambda>p. p_MountPoint p \<noteq> [])"

lemma resetPartitions_mountable:
  assumes "resetPartitions efi ep0 = Inr (ep, target)"
  shows "ep_State ep \<noteq> None" "ep_Recovery ep \<noteq> None" "efi \<Longrightarrow> ep_Boot ep \<noteq> None"
    "mountable (ep_State ep)" "mountable (ep_Recovery ep)" "mountable (ep_OEM ep)" "mountable (ep_Persistent ep)"
    "efi \<Longrightarrow> mountable (ep_Boot ep)"
proof -
  let ?ep1 = "if efi then setPart ep_Boot (named BootDir BootPartName) ep0 else ep0"
  let ?ep2 = "setPart ep_State (named StateDir StatePartName) ?ep1"
  let ?ep3 = "setPart ep_Recovery (defMount RecoveryDir) ?ep2"
  let ?ep4 = "setPart ep_OEM (named OEMDir OEMPartName) ?ep3"
  have ep: "ep = setPart ep_Persistent (named PersistentDir PersistentPartName) ?ep4"
    and some: "efi \<Longrightarrow> ep_Boot ep0 \<noteq> None" "ep_State ?ep1 \<noteq> None" "ep_Recovery ?ep2 \<noteq> None"
    using assms by (auto simp: resetPartitions_def Let_def split: if_splits)
  note all = setPart_all[where Q = "\<lambda>p. p_MountPoint p \<noteq> []"] and own = setPart_own[where Q = "\<lambda>p. p_MountPoint p \<noteq> []"]
  note props = defMount_props named_props default_dirs
  show "ep_State ep \<noteq> None" "ep_Recovery ep \<noteq> None" "efi \<Longrightarrow> ep_Boot ep \<noteq> None"
    using some by (auto simp: ep setPart_def putParts_def split: option.splits if_splits)
  show "mountable (ep_State ep)" "mountable (ep_Recovery ep)" "mountable (ep_OEM ep)" "mountable (ep_Persistent ep)"
    "efi \<Longrightarrow> mountable (ep_Boot ep)"
    unfolding ep by (simp_all add: all own props)
qed

subsection \<open>Properties\<close>

lemma resetSourceImage_result:
  assumes "resetSourceImage w = (Inr src, w')"
  shows "src = NewEmptySrc \<or> (\<exists>f. f \<noteq> [] \<and> src = NewFileSrc f)"
proof -
  have "Join [RunningStateDir, BootPath, RecoveryImgFile] \<noteq> []" "Join [RunningStateDir, RecoveryImgFile] \<noteq> []"
    by code_simp+
  then show ?thesis using assms
    by (auto simp: resetSourceImage_def Let_def returns_iff retIO_def split: if_splits)
qed

text \<open>
  Property C26. A specification \<open>NewResetSpec\<close> returns names the state and the recovery partition, and the boot partition on
  an EFI host; these and the OEM and persistent partitions, if there are any, have a mount point, also when two fields hold the
  same partition. It is accepted by \<open>Sanitize\<close> unless no recovery image was found.
\<close>

theorem NewResetSpec_complete:
  assumes "NewResetSpec yaml cfg w = (Inr spec, w')"
  shows "ep_State (rst_Partitions spec) \<noteq> None \<and> ep_Recovery (rst_Partitions spec) \<noteq> None \<and>
    mountable (ep_State (rst_Partitions spec)) \<and> mountable (ep_Recovery (rst_Partitions spec)) \<and>
    mountable (ep_OEM (rst_Partitions spec)) \<and> mountable (ep_Persistent (rst_Partitions spec)) \<and>
    (rst_Efi spec \<longrightarrow> ep_Boot (rst_Partitions spec) \<noteq> None \<and> mountable (ep_Boot (rst_Partitions spec))) \<and>
    (ResetSpec_Sanitize spec = None \<longleftrightarrow> rst_System spec \<noteq> Some NewEmptySrc)"
proof -
  obtain efi ep0 ep target src w1 w2 where parts: "resetPartitions efi ep0 = Inr (ep, target)"
    and img: "resetSourceImage w1 = (Inr src, w2)"
    and spec: "rst_Partitions spec = ep" "rst_Efi spec = efi" "rst_System spec = Some src"
    using assms
    by (auto simp: NewResetSpec_def returns_iff retIO_def failIO_def sumIO_def split: if_splits prod.splits)
  note src = resetSourceImage_result[OF img]
  note m = resetPartitions_mountable[OF parts]
  obtain st where st: "ep_State ep = Some st" "p_MountPoint st \<noteq> []" using m(1,4) by auto
  have "ResetSpec_Sanitize spec = None \<longleftrightarrow> rst_System spec \<noteq> Some NewEmptySrc"
    using src st by (auto simp: ResetSpec_Sanitize_def spec undefinedPart_def ptr_IsEmpty_def IsEmpty_def NewEmptySrc_def NewFileSrc_def)
  then show ?thesis using m spec by blast
qed

definition recoveryHost :: Config where
  "recoveryHost = demoConfig\<lparr>cfg_Run := (\<lambda>_ _ w. ((None, ''root=LABEL=recovery''), w)),
     cfg_AllPartitions := retIO [newPartition 1 StateLabel 9000 [] LinuxFs [] ''/dev/a1'' [], newPartition 2 RecoveryLabel 9000 [] LinuxFs [] ''/dev/a2'' []]\<rparr>"

theorem NewResetSpec_complete_witness:
  "\<exists>spec w'. NewResetSpec (\<lambda>_ _. Inl EFault) recoveryHost demoWorld = (Inr spec, w') \<and> mountable (ep_State (rst_Partitions spec))"
proof -
  have "case fst (NewResetSpec (\<lambda>_ _. Inl EFault) recoveryHost demoWorld) of Inr _ \<Rightarrow> True | Inl _ \<Rightarrow> False" by code_simp
  then obtain spec w' where run: "NewResetSpec (\<lambda>_ _. Inl EFault) recoveryHost demoWorld = (Inr spec, w')"
    by (cases "NewResetSpec (\<lambda>_ _. Inl EFault) recoveryHost demoWorld") (auto split: sum.splits)
  then show ?thesis using NewResetSpec_complete[OF run] by blast
qed

lemma okIO_shape: "\<exists>x w'. okIO d m w = (Inr x, w')"
  by (auto simp: okIO_def split: prod.splits sum.splits)

lemma default_install_parts:
  "map (\<lambda>p. (p_Name p, p_Size p)) (PartitionsByInstallOrder (NewInstallElementalPartitions ref) [] []) =
     [(BootPartName, MinPartSize), (OEMPartName, MinPartSize), (RecoveryPartName, 4096), (StatePartName, 8192), (PersistentPartName, 0)]"
  by (simp add: PartitionsByInstallOrder_eq NewInstallElementalPartitions_def SetFirmwarePartitions_def fixedParts_def growParts_def
      keepPart_simps inExcludes_def newPartition_def BootSize_def OEMSize_def RecoverySize_def StateSize_def PersistentSize_def)

lemma NewMountSpec_accepted:
  assumes "NewMountSpec w = (Inr spec, w')"
  shows "fst (MountSpec_Sanitize spec) = None" "distinct (map vm_Mountpoint (allVolumes spec))"
    "list_all (\<lambda>v. volumeDevice (vm_Device v) \<noteq> None) (allVolumes spec)"
proof -
  have spec: "ms_Mode spec = []" "em_Type (ms_Ephemeral spec) = Tmpfs" "pm_Mode (ms_Persistent spec) = OverlayMode"
    "ms_Volumes spec =
         [\<lparr>vm_Mountpoint = OEMPath, vm_Device = ''PARTLABEL='' @ OEMPartName, vm_Options = [''rw'', ''defaults''], vm_FSType = []\<rparr>,
          \<lparr>vm_Mountpoint = BootDir, vm_Device = ''PARTLABEL='' @ BootPartName, vm_Options = [''ro'', ''defaults''], vm_FSType = []\<rparr>]"
    "pm_Volume (ms_Persistent spec) = \<lparr>vm_Mountpoint = PersistentDir, vm_Device = ''PARTLABEL='' @ PersistentPartName,
           vm_Options = [''rw'', ''defaults''], vm_FSType = []\<rparr>"
    using assms by (auto simp: NewMountSpec_def returns_iff retIO_def)
  show "fst (MountSpec_Sanitize spec) = None"
    by (simp add: MountSpec_Sanitize_def Let_def spec OverlayMode_def Tmpfs_def)
  show "distinct (map vm_Mountpoint (allVolumes spec))"
    by (simp add: allVolumes_def HasPersistent_def spec OEMPath_def BootDir_def PersistentDir_def)
  show "list_all (\<lambda>v. volumeDevice (vm_Device v) \<noteq> None) (allVolumes spec)"
    by (simp add: allVolumes_def HasPersistent_def spec volumeDevice_def HasPrefix_def labelPref_def partLabelPref_def)
qed

lemma NewInstallSpec_accepted:
  assumes "NewInstallSpec ref w = (Inr spec, w')"
  shows "ins_Partitions spec = NewInstallElementalPartitions ref"
    "fst (InstallSpec_Sanitize ref' spec) = None \<longleftrightarrow> ins_System spec = Some (NewDirSrc ISOBaseTree)"
proof -
  obtain e where spec: "ins_System spec = Some (if e then NewDirSrc ISOBaseTree else NewEmptySrc)" "ins_Iso spec = []"
    "img_Source (ins_RecoverySystem spec) = ins_System spec" "ins_ExtraPartitions spec = []" "ins_Firmware spec = ''efi''" "ins_PartTable spec = ''gpt''"
    and parts: "ins_Partitions spec = NewInstallElementalPartitions ref"
    using assms by (auto simp: NewInstallSpec_def Let_def returns_iff retIO_def)
  show "ins_Partitions spec = NewInstallElementalPartitions ref" by (rule parts)
  have p: "\<not> undefinedPart (ep_State (NewInstallElementalPartitions ref))" "ep_Boot (NewInstallElementalPartitions ref) \<noteq> None"
    by (simp_all add: NewInstallElementalPartitions_def SetFirmwarePartitions_def undefinedPart_def newPartition_def StateDir_def)
  show "fst (InstallSpec_Sanitize ref' spec) = None \<longleftrightarrow> ins_System spec = Some (NewDirSrc ISOBaseTree)"
    using p by (cases e) (simp_all add: InstallSpec_Sanitize_def spec parts ptr_IsEmpty_def IsEmpty_def NewDirSrc_def NewEmptySrc_def
      ISOBaseTree_def Let_def SetFirmwarePartitions_def defaultRecoveryLabel_def)
qed

subsection \<open>Reconciled devices\<close>

text \<open>
  \<open>oneHeap\<close>: fields that hold the same pointer hold the same partition. \<open>found\<close> is a partition with the device of its label.
\<close>

abbreviation partFields :: "(ElementalPartitions \<Rightarrow> Partition option) set" where
  "partFields \<equiv> {ep_BIOS, ep_Boot, ep_OEM, ep_Recovery, ep_State, ep_Persistent}"

definition oneHeap :: "ElementalPartitions \<Rightarrow> bool" where
  "oneHeap ep \<longleftrightarrow> (\<forall>sel \<in> partFields. \<forall>sel' \<in> partFields. \<forall>p q. sel ep = Some p \<longrightarrow> sel' ep = Some q \<longrightarrow> p_ref p = p_ref q \<longrightarrow> p = q)"

definition found :: "(string \<Rightarrow> string) \<Rightarrow> Partition \<Rightarrow> Partition" where
  "found out p = p\<lparr>p_Path := TrimSpace (out (p_FilesystemLabel p))\<rparr>"

definition foundIn :: "(string \<Rightarrow> string) \<Rightarrow> nat set \<Rightarrow> Partition \<Rightarrow> Partition" where
  "foundIn out refs p = (if p_ref p \<in> refs then found out p else p)"

lemma found_simps [simp]: "p_ref (found out p) = p_ref p" "found out (found out p) = found out p"
    "found out (foundIn out R p) = found out p" "p_ref (foundIn out R p) = p_ref p"
  by (simp_all add: found_def foundIn_def)

abbreviation refOf :: "Partition option \<Rightarrow> nat set" where
  "refOf po \<equiv> p_ref ` set_option po"

definition reconciledRefs :: "ElementalPartitions \<Rightarrow> nat set" where
  "reconciledRefs ep = refOf (ep_State ep) \<union> refOf (ep_Recovery ep) \<union> refOf (ep_Persistent ep) \<union> refOf (ep_OEM ep)"

lemma reconcileField_step:
  assumes blkid: "\<forall>label w. cfg_Run (rc_Config r) ''blkid'' [''-L'', label] w = ((None, out label), w)"
    and ex: "cfg_CommandExists (rc_Config r) ''blkid''" and heap: "oneHeap P" and sel: "sel \<in> partFields"
    and ep: "\<forall>s \<in> partFields. s ep = map_option (foundIn out R) (s P)"
  shows "\<exists>ep' w'. reconcileField r sel ep w = (Inr ep', w') \<and>
    (\<forall>s \<in> partFields. s ep' = map_option (foundIn out (R \<union> refOf (sel P))) (s P))"
proof (cases "sel P")
  case None
  then have "sel ep = None" using ep sel by (metis map_option_is_None)
  then show ?thesis using None ep by (auto simp: reconcileField_def retIO_def)
next
  case (Some p)
  then have "sel ep = Some (foundIn out R p)" using ep sel by (metis option.map(2))
  moreover obtain w' where "reconcilePartition r (foundIn out R p) w = (Inr (found out p), w')"
    using blkid ex by (auto simp: reconcilePartition_def execBlkid_def RunE_def Run_def bindIO_def retIO_def Let_def found_def foundIn_def)
  ultimately have run: "reconcileField r sel ep w = (Inr (putParts [found out p] ep), w')"
    by (simp add: reconcileField_def bindIO_def retIO_def)
  have "s (putParts [found out p] ep) = map_option (foundIn out (R \<union> refOf (sel P))) (s P)" if s: "s \<in> partFields" for s
  proof (cases "s P")
    case None
    then show ?thesis using ep[rule_format, OF s] by (simp add: putParts_sel[OF s])
  next
    case (Some p')
    have put: "s (putParts [found out p] ep) = Some (sameRef [found out p] (foundIn out R p'))"
      using ep[rule_format, OF s] Some by (simp add: putParts_sel[OF s])
    show ?thesis
    proof (cases "p_ref p' = p_ref p")
      case True
      then have "p' = p" using heap s sel Some \<open>sel P = Some p\<close> unfolding oneHeap_def by blast
      then show ?thesis using put Some \<open>sel P = Some p\<close> by (simp add: sameRef_single foundIn_def)
    next
      case False
      then have "foundIn out (R \<union> refOf (sel P)) p' = foundIn out R p'" using \<open>sel P = Some p\<close> by (simp add: foundIn_def)
      then show ?thesis using put Some False by (simp add: sameRef_single)
    qed
  qed
  then show ?thesis using run by blast
qed

text \<open>
  Property C27. When \<^verbatim>\<open>blkid\<close> answers for every label, \<open>ReconcileUpgradeSpec\<close> returns the specification with the same
  partitions: the state, recovery, persistent and OEM partition, where there is one, is the old one with the device \<^verbatim>\<open>blkid\<close> names for its
  label and otherwise unchanged. The boot and BIOS partitions change only when they are the same object as one of these four, and nothing but
  the partitions changes.
\<close>

theorem ReconcileUpgradeSpec_devices:
  assumes "\<forall>label w. cfg_Run (rc_Config r) ''blkid'' [''-L'', label] w = ((None, out label), w)"
    and "cfg_CommandExists (rc_Config r) ''blkid''" and "oneHeap (upg_Partitions spec)"
  shows "\<exists>ep w'. ReconcileUpgradeSpec r spec w = (Inr (spec\<lparr>upg_Partitions := ep\<rparr>), w') \<and>
    (\<forall>sel \<in> {ep_State, ep_Recovery, ep_Persistent, ep_OEM}. sel ep = map_option (found out) (sel (upg_Partitions spec))) \<and>
    (\<forall>sel \<in> {ep_Boot, ep_BIOS}. sel ep =
       map_option (\<lambda>p. if p_ref p \<in> reconciledRefs (upg_Partitions spec) then found out p else p) (sel (upg_Partitions spec)))"
proof -
  let ?P = "upg_Partitions spec"
  let ?R = "refOf (ep_State ?P) \<union> refOf (ep_Recovery ?P) \<union> refOf (ep_Persistent ?P) \<union> refOf (ep_OEM ?P)"
  note step = reconcileField_step[OF assms]
  have id0: "map_option (foundIn out {}) po = po" for po by (cases po) (simp_all add: foundIn_def)
  obtain ep1 w1 where 1: "reconcileField r ep_State ?P w = (Inr ep1, w1)"
    "\<forall>s \<in> partFields. s ep1 = map_option (foundIn out (refOf (ep_State ?P))) (s ?P)"
    using step[of ep_State ?P "{}" w] id0 by auto
  obtain ep2 w2 where 2: "reconcileField r ep_Recovery ep1 w1 = (Inr ep2, w2)"
    "\<forall>s \<in> partFields. s ep2 = map_option (foundIn out (refOf (ep_State ?P) \<union> refOf (ep_Recovery ?P))) (s ?P)"
    using step[OF _ 1(2), of ep_Recovery w1] by auto
  obtain ep3 w3 where 3: "reconcileField r ep_Persistent ep2 w2 = (Inr ep3, w3)"
    "\<forall>s \<in> partFields. s ep3 = map_option (foundIn out (refOf (ep_State ?P) \<union> refOf (ep_Recovery ?P) \<union> refOf (ep_Persistent ?P))) (s ?P)"
    using step[OF _ 2(2), of ep_Persistent w2] by auto
  obtain ep4 w4 where 4: "reconcileField r ep_OEM ep3 w3 = (Inr ep4, w4)"
    "\<forall>s \<in> partFields. s ep4 = map_option (foundIn out ?R) (s ?P)"
    using step[OF _ 3(2), of ep_OEM w3] by auto
  have run: "ReconcileUpgradeSpec r spec w = (Inr (spec\<lparr>upg_Partitions := ep4\<rparr>), w4)"
    using 1(1) 2(1) 3(1) 4(1) by (simp add: ReconcileUpgradeSpec_def bindIO_def retIO_def)
  have fields: "sel ep4 = map_option (foundIn out ?R) (sel ?P)" if "sel \<in> partFields" for sel
    by (rule bspec[OF 4(2) that])
  have four: "sel ep4 = map_option (found out) (sel ?P)" if "sel \<in> {ep_State, ep_Recovery, ep_Persistent, ep_OEM}" for sel
  proof (cases "sel ?P")
    case (Some p)
    then have "p_ref p \<in> ?R" using that by auto
    then have "foundIn out ?R p = found out p" by (simp add: foundIn_def)
    then show ?thesis using fields[of sel] that Some by auto
  qed (use fields[of sel] that in auto)
  have "sel ep4 = map_option (\<lambda>p. if p_ref p \<in> reconciledRefs ?P then found out p else p) (sel ?P)" if "sel \<in> {ep_Boot, ep_BIOS}" for sel
  proof -
    have "foundIn out ?R = (\<lambda>p. if p_ref p \<in> reconciledRefs ?P then found out p else p)"
      by (rule ext) (simp add: foundIn_def reconciledRefs_def)
    then show ?thesis using fields[of sel] that by auto
  qed
  then show ?thesis using run four by blast
qed

definition blkidHost :: RunConfig where
  "blkidHost = (demoRunConfig False)\<lparr>rc_Config := demoConfig\<lparr>cfg_Run := (\<lambda>_ args w. ((None, ''/dev/'' @ last args @ [nlChar]), w))\<rparr>\<rparr>"

theorem ReconcileUpgradeSpec_devices_witness:
  "\<exists>ep w'. ReconcileUpgradeSpec blkidHost demoUpgradeSpec demoWorld = (Inr (demoUpgradeSpec\<lparr>upg_Partitions := ep\<rparr>), w') \<and>
    ep_Recovery ep = Some (demoRecovery\<lparr>p_Path := ''/dev/COS_RECOVERY''\<rparr>) \<and> ep_State ep = None"
proof -
  have host: "\<forall>label w. cfg_Run (rc_Config blkidHost) ''blkid'' [''-L'', label] w = ((None, ''/dev/'' @ label @ [nlChar]), w)"
    "cfg_CommandExists (rc_Config blkidHost) ''blkid''"
    by (simp_all add: blkidHost_def demoConfig_def)
  have "oneHeap (upg_Partitions demoUpgradeSpec)" by (auto simp: oneHeap_def demoUpgradeSpec_def)
  moreover have "TrimSpace (''/dev/COS_RECOVERY'' @ [nlChar]) = ''/dev/COS_RECOVERY''" by code_simp
  ultimately show ?thesis
    using ReconcileUpgradeSpec_devices[OF host, of demoUpgradeSpec demoWorld]
    by (auto simp: found_def demoUpgradeSpec_def demoRecovery_def)
qed
end
