(* ===== verification/Go_Sha256.thy ===== *)
theory Go_Sha256
  imports Elemental_Prelude
begin

section \<open>SHA-256 of the Go standard library\<close>

text \<open>
  \<^verbatim>\<open>crypto/sha256\<close> on strings of bytes (FIPS 180-4), with the digest printed in hexadecimal digits as the verb \<^verbatim>\<open>x\<close>
  of \<^verbatim>\<open>fmt\<close> does. The padded message consists of whole blocks, so every byte is hashed.
\<close>

unbundle bit_operations_syntax

type_synonym w32 = "32 word"

definition sha_H :: "w32 list" where
  "sha_H = [0x6a09e667, 0xbb67ae85, 0x3c6ef372, 0xa54ff53a, 0x510e527f, 0x9b05688c, 0x1f83d9ab, 0x5be0cd19]"

text \<open>The round constants, in decimal.\<close>

definition sha_K :: "w32 list" where
  "sha_K =
    [1116352408, 1899447441, 3049323471, 3921009573, 961987163, 1508970993,
     2453635748, 2870763221, 3624381080, 310598401, 607225278, 1426881987,
     1925078388, 2162078206, 2614888103, 3248222580, 3835390401, 4022224774,
     264347078, 604807628, 770255983, 1249150122, 1555081692, 1996064986,
     2554220882, 2821834349, 2952996808, 3210313671, 3336571891, 3584528711,
     113926993, 338241895, 666307205, 773529912, 1294757372, 1396182291,
     1695183700, 1986661051, 2177026350, 2456956037, 2730485921, 2820302411,
     3259730800, 3345764771, 3516065817, 3600352804, 4094571909, 275423344,
     430227734, 506948616, 659060556, 883997877, 958139571, 1322822218,
     1537002063, 1747873779, 1955562222, 2024104815, 2227730452, 2361852424,
     2428436474, 2756734187, 3204031479, 3329325298]"

definition rotr :: "nat \<Rightarrow> w32 \<Rightarrow> w32" where
  "rotr n x = drop_bit n x OR push_bit (32 - n) x"

definition sha_s0 :: "w32 \<Rightarrow> w32" where "sha_s0 x = rotr 7 x XOR rotr 18 x XOR drop_bit 3 x"
definition sha_s1 :: "w32 \<Rightarrow> w32" where "sha_s1 x = rotr 17 x XOR rotr 19 x XOR drop_bit 10 x"
definition sha_S0 :: "w32 \<Rightarrow> w32" where "sha_S0 x = rotr 2 x XOR rotr 13 x XOR rotr 22 x"
definition sha_S1 :: "w32 \<Rightarrow> w32" where "sha_S1 x = rotr 6 x XOR rotr 11 x XOR rotr 25 x"

definition byte_word :: "char \<Rightarrow> w32" where "byte_word c = of_nat (of_char c)"

fun words_of :: "string \<Rightarrow> w32 list" where
  "words_of (a # b # c # d # cs) =
     (push_bit 24 (byte_word a) OR push_bit 16 (byte_word b) OR push_bit 8 (byte_word c) OR byte_word d) # words_of cs"
| "words_of _ = []"

text \<open>The message schedule; \<open>ws\<close> holds the words so far.\<close>

fun schedule :: "nat \<Rightarrow> w32 list \<Rightarrow> w32 list" where
  "schedule 0 ws = ws"
| "schedule (Suc n) ws = (let t = length ws in
     schedule n (ws @ [sha_s1 (ws ! (t - 2)) + ws ! (t - 7) + sha_s0 (ws ! (t - 15)) + ws ! (t - 16)]))"

fun sha_round :: "w32 list \<Rightarrow> w32 \<times> w32 \<Rightarrow> w32 list" where
  "sha_round [a, b, c, d, e, f, g, h] (k, w) =
     (let t1 = h + sha_S1 e + ((e AND f) XOR (NOT e AND g)) + k + w;
          t2 = sha_S0 a + ((a AND b) XOR (a AND c) XOR (b AND c))
      in [t1 + t2, a, b, c, d + t1, e, f, g])"
| "sha_round st _ = st"

definition sha_block :: "w32 list \<Rightarrow> string \<Rightarrow> w32 list" where
  "sha_block st blk = map2 (+) st (foldl sha_round st (zip sha_K (schedule 48 (words_of blk))))"

definition sha_pad :: "string \<Rightarrow> string" where
  "sha_pad s = s @ [CHR 0x80] @ replicate ((119 - length s mod 64) mod 64) (CHR 0x00) @
     map (\<lambda>i. char_of (8 * length s div 256 ^ (7 - i))) [0..<8]"

function sha_blocks :: "w32 list \<Rightarrow> string \<Rightarrow> w32 list" where
  "sha_blocks st s = (if length s < 64 then st else sha_blocks (sha_block st (take 64 s)) (drop 64 s))"
  by pat_completeness auto

termination by (relation "measure (\<lambda>(_, s). length s)") auto

definition hex_char :: "nat \<Rightarrow> char" where
  "hex_char n = char_of (if n < 10 then 48 + n else 87 + n)"

definition hex_word :: "w32 \<Rightarrow> string" where
  "hex_word x = map (\<lambda>i. hex_char (unat x div 16 ^ (7 - i) mod 16)) [0..<8]"

definition sha256_hex :: "string \<Rightarrow> string" where
  "sha256_hex s = concat (map hex_word (sha_blocks sha_H (sha_pad s)))"

lemma pad_sum: "(n + 9 + (119 - n mod 64) mod 64) mod 64 = (0 :: nat)"
proof -
  have r: "n mod 64 < 64" by simp
  define x where "x = 9 + n mod 64 + (119 - n mod 64) mod 64"
  have "x \<in> {64, 128}"
  proof (cases "n mod 64 \<le> 55")
    case True
    then have "(119 - n mod 64) mod 64 = 55 - n mod 64" by (simp add: le_mod_geq)
    then show ?thesis using True by (simp add: x_def)
  next
    case False
    then have "(119 - n mod 64) mod 64 = 119 - n mod 64" using r by simp
    then show ?thesis using False r by (simp add: x_def)
  qed
  then have "x mod 64 = 0" by auto
  moreover have "(n + 9 + (119 - n mod 64) mod 64) mod 64 = (n mod 64 + (9 + (119 - n mod 64) mod 64)) mod 64"
    by (simp only: mod_add_left_eq add.assoc)
  ultimately show ?thesis by (simp add: x_def ac_simps)
qed

lemma sha_pad_blocks: "length (sha_pad s) mod 64 = 0"
  using pad_sum[of "length s"] by (simp add: sha_pad_def ac_simps)

end
