(* ===== verification/Build_Iso.thy ===== *)
theory Build_Iso
  imports Config_Defaults Go_Sha256
begin

section \<open>The build-iso command (pkg/action/build-iso.go)\<close>

text \<open>
  The command that builds a live ISO: it unpacks the sources of the root tree, of the EFI image and of the ISO tree, installs the
  bootloader, builds the root file system and the EFI image and calls xorriso. \<open>Run\<close> has no named result, so the value
  its deferred clean-up assigns to \<^verbatim>\<open>err\<close> is lost: the error of the body is what the caller sees
  (\<open>withCleanupLost\<close>). The template of the grub configuration goes through \<^verbatim>\<open>fmt.Sprintf\<close> with the kernel
  arguments of the user already in it.
\<close>

definition isoBootCatalog :: string where "isoBootCatalog = ''/boot/boot.catalog''"
definition ISOEFIImg :: string where "ISOEFIImg = ''uefi.img''"
definition LiveDir :: string where "LiveDir = ''/run/initramfs/live''"
definition ISOCloudInitPath :: string where "ISOCloudInitPath = LiveDir @ ''/iso-config''"

definition ISOLoaderPath :: "string \<Rightarrow> string" where "ISOLoaderPath arch = Join [''/boot'', arch, ''loader'']"
definition ISOKernelPath :: "string \<Rightarrow> string" where "ISOKernelPath arch = Join [ISOLoaderPath arch, ''linux'']"
definition ISOInitrdPath :: "string \<Rightarrow> string" where "ISOInitrdPath arch = Join [ISOLoaderPath arch, ''initrd'']"

definition exit_CommandRun :: nat where "exit_CommandRun = 11"
definition exit_CopyData :: nat where "exit_CopyData = 12"
definition exit_CreateDir :: nat where "exit_CreateDir = 15"
definition exit_CreateTempDir :: nat where "exit_CreateTempDir = 17"
definition exit_RemoveFile :: nat where "exit_RemoveFile = 69"
definition exit_CalculateChecksum :: nat where "exit_CalculateChecksum = 70"

subsection \<open>Formatting\<close>

text \<open>
  \<^verbatim>\<open>fmt.Sprintf\<close> with string arguments and the verbs without flags: \<^verbatim>\<open>s\<close> and \<^verbatim>\<open>v\<close> take the next argument, the
  percent sign stands for itself, every other verb is reported in the output.
\<close>

fun Sprintf :: "string \<Rightarrow> string list \<Rightarrow> string" where
  "Sprintf [] [] = []"
| "Sprintf [] args = ''%!(EXTRA '' @ strings_Join (map (\<lambda>a. ''string='' @ a) args) '', '' @ '')''"
| "Sprintf (c # cs) args =
     (if c \<noteq> CHR ''%'' then c # Sprintf cs args
      else (case cs of
        [] \<Rightarrow> ''%!(NOVERB)'' @ Sprintf [] args
      | v # rest \<Rightarrow>
          (if v = CHR ''%'' then v # Sprintf rest args
           else (case args of
             [] \<Rightarrow> ''%!'' @ [v] @ ''(MISSING)'' @ Sprintf rest []
           | a # others \<Rightarrow> (if v = CHR ''s'' \<or> v = CHR ''v'' then a else ''%!'' @ [v] @ ''(string='' @ a @ '')'') @ Sprintf rest others))))"

definition grubCfgTemplate :: "string \<Rightarrow> string \<Rightarrow> string" where
  "grubCfgTemplate arch cmdline =
     ''search --no-floppy --file --set=root '' @ ISOKernelPath arch @ [nlChar] @
     [tabChar] @ ''set default=0'' @ [nlChar] @
     [tabChar] @ ''set timeout=5'' @ [nlChar] @
     [tabChar] @ ''set timeout_style=menu'' @ [nlChar, nlChar] @
     [tabChar] @ ''menuentry \"%s\" --class os --unrestricted {'' @ [nlChar] @
     [tabChar, tabChar] @ ''echo Loading kernel...'' @ [nlChar] @
     [tabChar, tabChar] @ ''linux ($root)'' @ ISOKernelPath arch @ '' cdroot root=live:CDLABEL=%s rd.live.dir='' @ ISOLoaderPath arch @
     ''  rd.live.squashimg=rootfs.squashfs '' @ cmdline @ '' elemental.disable elemental.setup='' @ ISOCloudInitPath @ [nlChar] @
     [tabChar, tabChar] @ ''echo Loading initrd...'' @ [nlChar] @
     [tabChar, tabChar] @ ''initrd ($root)'' @ ISOInitrdPath arch @ [nlChar] @
     [tabChar] @ ''}'' @ [nlChar, tabChar]"

subsection \<open>The action\<close>

record BuildISOAction =
  bi_cfg :: BuildConfig
  bi_spec :: LiveISO
  bi_bootloader :: "Grub option"

type_synonym BuildISOActionOption = "BuildISOAction \<Rightarrow> BuildISOAction"

definition WithLiveBootloader :: "Grub \<Rightarrow> BuildISOActionOption" where
  "WithLiveBootloader bl a = a\<lparr>bi_bootloader := Some bl\<rparr>"

definition NewBuildISOAction :: "Variables \<Rightarrow> BuildConfig \<Rightarrow> LiveISO \<Rightarrow> BuildISOActionOption list \<Rightarrow> (world, BuildISOAction) io" where
  "NewBuildISOAction efivars cfg spec opts =
     (let b = foldl (\<lambda>b opt. opt b) \<lparr>bi_cfg = cfg, bi_spec = spec, bi_bootloader = None\<rparr> opts in
      if bi_bootloader b = None
      then bindIO (NewGrub (bc_Config cfg) efivars [WithGrubPrefixes [FallbackEFIPath]]) (\<lambda>bl. retIO (b\<lparr>bi_bootloader := bl\<rparr>))
      else retIO b)"

definition bi_arch :: "(BuildISOAction \<times> world, string) io" where
  "bi_arch = bindIO getO (\<lambda>b. bindIO (deref (cfg_Platform (bc_Config (bi_cfg b)))) (\<lambda>p. retIO (pl_Arch p)))"

fun dumpSources :: "Config \<Rightarrow> string \<Rightarrow> ImageSource option list \<Rightarrow> world \<Rightarrow> (err + unit) \<times> ImageSource option list \<times> world" where
  "dumpSources cfg target [] w = (Inr (), [], w)"
| "dumpSources cfg target (None # srcs) w = (Inl Panic, None # srcs, w)"
| "dumpSources cfg target (Some src # srcs) w =
     (case coded exit_DumpSource (DumpSource cfg target SyncData (cfg_Debug cfg)) (src, w) of
        (Inl e, src', w') \<Rightarrow> (Inl e, Some src' # srcs, w')
      | (Inr _, src', w') \<Rightarrow> (case dumpSources cfg target srcs w' of (r, srcs', w'') \<Rightarrow> (r, Some src' # srcs', w'')))"

definition applySources :: "string \<Rightarrow> (LiveISO \<Rightarrow> ImageSource option list) \<Rightarrow> (ImageSource option list \<Rightarrow> LiveISO \<Rightarrow> LiveISO) \<Rightarrow>
    (BuildISOAction \<times> world, unit) io" where
  "applySources target get put = bindIO getO (\<lambda>b.
     zoom (\<lambda>b. get (bi_spec b)) (\<lambda>srcs b. b\<lparr>bi_spec := put srcs (bi_spec b)\<rparr>)
       (\<lambda>(srcs, w). dumpSources (bc_Config (bi_cfg b)) target srcs w))"

definition renderGrubTemplate :: "string \<Rightarrow> (BuildISOAction \<times> world, unit) io" where
  "renderGrubTemplate rootDir = bindIO getO (\<lambda>b.
     thenIO (liftW (MkdirAll (Join [rootDir, FallbackEFIPath]) DirPerm))
     (bindIO bi_arch (\<lambda>arch.
      liftW (fs_WriteFile (Join [rootDir, FallbackEFIPath, grubCfgFile])
        (Sprintf (grubCfgTemplate arch (iso_ExtraCmdline (bi_spec b))) [iso_GrubEntry (bi_spec b), iso_Label (bi_spec b)]) FilePerm))))"

definition PrepareEFI :: "string \<Rightarrow> string \<Rightarrow> (BuildISOAction \<times> world, unit) io" where
  "PrepareEFI rootDir uefiDir =
     thenIO (renderGrubTemplate uefiDir) (onSome bi_bootloader (\<lambda>bl b. b\<lparr>bi_bootloader := bl\<rparr>) (InstallEFI rootDir uefiDir))"

definition PrepareISO :: "string \<Rightarrow> string \<Rightarrow> (BuildISOAction \<times> world, unit) io" where
  "PrepareISO rootDir imageDir = PrepareEFI rootDir imageDir"

definition efiSizeMB :: "int \<Rightarrow> int" where
  "efiSizeMB efiSize = (let align = 4 * 1024 * 1024 in (efiSize div align * align + align) div (1024 * 1024))"

definition createEFI :: "BuildConfig \<Rightarrow> string \<Rightarrow> string \<Rightarrow> (world, unit) io" where
  "createEFI cfg root img =
     bindIO (DirSize root []) (\<lambda>efiSize.
     bindIO (withObj \<lparr>img_File = img, img_Label = BootLabel, img_Size = of_int (efiSizeMB efiSize), img_FS = BootFs, img_Source = None,
         img_MountPoint = [], img_LoopDevice = []\<rparr> (CreateFileSystemImage (bc_Config cfg) [] False [])) (\<lambda>_.
     bindIO (fs_ReadDir root) (\<lambda>fs.
       forIO fs (\<lambda>(name, _). bindIO (RunE (bc_Config cfg) ''mcopy'' [''-s'', ''-i'', img, Join [root, name], ''::'']) (\<lambda>_. retIO ())))))"

definition CalcFileChecksum :: "string \<Rightarrow> (world, string) io" where
  "CalcFileChecksum fileName = bindIO (fs_ReadFile fileName) (\<lambda>d. retIO (sha256_hex d))"

definition xorrisoBooloaderArgs :: "string \<Rightarrow> string list" where
  "xorrisoBooloaderArgs efiImg =
     [''-append_partition'', ''2'', ''0xef'', efiImg,
      ''-boot_image'', ''any'', ''cat_path='' @ isoBootCatalog,
      ''-boot_image'', ''any'', ''cat_hidden=on'',
      ''-boot_image'', ''any'', ''efi_path=--interval:appended_partition_2:all::'',
      ''-boot_image'', ''any'', ''platform_id=0xef'',
      ''-boot_image'', ''any'', ''appended_part_as=gpt'',
      ''-boot_image'', ''any'', ''partition_offset=16'']"

definition formatDay :: "Time \<Rightarrow> string" where
  "formatDay t = pad 4 (tm_year t) @ pad 2 (tm_month t) @ pad 2 (tm_day t)"

text \<open>\<^verbatim>\<open>name.YYYYMMDD.ext\<close> or \<^verbatim>\<open>name.ext\<close>.\<close>

definition datedName :: "BuildConfig \<Rightarrow> string \<Rightarrow> world \<Rightarrow> string" where
  "datedName cfg ending w =
     (if bc_Date cfg then bc_Name cfg @ ''.'' @ formatDay (cfg_Now (bc_Config cfg) w) @ ending else bc_Name cfg @ ending)"

definition removeOutput :: "string \<Rightarrow> (world, unit) io" where
  "removeOutput f = bindIO (okIO False (Exists f False)) (\<lambda>exists.
     whenIO exists (coded exit_RemoveFile (fs_Remove f)))"

definition burnISO :: "BuildConfig \<Rightarrow> LiveISO \<Rightarrow> string \<Rightarrow> string \<Rightarrow> (world, unit) io" where
  "burnISO cfg spec root efiImg = bindIO getIO (\<lambda>w0.
     let isoFileName = datedName cfg ''.iso'' w0;
         outputFile = (if bc_OutDir cfg \<noteq> [] then Join [bc_OutDir cfg, isoFileName] else isoFileName) in
     thenIO (removeOutput outputFile)
     (bindIO (coded exit_CommandRun (RunE (bc_Config cfg) ''xorriso''
        ([''-volid'', iso_Label spec, ''-padding'', ''0'', ''-outdev'', outputFile, ''-map'', root, ''/'', ''-chmod'', ''0755'', ''--''] @
         xorrisoBooloaderArgs efiImg))) (\<lambda>_.
      bindIO (coded exit_CalculateChecksum (CalcFileChecksum outputFile)) (\<lambda>checksum.
        coded exit_CreateFile (fs_WriteFile (outputFile @ ''.sha256'') (checksum @ '' '' @ isoFileName @ [nlChar]) 420)))))"

definition withCleanupLost :: "('s CleanStack \<times> 's, unit) io \<Rightarrow> ('s, unit) io" where
  "withCleanupLost body = (\<lambda>s. case body (NewCleanStack, s) of
     (r, (st, s')) \<Rightarrow> (case Cleanup st (seenError r) s' of (_, s'', _) \<Rightarrow> (r, s'')))"

definition isoTrees :: "string \<Rightarrow> (BuildISOAction \<times> world, unit) io" where
  "isoTrees isoTmpDir = bindIO getO (\<lambda>b.
     thenIO (coded exit_CreateDir (liftW (MkdirAll (Join [isoTmpDir, ''rootfs'']) DirPerm)))
     (thenIO (coded exit_CreateDir (liftW (MkdirAll (Join [isoTmpDir, ''uefi'']) DirPerm)))
     (thenIO (coded exit_CreateDir (liftW (MkdirAll (Join [isoTmpDir, ''iso'']) DirPerm)))
       (whenIO (bc_OutDir (bi_cfg b) \<noteq> []) (coded exit_CreateDir (liftW (MkdirAll (bc_OutDir (bi_cfg b)) DirPerm)))))))"

definition isoContents :: "string \<Rightarrow> string \<Rightarrow> string \<Rightarrow> (BuildISOAction \<times> world, unit) io" where
  "isoContents rootDir uefiDir isoDir = bindIO getO (\<lambda>b. let efi = (iso_Firmware (bi_spec b) = ''efi''); inRoot = iso_BootloaderInRootFs (bi_spec b) in
     thenIO (applySources rootDir iso_RootFS (\<lambda>s i. i\<lparr>iso_RootFS := s\<rparr>))
     (thenIO (coded exit_CreateDir (liftW (CreateDirStructure rootDir)))
     (thenIO (whenIO efi
        (thenIO (whenIO inRoot (coded exit_CopyData (PrepareEFI rootDir uefiDir)))
          (applySources uefiDir iso_UEFI (\<lambda>s i. i\<lparr>iso_UEFI := s\<rparr>))))
     (thenIO (whenIO inRoot (coded exit_CreateFile (PrepareISO rootDir isoDir)))
       (applySources isoDir iso_Image (\<lambda>s i. i\<lparr>iso_Image := s\<rparr>))))))"

definition isoImages :: "string \<Rightarrow> string \<Rightarrow> string \<Rightarrow> string \<Rightarrow> (BuildISOAction \<times> world, unit) io" where
  "isoImages rootDir uefiDir isoDir efiImg = bindIO getO (\<lambda>b. bindIO bi_arch (\<lambda>arch.
     let cfg = bc_Config (bi_cfg b); bootDir = Join [isoDir, ISOLoaderPath arch] in
     thenIO (liftW (MkdirAll bootDir DirPerm))
     (bindIO (liftW (withObj \<lparr>img_File = Join [bootDir, ISORootFile], img_Label = [], img_Size = 0, img_FS = SquashFs,
         img_Source = Some (NewDirSrc rootDir), img_MountPoint = [], img_LoopDevice = []\<rparr> (DeployRecoverySystem cfg (cfg_Debug cfg)))) (\<lambda>_.
      thenIO (whenIO (iso_Firmware (bi_spec b) = ''efi'') (liftW (createEFI (bi_cfg b) uefiDir efiImg)))
        (liftW (burnISO (bi_cfg b) (bi_spec b) isoDir efiImg))))))"

definition BuildISO_body :: "BuildISOAction run" where
  "BuildISO_body =
     bindIO (inScope bi_arch) (\<lambda>_.
     bindIO (inScope (coded exit_CreateTempDir (liftW (TempDir [] ''elemental-iso'')))) (\<lambda>isoTmpDir.
     thenIO (pushS (liftW (fs_RemoveAll isoTmpDir)))
       (inScope
         (let rootDir = Join [isoTmpDir, ''rootfs'']; uefiDir = Join [isoTmpDir, ''uefi'']; isoDir = Join [isoTmpDir, ''iso''] in
          thenIO (isoTrees isoTmpDir)
          (thenIO (isoContents rootDir uefiDir isoDir)
            (isoImages rootDir uefiDir isoDir (Join [isoTmpDir, ISOEFIImg])))))))"

definition BuildISO_Run :: "(BuildISOAction \<times> world, unit) io" where
  "BuildISO_Run = withCleanupLost BuildISO_body"

subsection \<open>Properties\<close>

text \<open>
  The EFI image has room for the tree it is made from: its size is a whole number of slots of 4 MiB, larger than
  the size of the tree and larger by at most one slot.
\<close>

theorem efiSizeMB_fits:
  assumes "0 \<le> sz"
  shows "efiSizeMB sz mod 4 = 0 \<and> sz < efiSizeMB sz * 2 ^ 20 \<and> efiSizeMB sz * 2 ^ 20 \<le> sz + 2 ^ 22"
proof -
  have e: "efiSizeMB sz = (sz div 4194304 + 1) * 4" by (simp add: efiSizeMB_def Let_def)
  have d: "sz = 4194304 * (sz div 4194304) + sz mod 4194304" and r: "sz mod 4194304 < 4194304" "0 \<le> sz mod 4194304" by simp_all
  have "sz < 4194304 * (sz div 4194304) + 4194304" "4194304 * (sz div 4194304) \<le> sz" using d r by linarith+
  then show ?thesis unfolding e by simp
qed

theorem efiSizeMB_fits_witness: "efiSizeMB 4194304 = 8 \<and> (4194304 :: int) < 8 * 2 ^ 20"
  using efiSizeMB_fits[of 4194304] by (simp add: efiSizeMB_def Let_def)

end
