(* ===== verification/Cloud_Init.thy ===== *)
theory Cloud_Init
  imports Build_Iso
begin

section \<open>Cloud-init: the layout plugin and the console (pkg/cloudinit)\<close>

text \<open>
  The executor of cloud-init stages is the third-party package yip; this theory models what the repository gives to it: the
  plugin that expands and adds partitions, the console that runs the commands of a stage, and the rendering of a stage file.
  The part of a stage the plugin reads is the record \<open>Layout\<close>.
\<close>

subsection \<open>console.go\<close>

text \<open>
  The plugin checks that console and logger are the implementations of this repository. A console of this repository holds
  the runner, which is a field of the configuration.
\<close>

datatype Console = CloudInitConsole Config | OtherConsole

definition newCloudInitConsole :: "Config \<Rightarrow> Console" where
  "newCloudInitConsole runner = CloudInitConsole runner"

definition console_Run :: "Config \<Rightarrow> string \<Rightarrow> (world, err option \<times> string) io" where
  "console_Run runner command = bindIO (Run runner ''sh'' [''-c'', command]) (\<lambda>(e, out).
     retIO (case e of None \<Rightarrow> None | Some _ \<Rightarrow> Some (Errorf (''failed to run '' @ command)), out))"

text \<open>A failing command does not stop the loop; the errors are collected.\<close>

definition RunTemplate :: "Config \<Rightarrow> string list \<Rightarrow> string \<Rightarrow> (world, err option) io" where
  "RunTemplate runner st template = foldIO st None (\<lambda>errs svc.
     bindIO (console_Run runner (Sprintf template [svc])) (\<lambda>(e, out).
       retIO (case e of None \<Rightarrow> errs | Some e' \<Rightarrow> Some (multierror_Append errs e'))))"

subsection \<open>cloudinit.go\<close>

text \<open>\<open>marshal\<close> is the result of \<^verbatim>\<open>yaml.Marshal\<close> for the stages.\<close>

definition CloudInitFileRender :: "string \<Rightarrow> err + string \<Rightarrow> (world, unit) io" where
  "CloudInitFileRender target marshal = bindIO (sumIO marshal) (\<lambda>out.
     thenIO (MkdirAll (Dir target) DirPerm) (fs_WriteFile target out FilePerm))"

subsection \<open>layout\_plugin.go\<close>

record LayoutDevice =
  ld_Label :: string
  ld_Path :: string

record LayoutPart =
  lp_FSLabel :: string
  lp_Size :: uint
  lp_PLabel :: string
  lp_FileSystem :: string

record Layout =
  lay_Device :: "LayoutDevice option"
  lay_Expand :: "uint option"
  lay_Parts :: "LayoutPart list"

text \<open>The target: by the disk of a labelled partition, by its path, or none.\<close>

definition layoutDisk :: "Config \<Rightarrow> LayoutDevice \<Rightarrow> (world, Disk option) io" where
  "layoutDisk runner d =
     (if TrimSpace (ld_Label d) \<noteq> [] then
        bindIO (GetFullDeviceByLabel runner (ld_Label d) 5) (\<lambda>partDev.
        bindIO (deref (NewDisk runner (p_Disk partDev) [])) (\<lambda>dev. retIO (Some dev)))
      else if TrimSpace (ld_Path d) \<noteq> [] then
        bindIO (deref (NewDisk runner (ld_Path d) [])) (\<lambda>dev. retIO (Some dev))
      else retIO None)"

text \<open>A partition whose label exists already is left alone; every error of the search counts as not found.\<close>

definition createPart :: "LayoutPart \<Rightarrow> (Disk \<times> world, unit) io" where
  "createPart part =
     (let fs = (if lp_FileSystem part = [] then LinuxFs else lp_FileSystem part) in
      (\<lambda>s. case AddPartition (lp_Size part) fs (lp_PLabel part) [] s of
        (Inl e, s') \<Rightarrow> (Inl (if e = Panic then Panic else Errorf ''Failed creating partitions''), s')
      | (Inr partNum, s') \<Rightarrow> (case FormatPartition partNum fs (lp_FSLabel part) s' of
           (Inl e, s'') \<Rightarrow> (Inl (if e = Panic then Panic else Errorf ''Formatting partition failed''), s'')
         | (Inr _, s'') \<Rightarrow> (Inr (), s''))))"

definition ensurePart :: "Config \<Rightarrow> LayoutPart \<Rightarrow> (Disk \<times> world, unit) io" where
  "ensurePart runner part = (\<lambda>s. case liftW (GetFullDeviceByLabel runner (lp_FSLabel part) 1) s of
     (Inr _, s') \<Rightarrow> (Inr (), s')
   | (Inl e, s') \<Rightarrow> (if e = Panic then (Inl Panic, s') else createPart part s'))"

definition layoutOn :: "Config \<Rightarrow> Layout \<Rightarrow> (Disk \<times> world, unit) io" where
  "layoutOn runner layout = bindIO Disk_Exists (\<lambda>ok.
     if \<not> ok then failIO (Errorf ''Target disk not found'')
     else thenIO (case lay_Expand layout of None \<Rightarrow> retIO () | Some sz \<Rightarrow> ExpandLastPartition sz)
       (forIO (lay_Parts layout) (ensurePart runner)))"

definition layoutPlugin :: "bool \<Rightarrow> Layout \<Rightarrow> Console \<Rightarrow> (world, unit) io" where
  "layoutPlugin elemLogger layout console =
     (case lay_Device layout of
        None \<Rightarrow> retIO ()
      | Some d \<Rightarrow> (case console of
           OtherConsole \<Rightarrow> failIO (Errorf ''provided console is not an instance of cloudInitConsole type'')
         | CloudInitConsole runner \<Rightarrow>
             if \<not> elemLogger then failIO (Errorf ''provided logger is not implementing types.Logger interface'')
             else bindIO (layoutDisk runner d) (\<lambda>dev. case dev of
               None \<Rightarrow> retIO ()
             | Some disk \<Rightarrow> (\<lambda>w. case layoutOn runner layout (disk, w) of (r, (_, w')) \<Rightarrow> (r, w')))))"

subsection \<open>A layout that is there already\<close>

text \<open>Only \<^verbatim>\<open>udevadm settle\<close> has been run between two states.\<close>

definition onlySettled :: "world \<Rightarrow> world \<Rightarrow> bool" where
  "onlySettled w w' \<longleftrightarrow> (\<exists>n. cmds w' = cmds w @ replicate n (''udevadm'', [''settle'']))"

lemma onlySettled_same: "cmds w' = cmds w \<Longrightarrow> onlySettled w w'"
  unfolding onlySettled_def by (rule exI[of _ 0]) simp

lemma onlySettled_trans: "onlySettled w w1 \<Longrightarrow> onlySettled w1 w2 \<Longrightarrow> onlySettled w w2"
  unfolding onlySettled_def by (auto simp flip: replicate_add)

text \<open>Listing the partitions runs no command and finds the labels.\<close>

definition listsLabels :: "Config \<Rightarrow> string list \<Rightarrow> bool" where
  "listsLabels cfg labels \<longleftrightarrow> (\<forall>w. \<exists>ps w'. cfg_AllPartitions cfg w = (Inr ps, w') \<and> cmds w' = cmds w \<and>
     list_all (\<lambda>l. GetByLabel ps l \<noteq> None) labels)"

lemma settle_log:
  assumes "keepsLog cfg"
  shows "\<exists>w1. ignoreIO (Run cfg ''udevadm'' [''settle'']) w = (Inr (), w1) \<and> onlySettled w w1"
proof -
  obtain r w1 where r: "cfg_Run cfg ''udevadm'' [''settle''] (w\<lparr>cmds := cmds w @ [(''udevadm'', [''settle''])]\<rparr>) = (r, w1)"
    by (metis surj_pair)
  then have "cmds w1 = cmds w @ replicate 1 (''udevadm'', [''settle''])"
    using assms[unfolded keepsLog_def, rule_format, of "''udevadm''" "[''settle'']"
        "w\<lparr>cmds := cmds w @ [(''udevadm'', [''settle''])]\<rparr>"] by simp
  then have "onlySettled w w1" unfolding onlySettled_def by (intro exI[of _ "1 :: nat"])
  then show ?thesis using r by (intro exI[of _ w1]) (simp add: ignoreIO_def Run_def)
qed

lemma GetFullDevice_settled:
  assumes "keepsLog cfg" "listsLabels cfg ls" "GetFullDeviceByLabel cfg l n w = (r, w')"
  shows "onlySettled w w' \<and> (isl r \<longrightarrow> r = Inl (Errorf ''no device found'')) \<and> (l \<in> set ls \<and> 0 < n \<longrightarrow> \<not> isl r)"
  using assms(3)
proof (induction n arbitrary: w)
  case 0
  then show ?case by (auto simp: failIO_def onlySettled_same)
next
  case (Suc n)
  obtain w1 where w1: "ignoreIO (Run cfg ''udevadm'' [''settle'']) w = (Inr (), w1)" "onlySettled w w1"
    using settle_log[OF assms(1)] by blast
  obtain ps w2 where ps: "cfg_AllPartitions cfg w1 = (Inr ps, w2)" "cmds w2 = cmds w1"
      "list_all (\<lambda>l. GetByLabel ps l \<noteq> None) ls"
    using assms(2) unfolding listsLabels_def by blast
  have s2: "onlySettled w w2" using w1(2) onlySettled_same[OF ps(2)] onlySettled_trans by blast
  show ?case
  proof (cases "GetByLabel ps l")
    case None
    then have run: "GetFullDeviceByLabel cfg l n w2 = (r, w')" and "l \<notin> set ls"
      using Suc.prems w1(1) ps by (auto simp: thenIO_def bindIO_def list_all_iff)
    then show ?thesis using Suc.IH[OF run] onlySettled_trans[OF s2] by blast
  next
    case (Some p)
    then show ?thesis using Suc.prems w1(1) ps s2 by (auto simp: thenIO_def bindIO_def retIO_def)
  qed
qed

lemma ensureParts_settled:
  assumes "keepsLog cfg" "listsLabels cfg ls" "lp_FSLabel ` set parts \<subseteq> set ls"
  shows "forIO parts (ensurePart cfg) (dev, w) = (r, (dev', w')) \<Longrightarrow> r = Inr () \<and> onlySettled w w'"
  using assms(3)
proof (induction parts arbitrary: w)
  case Nil
  then show ?case by (simp add: retIO_def onlySettled_same)
next
  case (Cons p parts)
  obtain r1 w1 where g: "GetFullDeviceByLabel cfg (lp_FSLabel p) 1 w = (r1, w1)" by fastforce
  have "onlySettled w w1" "\<not> isl r1" using GetFullDevice_settled[OF assms(1,2) g] Cons.prems(2) by auto
  moreover from this g have "ensurePart cfg p (dev, w) = (Inr (), (dev, w1))"
    by (cases r1) (auto simp: ensurePart_def liftW_def simp del: One_nat_def GetFullDeviceByLabel.simps)
  then have "forIO parts (ensurePart cfg) (dev, w1) = (r, (dev', w'))" using Cons.prems(1) by (simp add: thenIO_def bindIO_def)
  moreover have "lp_FSLabel ` set parts \<subseteq> set ls" using Cons.prems(2) by simp
  ultimately show ?case using Cons.IH[of w1] onlySettled_trans[of w w1 w'] by blast
qed

lemma stat_cmds:
  "fs_Stat p w = (r, w') \<Longrightarrow> cmds w' = cmds w" "fs_Readlink p w = (r', w') \<Longrightarrow> cmds w' = cmds w"
  by (auto simp: fs_Stat_def fs_Readlink_def sysIO_def Let_def split: if_splits option.splits node.splits)

lemma Disk_Exists_cmds: "Disk_Exists (dev, w) = (r, (dev', w')) \<Longrightarrow> \<not> isl r \<and> cmds w' = cmds w"
  by (auto simp: Disk_Exists_def objIO_bind bindIO_def getO_def liftW_def
      split: sum.splits prod.splits node.splits if_splits option.splits dest!: stat_cmds)

text \<open>The target disk as the plugin finds it.\<close>

lemma layoutDisk_settled:
  assumes "keepsLog cfg" "listsLabels cfg ls" "layoutDisk cfg d w = (r, w')"
  shows "onlySettled w w' \<and> (isl r \<longrightarrow> r = Inl (Errorf ''no device found''))"
proof (cases "TrimSpace (ld_Label d) = []")
  case True
  then show ?thesis using assms(3)
    by (auto simp: layoutDisk_def NewDisk_def deref_def bindIO_def retIO_def onlySettled_same split: if_splits)
next
  case False
  obtain r1 w1 where g: "GetFullDeviceByLabel cfg (ld_Label d) 5 w = (r1, w1)" by fastforce
  note dev = GetFullDevice_settled[OF assms(1,2) g]
  show ?thesis using dev False assms(3) g
    by (cases r1) (auto simp: layoutDisk_def NewDisk_def deref_def bindIO_def retIO_def)
qed

text \<open>Between two states: only \<^verbatim>\<open>udevadm settle\<close>, and the commands of one expansion of the last partition when the layout asks for it.\<close>

definition onlyExpanded :: "uint option \<Rightarrow> world \<Rightarrow> world \<Rightarrow> bool" where
  "onlyExpanded expand w w' \<longleftrightarrow> onlySettled w w' \<or>
     (\<exists>sz dev1 w1 re dev2 w2. expand = Some sz \<and> onlySettled w w1 \<and> ExpandLastPartition sz (dev1, w1) = (re, (dev2, w2)) \<and> onlySettled w2 w')"

lemma onlyExpanded_settled: "onlySettled w w1 \<Longrightarrow> onlyExpanded e w1 w2 \<Longrightarrow> onlyExpanded e w w2"
  unfolding onlyExpanded_def using onlySettled_trans by blast

lemma layoutOn_settled:
  assumes "keepsLog cfg" "listsLabels cfg (map lp_FSLabel (lay_Parts layout))"
    and "layoutOn cfg layout (dev, w) = (r, (dev', w'))"
  shows "onlyExpanded (lay_Expand layout) w w' \<and>
    (lay_Expand layout = None \<longrightarrow> r \<in> {Inr (), Inl (Errorf ''Target disk not found'')})"
proof -
  obtain ok dev1 w1 where ex: "Disk_Exists (dev, w) = (Inr ok, (dev1, w1))" "cmds w1 = cmds w"
    using Disk_Exists_cmds by (metis isl_def prod_cases3 sum.exhaust_sel)
  note s1 = onlySettled_same[OF ex(2)]
  consider (gone) "\<not> ok" | (plain) ok "lay_Expand layout = None" | (expand) sz where ok "lay_Expand layout = Some sz" by fastforce
  then show ?thesis
  proof cases
    case gone
    then show ?thesis using assms(3) ex s1 by (auto simp: layoutOn_def bindIO_def failIO_def onlyExpanded_def)
  next
    case plain
    then have "forIO (lay_Parts layout) (ensurePart cfg) (dev1, w1) = (r, (dev', w'))"
      using assms(3) ex by (simp add: layoutOn_def bindIO_def thenIO_def retIO_def)
    from ensureParts_settled[OF assms(1,2) _ this] show ?thesis
      using onlySettled_trans[OF s1] by (simp add: onlyExpanded_def)
  next
    case (expand sz)
    obtain re dev2 w2 where e: "ExpandLastPartition sz (dev1, w1) = (re, (dev2, w2))" by (metis prod_cases3)
    have "onlySettled w2 w'"
    proof (cases re)
      case (Inl e')
      then have "w' = w2" using expand assms(3) ex e by (simp add: layoutOn_def bindIO_def thenIO_def)
      then show ?thesis by (simp add: onlySettled_same)
    next
      case (Inr u)
      then have "forIO (lay_Parts layout) (ensurePart cfg) (dev2, w2) = (r, (dev', w'))"
        using expand assms(3) ex e by (simp add: layoutOn_def bindIO_def thenIO_def)
      from ensureParts_settled[OF assms(1,2) _ this] show ?thesis by simp
    qed
    then have "onlyExpanded (lay_Expand layout) w w'" using expand(2) s1 e unfolding onlyExpanded_def by blast
    then show ?thesis using expand(2) by simp
  qed
qed


definition layoutHost :: Config where
  "layoutHost = demoConfig\<lparr>cfg_AllPartitions := retIO [(demoPart 2 ''oem'' 64 ''/o'')\<lparr>p_FilesystemLabel := ''COS_OEM''\<rparr>]\<rparr>"

definition demoLayout :: Layout where
  "demoLayout = \<lparr>lay_Device = Some \<lparr>ld_Label = [], ld_Path = ''/etc''\<rparr>, lay_Expand = None,
     lay_Parts = [\<lparr>lp_FSLabel = ''COS_OEM'', lp_Size = 64, lp_PLabel = ''oem'', lp_FileSystem = []\<rparr>]\<rparr>"


end
