(* ===== verification/Fs_Walk.thy ===== *)
theory Fs_Walk
  imports Fs_Utils
begin

section \<open>The bound of a directory walk\<close>

text \<open>
  \<open>WalkDirFs\<close> gives its recursion as much fuel as the tree has entries, plus one. This theory shows that a walk whose
  callback does not change the tree never needs more: every larger bound gives the same run. The measure of a directory
  is the number of entries below it.
\<close>

definition goodNames :: "world \<Rightarrow> bool" where
  "goodNames w \<longleftrightarrow> list_all (\<lambda>(p, _). list_all plain p) (files w)"

definition need :: "world \<Rightarrow> string list \<Rightarrow> nat" where
  "need w pos = Suc (length (filter (\<lambda>(k, _). strict_prefix pos k) (files w)))"

lemma need_files: "files w' = files w \<Longrightarrow> need w' = need w"
  by (simp add: need_def fun_eq_iff)

lemma lookup_files: "files w' = files w \<Longrightarrow> fs_lookup w' = fs_lookup w"
  by (simp add: fs_lookup_def fun_eq_iff)

lemma need_bound: "need w pos \<le> Suc (length (files w))"
  by (simp add: need_def)

lemma length_filter_less:
  "x \<in> set xs \<Longrightarrow> Q x \<Longrightarrow> \<not> P x \<Longrightarrow> (\<And>y. P y \<Longrightarrow> Q y) \<Longrightarrow> length (filter P xs) < length (filter Q xs)"
proof (induction xs)
  case (Cons a xs)
  have "length (filter P xs) \<le> length (filter Q xs)" using Cons.prems(4) by (induction xs) auto
  then show ?case using Cons by auto
qed simp

lemma need_child:
  assumes "fs_lookup w (pos @ [c]) = Some n"
  shows "need w (pos @ [c]) < need w pos"
proof -
  have "(pos @ [c], n) \<in> set (files w)" using assms by (auto simp: fs_lookup_def dest: map_of_SomeD)
  then show ?thesis unfolding need_def
    by (intro Suc_less_eq[THEN iffD2] length_filter_less) (auto simp: strict_prefix_def prefix_def)
qed

lemma entries_below:
  assumes "(c, n) \<in> set (entries w q)"
  shows "fs_lookup w (q @ [c]) = Some n"
  using assms by (auto simp: entries_def map_filter_def)

lemma goodNames_plain:
  assumes "goodNames w" "fs_lookup w (q @ [c]) = Some n"
  shows "plain c"
proof -
  have "(q @ [c], n) \<in> set (files w)" using assms(2) by (auto simp: fs_lookup_def dest: map_of_SomeD)
  then show ?thesis using assms(1) by (auto simp: goodNames_def list_all_iff)
qed

lemma bindIO_cong_at: "(\<And>x w'. m w = (Inr x, w') \<Longrightarrow> f x w' = g x w') \<Longrightarrow> bindIO m f w = bindIO m g w"
  by (auto simp: bindIO_def split: prod.splits sum.splits)

text \<open>Reading a directory as the walk does: an error becomes a value.\<close>

definition tryReadDir :: "string \<Rightarrow> (world, err option \<times> (string \<times> node) list) io" where
  "tryReadDir path = (\<lambda>w. case fs_ReadDir path w of
     (Inr ds, w') \<Rightarrow> (Inr (None, ds), w') | (Inl e', w') \<Rightarrow> (Inr (Some e', []), w'))"

lemma tryReadDir_keeps: "keeps R (fs_ReadDir path) \<Longrightarrow> keeps R (tryReadDir path)"
  by (rule keepsI) (auto simp: tryReadDir_def split: prod.splits sum.splits dest: keepsD)

lemma tryReadDir_entries:
  assumes "tryReadDir path w = (Inr (e, ds), w')" "fs_lookup w (pathOf path) = Some (NDir m)" "(c, n) \<in> set ds"
  shows "fs_lookup w (pathOf path @ [c]) = Some n"
proof -
  have "resolve w (pathOf path) = Some (pathOf path)" using assms(2) by (simp add: resolve_def eval_nat_numeral)
  then have "ds = [] \<or> ds = entries (w\<lparr>ticks := Suc (ticks w)\<rparr>) (pathOf path)"
    using assms(1) by (auto simp: tryReadDir_def fs_ReadDir_def sysIO_def Let_def split: if_splits option.splits node.splits)
  then show ?thesis using assms(3) entries_below by fastforce
qed

text \<open>What the walk does with a directory after the callback.\<close>

definition walkRest :: "nat \<Rightarrow> 'acc walkFn \<Rightarrow> string \<Rightarrow> node \<Rightarrow> 'acc \<Rightarrow> (world, err option \<times> 'acc) io" where
  "walkRest fuel fn path d acc1 = bindIO (tryReadDir path)
     (\<lambda>(re, dirs). case re of
          None \<Rightarrow> walkList fuel fn path dirs acc1
        | Some e' \<Rightarrow>
            bindIO (fn path (Some d) (Some e') acc1) (\<lambda>(e2, acc2).
              if e2 \<noteq> None then retIO (e2, acc2) else walkList fuel fn path dirs acc2))"

lemma walkDir_Suc:
  "walkDir (Suc fuel) fn path d acc =
     bindIO (fn path (Some d) None acc) (\<lambda>(e, acc1).
       let isDir = (case d of NDir _ \<Rightarrow> True | _ \<Rightarrow> False) in
       if e \<noteq> None \<or> \<not> isDir
       then retIO (if e = Some SkipDir \<and> isDir then None else e, acc1)
       else walkRest fuel fn path d acc1)"
  unfolding tryReadDir_def walkRest_def by simp

text \<open>A walk keeps every relation that reading a directory and the callback keep.\<close>

lemma walkList_keeps:
  assumes R: "state_frame R" and "\<And>p d a. keeps R (walkDir f fn p d a)"
  shows "keeps R (walkList f fn path ds acc)"
proof (induction ds arbitrary: acc)
  case Nil
  then show ?case by (simp add: state_frame.keeps_ret[OF R])
next
  case (Cons x ds)
  obtain c n where x: "x = (c, n)" by (cases x)
  show ?case unfolding x
    by (simp del: walkDir.simps, intro state_frame.keeps_bind[OF R] assms(2))
      (auto intro: Cons.IH state_frame.keeps_ret[OF R] split: option.splits err.splits prod.splits)
qed

lemma walkDir_keeps:
  assumes R: "state_frame R" and rd: "\<And>p. keeps R (fs_ReadDir p)" and fn: "\<And>p d e a. keeps R (fn p d e a)"
  shows "keeps R (walkDir f fn path d acc)"
proof (induction f arbitrary: path d acc)
  case 0
  then show ?case by (simp add: state_frame.keeps_ret[OF R])
next
  case (Suc f)
  have list: "keeps R (walkList f fn path ds a)" for ds a
    by (rule walkList_keeps[OF R]) (rule Suc.IH)
  show ?case unfolding walkDir_Suc walkRest_def Let_def
    by (intro state_frame.keeps_bind[OF R] fn)
      (auto intro!: state_frame.keeps_bind[OF R] state_frame.keeps_ret[OF R] tryReadDir_keeps rd fn list
        split: option.splits prod.splits node.splits)
qed

lemmas walkDir_sameFiles = walkDir_keeps[OF fls.state_frame_axioms sameFiles_reads(4)]

text \<open>The bound of a list of entries, from the bound of each of them.\<close>

lemma walkList_fuel:
  assumes keeps: "\<And>p d a. keeps sameFiles (walkDir f fn p d a)"
    and step: "\<And>w path d acc. goodNames w \<Longrightarrow> IsAbs path \<Longrightarrow> fs_lookup w (pathOf path) = Some d \<Longrightarrow>
      need w (pathOf path) \<le> f \<Longrightarrow> need w (pathOf path) \<le> g \<Longrightarrow> walkDir f fn path d acc w = walkDir g fn path d acc w"
    and abs: "IsAbs path"
  shows "goodNames w \<Longrightarrow> (\<And>c n. (c, n) \<in> set ds \<Longrightarrow> fs_lookup w (pathOf path @ [c]) = Some n) \<Longrightarrow>
    need w (pathOf path) \<le> Suc f \<Longrightarrow> need w (pathOf path) \<le> Suc g \<Longrightarrow> walkList f fn path ds acc w = walkList g fn path ds acc w"
proof (induction ds arbitrary: w acc)
  case Nil
  then show ?case by simp
next
  case (Cons x ds)
  obtain c n where x: "x = (c, n)" by (cases x)
  have look: "fs_lookup w (pathOf path @ [c]) = Some n" using Cons.prems(2)[of c n] x by simp
  have pos: "pathOf (Join [path, c]) = pathOf path @ [c]"
    using pathOf_Join_plain[OF abs, of "[c]"] goodNames_plain[OF Cons.prems(1) look] by simp
  have "walkDir f fn (Join [path, c]) n acc w = walkDir g fn (Join [path, c]) n acc w"
    using need_child[OF look] Cons.prems(1,3,4) look pos by (intro step IsAbs_Join[OF abs]) auto
  moreover have "walkList f fn path ds a w1 = walkList g fn path ds a w1"
    if "walkDir f fn (Join [path, c]) n acc w = (Inr (e, a), w1)" for e a w1
  proof -
    have "files w1 = files w" using keepsD[OF keeps that] by (simp add: sameFiles_def)
    then show ?thesis
      using Cons.prems need_files[of w1 w] lookup_files[of w1 w] by (intro Cons.IH) (auto simp: goodNames_def)
  qed
  ultimately show ?case unfolding x
    by (auto simp del: walkDir.simps simp: bindIO_def split: prod.splits sum.splits option.splits err.splits)
qed

lemma walkDir_fuel:
  assumes fn: "\<And>p d e a. keeps sameFiles (fn p d e a)"
  shows "goodNames w \<Longrightarrow> IsAbs path \<Longrightarrow> fs_lookup w (pathOf path) = Some d \<Longrightarrow>
    need w (pathOf path) \<le> f \<Longrightarrow> need w (pathOf path) \<le> g \<Longrightarrow> walkDir f fn path d acc w = walkDir g fn path d acc w"
proof (induction f arbitrary: g w path d acc)
  case 0
  then show ?case by (simp add: need_def)
next
  case (Suc f)
  obtain g' where g: "g = Suc g'" using Suc.prems(5) by (cases g) (auto simp: need_def)
  have list: "walkList f fn path ds a w2 = walkList g' fn path ds a w2"
    if "files w2 = files w" "\<And>c n. (c, n) \<in> set ds \<Longrightarrow> fs_lookup w (pathOf path @ [c]) = Some n" for ds a w2
  proof (rule walkList_fuel)
    show "keeps sameFiles (walkDir f fn p d a)" for p d a by (rule walkDir_sameFiles[OF fn])
    show "goodNames w2" using Suc.prems(1) that(1) by (simp add: goodNames_def)
    show "need w2 (pathOf path) \<le> Suc f" "need w2 (pathOf path) \<le> Suc g'"
      using Suc.prems(4,5) g need_files[OF that(1)] by simp_all
    show "fs_lookup w2 (pathOf path @ [c]) = Some n" if "(c, n) \<in> set ds" for c n
      using that \<open>\<And>c n. (c, n) \<in> set ds \<Longrightarrow> fs_lookup w (pathOf path @ [c]) = Some n\<close> lookup_files[OF \<open>files w2 = files w\<close>] by simp
  qed (use Suc.IH Suc.prems(2) in blast)+
  have rest: "walkRest f fn path d a w1 = walkRest g' fn path d a w1"
    if f1: "files w1 = files w" and d: "d = NDir m" for a w1 m
    unfolding walkRest_def
  proof (rule bindIO_cong_at)
    fix x w2 assume r: "tryReadDir path w1 = (Inr x, w2)"
    obtain re dirs where x: "x = (re, dirs)" by (cases x)
    have f2: "files w2 = files w" using keepsD[OF tryReadDir_keeps[OF sameFiles_reads(4)] r] f1 by (simp add: sameFiles_def)
    have look: "fs_lookup w1 (pathOf path) = Some (NDir m)" using Suc.prems(3) d lookup_files[OF f1] by simp
    have ds: "fs_lookup w (pathOf path @ [c]) = Some n" if "(c, n) \<in> set dirs" for c n
      using tryReadDir_entries[OF r[unfolded x] look that] lookup_files[OF f1] by simp
    show "(case x of (re, dirs) \<Rightarrow> case re of None \<Rightarrow> walkList f fn path dirs a
        | Some e' \<Rightarrow> bindIO (fn path (Some d) (Some e') a) (\<lambda>(e2, acc2). if e2 \<noteq> None then retIO (e2, acc2) else walkList f fn path dirs acc2)) w2 =
      (case x of (re, dirs) \<Rightarrow> case re of None \<Rightarrow> walkList g' fn path dirs a
        | Some e' \<Rightarrow> bindIO (fn path (Some d) (Some e') a) (\<lambda>(e2, acc2). if e2 \<noteq> None then retIO (e2, acc2) else walkList g' fn path dirs acc2)) w2"
    proof (cases re)
      case None
      then show ?thesis using list[OF f2 ds] by (simp add: x)
    next
      case (Some e')
      have "bindIO (fn path (Some d) (Some e') a) (\<lambda>(e2, acc2). if e2 \<noteq> None then retIO (e2, acc2) else walkList f fn path dirs acc2) w2 =
        bindIO (fn path (Some d) (Some e') a) (\<lambda>(e2, acc2). if e2 \<noteq> None then retIO (e2, acc2) else walkList g' fn path dirs acc2) w2"
      proof (rule bindIO_cong_at)
        fix y w3 assume y: "fn path (Some d) (Some e') a w2 = (Inr y, w3)"
        have f3: "files w3 = files w" using keepsD[OF fn y] f2 by (simp add: sameFiles_def)
        show "(case y of (e2, acc2) \<Rightarrow> if e2 \<noteq> None then retIO (e2, acc2) else walkList f fn path dirs acc2) w3 =
          (case y of (e2, acc2) \<Rightarrow> if e2 \<noteq> None then retIO (e2, acc2) else walkList g' fn path dirs acc2) w3"
          using list[OF f3 ds] by (simp split: prod.splits)
      qed
      then show ?thesis by (simp add: x Some)
    qed
  qed
  show ?case unfolding g walkDir_Suc
  proof (rule bindIO_cong_at)
    fix x w1 assume r: "fn path (Some d) None acc w = (Inr x, w1)"
    then have "files w1 = files w" using keepsD[OF fn r] by (simp add: sameFiles_def)
    from rest[OF this] show "(case x of (e, acc1) \<Rightarrow> let isDir = case d of NDir _ \<Rightarrow> True | _ \<Rightarrow> False in
         if e \<noteq> None \<or> \<not> isDir then retIO (if e = Some SkipDir \<and> isDir then None else e, acc1) else walkRest f fn path d acc1) w1 =
      (case x of (e, acc1) \<Rightarrow> let isDir = case d of NDir _ \<Rightarrow> True | _ \<Rightarrow> False in
         if e \<noteq> None \<or> \<not> isDir then retIO (if e = Some SkipDir \<and> isDir then None else e, acc1) else walkRest g' fn path d acc1) w1"
      by (auto simp: Let_def split: prod.splits node.splits)
  qed
qed

text \<open>
  Property C25. A walk over a tree with proper file names, from a directory that is not a link, with a callback that does not change
  the tree, never runs out of the fuel \<open>WalkDirFs\<close> gives it: with any larger bound it does exactly the same.
\<close>

theorem walkDir_terminates:
  assumes "\<And>p d e a. keeps sameFiles (fn p d e a)" and "goodNames w" and "IsAbs root"
    and "fs_lookup w (pathOf root) = Some info" and "Suc (length (files w)) \<le> fuel"
  shows "walkDir fuel fn root info acc w = walkDir (Suc (length (files w))) fn root info acc w"
proof (rule walkDir_fuel)
  show "need w (pathOf root) \<le> Suc (length (files w))" by (rule need_bound)
  then show "need w (pathOf root) \<le> fuel" using assms(5) by simp
qed (rule assms)+

definition countFn :: "nat walkFn" where
  "countFn p d e n = retIO (e, Suc n)"

theorem walkDir_terminates_witness:
  "walkDir 1000 countFn ''/'' (NDir 0) 0 demoWorld = walkDir 3 countFn ''/'' (NDir 0) 0 demoWorld"
proof -
  have "\<And>p d e a. keeps sameFiles (countFn p d e a)" by (simp add: countFn_def fls.keeps_ret)
  moreover have "goodNames demoWorld" "IsAbs ''/''" "fs_lookup demoWorld (pathOf ''/'') = Some (NDir 0)" "length (files demoWorld) = 2"
    by code_simp+
  ultimately show ?thesis using walkDir_terminates[of countFn demoWorld "''/''" "NDir 0" 1000 0] by (simp del: walkDir.simps)
qed

end
