(* ===== verification/Read_Config.thy ===== *)
theory Read_Config
  imports Config_Defaults Fs_Walk
begin

section \<open>Reading configuration and specifications (cmd/config/config.go)\<close>

text \<open>
  Configuration files, flags and environment variables are merged by the third-party package viper and decoded by
  mapstructure. Both are a parameter: the record \<open>Viper\<close> holds the functions of viper this file calls, over an arbitrary type of
  viper objects. The state of the readers is the global viper object and the world. A reader that returns its result
  beside an error returns a pair.
\<close>

subsection \<open>Flags and viper\<close>

datatype flagValue = FStr string | FBool bool | FOther

record Flag =
  fl_Name :: string
  fl_Value :: flagValue
  fl_Changed :: bool

type_synonym FlagSet = "Flag list"

record 'v Viper =
  vp_New :: 'v
  vp_Sub :: "string \<Rightarrow> 'v \<Rightarrow> 'v option"
  vp_AddConfigPath :: "string \<Rightarrow> 'v \<Rightarrow> 'v"
  vp_SetConfigType :: "string \<Rightarrow> 'v \<Rightarrow> 'v"
  vp_SetConfigName :: "string \<Rightarrow> 'v \<Rightarrow> 'v"
  vp_SetConfigFile :: "string \<Rightarrow> 'v \<Rightarrow> 'v"
  vp_MergeInConfig :: "'v \<Rightarrow> world \<Rightarrow> (err option \<times> 'v) \<times> world"
  vp_BindPFlag :: "Flag \<Rightarrow> 'v \<Rightarrow> 'v"
  vp_SetEnvKeyReplacer :: "char \<Rightarrow> char \<Rightarrow> 'v \<Rightarrow> 'v"
  vp_BindEnv :: "string \<Rightarrow> string \<Rightarrow> 'v \<Rightarrow> 'v"
  vp_GetString :: "string \<Rightarrow> 'v \<Rightarrow> string"
  vp_UnmarshalBuild :: "'v \<Rightarrow> BuildConfig \<Rightarrow> err option \<times> BuildConfig"
  vp_UnmarshalRun :: "'v \<Rightarrow> RunConfig \<Rightarrow> err option \<times> RunConfig"
  vp_UnmarshalInstall :: "'v \<Rightarrow> InstallSpec \<Rightarrow> err option \<times> InstallSpec"
  vp_UnmarshalInit :: "'v \<Rightarrow> InitSpec \<Rightarrow> err option \<times> InitSpec"
  vp_UnmarshalMount :: "'v \<Rightarrow> MountSpec \<Rightarrow> err option \<times> MountSpec"
  vp_UnmarshalReset :: "'v \<Rightarrow> ResetSpec \<Rightarrow> err option \<times> ResetSpec"
  vp_UnmarshalUpgrade :: "'v \<Rightarrow> UpgradeSpec \<Rightarrow> err option \<times> UpgradeSpec"
  vp_UnmarshalISO :: "'v \<Rightarrow> LiveISO \<Rightarrow> err option \<times> LiveISO"
  vp_UnmarshalDisk :: "'v \<Rightarrow> DiskSpec \<Rightarrow> err option \<times> DiskSpec"

text \<open>Only flags given on the command line are bound. A nil flag set is \<open>None\<close>.\<close>

definition bindGivenFlags :: "'v Viper \<Rightarrow> FlagSet option \<Rightarrow> 'v \<Rightarrow> 'v" where
  "bindGivenFlags V flagSet vp = (case flagSet of None \<Rightarrow> vp
     | Some fs \<Rightarrow> foldl (\<lambda>vp f. if fl_Changed f then vp_BindPFlag V f vp else vp) vp fs)"

text \<open>The maps are read in the order of their entries; the language leaves the order open.\<close>

definition viperReadEnv :: "'v Viper \<Rightarrow> string \<Rightarrow> (string \<times> string) list \<Rightarrow> 'v \<Rightarrow> 'v" where
  "viperReadEnv V pre keyMap vp =
     (let pre' = (if pre = [] then ''ELEMENTAL'' else ''ELEMENTAL_'' @ pre)
      in foldl (\<lambda>vp (k, v). vp_BindEnv V k (pre' @ ''_'' @ v) vp) (vp_SetEnvKeyReplacer V (CHR ''-'') (CHR ''_'') vp) keyMap)"

definition GetRunKeyEnvMap :: "(string \<times> string) list" where
  "GetRunKeyEnvMap = [(''poweroff'', ''POWEROFF''), (''reboot'', ''REBOOT''), (''strict'', ''STRICT''), (''eject-cd'', ''EJECT_CD''),
     (''snapshotter.type'', ''SNAPSHOTTER_TYPE''), (''snapshotter.max-snaps'', ''SNAPSHOTTER_MAX_SNAPS''),
     (''cloud-init-paths'', ''CLOUD_INIT_PATHS'')]"

definition GetInitKeyEnvMap :: "(string \<times> string) list" where
  "GetInitKeyEnvMap = [(''mkinitrd'', ''MKINITRD''), (''force'', ''FORCE'')]"

definition GetMountKeyEnvMap :: "(string \<times> string) list" where
  "GetMountKeyEnvMap = [(''write-fstab'', ''WRITE_FSTAB''), (''sysroot'', ''SYSROOT'')]"

definition GetInstallKeyEnvMap :: "(string \<times> string) list" where
  "GetInstallKeyEnvMap = [(''target'', ''TARGET''), (''system'', ''SYSTEM''), (''recovery-system.uri'', ''RECOVERY_SYSTEM''),
     (''cloud-init'', ''CLOUD_INIT''), (''iso'', ''ISO''), (''firmware'', ''FIRMWARE''), (''part-table'', ''PART_TABLE''),
     (''no-format'', ''NO_FORMAT''), (''grub-entry-name'', ''GRUB_ENTRY_NAME''), (''disable-boot-entry'', ''DISABLE_BOOT_ENTRY''),
     (''snapshot-labels'', ''SNAPSHOT_LABELS'')]"

definition GetResetKeyEnvMap :: "(string \<times> string) list" where
  "GetResetKeyEnvMap = [(''system'', ''SYSTEM''), (''grub-entry-name'', ''GRUB_ENTRY_NAME''), (''cloud-init'', ''CLOUD_INIT''),
     (''reset-persistent'', ''PERSISTENT''), (''reset-oem'', ''OEM''), (''disable-boot-entry'', ''DISABLE_BOOT_ENTRY''),
     (''snapshot-labels'', ''SNAPSHOT_LABELS'')]"

definition GetUpgradeKeyEnvMap :: "(string \<times> string) list" where
  "GetUpgradeKeyEnvMap = [(''recovery'', ''RECOVERY''), (''system'', ''SYSTEM''), (''recovery-system.uri'', ''RECOVERY_SYSTEM''),
     (''snapshot-labels'', ''SNAPSHOT_LABELS'')]"

definition GetBuildKeyEnvMap :: "(string \<times> string) list" where
  "GetBuildKeyEnvMap = [(''name'', ''NAME'')]"

definition GetISOKeyEnvMap :: "(string \<times> string) list" where "GetISOKeyEnvMap = []"
definition GetDiskKeyEnvMap :: "(string \<times> string) list" where "GetDiskKeyEnvMap = []"

definition ConfigDir :: string where "ConfigDir = ''/etc/elemental''"
definition ActiveImgName :: string where "ActiveImgName = ''active''"
definition PassiveImgName :: string where "PassiveImgName = ''passive''"
definition cfgDefault :: string where "cfgDefault = ''/etc/os-release''"

subsection \<open>Configuration files\<close>

text \<open>
  The logger writes to a file that is created when it does not exist; its level, format and outputs are not part of the
  model.
\<close>

definition configLogger :: "'v Viper \<Rightarrow> ('v \<times> world, unit) io" where
  "configLogger V = bindIO getO (\<lambda>vp. let logfile = vp_GetString V ''logfile'' vp in
     whenIO (logfile \<noteq> []) (liftW (ignoreIO (fs_OpenRdwr logfile 511))))"

definition mergeIn :: "'v Viper \<Rightarrow> ('v \<times> world, err option) io" where
  "mergeIn V = (\<lambda>(vp, w). case vp_MergeInConfig V vp w of ((e, vp'), w') \<Rightarrow> (Inr e, (vp', w')))"

text \<open>A configuration file that exists is merged with the settings made before.\<close>

definition mergeFile :: "'v Viper \<Rightarrow> string \<Rightarrow> ('v \<Rightarrow> 'v) \<Rightarrow> ('v \<times> world, err option) io" where
  "mergeFile V path settings = bindIO (liftW (okIO False (Exists path False))) (\<lambda>exists.
     if exists then thenIO (modO settings) (mergeIn V) else retIO None)"

text \<open>\<^verbatim>\<open>filepath.WalkDir\<close>: the root is not followed when it is a link.\<close>

definition filepath_WalkDir :: "'acc walkFn \<Rightarrow> string \<Rightarrow> 'acc \<Rightarrow> (world, err option \<times> 'acc) io" where
  "filepath_WalkDir fn root acc = (\<lambda>w.
     bindIO (case fs_Lstat root w of
         (Inl e, w') \<Rightarrow> (\<lambda>_. fn root None (Some e) acc w')
       | (Inr info, w') \<Rightarrow> (\<lambda>_. walkDir (Suc (length (files w))) fn root info acc w'))
       (\<lambda>(e, acc'). retIO (if e = Some SkipDir then None else e, acc')) w)"

definition extraFn :: "'v Viper \<Rightarrow> 'v walkFn" where
  "extraFn V path d e vp = (case d of
     None \<Rightarrow> failIO Panic
   | Some n \<Rightarrow> (let isDir = (case n of NDir _ \<Rightarrow> True | _ \<Rightarrow> False); name = Base path in
       if \<not> isDir \<and> Ext name = ''.yaml''
       then (\<lambda>w. case vp_MergeInConfig V (vp_SetConfigName V (TrimSuffix name ''.yaml'') (vp_SetConfigType V ''yaml'' vp)) w of
               (r, w') \<Rightarrow> (Inr r, w'))
       else retIO (None, vp)))"

definition mergeExtra :: "'v Viper \<Rightarrow> string \<Rightarrow> ('v \<times> world, err option) io" where
  "mergeExtra V cfgExtra = bindIO (liftW (okIO False (Exists cfgExtra False))) (\<lambda>exists.
     if exists
     then (\<lambda>(vp, w). case filepath_WalkDir (extraFn V) cfgExtra (vp_AddConfigPath V cfgExtra vp) w of
        (Inl e, w') \<Rightarrow> (Inl e, (vp_AddConfigPath V cfgExtra vp, w'))
      | (Inr (e, vp'), w') \<Rightarrow> (Inr e, (vp', w')))
     else retIO None)"

definition ReadConfigBuild :: "'v Viper \<Rightarrow> string \<Rightarrow> Config \<Rightarrow> string \<Rightarrow> FlagSet option \<Rightarrow>
    ('v \<times> world, BuildConfig \<times> err option) io" where
  "ReadConfigBuild V goarch sys configDir0 flags =
     bindIO (sumIO (NewBuildConfig goarch sys [])) (\<lambda>cfg.
     thenIO (configLogger V)
     (let configDir = (if configDir0 = [] then ''.'' else configDir0) in
     bindIO (mergeFile V (Join [configDir, ''manifest.yaml''])
       (\<lambda>vp. vp_SetConfigName V ''manifest'' (vp_SetConfigType V ''yaml'' (vp_AddConfigPath V configDir vp)))) (\<lambda>e.
     if e \<noteq> None then retIO (cfg, e)
     else thenIO (modO (bindGivenFlags V flags))
       (thenIO (modO (viperReadEnv V ''BUILD'' GetBuildKeyEnvMap))
       (bindIO getO (\<lambda>vp. case BuildConfig_Sanitize goarch (snd (vp_UnmarshalBuild V vp cfg)) of
          (e2, cfg') \<Rightarrow> retIO (cfg', e2)))))))"

text \<open>The three sources of a run configuration, each merged over the one before; the first error ends the reading.\<close>

definition mergeRunFiles :: "'v Viper \<Rightarrow> string \<Rightarrow> ('v \<times> world, err option) io" where
  "mergeRunFiles V configDir =
     bindIO (mergeFile V cfgDefault (\<lambda>vp. vp_SetConfigType V ''env'' (vp_SetConfigFile V cfgDefault vp))) (\<lambda>e1.
     if e1 \<noteq> None then retIO e1
     else bindIO (mergeFile V (Join [configDir, ''config.yaml''])
       (\<lambda>vp. vp_SetConfigName V ''config'' (vp_SetConfigType V ''yaml'' (vp_AddConfigPath V configDir vp)))) (\<lambda>e2.
     if e2 \<noteq> None then retIO e2 else mergeExtra V (Join [configDir, ''config.d''])))"

definition ReadConfigRun :: "'v Viper \<Rightarrow> string \<Rightarrow> yamlState \<Rightarrow> RunConfig \<Rightarrow> string \<Rightarrow> FlagSet option \<Rightarrow>
    ('v \<times> world, RunConfig \<times> err option) io" where
  "ReadConfigRun V goarch yaml sys configDir flags =
     bindIO (liftW (NewRunConfig goarch yaml sys [])) (\<lambda>cfg.
     thenIO (configLogger V)
     (bindIO (mergeRunFiles V (if configDir = [] then ConfigDir else configDir)) (\<lambda>e.
     if e \<noteq> None then retIO (cfg, e)
     else thenIO (modO (bindGivenFlags V flags))
       (thenIO (modO (viperReadEnv V [] GetRunKeyEnvMap))
       (bindIO getO (\<lambda>vp. let cfg1 = snd (vp_UnmarshalRun V vp cfg) in
          case RunConfig_Sanitize goarch (rc_Config cfg1) of (e2, c) \<Rightarrow> retIO (cfg1\<lparr>rc_Config := c\<rparr>, e2)))))))"

subsection \<open>Specifications\<close>

definition specViper :: "'v Viper \<Rightarrow> string \<Rightarrow> string \<Rightarrow> (string \<times> string) list \<Rightarrow> FlagSet option \<Rightarrow> 'v \<Rightarrow> 'v" where
  "specViper V key pre keyMap flags vp =
     (let sub = (case vp_Sub V key vp of None \<Rightarrow> vp_New V | Some s \<Rightarrow> s)
      in viperReadEnv V pre keyMap (bindGivenFlags V flags sub))"

definition ReadInstallSpec :: "'v Viper \<Rightarrow> nat \<Rightarrow> 'v \<Rightarrow> FlagSet option \<Rightarrow> (world, InstallSpec \<times> err option) io" where
  "ReadInstallSpec V ref gv flags = bindIO (NewInstallSpec ref) (\<lambda>install0.
     let vp = specViper V ''install'' ''INSTALL'' GetInstallKeyEnvMap flags gv;
         install = snd (vp_UnmarshalInstall V vp install0)
     in case InstallSpec_Sanitize (ref + 6) install of (e, install') \<Rightarrow>
       if e = Some Panic then failIO Panic else retIO (install', e))"

definition ReadInitSpec :: "'v Viper \<Rightarrow> 'v \<Rightarrow> FlagSet option \<Rightarrow> InitSpec \<times> err option" where
  "ReadInitSpec V gv flags =
     (let vp = specViper V ''init'' ''INIT'' GetInitKeyEnvMap flags gv
      in case vp_UnmarshalInit V vp NewInitSpec of (e, spec) \<Rightarrow> (spec, e))"

text \<open>Overlays of a mount: a size of a tmpfs, or the label or UUID of a block device.\<close>

definition applyMountOverlay :: "string \<Rightarrow> MountSpec \<Rightarrow> err option \<times> MountSpec" where
  "applyMountOverlay overlay mount =
     (let split = splitOn (CHR '':'') overlay in
      if length split = 2 \<and> split ! 0 = Tmpfs
      then (None, mount\<lparr>ms_Ephemeral := (ms_Ephemeral mount)\<lparr>em_Device := [], em_Type := split ! 0, em_Size := split ! 1\<rparr>\<rparr>)
      else
        let mount1 = mount\<lparr>ms_Ephemeral := (ms_Ephemeral mount)\<lparr>em_Type := Block, em_Size := []\<rparr>\<rparr>;
            blockSplit = splitOn (CHR ''='') overlay;
            setDevice = (\<lambda>dir. (None, mount1\<lparr>ms_Ephemeral := (ms_Ephemeral mount1)\<lparr>em_Device := dir @ blockSplit ! 1\<rparr>\<rparr>)) in
        if length blockSplit \<noteq> 2 then (Some (Errorf (''Unknown block overlay '' @ overlay)), mount1)
        else if blockSplit ! 0 = ''LABEL'' then setDevice ''/dev/disk/by-label/''
        else if blockSplit ! 0 = ''UUID'' then setDevice ''/dev/disk/by-uuid/''
        else (Some (Errorf (''Unknown block overlay '' @ overlay)), mount1))"

text \<open>
  The loop over the volumes assigns the variable it later compares with nil: after a loop without match it points to the
  last volume, so a volume is appended only to an empty list.
\<close>

fun setOemDevice :: "string \<Rightarrow> VolumeMount list \<Rightarrow> VolumeMount list" where
  "setOemDevice dev [] = []"
| "setOemDevice dev (v # vs) =
     (if vm_Mountpoint v = OEMPath then v\<lparr>vm_Device := dev\<rparr> # vs else v # setOemDevice dev vs)"

definition applyOemLabel :: "string \<Rightarrow> MountSpec \<Rightarrow> MountSpec" where
  "applyOemLabel val mount = (let oemdev = ''LABEL='' @ val in
     mount\<lparr>ms_Volumes := (if ms_Volumes mount = []
       then [\<lparr>vm_Mountpoint = OEMPath, vm_Device = oemdev, vm_Options = [''rw'', ''defaults''], vm_FSType = []\<rparr>]
       else setOemDevice oemdev (ms_Volumes mount))\<rparr>)"

text \<open>\<^verbatim>\<open>strings.SplitN(cmd, "=", 2)\<close>: the key and the value, empty without the sign.\<close>

definition cmdKey :: "string \<Rightarrow> string" where "cmdKey c = takeWhile (\<lambda>x. x \<noteq> CHR ''='') c"
definition cmdVal :: "string \<Rightarrow> string" where "cmdVal c = drop 1 (dropWhile (\<lambda>x. x \<noteq> CHR ''='') c)"

definition modeOf :: "string \<Rightarrow> string option" where
  "modeOf val = (if Contains val ActiveImgName then Some ActiveImgName
     else if Contains val PassiveImgName then Some PassiveImgName
     else if Contains val RecoveryImgName then Some RecoveryImgName else None)"

definition applyCmd :: "string \<Rightarrow> MountSpec \<Rightarrow> err option \<times> MountSpec" where
  "applyCmd cmd mount =
     (let val = cmdVal cmd in
      if cmdKey cmd = ''elemental.mode'' then
        (case modeOf val of Some m \<Rightarrow> (None, mount\<lparr>ms_Mode := m\<rparr>)
         | None \<Rightarrow> (Some (Errorf (''Unknown image path: '' @ val)), mount))
      else if cmdKey cmd = ''elemental.disable'' then (None, mount\<lparr>ms_Disable := True\<rparr>)
      else if cmdKey cmd = ''elemental.overlay'' then applyMountOverlay val mount
      else if cmdKey cmd = ''elemental.oemlabel'' then (None, applyOemLabel val mount)
      else (None, mount))"

fun applyCmds :: "string list \<Rightarrow> MountSpec \<Rightarrow> err option \<times> MountSpec" where
  "applyCmds [] mount = (None, mount)"
| "applyCmds (cmd # rest) mount = (case applyCmd cmd mount of
     (Some e, mount') \<Rightarrow> (Some e, mount') | (None, mount') \<Rightarrow> applyCmds rest mount')"

definition applyKernelCmdline :: "MountSpec \<Rightarrow> (world, err option \<times> MountSpec) io" where
  "applyKernelCmdline mount = (\<lambda>w. case fs_ReadFile ''/proc/cmdline'' w of
     (Inl e, w') \<Rightarrow> (Inr (Some e, mount), w')
   | (Inr cmdline, w') \<Rightarrow> (Inr (applyCmds (Fields cmdline) mount), w'))"

definition applyMountEnvVars :: "Config \<Rightarrow> MountSpec \<Rightarrow> err option \<times> MountSpec" where
  "applyMountEnvVars cfg mount =
     (let overlay = cfg_Getenv cfg ''OVERLAY'';
          (e, m1) = (if overlay \<noteq> [] then applyMountOverlay overlay mount else (None, mount)) in
      if e \<noteq> None then (e, m1)
      else let rwPaths = cfg_Getenv cfg ''RW_PATHS'';
               m2 = (if rwPaths \<noteq> [] then m1\<lparr>ms_Ephemeral := (ms_Ephemeral m1)\<lparr>em_Paths := splitOn (CHR '' '') rwPaths\<rparr>\<rparr> else m1);
               persistentPaths = cfg_Getenv cfg ''PERSISTENT_STATE_PATHS'';
               m3 = (if persistentPaths \<noteq> []
                 then m2\<lparr>ms_Persistent := (ms_Persistent m2)\<lparr>pm_Paths := splitOn (CHR '' '') persistentPaths\<rparr>\<rparr> else m2);
               m4 = (if cfg_Getenv cfg ''PERSISTENT_STATE_BIND'' \<noteq> []
                 then m3\<lparr>ms_Persistent := (ms_Persistent m3)\<lparr>pm_Mode := BindMode\<rparr>\<rparr> else m3)
           in (None, m4))"

definition ReadMountSpec :: "'v Viper \<Rightarrow> RunConfig \<Rightarrow> 'v \<Rightarrow> FlagSet option \<Rightarrow> (world, MountSpec \<times> err option) io" where
  "ReadMountSpec V r gv flags = bindIO NewMountSpec (\<lambda>mount0.
     let vp = specViper V ''mount'' ''MOUNT'' GetMountKeyEnvMap flags gv in
     case vp_UnmarshalMount V vp mount0 of (e1, mount1) \<Rightarrow>
       if e1 \<noteq> None then retIO (mount1, e1)
       else case applyMountEnvVars (rc_Config r) mount1 of (e2, mount2) \<Rightarrow>
         if e2 \<noteq> None then retIO (mount2, e2)
         else bindIO (applyKernelCmdline mount2) (\<lambda>(e3, mount3).
           if e3 \<noteq> None then retIO (mount3, e3)
           else case MountSpec_Sanitize mount3 of (e4, mount4) \<Rightarrow> retIO (mount4, e4)))"

definition wrapped :: "string \<Rightarrow> ('s, 'a) io \<Rightarrow> ('s, 'a) io" where
  "wrapped msg m = (\<lambda>s. case m s of
     (Inl e, s') \<Rightarrow> (Inl (if e = Panic then Panic else Errorf msg), s') | (Inr x, s') \<Rightarrow> (Inr x, s'))"

definition ReadResetSpec :: "'v Viper \<Rightarrow> yamlState \<Rightarrow> RunConfig \<Rightarrow> 'v \<Rightarrow> FlagSet option \<Rightarrow> (world, ResetSpec) io" where
  "ReadResetSpec V yaml r gv flags =
     bindIO (wrapped ''failed initializing reset spec'' (NewResetSpec yaml (rc_Config r))) (\<lambda>reset0.
     let vp = specViper V ''reset'' ''RESET'' GetResetKeyEnvMap flags gv;
         reset = snd (vp_UnmarshalReset V vp reset0)
     in thenIO (raiseIO (ResetSpec_Sanitize reset)) (retIO reset))"

definition ReadUpgradeSpec :: "'v Viper \<Rightarrow> yamlState \<Rightarrow> RunConfig \<Rightarrow> 'v \<Rightarrow> FlagSet option \<Rightarrow> bool \<Rightarrow> (world, UpgradeSpec) io" where
  "ReadUpgradeSpec V yaml r gv flags recoveryOnly =
     bindIO (wrapped ''failed initializing upgrade spec'' (NewUpgradeSpec yaml (rc_Config r))) (\<lambda>upgrade0.
     let vp = specViper V ''upgrade'' ''UPGRADE'' GetUpgradeKeyEnvMap flags gv;
         upgrade1 = snd (vp_UnmarshalUpgrade V vp upgrade0)
     in case (if recoveryOnly then SanitizeForRecoveryOnly upgrade1 else UpgradeSpec_Sanitize upgrade1) of (e, upgrade2) \<Rightarrow>
       thenIO (wrapped ''failed sanitizing upgrade spec'' (raiseIO e)) (ReconcileUpgradeSpec r upgrade2))"

definition ReadBuildISO :: "'v Viper \<Rightarrow> 'v \<Rightarrow> FlagSet option \<Rightarrow> LiveISO \<times> err option" where
  "ReadBuildISO V gv flags =
     (let vp = specViper V ''iso'' ''ISO'' GetISOKeyEnvMap flags gv;
          spec = snd (vp_UnmarshalISO V vp NewISO)
      in (spec, LiveISO_Sanitize spec))"

definition ReadBuildDisk :: "'v Viper \<Rightarrow> nat \<Rightarrow> BuildConfig \<Rightarrow> 'v \<Rightarrow> FlagSet option \<Rightarrow> (world, DiskSpec \<times> err option) io" where
  "ReadBuildDisk V ref b gv flags =
     (let vp = specViper V ''disk'' ''DISK'' GetDiskKeyEnvMap flags gv;
          spec = snd (vp_UnmarshalDisk V vp (NewDiskSpec ref b))
      in case DiskSpec_Sanitize spec of (e, spec') \<Rightarrow> if e = Some Panic then failIO Panic else retIO (spec', e))"

subsection \<open>What the kernel command line decides\<close>

definition modeWord :: "string \<Rightarrow> bool" where "modeWord c \<longleftrightarrow> cmdKey c = ''elemental.mode''"
definition disableWord :: "string \<Rightarrow> bool" where "disableWord c \<longleftrightarrow> cmdKey c = ''elemental.disable''"

text \<open>The mode of the last mode word; a word the program accepts has one.\<close>

definition cmdlineMode :: "string list \<Rightarrow> string \<Rightarrow> string" where
  "cmdlineMode cs def = (let ms = filter modeWord cs in if ms = [] then def else the (modeOf (cmdVal (last ms))))"

definition goodOverlay :: "string \<Rightarrow> bool" where
  "goodOverlay v \<longleftrightarrow> (let s = splitOn (CHR '':'') v; b = splitOn (CHR ''='') v in
     length s = 2 \<and> s ! 0 = Tmpfs \<or> length b = 2 \<and> b ! 0 \<in> {''LABEL'', ''UUID''})"

definition goodCmd :: "string \<Rightarrow> bool" where
  "goodCmd c \<longleftrightarrow> (modeWord c \<longrightarrow> modeOf (cmdVal c) \<noteq> None) \<and> (cmdKey c = ''elemental.overlay'' \<longrightarrow> goodOverlay (cmdVal c))"

lemma overlay_keeps:
  "applyMountOverlay v m = (e, m') \<Longrightarrow> ms_Mode m' = ms_Mode m \<and> ms_Disable m' = ms_Disable m \<and> ms_Volumes m' = ms_Volumes m \<and>
     ms_Persistent m' = ms_Persistent m \<and> (e = None \<longleftrightarrow> goodOverlay v)"
  by (auto simp: applyMountOverlay_def goodOverlay_def Let_def split: if_splits)

lemma applyCmd_result:
  assumes "applyCmd c m = (e, m')"
  shows "e = None \<longleftrightarrow> goodCmd c"
    and "e = None \<Longrightarrow> ms_Mode m' = (if modeWord c then the (modeOf (cmdVal c)) else ms_Mode m)"
    and "e = None \<Longrightarrow> ms_Disable m' = (ms_Disable m \<or> disableWord c)"
    and "ms_Persistent m' = ms_Persistent m"
  using assms
  by (auto simp: applyCmd_def goodCmd_def modeWord_def disableWord_def applyOemLabel_def Let_def
      split: if_splits option.splits dest: overlay_keeps)

lemma cmdlineMode_Cons:
  "cmdlineMode (c # cs) def = cmdlineMode cs (if modeWord c then the (modeOf (cmdVal c)) else def)"
  by (simp add: cmdlineMode_def Let_def)

lemma applyCmds_result:
  "applyCmds cs m = (e, m') \<Longrightarrow> (e = None \<longleftrightarrow> list_all goodCmd cs) \<and> ms_Persistent m' = ms_Persistent m \<and>
     (e = None \<longrightarrow> ms_Mode m' = cmdlineMode cs (ms_Mode m) \<and> ms_Disable m' = (ms_Disable m \<or> list_ex disableWord cs))"
proof (induction cs arbitrary: m)
  case Nil
  then show ?case by (simp add: cmdlineMode_def)
next
  case (Cons c cs)
  obtain e1 m1 where c: "applyCmd c m = (e1, m1)" by fastforce
  note one = applyCmd_result[OF c]
  show ?case
  proof (cases e1)
    case None
    then have "applyCmds cs m1 = (e, m')" using Cons.prems c by simp
    from Cons.IH[OF this] show ?thesis using one None by (auto simp: cmdlineMode_Cons)
  next
    case (Some err)
    then show ?thesis using Cons.prems c one by auto
  qed
qed

text \<open>A sanitized mount specification.\<close>

definition goodMount :: "MountSpec \<Rightarrow> bool" where
  "goodMount m \<longleftrightarrow> pm_Mode (ms_Persistent m) \<in> {''bind'', ''overlay''} \<and> em_Type (ms_Ephemeral m) \<in> {''tmpfs'', ''block''} \<and>
     (\<forall>ps \<in> {pm_Paths (ms_Persistent m), em_Paths (ms_Ephemeral m)}. [] \<notin> set ps \<and> sorted (map (\<lambda>p. Count_char p slash) ps))"

lemma MountSpec_Sanitize_good:
  "MountSpec_Sanitize m = (None, m') \<Longrightarrow> goodMount m' \<and> ms_Mode m' = ms_Mode m \<and> ms_Disable m' = ms_Disable m"
  by (auto simp: MountSpec_Sanitize_def goodMount_def sanitizePaths_def Let_def sorted_sort_key split: if_splits)

lemma ReadMountSpec_returns:
  assumes "ReadMountSpec V r gv flags w = (Inr (spec, None), w')"
  obtains m0 w0 m1 m2 cmdline m3 where "NewMountSpec w = (Inr m0, w0)"
    "vp_UnmarshalMount V (specViper V ''mount'' ''MOUNT'' GetMountKeyEnvMap flags gv) m0 = (None, m1)"
    "applyMountEnvVars (rc_Config r) m1 = (None, m2)" "fs_ReadFile ''/proc/cmdline'' w0 = (Inr cmdline, w')"
    "applyCmds (Fields cmdline) m2 = (None, m3)" "MountSpec_Sanitize m3 = (None, spec)"
  using assms unfolding ReadMountSpec_def applyKernelCmdline_def bindIO_def Let_def
  by (auto simp: retIO_def split: prod.splits sum.splits if_splits)

lemma applyMountEnvVars_keeps:
  "applyMountEnvVars cfg m = (None, m') \<Longrightarrow> ms_Mode m' = ms_Mode m \<and> ms_Disable m' = ms_Disable m"
  by (auto simp: applyMountEnvVars_def Let_def split: prod.splits if_splits dest: overlay_keeps)

text \<open>
  Property C16. A mount specification that is read without error is well-formed (known modes and types, paths not empty and
  sorted by depth), and the kernel command line has the last word on it: its words were all valid, the mode is the one
  of the last \<^verbatim>\<open>elemental.mode\<close> word, or that of the configuration without such a word, and the mounts are disabled when a
  word \<^verbatim>\<open>elemental.disable\<close> is there or the configuration says so.
\<close>

theorem ReadMountSpec_cmdline:
  assumes "ReadMountSpec V r gv flags w = (Inr (spec, None), w')"
  shows "\<exists>m0 w0 m1 cmdline. NewMountSpec w = (Inr m0, w0) \<and>
     vp_UnmarshalMount V (specViper V ''mount'' ''MOUNT'' GetMountKeyEnvMap flags gv) m0 = (None, m1) \<and>
     fs_ReadFile ''/proc/cmdline'' w0 = (Inr cmdline, w') \<and> goodMount spec \<and> list_all goodCmd (Fields cmdline) \<and>
     ms_Mode spec = cmdlineMode (Fields cmdline) (ms_Mode m1) \<and>
     ms_Disable spec = (ms_Disable m1 \<or> list_ex disableWord (Fields cmdline))"
proof -
  from assms obtain m0 w0 m1 m2 cmdline m3 where run: "NewMountSpec w = (Inr m0, w0)"
    "vp_UnmarshalMount V (specViper V ''mount'' ''MOUNT'' GetMountKeyEnvMap flags gv) m0 = (None, m1)"
    "applyMountEnvVars (rc_Config r) m1 = (None, m2)" "fs_ReadFile ''/proc/cmdline'' w0 = (Inr cmdline, w')"
    "applyCmds (Fields cmdline) m2 = (None, m3)" "MountSpec_Sanitize m3 = (None, spec)"
    by (rule ReadMountSpec_returns)
  then show ?thesis
    using applyMountEnvVars_keeps[OF run(3)] applyCmds_result[OF run(5)] MountSpec_Sanitize_good[OF run(6)] by simp
qed

text \<open>A viper without files, flags and variables, and a host with a command line.\<close>

definition emptyViper :: "unit Viper" where
  "emptyViper = \<lparr>vp_New = (), vp_Sub = (\<lambda>_ _. None), vp_AddConfigPath = (\<lambda>_ v. v), vp_SetConfigType = (\<lambda>_ v. v),
     vp_SetConfigName = (\<lambda>_ v. v), vp_SetConfigFile = (\<lambda>_ v. v), vp_MergeInConfig = (\<lambda>v w. ((None, v), w)),
     vp_BindPFlag = (\<lambda>_ v. v), vp_SetEnvKeyReplacer = (\<lambda>_ _ v. v), vp_BindEnv = (\<lambda>_ _ v. v), vp_GetString = (\<lambda>_ _. []),
     vp_UnmarshalBuild = (\<lambda>_ c. (None, c)), vp_UnmarshalRun = (\<lambda>_ c. (None, c)), vp_UnmarshalInstall = (\<lambda>_ c. (None, c)),
     vp_UnmarshalInit = (\<lambda>_ c. (None, c)), vp_UnmarshalMount = (\<lambda>_ c. (None, c)), vp_UnmarshalReset = (\<lambda>_ c. (None, c)),
     vp_UnmarshalUpgrade = (\<lambda>_ c. (None, c)), vp_UnmarshalISO = (\<lambda>_ c. (None, c)), vp_UnmarshalDisk = (\<lambda>_ c. (None, c))\<rparr>"

definition cmdlineWorld :: world where
  "cmdlineWorld = demoWorld\<lparr>files := [([''proc''], NDir 0), ([''proc'', ''cmdline''],
     NFile 0 ''root=LABEL=x elemental.mode=/active.img quiet elemental.disable elemental.mode=recovery'')]\<rparr>"

theorem ReadMountSpec_cmdline_witness:
  "\<exists>spec w'. ReadMountSpec emptyViper (demoRunConfig False) () None cmdlineWorld = (Inr (spec, None), w') \<and>
     goodMount spec \<and> ms_Mode spec = ''recovery'' \<and> ms_Disable spec"
proof -
  let ?run = "ReadMountSpec emptyViper (demoRunConfig False) () None cmdlineWorld"
  have ok: "(case fst ?run of Inr (_, e) \<Rightarrow> e = None | Inl _ \<Rightarrow> False)" by code_simp
  then obtain spec w' where run: "?run = (Inr (spec, None), w')" by (cases ?run) (auto split: sum.splits prod.splits)
  have cl: "fst (fs_ReadFile ''/proc/cmdline'' (snd (NewMountSpec cmdlineWorld))) =
      Inr ''root=LABEL=x elemental.mode=/active.img quiet elemental.disable elemental.mode=recovery''" by code_simp
  have ws: "cmdlineMode (Fields ''root=LABEL=x elemental.mode=/active.img quiet elemental.disable elemental.mode=recovery'') d = ''recovery''"
      "list_ex disableWord (Fields ''root=LABEL=x elemental.mode=/active.img quiet elemental.disable elemental.mode=recovery'')" for d
    by code_simp+
  from ReadMountSpec_cmdline[OF run] cl ws run show ?thesis by auto
qed

subsection \<open>The label of the OEM partition\<close>

lemma setOemDevice_none: "list_all (\<lambda>v. vm_Mountpoint v \<noteq> OEMPath) vs \<Longrightarrow> setOemDevice dev vs = vs"
  by (induction vs) auto

text \<open>
  A word \<^verbatim>\<open>elemental.oemlabel\<close> changes nothing when there are volumes and none of them is mounted on the OEM path:
  the volume the code means to append is never appended.
\<close>

theorem oemlabel_ignored:
  assumes "list_all (\<lambda>v. vm_Mountpoint v \<noteq> OEMPath) (ms_Volumes mount)" "ms_Volumes mount \<noteq> []"
    and "cmdKey cmd = ''elemental.oemlabel''"
  shows "applyCmd cmd mount = (None, mount)"
  using assms setOemDevice_none by (simp add: applyCmd_def applyOemLabel_def Let_def)

subsection \<open>Reading runs no command and mounts nothing\<close>

definition untouched :: "world \<Rightarrow> world \<Rightarrow> bool" where
  "untouched w w' \<longleftrightarrow> cmds w' = cmds w \<and> mounts w' = mounts w"

definition untouchedV :: "'v \<times> world \<Rightarrow> 'v \<times> world \<Rightarrow> bool" where
  "untouchedV s s' \<longleftrightarrow> untouched (snd s) (snd s')"

interpretation unt: state_frame untouched
  by unfold_locales (auto simp: untouched_def)

interpretation untV: state_frame untouchedV
  by unfold_locales (auto simp: untouchedV_def untouched_def)

text \<open>viper reads files, it runs no command and mounts nothing.\<close>

definition quietViper :: "'v Viper \<Rightarrow> bool" where
  "quietViper V \<longleftrightarrow> (\<forall>vp w. untouched w (snd (vp_MergeInConfig V vp w)))"

lemma unt_sysIO:
  assumes "\<And>w. untouched w (snd (m w))"
  shows "keeps untouched (sysIO m)"
proof (rule keepsI)
  fix w r t assume "sysIO m w = (r, t)"
  then show "untouched w t" using assms[of "w\<lparr>ticks := Suc (ticks w)\<rparr>"]
    by (auto simp: sysIO_def Let_def untouched_def split: if_splits)
qed

lemma unt_fs:
  "keeps untouched (fs_Lstat p)" "keeps untouched (fs_Stat p)" "keeps untouched (fs_ReadDir p)" "keeps untouched (fs_ReadFile p)"
  "keeps untouched (fs_OpenRdwr p mode)"
  unfolding fs_Lstat_def fs_Stat_def fs_ReadDir_def fs_ReadFile_def fs_OpenRdwr_def
  by (rule unt_sysIO, auto simp: untouched_def fs_set_def Let_def split: option.splits node.splits if_splits)+

lemma unt_Exists: "keeps untouched (Exists p nf)"
  by (rule keepsI) (auto simp: Exists_def split: prod.splits sum.splits if_splits dest: keepsD[OF unt_fs(1)] keepsD[OF unt_fs(2)])

lemma untV_lift: "keeps untouched m \<Longrightarrow> keeps untouchedV (liftW m)"
  by (rule keepsI) (auto simp: liftW_def untouchedV_def split: prod.splits dest: keepsD)

lemma untV_objects: "keeps untouchedV getO" "keeps untouchedV (modO f)"
  by (auto simp: keeps_def getO_def modO_def untouchedV_def untouched_def split: prod.splits)

lemma unt_LoadInstallState: "keeps untouched (LoadInstallState yaml)"
proof -
  have "keeps untouched (\<lambda>w. case fs_ReadFile p w of (Inr data, w') \<Rightarrow> (Inr data, w') | (Inl _, w') \<Rightarrow> fs_ReadFile q w')" for p q
    by (rule keepsI) (auto split: prod.splits sum.splits dest!: keepsD[OF unt_fs(4)] simp: untouched_def)
  then show ?thesis unfolding LoadInstallState_def
    by (intro unt.keeps_bind) (auto intro: unt.keeps_ret unt.keeps_fail split: sum.splits)
qed

lemma unt_NewRunConfig: "keeps untouched (NewRunConfig goarch yaml sys opts)"
proof -
  have "keeps untouched (loadedState yaml)"
    by (rule keepsI) (auto simp: loadedState_def split: prod.splits sum.splits dest: keepsD[OF unt_LoadInstallState])
  then show ?thesis unfolding NewRunConfig_def deref_def
    by (auto intro!: unt.keeps_bind unt.keeps_ret unt.keeps_fail split: option.splits)
qed

lemma untV_mergeIn: "quietViper V \<Longrightarrow> keeps untouchedV (mergeIn V)"
  by (auto simp: keeps_def mergeIn_def quietViper_def untouchedV_def split: prod.splits) (metis snd_conv)

lemma untV_mergeExtra:
  assumes "quietViper V"
  shows "keeps untouchedV (mergeExtra V p)"
proof -
  have fn: "keeps untouched (extraFn V q d e vp)" for q d e vp
    using assms by (auto simp: extraFn_def Let_def quietViper_def keeps_def failIO_def retIO_def untouched_def
        split: option.splits prod.splits) (metis snd_conv)+
  have "keeps untouched (filepath_WalkDir (extraFn V) p vp)" for vp
  proof -
    have "keeps untouched (\<lambda>w. case fs_Lstat p w of (Inl e, w') \<Rightarrow> extraFn V p None (Some e) vp w'
        | (Inr info, w') \<Rightarrow> walkDir (Suc (length (files w))) (extraFn V) p info vp w')"
      by (rule keepsI) (auto simp del: walkDir.simps split: prod.splits sum.splits
          dest!: keepsD[OF unt_fs(1)] keepsD[OF fn] keepsD[OF walkDir_keeps[OF unt.state_frame_axioms unt_fs(3) fn]] intro: unt.trans)
    then show ?thesis
      by (auto simp: filepath_WalkDir_def keeps_def bindIO_def retIO_def simp del: walkDir.simps split: prod.splits sum.splits) (metis snd_conv)+
  qed
  then show ?thesis unfolding mergeExtra_def
    by (intro untV.keeps_bind untV_lift unt.keeps_ok unt_Exists)
      (auto simp: keeps_def retIO_def untouchedV_def unt.refl split: prod.splits sum.splits, (metis snd_conv)+)
qed

lemma untV_ReadConfigRun:
  assumes "quietViper V"
  shows "keeps untouchedV (ReadConfigRun V goarch yaml sys configDir flags)"
  unfolding ReadConfigRun_def mergeRunFiles_def mergeFile_def configLogger_def Let_def
  by (auto intro!: untV.keeps_bind untV.keeps_then untV.keeps_when untV.keeps_ret untV_objects untV_lift unt.keeps_ok unt.keeps_ignore
      unt_Exists unt_NewRunConfig unt_fs untV_mergeIn[OF assms] untV_mergeExtra[OF assms] split: prod.splits)

end
