(* ===== verification/Vhd.thy ===== *)
theory Vhd
  imports Fs_Utils
begin

section \<open>Fixed VHD images (pkg/utils/vhd.go)\<close>

text \<open>
  The footer that makes a raw disk a fixed VHD. Byte arrays of the header are strings of their fixed length, numbers are
  written big-endian. The geometry is computed with floating-point numbers in the source: all of them are whole numbers
  below \<open>2^28\<close>, for which the quotient rounded down is exact, so natural numbers with \<open>div\<close> give the same values. The
  time and the text of the random UUID, which comes from a third-party package, are arguments.
\<close>

record VHDHeader =
  vh_Cookie :: string
  vh_Features :: string
  vh_FileFormatVersion :: string
  vh_DataOffset :: string
  vh_Timestamp :: string
  vh_CreatorApplication :: string
  vh_CreatorVersion :: string
  vh_CreatorHostOS :: string
  vh_OriginalSize :: string
  vh_CurrentSize :: string
  vh_DiskGeometry :: string
  vh_DiskType :: string
  vh_Checksum :: string
  vh_UniqueID :: string
  vh_SavedState :: string
  vh_Reserved :: string

definition zeros :: "nat \<Rightarrow> string" where "zeros n = replicate n (CHR 0x00)"

definition emptyVHD :: VHDHeader where
  "emptyVHD = \<lparr>vh_Cookie = zeros 8, vh_Features = zeros 4, vh_FileFormatVersion = zeros 4, vh_DataOffset = zeros 8,
     vh_Timestamp = zeros 4, vh_CreatorApplication = zeros 4, vh_CreatorVersion = zeros 4, vh_CreatorHostOS = zeros 4,
     vh_OriginalSize = zeros 8, vh_CurrentSize = zeros 8, vh_DiskGeometry = zeros 4, vh_DiskType = zeros 4, vh_Checksum = zeros 4,
     vh_UniqueID = zeros 16, vh_SavedState = zeros 1, vh_Reserved = zeros 427\<rparr>"

text \<open>\<^verbatim>\<open>binary.Write\<close> of the header: its fields one after the other.\<close>

definition headerBytes :: "VHDHeader \<Rightarrow> string" where
  "headerBytes h = vh_Cookie h @ vh_Features h @ vh_FileFormatVersion h @ vh_DataOffset h @ vh_Timestamp h @
     vh_CreatorApplication h @ vh_CreatorVersion h @ vh_CreatorHostOS h @ vh_OriginalSize h @ vh_CurrentSize h @
     vh_DiskGeometry h @ vh_DiskType h @ vh_Checksum h @ vh_UniqueID h @ vh_SavedState h @ vh_Reserved h"

definition putUint :: "nat \<Rightarrow> nat \<Rightarrow> string" where
  "putUint n v = map (\<lambda>i. char_of (v div 256 ^ (n - 1 - i))) [0..<n]"

fun getUint :: "string \<Rightarrow> nat" where
  "getUint s = foldl (\<lambda>acc c. 256 * acc + of_char c) 0 s"

definition hexDigit :: "char \<Rightarrow> nat option" where
  "hexDigit c = (let n = (of_char c :: nat) in
     if 48 \<le> n \<and> n \<le> 57 then Some (n - 48) else if 97 \<le> n \<and> n \<le> 102 then Some (n - 87)
     else if 65 \<le> n \<and> n \<le> 70 then Some (n - 55) else None)"

fun hexDecode :: "string \<Rightarrow> string" where
  "hexDecode (a # b # cs) = (case (hexDigit a, hexDigit b) of
     (Some x, Some y) \<Rightarrow> char_of (16 * x + y) # hexDecode cs | _ \<Rightarrow> [])"
| "hexDecode _ = []"

text \<open>\<^verbatim>\<open>copy\<close> into a slice of fixed length.\<close>

definition copyInto :: "string \<Rightarrow> string \<Rightarrow> string" where
  "copyInto field src = take (length field) src @ drop (length src) field"

definition hexToField :: "string \<Rightarrow> string \<Rightarrow> string" where
  "hexToField hexs field = copyInto field (hexDecode hexs)"

record chs =
  cylinders :: nat
  heads :: nat
  sectorsPerTrack :: nat

definition chsOf :: "nat \<Rightarrow> chs" where
  "chsOf totalSectors =
     (let (spt, hds, cylinderTimesHeads) =
            (if totalSectors \<ge> 65535 * 16 * 63 then (255, 16, totalSectors div 255)
             else let cth1 = totalSectors div 17;
                      h1 = max 4 ((cth1 + 1023) div 1024);
                      (s2, h2, cth2) = (if cth1 \<ge> h1 * 1024 \<or> h1 > 16 then (31, 16, totalSectors div 31) else (17, h1, cth1))
                  in if cth2 \<ge> h2 * 1024 then (63, 16, totalSectors div 63) else (s2, h2, cth2))
      in \<lparr>cylinders = cylinderTimesHeads div hds, heads = hds, sectorsPerTrack = spt\<rparr>)"

definition chsCalculation :: "64 word \<Rightarrow> chs" where
  "chsCalculation sectors = chsOf (min (unat sectors) (65535 * 16 * 255))"

definition checksumOf :: "VHDHeader \<Rightarrow> int" where
  "checksumOf h = sum_list (map of_char (take 512 (headerBytes h)))"

definition generateChecksum :: "VHDHeader \<Rightarrow> VHDHeader" where
  "generateChecksum header = header\<lparr>vh_Checksum := putUint 4 (nat ((- checksumOf header - 1) mod 2 ^ 32))\<rparr>"

definition vhdFields :: "int \<Rightarrow> string \<Rightarrow> 64 word \<Rightarrow> VHDHeader" where
  "vhdFields now uuid sz =
     (let h0 = emptyVHD; geometry = chsCalculation (sz div 512) in
      h0
        \<lparr>vh_Features := hexToField ''00000002'' (vh_Features h0),
         vh_FileFormatVersion := hexToField ''00010000'' (vh_FileFormatVersion h0),
         vh_DataOffset := hexToField ''ffffffffffffffff'' (vh_DataOffset h0),
         vh_Timestamp := putUint 4 (nat ((now - 946684800) mod 2 ^ 32)),
         vh_CreatorApplication := hexToField ''656c656d'' (vh_CreatorApplication h0),
         vh_CreatorHostOS := hexToField ''73757365'' (vh_CreatorHostOS h0),
         vh_OriginalSize := putUint 8 (unat sz),
         vh_CurrentSize := putUint 8 (unat sz),
         vh_DiskGeometry := putUint 2 (cylinders geometry mod 2 ^ 16) @ putUint 1 (heads geometry) @ putUint 1 (sectorsPerTrack geometry),
         vh_DiskType := hexToField ''00000002'' (vh_DiskType h0),
         vh_Checksum := hexToField ''00000000'' (vh_Checksum h0),
         vh_UniqueID := copyInto (vh_UniqueID h0) uuid\<rparr>)"

definition newVHDFixed :: "int \<Rightarrow> string \<Rightarrow> 64 word \<Rightarrow> VHDHeader" where
  "newVHDFixed now uuid sz = generateChecksum (vhdFields now uuid sz)"

text \<open>
  The file is open for appending. A failing \<^verbatim>\<open>Stat\<close> leaves no information to read the size from; the error of the
  write is ignored.
\<close>

definition fileSize :: "string \<Rightarrow> (world, nat) io" where
  "fileSize p = (\<lambda>w. case fs_Stat p w of (Inl _, w') \<Rightarrow> (Inl Panic, w') | (Inr n, w') \<Rightarrow> (Inr (node_size n), w'))"

definition RawDiskToFixedVhd :: "int \<Rightarrow> string \<Rightarrow> string \<Rightarrow> (world, unit) io" where
  "RawDiskToFixedVhd now uuid diskFile =
     bindIO (fileSize diskFile) (\<lambda>sz.
       ignoreIO (appendFile diskFile (headerBytes (newVHDFixed now uuid (of_nat sz)))))"

subsection \<open>The geometry\<close>

lemma div_div_le: "(t div a) div b * b * a \<le> (t :: nat)"
proof -
  have "(t div a) div b * b \<le> t div a" by (rule div_times_less_eq_dividend)
  then have "(t div a) div b * b * a \<le> t div a * a" by (rule mult_le_mono1)
  also have "\<dots> \<le> t" by (rule div_times_less_eq_dividend)
  finally show ?thesis .
qed

text \<open>The four cases of the computation.\<close>

lemma chs_cases:
  assumes le: "t \<le> 65535 * 16 * 255"
  obtains s h where "chsOf t = \<lparr>cylinders = t div s div h, heads = h, sectorsPerTrack = s\<rparr>"
    "s \<in> {17, 31, 63, 255}" "4 \<le> h" "h \<le> 16" "t div s div h \<le> 65535"
proof -
  consider (big) "t \<ge> 65535 * 16 * 63" | (small) "t < 65535 * 16 * 63" by linarith
  then show ?thesis
  proof cases
    case big
    then have "chsOf t = \<lparr>cylinders = t div 255 div 16, heads = 16, sectorsPerTrack = 255\<rparr>"
      by (simp add: chsOf_def Let_def)
    moreover have "t div 255 div 16 \<le> 65535" using le by simp
    ultimately show ?thesis using that[of 255 16] by simp
  next
    case small
    have last: "t div 63 div 16 \<le> 65535" using small by simp
    let ?h = "max 4 ((t div 17 + 1023) div 1024)"
    show ?thesis
    proof (cases "t div 17 \<ge> ?h * 1024 \<or> ?h > 16")
      case True
      then have "chsOf t = (if t div 31 \<ge> 16 * 1024
          then \<lparr>cylinders = t div 63 div 16, heads = 16, sectorsPerTrack = 63\<rparr>
          else \<lparr>cylinders = t div 31 div 16, heads = 16, sectorsPerTrack = 31\<rparr>)"
        using small by (simp add: chsOf_def Let_def)
      moreover have "t div 31 div 16 \<le> 65535" if "t div 31 < 16 * 1024" using that by simp
      ultimately show ?thesis using that[of 63 16] that[of 31 16] last by (cases "t div 31 \<ge> 16 * 1024") simp_all
    next
      case False
      then have c: "chsOf t = \<lparr>cylinders = t div 17 div ?h, heads = ?h, sectorsPerTrack = 17\<rparr>"
        using small by (simp add: chsOf_def Let_def)
      have cyl: "t div 17 div ?h \<le> 65535"
      proof -
        have "t div 17 < 1024 * ?h" using False by simp
        then have "t div 17 div ?h < 1024" by (rule less_mult_imp_div_less)
        then show ?thesis by simp
      qed
      have "4 \<le> ?h" "?h \<le> 16" using False by linarith+
      from that[OF c _ this cyl] show ?thesis by simp
    qed
  qed
qed

text \<open>
  Property C38. The geometry of a disk never has more sectors than the disk, and its values fit the fields of
  the footer: at most 65535 cylinders in 16 bits, 4 to 16 heads and 17 to 255 sectors per track in 8 bits each.
\<close>

theorem chs_bounds:
  "cylinders (chsCalculation s) * heads (chsCalculation s) * sectorsPerTrack (chsCalculation s) \<le> unat s \<and>
   cylinders (chsCalculation s) \<le> 65535 \<and> 4 \<le> heads (chsCalculation s) \<and> heads (chsCalculation s) \<le> 16 \<and>
   sectorsPerTrack (chsCalculation s) \<in> {17, 31, 63, 255}"
proof -
  obtain n h where c: "chsCalculation s = \<lparr>cylinders = min (unat s) (65535 * 16 * 255) div n div h, heads = h, sectorsPerTrack = n\<rparr>"
    "n \<in> {17, 31, 63, 255}" "4 \<le> h" "h \<le> 16" "min (unat s) (65535 * 16 * 255) div n div h \<le> 65535"
    using chs_cases[of "min (unat s) (65535 * 16 * 255)"] by (auto simp: chsCalculation_def)
  then show ?thesis using div_div_le[of "min (unat s) (65535 * 16 * 255)" n h] by (simp add: min_def split: if_splits)
qed

subsection \<open>The checksum\<close>

lemma putUint_length [simp]: "length (putUint n v) = n"
  by (simp add: putUint_def)

lemma copyInto_length [simp]: "length (copyInto field src) = length field"
  by (simp add: copyInto_def)

lemma hexToField_length [simp]: "length (hexToField h field) = length field"
  by (simp add: hexToField_def)

lemma zeros_length [simp]: "length (zeros n) = n"
  by (simp add: zeros_def)

lemma getUint_snoc: "getUint (s @ [c]) = 256 * getUint s + of_char c"
  by simp

lemma putUint_Suc: "putUint (Suc n) v = putUint n (v div 256) @ [char_of v]"
proof -
  have "v div 256 ^ (Suc n - 1 - i) = v div 256 div 256 ^ (n - 1 - i)" if "i < n" for i
  proof -
    have "Suc n - 1 - i = Suc (n - 1 - i)" using that by simp
    then show ?thesis by (simp add: div_mult2_eq)
  qed
  then show ?thesis by (simp add: putUint_def)
qed

lemma get_putUint: "v < 256 ^ n \<Longrightarrow> getUint (putUint n v) = v"
proof (induction n arbitrary: v)
  case 0
  then show ?case by (simp add: putUint_def)
next
  case (Suc n)
  then have "v div 256 < 256 ^ n" by (simp add: less_mult_imp_div_less mult.commute)
  then have "getUint (putUint n (v div 256)) = v div 256" by (rule Suc.IH)
  then show ?case by (simp add: putUint_Suc getUint_snoc del: getUint.simps)
qed

text \<open>The header has the length of a sector.\<close>

definition vhdShape :: "VHDHeader \<Rightarrow> bool" where
  "vhdShape h \<longleftrightarrow> length (headerBytes h) = 512 \<and> length (vh_Checksum h) = 4"

lemma newVHDFixed_shape: "vhdShape (newVHDFixed now uuid sz)"
  by (simp add: vhdShape_def newVHDFixed_def vhdFields_def generateChecksum_def Let_def headerBytes_def emptyVHD_def)

definition byteSum :: "string \<Rightarrow> int" where
  "byteSum s = sum_list (map of_char s)"

lemma checksum_field: "vh_Checksum (vhdFields now uuid sz) = zeros 4"
proof -
  have "hexToField ''00000000'' (zeros 4) = zeros 4" by code_simp
  then show ?thesis by (simp add: vhdFields_def Let_def emptyVHD_def)
qed

lemma byteSum_append: "byteSum (a @ b) = byteSum a + byteSum b"
  by (simp add: byteSum_def)

lemma byteSum_zeros: "byteSum (zeros n) = 0"
  by (induction n) (simp_all add: byteSum_def zeros_def)

lemma byteSum_checksum:
  "vh_Checksum h = zeros 4 \<Longrightarrow> byteSum (headerBytes h) = byteSum (headerBytes (h\<lparr>vh_Checksum := []\<rparr>))"
  by (simp add: headerBytes_def byteSum_append byteSum_zeros)

text \<open>
  Property C39. The footer is one sector long, its size fields hold the size of the disk, and its checksum is
  valid: the sum of all bytes outside the checksum field, plus the checksum, is \<open>2^32 - 1\<close> modulo \<open>2^32\<close>.
\<close>

theorem vhd_footer:
  "length (headerBytes (newVHDFixed now uuid sz)) = 512 \<and>
   getUint (vh_CurrentSize (newVHDFixed now uuid sz)) = unat sz \<and>
   (byteSum (headerBytes ((newVHDFixed now uuid sz)\<lparr>vh_Checksum := []\<rparr>)) + int (getUint (vh_Checksum (newVHDFixed now uuid sz)))) mod 2 ^ 32
     = 2 ^ 32 - 1"
proof -
  let ?h = "vhdFields now uuid sz" and ?S = "byteSum (headerBytes ((vhdFields now uuid sz)\<lparr>vh_Checksum := []\<rparr>))"
  have len: "length (headerBytes ?h) = 512"
    by (simp add: vhdFields_def Let_def headerBytes_def emptyVHD_def)
  have sum: "checksumOf ?h = ?S"
    using len byteSum_checksum[OF checksum_field, of now uuid sz] by (simp add: checksumOf_def byteSum_def)
  have same: "headerBytes ((newVHDFixed now uuid sz)\<lparr>vh_Checksum := []\<rparr>) = headerBytes (?h\<lparr>vh_Checksum := []\<rparr>)"
    by (simp add: newVHDFixed_def generateChecksum_def)
  let ?c = "(- ?S - 1) mod 2 ^ 32"
  have "nat ?c < 256 ^ 4" by simp
  then have "int (getUint (vh_Checksum (newVHDFixed now uuid sz))) = ?c"
    using get_putUint[of "nat ?c" 4] by (simp add: newVHDFixed_def generateChecksum_def sum del: getUint.simps)
  moreover have "(?S + ?c) mod 2 ^ 32 = 2 ^ 32 - 1" by (simp add: mod_simps)
  moreover have "unat sz < 256 ^ 8" by (rule order_less_le_trans[OF unsigned_less]) simp
  then have "getUint (vh_CurrentSize (newVHDFixed now uuid sz)) = unat sz"
    using get_putUint[of "unat sz" 8]
    by (simp add: newVHDFixed_def generateChecksum_def vhdFields_def Let_def del: getUint.simps)
  ultimately show ?thesis
    using newVHDFixed_shape[of now uuid sz] same by (simp add: vhdShape_def del: getUint.simps)
qed

end
