(* ===== verification/Build_Disk.thy ===== *)
theory Build_Disk
  imports Build_Iso Vhd
begin

section \<open>The build-disk command (pkg/action/build-disk.go)\<close>

text \<open>
  The command that builds a disk image: a directory per partition, the recovery system, the images of the partitions, the
  raw disk made of them and its partition table, and the conversion to the formats of cloud providers. What the command takes
  from elsewhere is in \<open>BuildEnv\<close>: the YAML printers of the state and of the cloud-init file, the EFI variables, the clock and
  the UUID generator, and the writer of compressed archives. The properties: the partition table describes
  the image that was put together, and the footer of an Azure image overwrites the last sector of the disk.
\<close>

subsection \<open>The cloud-init file of an expandable disk\<close>

record YipPartition =
  yp_FSLabel :: string
  yp_Size :: uint
  yp_PLabel :: string
  yp_FileSystem :: string

record YipStage =
  ys_Name :: string
  ys_If :: string
  ys_Commands :: "string list"
  ys_Device :: "string option"
  ys_Expand :: "uint option"
  ys_Parts :: "YipPartition list"

record YipConfig =
  yc_Name :: string
  yc_Stages :: "(string \<times> YipStage list) list"

record BuildEnv =
  env_MarshalState :: "InstallState \<Rightarrow> err + string"
  env_EfiVars :: Variables
  env_CloudInitFileRender :: "string \<Rightarrow> YipConfig \<Rightarrow> (world, unit) io"
  env_Unix :: "world \<Rightarrow> int"
  env_Uuid :: "world \<Rightarrow> string"
  env_TarGz :: "string \<Rightarrow> nat \<Rightarrow> string \<Rightarrow> err + string"

definition MB :: int where "MB = 1024 * 1024"
definition GB :: int where "GB = 1024 * MB"
definition rootSuffix :: string where "rootSuffix = ''.root''"
definition layoutSetStage :: string where "layoutSetStage = ''rootfs.before''"
definition expandStage :: string where "expandStage = ''pre-rootfs.before''"
definition deployStage :: string where "deployStage = ''network''"
definition postResetHook :: string where "postResetHook = ''post-reset''"
definition cloudinitFile :: string where "cloudinitFile = ''00_disk_layout_setup.yaml''"
definition defSectorSize :: uint where "defSectorSize = 512"

definition RunElementalBuildLink :: string where "RunElementalBuildLink = ''/run/elemental-build''"
definition WorkingImgBuildLink :: string where "WorkingImgBuildLink = RunElementalBuildLink @ ''/workingtree''"
definition GrubEnv :: string where "GrubEnv = ''grubenv''"
definition AfterDiskChrootHook :: string where "AfterDiskChrootHook = ''after-disk-chroot''"
definition AfterDiskHook :: string where "AfterDiskHook = ''after-disk''"
definition PostDiskHook :: string where "PostDiskHook = ''post-disk''"
definition BeforeDiskHook :: string where "BeforeDiskHook = ''before-disk''"
definition AzureType :: string where "AzureType = ''azure''"
definition GCEType :: string where "GCEType = ''gce''"
definition ActionBuildDisk :: string where "ActionBuildDisk = ''build-disk''"

definition exit_HookBeforeDisk :: nat where "exit_HookBeforeDisk = 79"
definition exit_HookAfterDisk :: nat where "exit_HookAfterDisk = 80"
definition exit_HookAfterDiskChroot :: nat where "exit_HookAfterDiskChroot = 81"
definition exit_HookPostDisk :: nat where "exit_HookPostDisk = 82"
definition exit_InvalidSize :: nat where "exit_InvalidSize = 83"
definition exit_OpenFile :: nat where "exit_OpenFile = 24"
definition exit_TarHeader :: nat where "exit_TarHeader = 29"

subsection \<open>The action\<close>

record BuildDiskAction =
  bd_cfg :: BuildConfig
  bd_env :: BuildEnv
  bd_spec :: DiskSpec
  bd_sharedSource :: bool
  bd_bootloader :: "Grub option"
  bd_snapshotter :: "Snapshotter option"
  bd_snapshot :: "Snapshot option"
  bd_roots :: "(string \<times> string) list"

type_synonym BuildDiskActionOption = "BuildDiskAction \<Rightarrow> err + BuildDiskAction"

definition WithDiskBootloader :: "Grub \<Rightarrow> BuildDiskActionOption" where
  "WithDiskBootloader bl b = Inr (b\<lparr>bd_bootloader := Some bl\<rparr>)"

definition NewBuildDiskAction :: "BuildEnv \<Rightarrow> BuildConfig \<Rightarrow> DiskSpec \<Rightarrow> bool \<Rightarrow> BuildDiskActionOption list \<Rightarrow> (world, BuildDiskAction) io" where
  "NewBuildDiskAction env cfg spec shared opts =
     bindIO (sumIO (applyOpts opts \<lparr>bd_cfg = cfg, bd_env = env, bd_spec = spec, bd_sharedSource = shared, bd_bootloader = None,
        bd_snapshotter = None, bd_snapshot = None, bd_roots = []\<rparr>)) (\<lambda>b.
     bindIO (if bd_bootloader b = None then NewGrub (bc_Config cfg) (env_EfiVars env) [] else retIO (bd_bootloader b)) (\<lambda>bl.
     bindIO (sumIO (forceBtrfs (sc_Type (bc_Snapshotter cfg)) (dsk_Partitions spec))) (\<lambda>ep.
     bindIO (case bd_snapshotter b of
               Some sp \<Rightarrow> retIO sp
             | None \<Rightarrow> sumIO (NewSnapshotter (bc_Config cfg) (bc_Snapshotter cfg) (blSetVars bl))) (\<lambda>sp.
       retIO (b\<lparr>bd_bootloader := bl, bd_snapshotter := Some sp, bd_spec := spec\<lparr>dsk_Partitions := ep\<rparr>\<rparr>)))))"

abbreviation bd_Config :: "BuildDiskAction \<Rightarrow> Config" where
  "bd_Config b \<equiv> bc_Config (bd_cfg b)"

text \<open>A missing key of a Go map reads as the empty string.\<close>

definition rootOf :: "BuildDiskAction \<Rightarrow> string \<Rightarrow> string" where
  "rootOf b name = (case map_of (bd_roots b) name of None \<Rightarrow> [] | Some r \<Rightarrow> r)"

definition diskWorkdir :: "BuildDiskAction \<Rightarrow> string" where
  "diskWorkdir b = Join [bc_OutDir (bd_cfg b), DiskWorkDir]"

subsection \<open>Hooks\<close>

definition createHookSymlinks :: "BuildDiskAction \<Rightarrow> string \<Rightarrow> (world, unit) io" where
  "createHookSymlinks b root =
     thenIO (fs_Symlink root RunElementalBuildLink)
       (fs_Symlink (Base (img_File (dsk_RecoverySystem (bd_spec b))) @ rootSuffix) WorkingImgBuildLink)"

definition buildDiskHook :: "string \<Rightarrow> BuildDiskAction \<Rightarrow> (world, unit) io" where
  "buildDiskHook hook b = Hook (bd_Config b) hook (cfg_Strict (bd_Config b)) (cfg_CloudInitPaths (bd_Config b))"

definition buildAfterDiskHook :: "string \<Rightarrow> BuildDiskAction \<Rightarrow> (world, unit) io" where
  "buildAfterDiskHook root b =
     (let cfg = bd_Config b; cIPaths = cfg_CloudInitPaths cfg @ PreAppendRoot WorkingImgBuildLink (cfg_CloudInitPaths cfg) in
      thenIO (createHookSymlinks b root)
        (finallyIO (Hook cfg AfterDiskHook (cfg_Strict cfg) cIPaths)
          (\<lambda>_. thenIO (ignoreIO (fs_Remove WorkingImgBuildLink)) (thenIO (ignoreIO (fs_Remove RunElementalBuildLink)) (retIO None)))))"

definition buildDiskChrootHook :: "string \<Rightarrow> string \<Rightarrow> BuildDiskAction \<Rightarrow> (world, unit) io" where
  "buildDiskChrootHook hook root b =
     ChrootHook (bd_Config b) hook (cfg_Strict (bd_Config b)) root [] (cfg_CloudInitPaths (bd_Config b))"

subsection \<open>Partition directories\<close>

definition diskParts :: "BuildDiskAction \<Rightarrow> Partition list" where
  "diskParts b = (let ep = dsk_Partitions (bd_spec b) in
     PartitionsByInstallOrder ep [] (if dsk_Expandable (bd_spec b) then [ep_Persistent ep, ep_State ep] else []))"

definition preparePartitionsRoot :: "(BuildDiskAction \<times> world, unit) io" where
  "preparePartitionsRoot = bindIO getO (\<lambda>b.
     bindIO (foldIO (diskParts b) [] (\<lambda>rootMap part.
        let root = TrimSuffix (p_Path part) (Ext (p_Path part)) in
        thenIO (liftW (MkdirAll root DirPerm)) (retIO (AList.update (p_Name part) root rootMap)))) (\<lambda>rootMap.
     modO (\<lambda>b. b\<lparr>bd_roots := rootMap\<rparr>)))"

subsection \<open>The state file\<close>

definition diskStateOf :: "BuildConfig \<Rightarrow> DiskSpec \<Rightarrow> Snapshot option \<Rightarrow> string \<Rightarrow> err + InstallState" where
  "diskStateOf cfg spec snapshot date =
     (let ep = dsk_Partitions spec; rs = dsk_RecoverySystem spec in
      if ep_Recovery ep = None then Inl (Errorf ''undefined recovery partition'')
      else if ep_State ep = None \<and> \<not> dsk_Expandable spec then Inl (Errorf ''undefined state partition'')
      else case (if dsk_Expandable spec then Inr []
                 else (case (snapshot, dsk_System spec) of
                    (Some sn, Some sys) \<Rightarrow> Inr [(sn_ID sn, \<lparr>ss_Source = Some sys, ss_Digest = src_digest sys, ss_Active = True,
                       ss_Label = [], ss_FS = [], ss_Labels = [], ss_Date = [], ss_FromAction = ActionBuildDisk\<rparr>)]
                  | _ \<Rightarrow> Inl Panic)) of
        Inl e \<Rightarrow> Inl e
      | Inr snapshots \<Rightarrow>
          (case (ep_State ep, ep_Recovery ep, img_Source rs) of
             (Some statePart, Some recoveryPart, Some recSrc) \<Rightarrow>
               (let m0 = [StatePartName \<mapsto> \<lparr>ps_FSLabel = p_FilesystemLabel statePart, ps_RecoveryImage = None, ps_Snapshots = snapshots\<rparr>,
                     RecoveryPartName \<mapsto> \<lparr>ps_FSLabel = p_FilesystemLabel recoveryPart, ps_RecoveryImage =
                       Some \<lparr>ss_Source = Some recSrc, ss_Digest = src_digest recSrc, ss_Active = False, ss_Label = img_Label rs,
                         ss_FS = img_FS rs, ss_Labels = [], ss_Date = [], ss_FromAction = ActionBuildDisk\<rparr>, ps_Snapshots = []\<rparr>]
                in Inr \<lparr>is_Date = date, is_Partitions = labelState BootPartName (ep_Boot ep)
                     (labelState PersistentPartName (ep_Persistent ep) (labelState OEMPartName (ep_OEM ep) m0)),
                     is_Snapshotter = bc_Snapshotter cfg\<rparr>)
           | _ \<Rightarrow> Inl Panic))"

definition createBuildDiskStateYaml :: "string \<Rightarrow> string \<Rightarrow> BuildDiskAction \<Rightarrow> (world, unit) io" where
  "createBuildDiskStateYaml stateRoot recoveryRoot b =
     bindIO (nowRFC3339 (bd_Config b)) (\<lambda>date.
     bindIO (sumIO (diskStateOf (bd_cfg b) (bd_spec b) (bd_snapshot b) date)) (\<lambda>st.
       WriteInstallState (env_MarshalState (bd_env b)) st
         (if stateRoot \<noteq> [] then Join [stateRoot, InstallStateFile] else [])
         (if recoveryRoot \<noteq> [] then Join [recoveryRoot, InstallStateFile] else [])))"

subsection \<open>Partition images\<close>

definition bd_onSnapshotter :: "(Snapshotter \<times> world, 'a) io \<Rightarrow> (BuildDiskAction \<times> world, 'a) io" where
  "bd_onSnapshotter = onSome bd_snapshotter (\<lambda>sp b. b\<lparr>bd_snapshotter := sp\<rparr>)"

definition bd_initSnapshotter :: "string \<Rightarrow> (BuildDiskAction \<times> world, unit) io" where
  "bd_initSnapshotter efiDir =
     onSome (\<lambda>b. both (bd_snapshotter b) (ep_State (dsk_Partitions (bd_spec b))))
       (\<lambda>sp b. b\<lparr>bd_snapshotter := map_option fst sp,
          bd_spec := (bd_spec b)\<lparr>dsk_Partitions := (dsk_Partitions (bd_spec b))\<lparr>ep_State := map_option snd sp\<rparr>\<rparr>\<rparr>)
       (snap_InitSnapshotter efiDir)"

definition bd_closeTransaction :: "(BuildDiskAction \<times> world, unit) io" where
  "bd_closeTransaction =
     onSome (\<lambda>b. both (bd_snapshotter b) (bd_snapshot b))
       (\<lambda>sp b. b\<lparr>bd_snapshotter := map_option fst sp, bd_snapshot := map_option snd sp\<rparr>) snap_CloseTransaction"

definition bd_closeOnError :: "(BuildDiskAction \<times> world, unit) io" where
  "bd_closeOnError = bindIO getO (\<lambda>b. bd_onSnapshotter (snap_CloseTransactionOnError (bd_snapshot b)))"

text \<open>The sources are pointers: when the recovery system shares the source of the system both change.\<close>

definition setDiskSystem :: "ImageSource option \<Rightarrow> BuildDiskAction \<Rightarrow> BuildDiskAction" where
  "setDiskSystem src b = b\<lparr>bd_spec := (bd_spec b)\<lparr>dsk_System := src,
     dsk_RecoverySystem := (if bd_sharedSource b then (dsk_RecoverySystem (bd_spec b))\<lparr>img_Source := src\<rparr> else dsk_RecoverySystem (bd_spec b))\<rparr>\<rparr>"

definition setDiskRecovery :: "ImageSource option \<Rightarrow> BuildDiskAction \<Rightarrow> BuildDiskAction" where
  "setDiskRecovery src b = b\<lparr>bd_spec := (bd_spec b)\<lparr>dsk_System := (if bd_sharedSource b then src else dsk_System (bd_spec b)),
     dsk_RecoverySystem := (dsk_RecoverySystem (bd_spec b))\<lparr>img_Source := src\<rparr>\<rparr>\<rparr>"

definition deployDiskSystem :: "Snapshot \<Rightarrow> (BuildDiskAction \<times> world, unit) io" where
  "deployDiskSystem snapshot = bindIO getO (\<lambda>b. let cfg = bd_Config b in
     bindIO (deref (img_Source (dsk_RecoverySystem (bd_spec b)))) (\<lambda>recSrc.
     bindIO (deref (dsk_System (bd_spec b))) (\<lambda>sys.
     if ImageSource_String recSrc = ImageSource_String sys
     then thenIO (modO (setDiskSystem (Some (SetDigest (src_digest recSrc) sys))))
       (bindIO (liftW (withObj (NewFileSrc (img_File (dsk_RecoverySystem (bd_spec b))))
          (MirrorRoot cfg (sn_WorkDir snapshot) (cfg_Debug cfg)))) (\<lambda>_. retIO ()))
     else onSome (\<lambda>b. dsk_System (bd_spec b)) setDiskSystem (MirrorRoot cfg (sn_WorkDir snapshot) (cfg_Debug cfg)))))"

definition stateTransaction :: "string \<Rightarrow> (BuildDiskAction \<times> world, unit) io" where
  "stateTransaction mountPoint = bindIO getO (\<lambda>b.
     thenIO (coded exit_SnapshotterInit (bd_initSnapshotter (rootOf b BootPartName)))
     (bindIO (coded exit_SnapshotterStart (bd_onSnapshotter snap_StartTransaction)) (\<lambda>snapshot.
      thenIO (modO (\<lambda>b. b\<lparr>bd_snapshot := Some snapshot\<rparr>))
      (bindIO (deref (both (img_Source (dsk_RecoverySystem (bd_spec b))) (dsk_System (bd_spec b)))) (\<lambda>_.
       thenIO (coded exit_DumpSource (onErrorIO (deployDiskSystem snapshot) bd_closeOnError))
      (thenIO (onErrorIO bd_closeTransaction bd_closeOnError)
        (bindIO getO (\<lambda>b. coded exit_CreateFile (liftW (createBuildDiskStateYaml mountPoint [] b))))))))))"

definition createStatePartitionImage :: "(BuildDiskAction \<times> world, Image) io" where
  "createStatePartitionImage = bindIO getO (\<lambda>b. let cfg = bd_Config b in
     bindIO (deref (ep_State (dsk_Partitions (bd_spec b)))) (\<lambda>part.
     bindIO (liftW (withObj (ToImage part)
       (thenIO (CreateFileSystemImage cfg [] False []) (MountFileSystemImage cfg [''rw''])))) (\<lambda>(_, stateImg).
     thenIO (finallyIO (stateTransaction (img_MountPoint stateImg))
         (\<lambda>_. thenIO (ignoreIO (liftW (withObj stateImg (UnmountFileSystemImage cfg)))) (retIO None)))
       (retIO stateImg))))"

definition mcopyFn :: "Config \<Rightarrow> string \<Rightarrow> string \<Rightarrow> unit walkFn" where
  "mcopyFn cfg root imgFile path d e acc =
     (case e of
        Some e' \<Rightarrow> retIO (Some e', acc)
      | None \<Rightarrow> (if path = root then retIO (None, acc)
          else (case filepath_Rel root path of
             Inl e' \<Rightarrow> retIO (Some e', acc)
           | Inr rel \<Rightarrow> bindIO (Run cfg ''mcopy'' [''-n'', ''-o'', ''-i'', imgFile, path, ''::'' @ rel]) (\<lambda>(e', _). retIO (e', acc)))))"

definition createEFIPartitionImage :: "BuildDiskAction \<Rightarrow> (world, Image) io" where
  "createEFIPartitionImage b = (let cfg = bd_Config b in
     bindIO (deref (ep_Boot (dsk_Partitions (bd_spec b)))) (\<lambda>part.
     bindIO (withObj (ToImage part) (CreateFileSystemImage cfg [] False [])) (\<lambda>(_, img).
     bindIO (WalkDirFs (mcopyFn cfg (rootOf b BootPartName) (img_File img)) (rootOf b BootPartName) ()) (\<lambda>(e, _).
     thenIO (raiseIO e) (retIO img)))))"

definition treeImage :: "BuildDiskAction \<Rightarrow> Partition \<Rightarrow> uint \<Rightarrow> (world, Image) io" where
  "treeImage b part sz =
     bindIO (withObj ((ToImage part)\<lparr>img_Size := sz\<rparr>)
       (CreateImageFromTree (bd_Config b) (rootOf b (p_Name part)) (dsk_Expandable (bd_spec b))
         [Some (fs_RemoveAll (rootOf b (p_Name part)))])) (\<lambda>(_, img). retIO img)"

definition CreatePartitionImages :: "(BuildDiskAction \<times> world, Image list) io" where
  "CreatePartitionImages = bindIO getO (\<lambda>b0. let expandable = dsk_Expandable (bd_spec b0) in
     bindIO (if expandable then retIO None else bindIO createStatePartitionImage (\<lambda>img. retIO (Some img))) (\<lambda>stateImg.
     bindIO getO (\<lambda>b. let ep = dsk_Partitions (bd_spec b) in
     bindIO (deref (ep_Recovery ep)) (\<lambda>recPart.
     thenIO (coded exit_CreateFile (liftW (createBuildDiskStateYaml [] (rootOf b (p_Name recPart)) b)))
     (bindIO (liftW (createEFIPartitionImage b)) (\<lambda>efiImg.
      bindIO (deref (ep_OEM ep)) (\<lambda>oemPart.
      bindIO (liftW (treeImage b oemPart (if p_Name oemPart = RecoveryPartName \<and> expandable then 0 else p_Size oemPart))) (\<lambda>oemImg.
      bindIO (liftW (treeImage b recPart (if p_Name recPart = RecoveryPartName \<and> expandable then 0 else p_Size recPart))) (\<lambda>recImg.
      case stateImg of
        None \<Rightarrow> retIO [efiImg, oemImg, recImg]
      | Some st \<Rightarrow> bindIO (deref (ep_Persistent ep)) (\<lambda>perPart.
          bindIO (liftW (treeImage b perPart (p_Size perPart))) (\<lambda>perImg. retIO [efiImg, oemImg, recImg, st, perImg])))))))))))"

subsection \<open>The disk\<close>

definition extraSize :: "DiskSpec \<Rightarrow> err + uint" where
  "extraSize spec =
     (if dsk_Size spec > 0 then
        (if dsk_Size spec > MinDiskSize spec then Inr (dsk_Size spec - MinDiskSize spec)
         else Inl (error_New ''Configured size is not big enough'' exit_InvalidSize))
      else Inr 1)"

definition CreateDiskImage :: "BuildDiskAction \<Rightarrow> string \<Rightarrow> Image list \<Rightarrow> (world, unit) io" where
  "CreateDiskImage b rawDiskFile partImgs =
     (let initDiskFile = Join [bc_OutDir (bd_cfg b), DiskWorkDir, ''initdisk.img''];
          endDiskFile = Join [bc_OutDir (bd_cfg b), DiskWorkDir, ''enddisk.img''] in
      thenIO (CreateRAWFile initDiskFile 1)
      (bindIO (sumIO (extraSize (bd_spec b))) (\<lambda>eSize.
       thenIO (CreateRAWFile endDiskFile eSize)
         (coded exit_CopyData (ConcatFiles ([initDiskFile] @ map img_File partImgs @ [endDiskFile]) rawDiskFile)))))"

text \<open>The loop over the partitions: \<open>i\<close> is the index, \<open>startS\<close> and \<open>sizeS\<close> the variables of the loop.\<close>

fun tableLoop :: "uint \<Rightarrow> bool \<Rightarrow> nat \<Rightarrow> uint \<Rightarrow> uint \<Rightarrow> Partition list \<Rightarrow> err + DiskPart list" where
  "tableLoop secSize expandable i startS sizeS [] = Inr []"
| "tableLoop secSize expandable i startS sizeS (part # parts) =
     (if secSize = 0 then Inl Panic
      else let startS' = (if i = 0 then 1024 * 1024 div secSize else startS + sizeS) in
      case (if p_Name part = RecoveryPartName \<and> expandable then Inr 0 else MiBToSectors (p_Size part) secSize) of
        Inl e \<Rightarrow> Inl e
      | Inr sizeS' \<Rightarrow> map_sum id (\<lambda>ps. \<lparr>Number = int i + 1, StartS = startS', SizeS = sizeS', PLabel = p_Name part, FileSystem = p_FS part\<rparr> # ps)
          (tableLoop secSize expandable (Suc i) startS' sizeS' parts))"

definition CreateDiskPartitionTable :: "BuildDiskAction \<Rightarrow> string \<Rightarrow> (world, unit) io" where
  "CreateDiskPartitionTable b disk = (let cfg = bd_Config b; gd = newGdiskCall disk in
     bindIO (gd_Print cfg gd) (\<lambda>dData.
     let secSize = (case gd_GetSectorSize dData of Inl _ \<Rightarrow> defSectorSize | Inr s \<Rightarrow> s) in
     bindIO (sumIO (tableLoop secSize (dsk_Expandable (bd_spec b)) 0 0 0 (diskParts b))) (\<lambda>parts.
       bindIO (WriteChanges cfg (GdiskP (foldl (\<lambda>gd p. gd_CreatePartition p gd) gd parts))) (\<lambda>_. retIO ()))))"

definition CreateRAWDisk :: "string \<Rightarrow> (BuildDiskAction \<times> world, unit) io" where
  "CreateRAWDisk rawImg =
     bindIO CreatePartitionImages (\<lambda>images.
     thenIO (liftW (removeOutput rawImg))
     (bindIO getO (\<lambda>b.
      thenIO (liftW (CreateDiskImage b rawImg images))
        (liftW (CreateDiskPartitionTable b rawImg)))))"

subsection \<open>Formats of cloud providers\<close>

definition gceSize :: "int \<Rightarrow> int" where
  "gceSize actualSize = (actualSize div GB + 1) * GB"

text \<open>The archive writer gets the name, the mode and the contents of the disk; a file that cannot be opened again is a nil pointer.\<close>

definition compressDisk :: "BuildEnv \<Rightarrow> string \<Rightarrow> (world, unit) io" where
  "compressDisk env source = (\<lambda>w. case fs_Stat source w of
     (Inl _, w') \<Rightarrow> (Inl Panic, w')
   | (Inr st, w') \<Rightarrow> bindIO (coded exit_CopyData (fs_ReadFile source)) (\<lambda>d.
       bindIO (coded exit_TarHeader (sumIO (env_TarGz env (Base source) (node_mode st) d))) (\<lambda>bytes.
         coded exit_CopyData (fs_WriteFile (source @ ''.tar.gz'') bytes FilePerm))) w')"

definition Raw2Gce :: "BuildEnv \<Rightarrow> string \<Rightarrow> bool \<Rightarrow> (world, unit) io" where
  "Raw2Gce env source keepOldImage =
     thenIO (coded exit_OpenFile (fs_OpenRdwr source FilePerm))
     (bindIO (coded exit_StatFile (fs_Stat source)) (\<lambda>info.
      thenIO (ignoreIO (fs_Truncate source (gceSize (int (node_size info)))))
      (thenIO (coded exit_CreateFile (fs_Create (source @ ''.tar.gz'')))
      (thenIO (compressDisk env source)
        (whenIO (\<not> keepOldImage) (ignoreIO (fs_RemoveAll source)))))))"

text \<open>The size of the data part of an Azure image, before its footer.\<close>

definition azureSize :: "int \<Rightarrow> int" where
  "azureSize actualSize =
     (let finalSizeBytes = (actualSize + MB - 1) div MB * MB - 512 in
      if finalSizeBytes = 0 then 1 * 1024 * 1024 - 512 else finalSizeBytes)"

definition azureVhd :: "BuildEnv \<Rightarrow> string \<Rightarrow> (world, unit) io" where
  "azureVhd env vhdFile =
     bindIO (fileSize vhdFile) (\<lambda>actualSize.
     let finalSizeBytes = azureSize (int actualSize) in
     thenIO (whenIO (int actualSize \<noteq> finalSizeBytes) (ignoreIO (fs_Truncate vhdFile finalSizeBytes)))
       (bindIO getIO (\<lambda>w. RawDiskToFixedVhd (env_Unix env w) (env_Uuid env w) vhdFile)))"

definition Raw2Azure :: "BuildEnv \<Rightarrow> string \<Rightarrow> bool \<Rightarrow> (world, unit) io" where
  "Raw2Azure env source keepOldImage =
     thenIO (coded exit_CopyFile (CopyFile source (source @ ''.vhd'')))
     (thenIO (azureVhd env (source @ ''.vhd''))
       (whenIO (\<not> keepOldImage) (ignoreIO (fs_RemoveAll source))))"

subsection \<open>Expandable disks\<close>

definition stageWith :: "string \<Rightarrow> string \<Rightarrow> string list \<Rightarrow> YipStage" where
  "stageWith name cond commands =
     \<lparr>ys_Name = name, ys_If = cond, ys_Commands = commands, ys_Device = None, ys_Expand = None, ys_Parts = []\<rparr>"

definition addPartStage :: "string \<Rightarrow> string \<Rightarrow> Partition \<Rightarrow> YipStage" where
  "addPartStage name device p = (stageWith name [] [])\<lparr>ys_Device := Some device,
     ys_Parts := [\<lparr>yp_FSLabel = p_FilesystemLabel p, yp_Size = p_Size p, yp_PLabel = p_Name p, yp_FileSystem = p_FS p\<rparr>]\<rparr>"

definition expandConfig :: "DiskSpec \<Rightarrow> err + YipConfig" where
  "expandConfig spec = (let ep = dsk_Partitions spec in
     case (dsk_System spec, img_Source (dsk_RecoverySystem spec), ep_Recovery ep, ep_State ep, ep_Persistent ep) of
       (Some sys, Some recSrc, Some rec, Some st, Some per) \<Rightarrow>
         (let deployCmd = dsk_DeployCmd spec @
                (if ImageSource_String sys \<noteq> ImageSource_String recSrc \<and> \<not> IsEmpty sys then [''--system'', ImageSource_String sys] else []);
              device = p_FilesystemLabel rec
          in Inr \<lparr>yc_Name = ''Expand disk layout'', yc_Stages =
               [(expandStage, [(stageWith ''Expand recovery'' [] [])\<lparr>ys_Device := Some device, ys_Expand := Some (p_Size rec)\<rparr>]),
                (layoutSetStage, [addPartStage ''Add state partition'' device st, addPartStage ''Add persistent partition'' device per]),
                (deployStage, [stageWith ''Deploy active system'' ''[ -f \"/run/elemental/recovery_mode\" ]'' [strings_Join deployCmd '' '']]),
                (postResetHook, [stageWith ''Cleanup expand disk init stages'' (''[ -f \"/oem/'' @ cloudinitFile @ ''\" ]'') [''rm /oem/'' @ cloudinitFile]])]\<rparr>)
     | _ \<Rightarrow> Inl Panic)"

definition SetExpandableCloudInitStage :: "BuildDiskAction \<Rightarrow> (world, unit) io" where
  "SetExpandableCloudInitStage b =
     bindIO (sumIO (expandConfig (bd_spec b))) (\<lambda>conf.
       env_CloudInitFileRender (bd_env b) (Join [rootOf b OEMPartName, cloudinitFile]) conf)"

subsection \<open>Run\<close>

definition diskBootloader :: "string \<Rightarrow> (BuildDiskAction \<times> world, unit) io" where
  "diskBootloader recRoot = bindIO getO (\<lambda>b. let boot = rootOf b BootPartName in
     thenIO (bindIO (deref (bd_bootloader b)) (\<lambda>g. liftW (InstallConfig g recRoot boot)))
     (thenIO (whenIO (dsk_Expandable (bd_spec b))
        (liftW (blSetVars (bd_bootloader b) (Join [rootOf b OEMPartName, GrubEnv]) [(''next_entry'', RecoveryImgName)])))
     (bindIO (sumIO (Disk_GetGrubLabels (bd_spec b))) (\<lambda>grubVars.
      thenIO (liftW (blSetVars (bd_bootloader b) (Join [boot, GrubOEMEnv]) grubVars))
      (thenIO (onSome bd_bootloader (\<lambda>bl b. b\<lparr>bd_bootloader := bl\<rparr>) (InstallEFI recRoot boot))
        (coded exit_SetDefaultGrubEntry (bindIO getO (\<lambda>b. bindIO (deref (bd_bootloader b)) (\<lambda>g.
           liftW (SetDefaultEntry (g_cfg g) boot recRoot (dsk_GrubDefEntry (bd_spec b))))))))))))"

text \<open>The recovery image is deployed from the prepared tree; its own source is put back afterwards.\<close>

definition deployDiskRecovery :: "string \<Rightarrow> (BuildDiskAction \<times> world, unit) io" where
  "deployDiskRecovery recRoot = bindIO getO (\<lambda>b. let tmpSrc = img_Source (dsk_RecoverySystem (bd_spec b)) in
     thenIO (modO (\<lambda>b. b\<lparr>bd_spec := (bd_spec b)\<lparr>dsk_RecoverySystem := (dsk_RecoverySystem (bd_spec b))\<lparr>img_Source := Some (NewDirSrc recRoot)\<rparr>\<rparr>\<rparr>))
     (thenIO (zoom (\<lambda>b. dsk_RecoverySystem (bd_spec b)) (\<lambda>img b. b\<lparr>bd_spec := (bd_spec b)\<lparr>dsk_RecoverySystem := img\<rparr>\<rparr>)
        (DeployRecoverySystem (bd_Config b) (cfg_Debug (bd_Config b))))
       (modO (\<lambda>b. b\<lparr>bd_spec := (bd_spec b)\<lparr>dsk_RecoverySystem := (dsk_RecoverySystem (bd_spec b))\<lparr>img_Source := tmpSrc\<rparr>\<rparr>\<rparr>))))"

definition convertDisk :: "BuildDiskAction \<Rightarrow> string \<Rightarrow> (world, unit) io" where
  "convertDisk b rawImg =
     (if dsk_Type (bd_spec b) = AzureType then Raw2Azure (bd_env b) rawImg False
      else if dsk_Type (bd_spec b) = GCEType then Raw2Gce (bd_env b) rawImg False
      else retIO ())"

definition diskSteps :: "string \<Rightarrow> string \<Rightarrow> (BuildDiskAction \<times> world, unit) io" where
  "diskSteps workdir rawImg = bindIO getO (\<lambda>b. let cfg = bd_Config b; recRoot = Join [workdir, Base (img_File (dsk_RecoverySystem (bd_spec b))) @ rootSuffix] in
     thenIO (liftW (MkdirAll workdir DirPerm))
     (thenIO (coded exit_HookBeforeDisk (liftW (buildDiskHook BeforeDiskHook b)))
     (thenIO preparePartitionsRoot
     (thenIO (onSome (\<lambda>b. img_Source (dsk_RecoverySystem (bd_spec b))) setDiskRecovery (MirrorRoot cfg recRoot (cfg_Debug cfg)))
     (thenIO (bindIO getO (\<lambda>b. coded exit_CopyFile (liftW (CopyCloudConfig cfg (rootOf b OEMPartName) (dsk_CloudInit (bd_spec b))))))
     (thenIO (diskBootloader recRoot)
     (thenIO (whenIO (\<not> dsk_Expandable (bd_spec b)) (coded exit_HookAfterDiskChroot (liftW (buildDiskChrootHook AfterDiskChrootHook recRoot b))))
     (thenIO (coded exit_HookAfterDisk (liftW (buildAfterDiskHook workdir b)))
     (thenIO (deployDiskRecovery recRoot)
     (thenIO (bindIO getO (\<lambda>b. whenIO (dsk_Expandable (bd_spec b)) (liftW (SetExpandableCloudInitStage b))))
     (thenIO (CreateRAWDisk rawImg)
     (bindIO getO (\<lambda>b.
      thenIO (coded exit_HookPostDisk (liftW (buildDiskHook PostDiskHook b)))
        (liftW (convertDisk b rawImg)))))))))))))))"

definition BuildDisk_body :: "BuildDiskAction run" where
  "BuildDisk_body = bindIO (inScope getO) (\<lambda>b.
     bindIO (deref (cfg_Platform (bd_Config b))) (\<lambda>_.
     thenIO (pushS (liftW (fs_RemoveAll (diskWorkdir b))))
       (inScope (bindIO (liftW getIO) (\<lambda>w. diskSteps (diskWorkdir b) (Join [bc_OutDir (bd_cfg b), datedName (bd_cfg b) ''.raw'' w]))))))"

definition BuildDiskRun :: "(BuildDiskAction \<times> world, unit) io" where
  "BuildDiskRun = withCleanup BuildDisk_body"

subsection \<open>The last sector of an Azure image\<close>

lemma content_node:
  assumes "contentAt w p = Some d"
  obtains q m where "resolve w (pathOf p) = Some q" "fs_lookup w q = Some (NFile m d)" "q \<noteq> []"
  using assms by (auto simp: contentAt_def fs_lookup_def split: option.splits node.splits if_splits)

lemma fileSize_content:
  assumes "contentAt w p = Some d" "\<not> faults w (ticks w)"
  shows "fileSize p w = (Inr (length d), w\<lparr>ticks := Suc (ticks w)\<rparr>)"
proof -
  obtain q m where "resolve w (pathOf p) = Some q" "fs_lookup w q = Some (NFile m d)" "q \<noteq> []"
    by (rule content_node[OF assms(1)])
  then show ?thesis using assms(2) by (simp add: fileSize_def fs_Stat_def sysIO_def Let_def node_size_def)
qed

lemma Truncate_content:
  assumes "contentAt w p = Some d" "\<not> faults w (ticks w)" "0 \<le> n" "nat n \<le> length d"
  shows "\<exists>w'. fs_Truncate p n w = (Inr (), w') \<and> contentAt w' p = Some (take (nat n) d) \<and> faults w' = faults w"
proof -
  obtain q m where q: "resolve w (pathOf p) = Some q" "fs_lookup w q = Some (NFile m d)" "q \<noteq> []"
    by (rule content_node[OF assms(1)])
  let ?w = "w\<lparr>ticks := Suc (ticks w)\<rparr>"
  have "fs_Truncate p n w = (Inr (), fs_set q (NFile m (take (nat n) d)) ?w)"
    using q assms(2-4) by (simp add: fs_Truncate_def sysIO_def Let_def)
  then show ?thesis using content_set[of ?w p q] q(1,3) by (simp add: fs_set_def)
qed

lemma appendFile_content:
  assumes "contentAt w p = Some d" "\<forall>n. \<not> faults w n"
  shows "\<exists>w'. appendFile p e w = (Inr (), w') \<and> contentAt w' p = Some (d @ e) \<and> faults w' = faults w"
proof -
  let ?w = "w\<lparr>ticks := Suc (ticks w)\<rparr>"
  have r: "fs_ReadFile p w = (Inr d, ?w)" using content_ReadFile[OF assms(1)] assms(2) by blast
  have "contentAt ?w p = Some d" "\<not> faults ?w (ticks ?w)" using assms by simp_all
  then obtain w' where w': "fs_WriteFile p (d @ e) FilePerm ?w = (Inr (), w')" using content_WriteFile by blast
  then show ?thesis using r WriteFile_content[OF w'] by (simp add: appendFile_def bindIO_def)
qed

text \<open>
  Property C40. A disk of a whole number of mebibytes, which every disk built here is, loses its last sector when it is
  converted for Azure: the conversion cuts off 512 bytes, where the second partition table of a GPT disk is, to
  make room for the footer. The size the footer gives for the disk is no multiple of 1 MiB.
\<close>

theorem azureVhd_cuts:
  assumes "contentAt w p = Some d" and "\<forall>n. \<not> faults w n" and "length d = k * 1048576" and "0 < k"
  shows "\<exists>now uuid w'. azureVhd env p w = (Inr (), w') \<and>
    contentAt w' p = Some (take (length d - 512) d @ headerBytes (newVHDFixed now uuid (of_nat (length d - 512))))"
proof -
  have pos: "1048576 \<le> length d" using assms(3,4) by simp
  have "(int (length d) + MB - 1) div MB = int k"
  proof -
    have "int (length d) + MB - 1 = int k * 1048576 + 1048575" by (simp add: assms(3) MB_def)
    then show ?thesis by (simp add: MB_def)
  qed
  then have size: "azureSize (int (length d)) = int (length d) - 512"
    using pos assms(3) by (simp add: azureSize_def Let_def MB_def)
  let ?w1 = "w\<lparr>ticks := Suc (ticks w)\<rparr>"
  have s: "fileSize p w = (Inr (length d), ?w1)" using fileSize_content[OF assms(1)] assms(2) by blast
  have n: "nat (int (length d) - 512) = length d - 512" using pos by simp
  obtain w2 where t: "fs_Truncate p (int (length d) - 512) ?w1 = (Inr (), w2)"
    "contentAt w2 p = Some (take (length d - 512) d)" "faults w2 = faults w"
    using Truncate_content[of ?w1 p d "int (length d) - 512"] assms(1,2) pos n by auto
  have s2: "fileSize p w2 = (Inr (length d - 512), w2\<lparr>ticks := Suc (ticks w2)\<rparr>)"
    using fileSize_content[OF t(2)] assms(2) t(3) by simp
  let ?h = "headerBytes (newVHDFixed (env_Unix env w2) (env_Uuid env w2) (of_nat (length d - 512)))"
  obtain w3 where a: "appendFile p ?h (w2\<lparr>ticks := Suc (ticks w2)\<rparr>) = (Inr (), w3)"
    "contentAt w3 p = Some (take (length d - 512) d @ ?h)"
    using appendFile_content[of "w2\<lparr>ticks := Suc (ticks w2)\<rparr>" p "take (length d - 512) d" ?h] t(2,3) assms(2) by auto
  have "azureVhd env p w = (Inr (), w3)"
    using s t(1) s2 a(1) size
    by (simp add: azureVhd_def RawDiskToFixedVhd_def Let_def bindIO_def thenIO_def whenIO_def ignoreIO_def getIO_def retIO_def)
  then show ?thesis using a(2) by blast
qed

definition demoEnv :: BuildEnv where
  "demoEnv = \<lparr>env_MarshalState = (\<lambda>_. Inr []), env_EfiVars = demoVars, env_CloudInitFileRender = (\<lambda>_ _. retIO ()), env_Unix = (\<lambda>_. 0),
     env_Uuid = (\<lambda>_. []), env_TarGz = (\<lambda>_ _ _. Inr [])\<rparr>"

definition diskFileWorld :: "string \<Rightarrow> world" where
  "diskFileWorld d = demoWorld\<lparr>files := [([''d''], NFile 420 d)]\<rparr>"

lemma diskFileWorld_content: "contentAt (diskFileWorld d) ''/d'' = Some d"
proof -
  have "pathOf ''/d'' = [''d'']" by code_simp
  then show ?thesis by (simp add: contentAt_def resolve_def diskFileWorld_def fs_lookup_def eval_nat_numeral)
qed

theorem azureVhd_cuts_witness:
  "\<exists>now uuid w'. azureVhd demoEnv ''/d'' (diskFileWorld (replicate 1048576 (CHR 0x01))) = (Inr (), w') \<and>
    contentAt w' ''/d'' = Some (replicate 1048064 (CHR 0x01) @ headerBytes (newVHDFixed now uuid 1048064))"
proof -
  let ?d = "replicate 1048576 (CHR 0x01)"
  have f: "\<forall>n. \<not> faults (diskFileWorld ?d) n" by (simp add: diskFileWorld_def demoWorld_def)
  have "length ?d = 1 * 1048576" "(0 :: nat) < 1" by (simp_all only: length_replicate mult_1)
  from azureVhd_cuts[OF diskFileWorld_content f this, of demoEnv] show ?thesis
    by (simp only: length_replicate take_replicate) simp
qed

subsection \<open>Writing one file\<close>

text \<open>\<open>onlyAt p\<close>: no link has changed, and no file but the one at \<open>p\<close>.\<close>

definition onlyAt :: "string \<Rightarrow> world \<Rightarrow> world \<Rightarrow> bool" where
  "onlyAt p w w' \<longleftrightarrow> resolve w' = resolve w \<and> (\<forall>q. resolve w (pathOf p) \<noteq> Some q \<longrightarrow> fs_lookup w' q = fs_lookup w q)"

interpretation oat: state_frame "onlyAt p" for p
  by unfold_locales (auto simp: onlyAt_def)

lemma follow_write:
  assumes "\<forall>t. fs_lookup w q \<noteq> Some (NLink t)" "q \<noteq> []"
  shows "follow n (fs_set q (NFile m d) w) p = follow n w p"
proof (induction n arbitrary: p)
  case (Suc n)
  show ?case using assms Suc by (auto simp: fs_lookup_set split: option.splits node.splits)
qed simp

lemma onlyAt_set:
  assumes "resolve w (pathOf p) = Some q" "q \<noteq> []"
  shows "onlyAt p w (fs_set q (NFile m d) w)"
proof -
  have "\<forall>t. fs_lookup w q \<noteq> Some (NLink t)" using assms(1) follow_not_link unfolding resolve_def by blast
  note fw = follow_write[OF this assms(2)]
  have res: "resolve (fs_set q (NFile m d) w) = resolve w" by (intro ext) (simp only: resolve_def fw)
  then show ?thesis using assms by (auto simp: onlyAt_def fs_lookup_set)
qed

lemma onlyAt_ticks: "onlyAt p w (w\<lparr>ticks := k\<rparr>)"
  by (simp add: onlyAt_def fun_eq_iff)

lemma onlyAt_sysIO:
  assumes "\<And>v r v'. m v = (r, v') \<Longrightarrow> onlyAt p v v'" "sysIO m w = (r, w')"
  shows "onlyAt p w w'"
  using assms(2)
proof (cases rule: sysIO_cases)
  case ran
  then show ?thesis using oat.trans[OF onlyAt_ticks assms(1)] by blast
qed (simp add: onlyAt_ticks)

lemma onlyAt_ops:
  "fs_WriteFile p d mode w = (r, w') \<Longrightarrow> onlyAt p w w'" "fs_Truncate p n w = (r, w') \<Longrightarrow> onlyAt p w w'"
  "fs_ReadFile x w = (rd, w') \<Longrightarrow> onlyAt p w w'" "fs_Stat x w = (rs, w') \<Longrightarrow> onlyAt p w w'"
  unfolding fs_WriteFile_def fs_Truncate_def fs_ReadFile_def fs_Stat_def
  by (erule onlyAt_sysIO[rotated]; auto simp: oat.refl intro!: onlyAt_set split: option.splits node.splits if_splits)+

lemma onlyAt_content: "onlyAt p w w' \<Longrightarrow> resolve w (pathOf x) \<noteq> resolve w (pathOf p) \<Longrightarrow> contentAt w' x = contentAt w x"
  and onlyAt_resolve: "onlyAt p w w' \<Longrightarrow> resolve w' = resolve w"
  by (auto simp: onlyAt_def contentAt_def split: option.split)

lemma Truncate_file:
  assumes "fs_Truncate p n w = (Inr (), w')" "contentAt w p = Some d"
  shows "contentAt w' p = Some (take (nat n) (d @ replicate (nat n - length d) (CHR 0x00)))"
proof -
  obtain q m where q: "resolve w (pathOf p) = Some q" "fs_lookup w q = Some (NFile m d)" "q \<noteq> []"
    by (rule content_node[OF assms(2)])
  then show ?thesis using assms(1) content_set[of "w\<lparr>ticks := Suc (ticks w)\<rparr>" p q]
    by (auto simp: fs_Truncate_def sysIO_def Let_def split: if_splits)
qed

lemma CreateRAWFile_content:
  assumes "CreateRAWFile f sz w = (Inr (), w')"
  shows "onlyAt f w w'" and "contentAt w' f = Some (replicate (nat (rawSize sz)) (CHR 0x00))"
proof -
  from assms obtain w1 w2 r3 where c: "fs_Create f w = (Inr (), w1)" and t: "fs_Truncate f (rawSize sz) w1 = (Inr (), w2)"
    and s: "sysIO (retIO ()) w2 = (r3, w')"
    by (auto simp: CreateRAWFile_def bindIO_def thenIO_def tryIO_def failIO_def retIO_def split: prod.splits sum.splits option.splits)
  have s': "onlyAt f w2 w'" "contentAt w' f = contentAt w2 f"
    using s by (auto simp: sysIO_def Let_def retIO_def onlyAt_ticks split: if_splits)
  show "onlyAt f w w'"
    using oat.trans[OF onlyAt_ops(1)[OF c[unfolded fs_Create_def]] oat.trans[OF onlyAt_ops(2)[OF t] s'(1)]] .
  have "contentAt w1 f = Some []" using WriteFile_content[OF c[unfolded fs_Create_def]] by simp
  from Truncate_file[OF t this] s'(2) show "contentAt w' f = Some (replicate (nat (rawSize sz)) (CHR 0x00))" by simp
qed

lemma appendFile_grows:
  assumes "appendFile p d w = (Inr (), w')"
  shows "onlyAt p w w'" and "\<exists>old. contentAt w p = Some old \<and> contentAt w' p = Some (old @ d)"
proof -
  from assms obtain old w1 where r: "fs_ReadFile p w = (Inr old, w1)" and wr: "fs_WriteFile p (old @ d) FilePerm w1 = (Inr (), w')"
    by (auto simp: appendFile_def returns_iff)
  show "onlyAt p w w'" using oat.trans[OF onlyAt_ops(3)[OF r] onlyAt_ops(1)[OF wr]] .
  show "\<exists>old. contentAt w p = Some old \<and> contentAt w' p = Some (old @ d)"
    using ReadFile_content[OF r] WriteFile_content(1)[OF wr] by blast
qed

lemma concat_loop:
  assumes "forIO sources (\<lambda>source. bindIO (fs_ReadFile source) (appendFile target)) w = (Inr (), w')"
    and "\<forall>s \<in> set sources. resolve w (pathOf s) \<noteq> resolve w (pathOf target)" and "contentAt w target = Some old"
  shows "onlyAt target w w' \<and> (\<exists>ds. map (contentAt w) sources = map Some ds \<and> contentAt w' target = Some (old @ concat ds))"
  using assms
proof (induction sources arbitrary: w old)
  case Nil
  then show ?case by (simp add: retIO_def oat.refl)
next
  case (Cons s sources)
  from Cons.prems(1) obtain d w1 w2 where r: "fs_ReadFile s w = (Inr d, w1)" and a: "appendFile target d w1 = (Inr (), w2)"
    and rest: "forIO sources (\<lambda>source. bindIO (fs_ReadFile source) (appendFile target)) w2 = (Inr (), w')"
    by (auto simp: returns_iff)
  have o: "onlyAt target w w2" using oat.trans[OF onlyAt_ops(3)[OF r] appendFile_grows(1)[OF a]] .
  have d: "contentAt w s = Some d" "contentAt w1 target = Some old" using ReadFile_content[OF r] Cons.prems(3) by auto
  then have c2: "contentAt w2 target = Some (old @ d)" using appendFile_grows(2)[OF a] by simp
  have same: "contentAt w2 x = contentAt w x" if "x \<in> set sources" for x
    using onlyAt_content[OF o] Cons.prems(2) that by simp
  have "\<forall>x \<in> set sources. resolve w2 (pathOf x) \<noteq> resolve w2 (pathOf target)"
    using Cons.prems(2) onlyAt_resolve[OF o] by simp
  from Cons.IH[OF rest this c2] obtain ds where "onlyAt target w2 w'" "map (contentAt w2) sources = map Some ds"
    "contentAt w' target = Some ((old @ d) @ concat ds)" by blast
  moreover have "map (contentAt w2) sources = map (contentAt w) sources" using same by simp
  ultimately have "onlyAt target w2 w'" "map (contentAt w) (s # sources) = map Some (d # ds)"
    "contentAt w' target = Some (old @ concat (d # ds))" using d(1) by simp_all
  then show ?case using oat.trans[OF o] by blast
qed

lemma Chmod_content:
  assumes "fs_Chmod p mode w = (r, w')" "contentAt w p = Some d"
  shows "onlyAt p w w'" and "contentAt w' p = Some d"
proof -
  obtain q m where q: "resolve w (pathOf p) = Some q" "fs_lookup w q = Some (NFile m d)" "q \<noteq> []"
    by (rule content_node[OF assms(2)])
  let ?w = "w\<lparr>ticks := Suc (ticks w)\<rparr>"
  have "w' = ?w \<or> w' = fs_set q (NFile mode d) ?w"
    using assms(1) q by (auto simp: fs_Chmod_def sysIO_def Let_def split: if_splits)
  moreover have "onlyAt p w (fs_set q (NFile mode d) ?w)"
    using oat.trans[OF onlyAt_ticks onlyAt_set] q by simp
  ultimately show "onlyAt p w w'" and "contentAt w' p = Some d"
    using content_set[of ?w p q mode d] q onlyAt_ticks assms(2) by auto
qed

lemma resolve_missing: "fs_lookup w p = None \<Longrightarrow> resolve w p = Some p"
  by (simp only: resolve_def follow.simps option.case)

lemma ConcatFiles_content:
  assumes "ConcatFiles sources target w = (Inr (), w')" and new: "fs_lookup w (pathOf target) = None"
    and apart: "\<forall>s \<in> set sources. resolve w (pathOf s) \<noteq> resolve w (pathOf target)"
  shows "\<exists>ds. map (contentAt w) sources = map Some ds \<and> contentAt w' target = Some (concat ds)"
proof -
  obtain b w1 where dir: "okIO False (IsDir target) w = (Inr b, w1)" by (metis okIO_total)
  have o1: "onlyAt target w w1"
    using dir onlyAt_ops(4)[of target w _ _ target]
    by (auto simp: okIO_def IsDir_def bindIO_def retIO_def split: prod.splits sum.splits)
  have "\<not> b" using dir new
    by (auto simp: okIO_def IsDir_def bindIO_def retIO_def fs_Stat_def sysIO_def Let_def resolve_missing
        split: prod.splits sum.splits if_splits)
  then obtain src0 fi w2 w3 w4 where src: "sources \<noteq> []" and st: "fs_Stat src0 w1 = (Inr fi, w2)" and cr: "fs_Create target w2 = (Inr (), w3)"
    and loop: "forIO sources (\<lambda>source. bindIO (fs_ReadFile source) (appendFile target)) w3 = (Inr (), w4)"
    and ch: "fs_Chmod target (node_mode fi) w4 = (Inr (), w')"
    using assms(1) dir
    by (cases sources) (auto simp del: forIO.simps simp add: ConcatFiles_def failIO_def returns_iff Let_def onErrorIO_Inr_iff)
  have o3: "onlyAt target w w3"
    using oat.trans[OF o1 oat.trans[OF onlyAt_ops(4)[OF st] onlyAt_ops(1)[OF cr[unfolded fs_Create_def]]]] .
  have same: "map (contentAt w3) sources = map (contentAt w) sources"
    using onlyAt_content[OF o3] apart by simp
  have "\<forall>s \<in> set sources. resolve w3 (pathOf s) \<noteq> resolve w3 (pathOf target)" using apart onlyAt_resolve[OF o3] by simp
  from concat_loop[OF loop this WriteFile_content(1)[OF cr[unfolded fs_Create_def]]]
  obtain ds where "map (contentAt w3) sources = map Some ds" "contentAt w4 target = Some (concat ds)" by auto
  then show ?thesis using same Chmod_content(2)[OF ch] by auto
qed
subsection \<open>The entries of the table\<close>

abbreviation sizesMiB :: "Partition list \<Rightarrow> nat" where
  "sizesMiB parts \<equiv> sum_list (map (\<lambda>p. unat (p_Size p)) parts)"

lemma tableLoop_entries:
  fixes secSize :: uint
  assumes s: "secSize \<noteq> 0" "unat secSize dvd 1048576"
    and "(before + sizesMiB parts) * 1048576 < 2 ^ 64"
    and "unat (if i = 0 then 1024 * 1024 div secSize else startS + sizeS) * unat secSize = before * 1048576"
  shows "\<exists>ps. tableLoop secSize False i startS sizeS parts = Inr ps \<and> length ps = length parts \<and>
    (\<forall>j < length parts. unat (StartS (ps ! j)) * unat secSize = (before + sizesMiB (take j parts)) * 1048576 \<and>
       unat (SizeS (ps ! j)) * unat secSize = unat (p_Size (parts ! j)) * 1048576 \<and> PLabel (ps ! j) = p_Name (parts ! j) \<and> FileSystem (ps ! j) = p_FS (parts ! j) \<and> Number (ps ! j) = int (i + j) + 1)"
  using assms(3,4)
proof (induction parts arbitrary: i startS sizeS before)
  case Nil
  then show ?case by simp
next
  case (Cons part parts)
  let ?start = "if i = 0 then 1024 * 1024 div secSize else startS + sizeS"
  let ?n = "unat (p_Size part)"
  have bound: "?n * 1048576 < 2 ^ 64" using Cons.prems(1) by simp
  obtain sz where sz: "MiBToSectors (p_Size part) secSize = Inr sz" "unat sz = ?n * 1048576 div unat secSize"
    using MiBToSectors_exact[OF bound s(1)] by blast
  have exact: "unat sz * unat secSize = ?n * 1048576"
    unfolding sz(2) using s(2) by (simp add: dvd_div_mult_self)
  have nxt: "(unat ?start + unat sz) * unat secSize = (before + ?n) * 1048576"
    using Cons.prems(2) exact by (simp add: algebra_simps)
  have "0 < unat secSize" using s(1) by (simp add: unat_gt_0)
  then have "unat ?start + unat sz \<le> (unat ?start + unat sz) * unat secSize" by simp
  also have "\<dots> < 2 ^ 64" unfolding nxt using Cons.prems(1) by simp
  finally have "unat (?start + sz) = unat ?start + unat sz" by (simp add: unat_add_lem[THEN iffD1])
  then have step: "unat (if Suc i = 0 then 1024 * 1024 div secSize else ?start + sz) * unat secSize = (before + ?n) * 1048576"
    using nxt by simp
  have "(before + ?n + sizesMiB parts) * 1048576 < 2 ^ 64" using Cons.prems(1) by (simp add: add.assoc)
  from Cons.IH[OF this step] obtain ps where
    ps: "tableLoop secSize False (Suc i) ?start sz parts = Inr ps" "length ps = length parts"
    "\<forall>j < length parts. unat (StartS (ps ! j)) * unat secSize = (before + ?n + sizesMiB (take j parts)) * 1048576 \<and>
       unat (SizeS (ps ! j)) * unat secSize = unat (p_Size (parts ! j)) * 1048576 \<and> PLabel (ps ! j) = p_Name (parts ! j) \<and> FileSystem (ps ! j) = p_FS (parts ! j) \<and> Number (ps ! j) = int (Suc i + j) + 1" by blast
  let ?p = "\<lparr>Number = int i + 1, StartS = ?start, SizeS = sz, PLabel = p_Name part, FileSystem = p_FS part\<rparr>"
  have run: "tableLoop secSize False i startS sizeS (part # parts) = Inr (?p # ps)"
    using s(1) sz(1) ps(1) by (simp add: Let_def)
  show ?case
  proof (intro exI[of _ "?p # ps"] conjI allI impI)
    show "tableLoop secSize False i startS sizeS (part # parts) = Inr (?p # ps)" by (rule run)
    show "length (?p # ps) = length (part # parts)" using ps(2) by simp
    fix j assume j: "j < length (part # parts)"
    show "unat (StartS ((?p # ps) ! j)) * unat secSize = (before + sizesMiB (take j (part # parts))) * 1048576"
      "unat (SizeS ((?p # ps) ! j)) * unat secSize = unat (p_Size ((part # parts) ! j)) * 1048576"
      "PLabel ((?p # ps) ! j) = p_Name ((part # parts) ! j)" "FileSystem ((?p # ps) ! j) = p_FS ((part # parts) ! j)"
      using j ps(3) exact Cons.prems(2) by (cases j; auto simp: add.assoc)+
    show "Number ((?p # ps) ! j) = int (i + j) + 1" using j ps(3) by (cases j) simp_all
  qed
qed


lemma image_at:
  assumes "length ds = length parts" "j < length parts"
    and "\<forall>k < j. length (ds ! k) = unat (p_Size (parts ! k)) * 1048576" "length zero = 1048576"
  shows "take (length (ds ! j)) (drop ((1 + sizesMiB (take j parts)) * 1048576) (zero @ concat ds @ rest)) = ds ! j"
proof -
  have split: "ds = take j ds @ ds ! j # drop (Suc j) ds" using assms(1,2) by (simp add: id_take_nth_drop)
  have "length (concat (take j ds)) = sizesMiB (take j parts) * 1048576"
    using assms(1-3)
  proof (induction j)
    case (Suc j)
    have IH: "length (concat (take j ds)) = sizesMiB (take j parts) * 1048576" using Suc by simp
    have "length (ds ! j) = unat (p_Size (parts ! j)) * 1048576" "take (Suc j) ds = take j ds @ [ds ! j]"
      "take (Suc j) parts = take j parts @ [parts ! j]"
      using Suc.prems by (simp_all add: take_Suc_conv_app_nth)
    then show ?case using IH by (simp add: algebra_simps)
  qed simp
  then have "drop ((1 + sizesMiB (take j parts)) * 1048576) (zero @ concat ds @ rest) = drop (length (zero @ concat (take j ds))) (zero @ concat ds @ rest)"
    using assms(4) by (simp add: algebra_simps)
  also have "\<dots> = ds ! j @ concat (drop (Suc j) ds) @ rest"
    by (subst split) simp
  finally show ?thesis by simp
qed

text \<open>The two helper files of the disk image: the free space in front of and behind the partitions.\<close>

abbreviation initDiskFile :: "BuildDiskAction \<Rightarrow> string" where
  "initDiskFile b \<equiv> Join [bc_OutDir (bd_cfg b), DiskWorkDir, ''initdisk.img'']"

abbreviation endDiskFile :: "BuildDiskAction \<Rightarrow> string" where
  "endDiskFile b \<equiv> Join [bc_OutDir (bd_cfg b), DiskWorkDir, ''enddisk.img'']"

lemma coded_Inr: "coded c m s = (Inr x, t) \<longleftrightarrow> m s = (Inr x, t)"
  by (auto simp: coded_def split: prod.splits sum.splits)

lemma CreateDiskImage_content:
  assumes run: "CreateDiskImage b raw imgs w = (Inr (), w1)"
    and new: "fs_lookup w (pathOf raw) = None"
    and apart: "distinct (map (\<lambda>p. resolve w (pathOf p)) [raw, initDiskFile b, endDiskFile b])"
      "\<forall>i \<in> set imgs. resolve w (pathOf (img_File i)) \<notin> (\<lambda>p. resolve w (pathOf p)) ` {raw, initDiskFile b, endDiskFile b}"
  shows "\<exists>ds rest. map (contentAt w \<circ> img_File) imgs = map Some ds \<and>
    contentAt w1 raw = Some (replicate 1048576 (CHR 0x00) @ concat ds @ rest)"
proof -
  let ?I = "initDiskFile b" and ?E = "endDiskFile b"
  obtain eSize v1 v2 where i: "CreateRAWFile ?I 1 w = (Inr (), v1)" and e: "CreateRAWFile ?E eSize v1 = (Inr (), v2)"
    and c: "ConcatFiles ([?I] @ map img_File imgs @ [?E]) raw v2 = (Inr (), w1)"
    using run by (auto simp: CreateDiskImage_def Let_def returns_iff sumIO_def coded_Inr)
  note i' = CreateRAWFile_content[OF i] and e' = CreateRAWFile_content[OF e]
  note res = onlyAt_resolve[OF i'(1)] and res2 = onlyAt_resolve[OF e'(1)]
  have r: "resolve v2 = resolve w" using res res2 by simp
  have one: "nat (rawSize 1) = 1048576" by (simp add: rawSize_def)
  have ci: "contentAt v2 ?I = Some (replicate 1048576 (CHR 0x00))"
    using onlyAt_content[OF e'(1), of ?I] i'(2) apart(1) res by (simp add: one)
  have cimg: "contentAt v2 (img_File x) = contentAt w (img_File x)" if "x \<in> set imgs" for x
    using onlyAt_content[OF i'(1), of "img_File x"] onlyAt_content[OF e'(1), of "img_File x"] apart(2) that res by auto
  have raw: "resolve w (pathOf raw) = Some (pathOf raw)" using new by (rule resolve_missing)
  have "fs_lookup v1 (pathOf raw) = None" using i'(1) apart(1) raw new by (auto simp: onlyAt_def)
  then have new2: "fs_lookup v2 (pathOf raw) = None" using e'(1) apart(1) raw res by (auto simp: onlyAt_def)
  have "\<forall>s \<in> set ([?I] @ map img_File imgs @ [?E]). resolve v2 (pathOf s) \<noteq> resolve v2 (pathOf raw)"
    using apart unfolding r by auto
  from ConcatFiles_content[OF c new2 this] obtain ds where
    ds: "map (contentAt v2) ([?I] @ map img_File imgs @ [?E]) = map Some ds" "contentAt w1 raw = Some (concat ds)" by blast
  obtain d0 mid d1 where m: "ds = d0 # mid @ [d1]" "contentAt v2 ?I = Some d0" "map (contentAt v2) (map img_File imgs) = map Some mid"
    using ds(1) by (auto simp: map_eq_Cons_conv map_eq_append_conv append_eq_map_conv Cons_eq_map_conv)
  have "map (contentAt w \<circ> img_File) imgs = map (contentAt v2) (map img_File imgs)" using cimg by simp
  then have "map (contentAt w \<circ> img_File) imgs = map Some mid" using m(3) by (simp only:)
  moreover have "contentAt w1 raw = Some (replicate 1048576 (CHR 0x00) @ concat mid @ d1)" using ds(2) m ci by simp
  ultimately show ?thesis by blast
qed

text \<open>The sector size that is read from the output of sgdisk; without one it is 512 bytes.\<close>

abbreviation sectorOf :: "string \<Rightarrow> uint" where
  "sectorOf out \<equiv> (case gd_GetSectorSize out of Inl _ \<Rightarrow> defSectorSize | Inr s \<Rightarrow> s)"

lemma fold_create: "foldl (\<lambda>gd p. gd_CreatePartition p gd) gd ps = gd\<lparr>gd_parts := gd_parts gd @ ps\<rparr>"
  by (induction ps arbitrary: gd) (simp_all add: gd_CreatePartition_def)

lemma table_cmds:
  assumes tab: "CreateDiskPartitionTable b raw w = (Inr (), w')" and log: "keepsLog (bd_Config b)" and fixed: "\<not> dsk_Expandable (bd_spec b)"
    and loop: "tableLoop s False 0 0 0 (diskParts b) = Inr ps" and some: "ps \<noteq> []"
    and sector: "\<forall>v. cfg_Run (bd_Config b) ''sgdisk'' [''-p'', ''-v'', raw] v = ((None, out), v)" "sectorOf out = s"
  shows "cmds w' = cmds w @ [(''sgdisk'', [''-p'', ''-v'', raw]), (''sgdisk'', ''-P'' # concat (map sgdiskArgs ps) @ [raw]),
      (''sgdisk'', concat (map sgdiskArgs ps) @ [raw]), (''partx'', [''-u'', raw])]"
proof -
  let ?gd = "(newGdiskCall raw)\<lparr>gd_parts := ps\<rparr>"
  let ?w = "w\<lparr>cmds := cmds w @ [(''sgdisk'', [''-p'', ''-v'', raw])]\<rparr>"
  have gd: "foldl (\<lambda>gd p. gd_CreatePartition p gd) (newGdiskCall raw) ps = ?gd" by (simp add: fold_create newGdiskCall_def)
  have pr: "gd_Print (bd_Config b) (newGdiskCall raw) w = (Inr out, ?w)"
    using sector(1) by (simp add: gd_Print_def newGdiskCall_def RunE_def Run_def bindIO_def retIO_def)
  obtain o1 gd' where wr: "gd_WriteChanges (bd_Config b) ?gd ?w = (Inr o1, gd', w')"
    using tab fixed loop sector(2) pr gd
    by (auto simp: CreateDiskPartitionTable_def Let_def bindIO_def sumIO_def retIO_def split: prod.splits sum.splits)
  have opts: "gd_buildOptions (SetPretend pr ?gd) = (if pr then [''-P''] else []) @ concat (map sgdiskArgs ps) @ [raw]" for pr
  proof -
    have eq: "gdiskPartOpts = sgdiskArgs" by (rule ext) (rule sgdiskArgs_eq)
    have "concat (map sgdiskArgs ps) \<noteq> []" using some by (cases ps) (simp_all add: sgdiskArgs_def Let_def)
    then show ?thesis by (simp add: gd_buildOptions_def SetPretend_def newGdiskCall_def eq Let_def del: concat_eq_Nil_conv)
  qed
  show ?thesis using gd_Write_cmds[OF log wr] opts[of True] opts[of False] by (simp add: newGdiskCall_def)
qed

subsection \<open>The order of the images\<close>

text \<open>\<open>sameImage\<close>: the object of an image keeps its file.\<close>

definition sameImage :: "Image \<times> world \<Rightarrow> Image \<times> world \<Rightarrow> bool" where
  "sameImage s t \<longleftrightarrow> img_File (fst t) = img_File (fst s)"

interpretation sim: state_frame sameImage
  by unfold_locales (simp_all add: sameImage_def)

lemma sameImage_ops: "keeps sameImage (liftW m)" "keeps sameImage getO"
  "(\<And>i. img_File (f i) = img_File i) \<Longrightarrow> keeps sameImage (modO f)"
  by (auto simp: keeps_def sameImage_def liftW_def getO_def modO_def split: prod.splits)

lemma sameImage_image: "keeps sameImage (CreateFileSystemImage c root preload ex)" "keeps sameImage (MountFileSystemImage c opts)"
  "keeps sameImage (UnmountFileSystemImage c)" "keeps sameImage (CreateImageFromTree c root preload cs)"
proof -
  show fs: "keeps sameImage (CreateFileSystemImage c root preload ex)" for preload ex
    unfolding CreateFileSystemImage_def
    by (auto intro!: sim.keeps_bind sim.keeps_then sim.keeps_ret sim.keeps_fail sameImage_ops)
  show m: "keeps sameImage (MountFileSystemImage c opts)" for opts
    unfolding MountFileSystemImage_def Let_def
    by (intro sim.keeps_bind sim.keeps_then sim.keeps_onError sim.keeps_ignore sameImage_ops) simp
  show u: "keeps sameImage (UnmountFileSystemImage c)"
    unfolding UnmountFileSystemImage_def
    by (auto intro!: sim.keeps_bind sim.keeps_then sim.keeps_ret sim.keeps_raise sameImage_ops)
  show "keeps sameImage (CreateImageFromTree c root preload cs)"
    unfolding CreateImageFromTree_def syncTree_def Let_def
    by (auto intro!: sim.keeps_bind sim.keeps_then sim.keeps_ret sim.keeps_finally sim.keeps_try sameImage_ops fs m u)
qed

lemma withObj_Inr: "withObj obj m w = (Inr (x, obj'), w') \<longleftrightarrow> m (obj, w) = (Inr x, obj', w')"
  by (auto simp: withObj_def split: prod.splits sum.splits)

lemma withImage_file:
  assumes "keeps sameImage m" "withObj img m w = (Inr (x, img'), w')"
  shows "img_File img' = img_File img"
  using keepsD[OF assms(1)] assms(2) by (fastforce simp: withObj_Inr sameImage_def)

lemma runs_Inr: "liftW m (b, w) = (Inr x, b', w') \<longleftrightarrow> m w = (Inr x, w') \<and> b' = b" "getO (b, w) = (Inr y, b', w') \<longleftrightarrow> y = b \<and> b' = b \<and> w' = w"
  "deref po s = (Inr p, s') \<longleftrightarrow> po = Some p \<and> s' = s" "retIO z s = (Inr z', s') \<longleftrightarrow> z' = z \<and> s' = s"
  by (auto simp: liftW_def getO_def deref_def retIO_def failIO_def split: prod.splits option.splits)

lemma treeImage_file: "treeImage b part sz w = (Inr img, w') \<Longrightarrow> img_File img = p_Path part"
  by (auto simp: treeImage_def returns_iff runs_Inr ToImage_def dest!: withImage_file[OF sameImage_image(4)])

lemma efiImage_file:
  "createEFIPartitionImage b w = (Inr img, w') \<Longrightarrow> \<exists>part. ep_Boot (dsk_Partitions (bd_spec b)) = Some part \<and> img_File img = p_Path part"
  by (auto simp: createEFIPartitionImage_def returns_iff runs_Inr ToImage_def Let_def dest!: withImage_file[OF sameImage_image(1)])

lemma stateImage_file:
  assumes "createStatePartitionImage (b, w) = (Inr img, b', w')"
  shows "\<exists>part. ep_State (dsk_Partitions (bd_spec b)) = Some part \<and> img_File img = p_Path part"
proof -
  have "keeps sameImage (thenIO (CreateFileSystemImage c [] False []) (MountFileSystemImage c [''rw'']))" for c
    by (intro sim.keeps_then sameImage_image)
  from withImage_file[OF this] assms show ?thesis
    by (fastforce simp: createStatePartitionImage_def bindIO_Inr_iff runs_Inr ToImage_def Let_def thenIO_Inr_iff)
qed

text \<open>The images of a disk that is not expandable come in the order boot, OEM, recovery, state, persistent, each in the file of its partition.\<close>

lemma images_in_order:
  assumes "CreatePartitionImages (b, w) = (Inr imgs, b', w')" "\<not> dsk_Expandable (bd_spec b)"
  shows "\<exists>boot oem rcv st per. ep_State (dsk_Partitions (bd_spec b)) = Some st \<and>
    dsk_Partitions (bd_spec b') = \<lparr>ep_BIOS = ep_BIOS (dsk_Partitions (bd_spec b')), ep_Boot = Some boot, ep_OEM = Some oem, ep_Recovery = Some rcv,
      ep_State = ep_State (dsk_Partitions (bd_spec b')), ep_Persistent = Some per\<rparr> \<and>
    map img_File imgs = map p_Path [boot, oem, rcv, st, per]"
proof -
  obtain st b1 w1 w2 w3 w4 w5 efi oem rcv per oemImg recImg perImg where
    "createStatePartitionImage (b, w) = (Inr st, b1, w1)" and b: "b' = b1"
    and e: "createEFIPartitionImage b1 w2 = (Inr efi, w3)" and o: "ep_OEM (dsk_Partitions (bd_spec b1)) = Some oem"
    "treeImage b1 oem (p_Size oem) w3 = (Inr oemImg, w4)" and r: "ep_Recovery (dsk_Partitions (bd_spec b1)) = Some rcv"
    "treeImage b1 rcv (p_Size rcv) w4 = (Inr recImg, w5)" and p: "ep_Persistent (dsk_Partitions (bd_spec b1)) = Some per"
    "treeImage b1 per (p_Size per) w5 = (Inr perImg, w')" and i: "imgs = [efi, oemImg, recImg, st, perImg]"
    using assms by (auto simp: CreatePartitionImages_def returns_iff runs_Inr Let_def coded_Inr)
  then show ?thesis using stateImage_file efiImage_file[OF e] treeImage_file[OF o(2)] treeImage_file[OF r(2)] treeImage_file[OF p(2)]
    by (cases "dsk_Partitions (bd_spec b1)") fastforce
qed

text \<open>So they come in the order of the partition table, when there is no BIOS partition and the snapshotter keeps the file of the state partition.\<close>

lemma images_of_diskParts:
  assumes run: "CreatePartitionImages (b, w) = (Inr imgs, b', w')" and fixed: "\<not> dsk_Expandable (bd_spec b)" "\<not> dsk_Expandable (bd_spec b')"
    and none: "ep_BIOS (dsk_Partitions (bd_spec b')) = None"
    and st: "map_option p_Path (ep_State (dsk_Partitions (bd_spec b'))) = map_option p_Path (ep_State (dsk_Partitions (bd_spec b)))"
  shows "map img_File imgs = map p_Path (diskParts b')"
proof -
  obtain boot oem rcv st0 per where s: "ep_State (dsk_Partitions (bd_spec b)) = Some st0"
    and ep: "dsk_Partitions (bd_spec b') = \<lparr>ep_BIOS = ep_BIOS (dsk_Partitions (bd_spec b')), ep_Boot = Some boot, ep_OEM = Some oem,
      ep_Recovery = Some rcv, ep_State = ep_State (dsk_Partitions (bd_spec b')), ep_Persistent = Some per\<rparr>"
    and imgs: "map img_File imgs = map p_Path [boot, oem, rcv, st0, per]"
    using images_in_order[OF run fixed(1)] by blast
  obtain st1 where s1: "ep_State (dsk_Partitions (bd_spec b')) = Some st1" "p_Path st1 = p_Path st0" using st s by auto
  have "diskParts b' = [boot, oem, rcv, st1, per]"
    using fixed(2) by (subst diskParts_def, subst ep) (simp add: none s1 PartitionsByInstallOrder_eq fixedParts_def growParts_def keepPart_def inExcludes_def)
  then show ?thesis using imgs s1(2) by simp
qed

subsection \<open>The partition table describes the image\<close>

text \<open>
  Property C11. The partition table of a disk that is not expandable describes the image that was put together. When the images
  of the partitions, but for the last one, have the size of their partition, \<open>CreateDiskImage\<close> puts the image of each partition at the
  byte where the entry starts that \<open>CreateDiskPartitionTable\<close> writes for it. The entries are numbered from 1 in the order of the partitions
  and carry their names and sizes, and the commands run are the one that reads the sector size and the rehearsal, the call and the
  update with these entries. The sector size divides 1 MiB, the sizes do not overflow, and the files of the disk, of the images and
  the helper files are different files.
\<close>

theorem partition_table_offsets:
  assumes img: "CreateDiskImage b raw imgs w = (Inr (), w1)" and tab: "CreateDiskPartitionTable b raw w1 = (Inr (), w2)"
    and log: "keepsLog (bd_Config b)" and fixed: "\<not> dsk_Expandable (bd_spec b)" and some: "diskParts b \<noteq> []"
    and files: "map img_File imgs = map p_Path (diskParts b)"
    and new: "fs_lookup w (pathOf raw) = None"
    and apart: "distinct (map (\<lambda>p. resolve w (pathOf p)) [raw, initDiskFile b, endDiskFile b])"
      "\<forall>i \<in> set imgs. resolve w (pathOf (img_File i)) \<notin> (\<lambda>p. resolve w (pathOf p)) ` {raw, initDiskFile b, endDiskFile b}"
    and sizes: "\<forall>p \<in> set (butlast (diskParts b)). \<exists>d. contentAt w (p_Path p) = Some d \<and> length d = unat (p_Size p) * 1048576"
    and bound: "(1 + sizesMiB (diskParts b)) * 1048576 < 2 ^ 64"
    and sector: "\<forall>v. cfg_Run (bd_Config b) ''sgdisk'' [''-p'', ''-v'', raw] v = ((None, out), v)" "sectorOf out = s"
      "unat s dvd 1048576"
  shows "\<exists>disk ps. contentAt w1 raw = Some disk \<and> length ps = length (diskParts b) \<and>
    cmds w2 = cmds w1 @ [(''sgdisk'', [''-p'', ''-v'', raw]), (''sgdisk'', ''-P'' # concat (map sgdiskArgs ps) @ [raw]),
      (''sgdisk'', concat (map sgdiskArgs ps) @ [raw]), (''partx'', [''-u'', raw])] \<and>
    (\<forall>j < length ps. Number (ps ! j) = int j + 1 \<and> PLabel (ps ! j) = p_Name (diskParts b ! j) \<and> FileSystem (ps ! j) = p_FS (diskParts b ! j) \<and>
       unat (SizeS (ps ! j)) * unat s = unat (p_Size (diskParts b ! j)) * 1048576 \<and>
       (\<exists>d. contentAt w (p_Path (diskParts b ! j)) = Some d \<and> take (length d) (drop (unat (StartS (ps ! j)) * unat s) disk) = d))"
proof -
  let ?parts = "diskParts b"
  have s0: "s \<noteq> 0" using sector(3) by auto
  have start: "unat (1024 * 1024 div s :: uint) * unat s = 1048576"
    using sector(3) by (simp add: unat_div dvd_div_mult_self)
  obtain ps where ps: "tableLoop s False 0 0 0 ?parts = Inr ps" "length ps = length ?parts"
    "\<forall>j < length ?parts. unat (StartS (ps ! j)) * unat s = (1 + sizesMiB (take j ?parts)) * 1048576 \<and>
       unat (SizeS (ps ! j)) * unat s = unat (p_Size (?parts ! j)) * 1048576 \<and> PLabel (ps ! j) = p_Name (?parts ! j) \<and> FileSystem (ps ! j) = p_FS (?parts ! j) \<and>
       Number (ps ! j) = int (0 + j) + 1"
    using tableLoop_entries[OF s0 sector(3) bound, of 0 0 0] start by auto
  obtain ds rest where ds: "map (contentAt w \<circ> img_File) imgs = map Some ds"
    "contentAt w1 raw = Some (replicate 1048576 (CHR 0x00) @ concat ds @ rest)"
    using CreateDiskImage_content[OF img new apart] by blast
  have len: "length imgs = length ?parts" "length ds = length ?parts"
    using arg_cong[OF files, of length] arg_cong[OF ds(1), of length] by simp_all
  have cont: "contentAt w (p_Path (?parts ! j)) = Some (ds ! j)" if "j < length ?parts" for j
    using arg_cong[OF ds(1), of "\<lambda>l. l ! j"] arg_cong[OF files, of "\<lambda>l. l ! j"] that len by simp
  have size: "length (ds ! k) = unat (p_Size (?parts ! k)) * 1048576" if "k < j" "j < length ?parts" for j k
  proof -
    have "?parts ! k \<in> set (butlast ?parts)" using that nth_butlast[of k ?parts] nth_mem[of k "butlast ?parts"] by simp
    then show ?thesis using sizes cont[of k] that by fastforce
  qed
  have entry: "Number (ps ! j) = int j + 1 \<and> PLabel (ps ! j) = p_Name (?parts ! j) \<and> FileSystem (ps ! j) = p_FS (?parts ! j) \<and>
       unat (SizeS (ps ! j)) * unat s = unat (p_Size (?parts ! j)) * 1048576 \<and>
       (\<exists>d. contentAt w (p_Path (?parts ! j)) = Some d \<and>
          take (length d) (drop (unat (StartS (ps ! j)) * unat s) (replicate 1048576 (CHR 0x00) @ concat ds @ rest)) = d)" if "j < length ps" for j
    using ps(2,3) that cont[of j] image_at[OF len(2), of j "replicate 1048576 (CHR 0x00)" rest] size[of _ j] by auto
  have "cmds w2 = cmds w1 @ [(''sgdisk'', [''-p'', ''-v'', raw]), (''sgdisk'', ''-P'' # concat (map sgdiskArgs ps) @ [raw]),
      (''sgdisk'', concat (map sgdiskArgs ps) @ [raw]), (''partx'', [''-u'', raw])]"
  proof (rule table_cmds[OF tab log fixed ps(1) _ sector(1,2)])
    show "ps \<noteq> []" using ps(2) some by auto
  qed
  then show ?thesis using ds(2) ps(2) entry by blast
qed

subsection \<open>A build on a host that does not fail\<close>

lemma faults_kept: "fs_Stat x w = (r, w') \<Longrightarrow> faults w' = faults w" "fs_Truncate x n w = (r1, w') \<Longrightarrow> faults w' = faults w"
  by (auto simp: fs_Stat_def fs_Truncate_def sysIO_def Let_def fs_set_def split: if_splits option.splits node.splits)

lemma CreateRAWFile_succeeds:
  assumes "contentAt w f = Some d" "\<forall>n. \<not> faults w n" "0 \<le> rawSize sz"
  shows "\<exists>w'. CreateRAWFile f sz w = (Inr (), w') \<and> faults w' = faults w"
proof -
  obtain w1 where w1: "fs_Create f w = (Inr (), w1)" unfolding fs_Create_def using content_WriteFile[OF assms(1)] assms(2) by blast
  note c1 = WriteFile_content[OF w1[unfolded fs_Create_def]]
  obtain q m where q: "resolve w1 (pathOf f) = Some q" "fs_lookup w1 q = Some (NFile m [])" by (rule content_node[OF c1(1)])
  obtain w2 where w2: "fs_Truncate f (rawSize sz) w1 = (Inr (), w2)"
    using q assms(2,3) c1(2) by (simp add: fs_Truncate_def sysIO_def Let_def)
  then show ?thesis using w1 assms(2) c1(2) faults_kept(2)[OF w2]
    by (simp add: CreateRAWFile_def bindIO_def tryIO_def sysIO_def Let_def retIO_def)
qed

lemma concat_succeeds:
  assumes "\<forall>s \<in> set sources. contentAt w s \<noteq> None \<and> resolve w (pathOf s) \<noteq> resolve w (pathOf target)" "contentAt w target = Some old" "\<forall>n. \<not> faults w n"
  shows "\<exists>w'. forIO sources (\<lambda>source. bindIO (fs_ReadFile source) (appendFile target)) w = (Inr (), w') \<and> faults w' = faults w"
  using assms
proof (induction sources arbitrary: w old)
  case Nil
  show ?case by (simp add: retIO_def)
next
  case (Cons s sources)
  obtain d where d: "contentAt w s = Some d" using Cons.prems(1) by auto
  let ?w = "w\<lparr>ticks := Suc (ticks w)\<rparr>"
  have r: "fs_ReadFile s w = (Inr d, ?w)" using content_ReadFile[OF d] Cons.prems(3) by blast
  obtain w2 where a: "appendFile target d ?w = (Inr (), w2)" "contentAt w2 target = Some (old @ d)" "faults w2 = faults w"
    using appendFile_content[of ?w target old d] Cons.prems(2,3) by (metis content_ticks world.ext_inject world.surjective world.update_convs(5))
  have o: "onlyAt target w w2" using oat.trans[OF onlyAt_ops(3)[OF r] appendFile_grows(1)[OF a(1)]] .
  have "\<forall>s \<in> set sources. contentAt w2 s \<noteq> None \<and> resolve w2 (pathOf s) \<noteq> resolve w2 (pathOf target)"
    using Cons.prems(1) onlyAt_content[OF o] onlyAt_resolve[OF o] by simp
  moreover have "\<forall>n. \<not> faults w2 n" unfolding a(3) by (rule Cons.prems(3))
  ultimately obtain w' where
    "forIO sources (\<lambda>source. bindIO (fs_ReadFile source) (appendFile target)) w2 = (Inr (), w')" "faults w' = faults w"
    using Cons.IH[OF _ a(2)] a(3) by metis
  then show ?case using r a(1) by (auto simp: thenIO_def bindIO_def)
qed

lemma ConcatFiles_succeeds:
  assumes src: "sources \<noteq> []" "\<forall>s \<in> set sources. contentAt w s \<noteq> None \<and> resolve w (pathOf s) \<noteq> resolve w (pathOf target)"
    and new: "fs_lookup w (pathOf target) = None" "is_dir_at w (butlast (pathOf target))" and ok: "\<forall>n. \<not> faults w n"
  shows "\<exists>w'. ConcatFiles sources target w = (Inr (), w')"
proof -
  obtain s0 rest where s0: "sources = s0 # rest" using src(1) by (cases sources) auto
  let ?w1 = "w\<lparr>ticks := Suc (ticks w)\<rparr>" and ?w2 = "w\<lparr>ticks := Suc (Suc (ticks w))\<rparr>"
  have dir: "okIO False (IsDir target) w = (Inr False, ?w1)"
    using new(1) ok by (simp add: okIO_def IsDir_def bindIO_def fs_Stat_def sysIO_def Let_def resolve_missing)
  obtain d where "contentAt w s0 = Some d" using src(2) s0 by auto
  then obtain q n where "resolve w (pathOf s0) = Some q" "fs_lookup w q = Some n" by (rule content_node)
  then have st: "fs_Stat s0 ?w1 = (Inr n, ?w2)" using ok by (simp add: fs_Stat_def sysIO_def Let_def)
  have "is_dir_at ?w2 (butlast (pathOf target))" using new(2) by (simp add: is_dir_at_def)
  then obtain w3 where cr: "fs_Create target ?w2 = (Inr (), w3)"
    using new(1) ok by (simp add: fs_Create_def fs_WriteFile_def sysIO_def Let_def resolve_missing is_dir_at_def)
  note c3 = WriteFile_content[OF cr[unfolded fs_Create_def]]
  have o: "onlyAt target w w3" using oat.trans[OF onlyAt_ticks onlyAt_ops(1)[OF cr[unfolded fs_Create_def]]] .
  have "\<forall>s \<in> set sources. contentAt w3 s \<noteq> None \<and> resolve w3 (pathOf s) \<noteq> resolve w3 (pathOf target)"
    using src(2) onlyAt_content[OF o] onlyAt_resolve[OF o] by simp
  from concat_succeeds[OF this c3(1)] ok c3(2) obtain w4 where
    loop: "forIO sources (\<lambda>source. bindIO (fs_ReadFile source) (appendFile target)) w3 = (Inr (), w4)" "faults w4 = faults w" by auto
  have "\<forall>s \<in> set sources. resolve w3 (pathOf s) \<noteq> resolve w3 (pathOf target)" using src(2) onlyAt_resolve[OF o] by simp
  from concat_loop[OF loop(1) this c3(1)] obtain e where "contentAt w4 target = Some e" by blast
  then obtain q' m where "resolve w4 (pathOf target) = Some q'" "fs_lookup w4 q' = Some (NFile m e)" by (rule content_node)
  then obtain w5 where "fs_Chmod target (node_mode n) w4 = (Inr (), w5)"
    using ok loop(2) by (simp add: fs_Chmod_def sysIO_def Let_def)
  then show ?thesis using s0 dir st cr loop(1)
    by (simp del: forIO.simps add: ConcatFiles_def bindIO_def thenIO_def Let_def onErrorIO_def)
qed

definition sectorHost :: Config where
  "sectorHost = demoConfig\<lparr>cfg_Run := (\<lambda>_ args w. ((None, []), w))\<rparr>"

definition smallPart :: "nat \<Rightarrow> string \<Rightarrow> uint \<Rightarrow> string \<Rightarrow> Partition" where
  "smallPart r name sz path = (demoPart r name sz [])\<lparr>p_Path := path\<rparr>"

definition smallDisk :: BuildDiskAction where
  "smallDisk = \<lparr>bd_cfg = \<lparr>bc_Date = False, bc_Name = ''d'', bc_OutDir = ''/o'', bc_Snapshotter = NewLoopDevice, bc_Config = sectorHost\<rparr>,
     bd_env = demoEnv, bd_spec = demoDisk\<lparr>dsk_Size := 0, dsk_Partitions := \<lparr>ep_BIOS = None, ep_Boot = Some (smallPart 1 ''efi'' 1 ''/p1''),
       ep_OEM = None, ep_Recovery = None, ep_State = None, ep_Persistent = Some (smallPart 2 ''persistent'' 0 ''/p2'')\<rparr>\<rparr>,
     bd_sharedSource = False, bd_bootloader = None, bd_snapshotter = None, bd_snapshot = None, bd_roots = []\<rparr>"

definition smallWorld :: world where
  "smallWorld = demoWorld\<lparr>files := [([''o''], NDir 493), ([''o'', ''build''], NDir 493), ([''o'', ''build'', ''initdisk.img''], NFile 420 []),
     ([''o'', ''build'', ''enddisk.img''], NFile 420 []), ([''p1''], NFile 420 (replicate (1024 * 1024) (CHR 0x01))), ([''p2''], NFile 420 ''data'')]\<rparr>"

lemma smallDisk_facts:
  "diskParts smallDisk = [smallPart 1 ''efi'' 1 ''/p1'', smallPart 2 ''persistent'' 0 ''/p2'']"
  "initDiskFile smallDisk = ''/o/build/initdisk.img''" "endDiskFile smallDisk = ''/o/build/enddisk.img''"
  "bd_Config smallDisk = sectorHost" "\<not> dsk_Expandable (bd_spec smallDisk)" "extraSize (bd_spec smallDisk) = Inr 1"
proof -
  show "diskParts smallDisk = [smallPart 1 ''efi'' 1 ''/p1'', smallPart 2 ''persistent'' 0 ''/p2'']"
    by (simp add: diskParts_def smallDisk_def demoDisk_def PartitionsByInstallOrder_eq fixedParts_def growParts_def keepPart_def inExcludes_def
        smallPart_def demoPart_def)
  show "bd_Config smallDisk = sectorHost" "\<not> dsk_Expandable (bd_spec smallDisk)" "extraSize (bd_spec smallDisk) = Inr 1"
    by (simp_all add: smallDisk_def demoDisk_def extraSize_def)
  have "bc_OutDir (bd_cfg smallDisk) = ''/o''" by (simp add: smallDisk_def)
  moreover have "Join [''/o'', DiskWorkDir, ''initdisk.img''] = ''/o/build/initdisk.img''"
    "Join [''/o'', DiskWorkDir, ''enddisk.img''] = ''/o/build/enddisk.img''" by code_simp+
  ultimately show "initDiskFile smallDisk = ''/o/build/initdisk.img''" "endDiskFile smallDisk = ''/o/build/enddisk.img''" by simp_all
qed

lemma smallWorld_facts:
  "pathOf ''/o/build/initdisk.img'' = [''o'', ''build'', ''initdisk.img'']" "pathOf ''/o/build/enddisk.img'' = [''o'', ''build'', ''enddisk.img'']"
  "pathOf ''/p1'' = [''p1'']" "pathOf ''/p2'' = [''p2'']" "pathOf ''/disk'' = [''disk'']"
  "p \<in> {[''o'', ''build'', ''initdisk.img''], [''o'', ''build'', ''enddisk.img''], [''p1''], [''p2''], [''disk'']} \<Longrightarrow> resolve smallWorld p = Some p"
  "contentAt smallWorld ''/o/build/initdisk.img'' = Some []" "contentAt smallWorld ''/o/build/enddisk.img'' = Some []"
  "contentAt smallWorld ''/p1'' = Some (replicate (1024 * 1024) (CHR 0x01))" "contentAt smallWorld ''/p2'' = Some ''data''"
  "fs_lookup smallWorld [''disk''] = None"
proof -
  show p: "pathOf ''/o/build/initdisk.img'' = [''o'', ''build'', ''initdisk.img'']" "pathOf ''/o/build/enddisk.img'' = [''o'', ''build'', ''enddisk.img'']"
    "pathOf ''/p1'' = [''p1'']" "pathOf ''/p2'' = [''p2'']" "pathOf ''/disk'' = [''disk'']" by code_simp+
  show r: "resolve smallWorld p = Some p" if "p \<in> {[''o'', ''build'', ''initdisk.img''], [''o'', ''build'', ''enddisk.img''], [''p1''], [''p2''], [''disk'']}" for p
    using that by (elim insertE) (simp_all only: resolve_def follow.simps, simp_all add: fs_lookup_def smallWorld_def)
  show "contentAt smallWorld ''/o/build/initdisk.img'' = Some []" "contentAt smallWorld ''/o/build/enddisk.img'' = Some []"
    "contentAt smallWorld ''/p1'' = Some (replicate (1024 * 1024) (CHR 0x01))" "contentAt smallWorld ''/p2'' = Some ''data''"
    "fs_lookup smallWorld [''disk''] = None"
    unfolding contentAt_def p by (simp_all add: r, simp_all add: fs_lookup_def smallWorld_def)
qed

lemma smallDisk_runs:
  "\<exists>w1. CreateDiskImage smallDisk ''/disk'' (map ToImage (diskParts smallDisk)) smallWorld = (Inr (), w1)"
proof -
  let ?I = "''/o/build/initdisk.img''" and ?E = "''/o/build/enddisk.img''"
  let ?imgs = "map ToImage (diskParts smallDisk)"
  have imgs: "map img_File ?imgs = [''/p1'', ''/p2'']" by (simp add: smallDisk_facts ToImage_def smallPart_def demoPart_def)
  have ok: "\<forall>n. \<not> faults smallWorld n" by (simp add: smallWorld_def demoWorld_def)
  have one: "0 \<le> rawSize 1" by (simp add: rawSize_def)
  obtain v1 where v1: "CreateRAWFile ?I 1 smallWorld = (Inr (), v1)" "faults v1 = faults smallWorld"
    using CreateRAWFile_succeeds[OF smallWorld_facts(7) ok one] by blast
  note o1 = CreateRAWFile_content(1)[OF v1(1)]
  have ok1: "\<forall>n. \<not> faults v1 n" unfolding v1(2) by (rule ok)
  have e1: "contentAt v1 ?E = Some []"
    using onlyAt_content[OF o1, of ?E] smallWorld_facts by simp
  obtain v2 where v2: "CreateRAWFile ?E 1 v1 = (Inr (), v2)" "faults v2 = faults v1"
    using CreateRAWFile_succeeds[OF e1 ok1 one] by blast
  note o2 = CreateRAWFile_content(1)[OF v2(1)]
  have ok2: "\<forall>n. \<not> faults v2 n" unfolding v2(2) by (rule ok1)
  have res: "resolve v1 = resolve smallWorld" "resolve v2 = resolve smallWorld" using onlyAt_resolve[OF o1] onlyAt_resolve[OF o2] by simp_all
  have c: "contentAt v2 ''/p1'' \<noteq> None" "contentAt v2 ''/p2'' \<noteq> None" "contentAt v2 ?I \<noteq> None" "contentAt v2 ?E \<noteq> None"
    using CreateRAWFile_content(2)[OF v1(1)] CreateRAWFile_content(2)[OF v2(1)]
      onlyAt_content[OF o1] onlyAt_content[OF o2] smallWorld_facts res by simp_all
  have "fs_lookup v1 [''disk''] = None" using o1 smallWorld_facts by (simp add: onlyAt_def)
  then have d2: "fs_lookup v2 [''disk''] = None" using o2 smallWorld_facts res by (simp add: onlyAt_def)
  obtain w1 where "ConcatFiles [?I, ''/p1'', ''/p2'', ?E] ''/disk'' v2 = (Inr (), w1)"
    using ConcatFiles_succeeds[of "[?I, ''/p1'', ''/p2'', ?E]" v2 "''/disk''"] c d2 ok2 res smallWorld_facts(1-6)
    by (auto simp: is_dir_at_def)
  then show ?thesis using v1(1) v2(1)
    by (simp add: CreateDiskImage_def smallDisk_facts(2,3,6) imgs thenIO_def bindIO_def sumIO_def coded_def Let_def del: map_map)
qed

lemma smallDisk_table: "\<exists>w2. CreateDiskPartitionTable smallDisk ''/disk'' w1 = (Inr (), w2)"
proof -
  have "sectorOf [] = 512" by code_simp
  then show ?thesis
    by (simp add: CreateDiskPartitionTable_def smallDisk_facts gd_Print_def newGdiskCall_def RunE_def Run_def sectorHost_def bindIO_def retIO_def Let_def
        sumIO_def smallPart_def demoPart_def MiBToSectors_def gd_WriteChanges_def gd_buildOptions_def SetPretend_def fold_create)
qed

theorem partition_table_offsets_witness:
  "\<exists>w1 w2 disk (ps :: DiskPart list). CreateDiskImage smallDisk ''/disk'' (map ToImage (diskParts smallDisk)) smallWorld = (Inr (), w1) \<and>
     CreateDiskPartitionTable smallDisk ''/disk'' w1 = (Inr (), w2) \<and> contentAt w1 ''/disk'' = Some disk \<and>
     take (length ''data'') (drop (unat (StartS (ps ! 1)) * 512) disk) = ''data''"
proof -
  obtain w1 where w1: "CreateDiskImage smallDisk ''/disk'' (map ToImage (diskParts smallDisk)) smallWorld = (Inr (), w1)"
    using smallDisk_runs by blast
  obtain w2 where w2: "CreateDiskPartitionTable smallDisk ''/disk'' w1 = (Inr (), w2)" using smallDisk_table by blast
  have parts: "diskParts smallDisk \<noteq> []" "length (diskParts smallDisk) = 2" "p_Path (diskParts smallDisk ! 1) = ''/p2''"
    "butlast (diskParts smallDisk) = [smallPart 1 ''efi'' 1 ''/p1'']" "sizesMiB (diskParts smallDisk) = 1"
    "map img_File (map ToImage (diskParts smallDisk)) = map p_Path (diskParts smallDisk)"
    by (simp_all add: smallDisk_facts ToImage_def smallPart_def demoPart_def)
  have apart: "distinct (map (\<lambda>p. resolve smallWorld (pathOf p)) [''/disk'', initDiskFile smallDisk, endDiskFile smallDisk])"
    "\<forall>i \<in> set (map ToImage (diskParts smallDisk)). resolve smallWorld (pathOf (img_File i)) \<notin>
       (\<lambda>p. resolve smallWorld (pathOf p)) ` {''/disk'', initDiskFile smallDisk, endDiskFile smallDisk}"
    using smallWorld_facts(1-6) by (simp_all add: smallDisk_facts ToImage_def smallPart_def demoPart_def)
  have sizes: "\<forall>p \<in> set (butlast (diskParts smallDisk)). \<exists>d. contentAt smallWorld (p_Path p) = Some d \<and> length d = unat (p_Size p) * 1048576"
    unfolding parts(4) using smallWorld_facts(9) by (simp add: smallPart_def demoPart_def)
  have host: "keepsLog (bd_Config smallDisk)"
    "\<forall>v. cfg_Run (bd_Config smallDisk) ''sgdisk'' [''-p'', ''-v'', ''/disk''] v = ((None, []), v)"
    by (simp_all add: smallDisk_facts sectorHost_def keepsLog_def)
  have sec: "sectorOf [] = 512" by code_simp
  have dvd: "unat (512 :: uint) dvd 1048576" by simp
  have new: "fs_lookup smallWorld (pathOf ''/disk'') = None" using smallWorld_facts by simp
  have bound: "(1 + sizesMiB (diskParts smallDisk)) * 1048576 < 2 ^ 64" unfolding parts(5) by simp
  obtain disk and ps :: "DiskPart list" where p: "contentAt w1 ''/disk'' = Some disk" "length ps = length (diskParts smallDisk)"
    "\<forall>j < length ps. \<exists>d. contentAt smallWorld (p_Path (diskParts smallDisk ! j)) = Some d \<and>
       take (length d) (drop (unat (StartS (ps ! j)) * unat (512 :: uint)) disk) = d"
    using partition_table_offsets[OF w1 w2 host(1) smallDisk_facts(5) parts(1,6) new apart sizes bound host(2) sec dvd] by blast
  have "take (length ''data'') (drop (unat (StartS (ps ! 1)) * 512) disk) = ''data''"
    using p(3)[rule_format, of 1] p(2) parts(2,3) smallWorld_facts(10) by simp
  then show ?thesis using w1 w2 p(1) by blast
qed

end
