(* ===== verification/Commands.thy ===== *)
theory Commands
  imports Read_Config Build_Disk Reset Upgrade Install Mount_Action Init_Action
begin

section \<open>The commands (cmd)\<close>

text \<open>
  One definition per subcommand: the check of its arguments, the check for root, reading configuration and specification,
  the validation of flags, and the action. The command-line library cobra calls them in this order; its flag sets are lists of
  flags. What a command takes from the process is the record \<open>CmdEnv\<close>: viper, the architecture, the YAML
  decoder of the state, the system services (a configuration), the user id, the search path, the feature archives, the build
  services and standard input. \<open>exitCode\<close> is the status of the process.
\<close>

subsection \<open>Flags (cmd/flags.go)\<close>

text \<open>Reading an undefined flag, or a flag of another type, gives the zero value beside an error.\<close>

definition flag_lookup :: "FlagSet \<Rightarrow> string \<Rightarrow> flagValue option" where
  "flag_lookup fs name = map_option fl_Value (find (\<lambda>f. fl_Name f = name) fs)"

definition flags_GetString :: "FlagSet \<Rightarrow> string \<Rightarrow> string" where
  "flags_GetString fs name = (case flag_lookup fs name of Some (FStr s) \<Rightarrow> s | _ \<Rightarrow> [])"

definition flags_GetBoolE :: "FlagSet \<Rightarrow> string \<Rightarrow> err + bool" where
  "flags_GetBoolE fs name = (case flag_lookup fs name of Some (FBool b) \<Rightarrow> Inr b | _ \<Rightarrow> Inl (Errorf name))"

definition flags_GetBool :: "FlagSet \<Rightarrow> string \<Rightarrow> bool" where
  "flags_GetBool fs name = (case flags_GetBoolE fs name of Inr b \<Rightarrow> b | Inl _ \<Rightarrow> False)"

definition flags_Set :: "FlagSet \<Rightarrow> string \<Rightarrow> string \<Rightarrow> FlagSet" where
  "flags_Set fs name val = map (\<lambda>f. if fl_Name f = name then f\<lparr>fl_Value := FStr val, fl_Changed := True\<rparr> else f) fs"

definition adaptDockerImageAndDirectoryFlagsToSystem :: "FlagSet \<Rightarrow> FlagSet" where
  "adaptDockerImageAndDirectoryFlagsToSystem flags =
     (let doc = flags_GetString flags ''docker-image'';
          flags1 = (if doc \<noteq> [] then flags_Set flags ''system'' (''docker:'' @ doc) else flags);
          dir = flags_GetString flags1 ''directory''
      in if dir \<noteq> [] then flags_Set flags1 ''system'' (''dir:'' @ dir) else flags1)"

definition validateCosignFlags :: "FlagSet \<Rightarrow> err option" where
  "validateCosignFlags flags =
     (if flags_GetString flags ''cosign-key'' \<noteq> [] \<and> \<not> flags_GetBool flags ''cosign''
      then Some (Errorf ''cosign-key requires cosign option to be enabled'') else None)"

definition validateSourceFlags :: "FlagSet \<Rightarrow> err option" where
  "validateSourceFlags flags =
     (let msg = ''flags docker-image, directory and system are mutually exclusive, please only set one of them'';
          system = flags_GetString flags ''system''; directory = flags_GetString flags ''directory'';
          dockerImg = flags_GetString flags ''docker-image'' in
      if system \<noteq> [] \<and> (directory \<noteq> [] \<or> dockerImg \<noteq> []) then Some (Errorf msg)
      else if directory \<noteq> [] \<and> dockerImg \<noteq> [] then Some (Errorf msg) else None)"

definition validatePowerFlags :: "FlagSet \<Rightarrow> err option" where
  "validatePowerFlags flags =
     (if flags_GetBool flags ''reboot'' \<and> flags_GetBool flags ''poweroff''
      then Some (Errorf ''reboot and poweroff are mutually exclusive options'') else None)"

definition validateInstallUpgradeFlags :: "FlagSet \<Rightarrow> err option" where
  "validateInstallUpgradeFlags flags =
     (case validateSourceFlags flags of Some e \<Rightarrow> Some e
      | None \<Rightarrow> (case validateCosignFlags flags of Some e \<Rightarrow> Some e | None \<Rightarrow> validatePowerFlags flags))"

text \<open>
  The flags a command defines, with their defaults. A flag with a list value is \<open>FOther\<close>; an enumeration is read as a string.
\<close>

definition newFlag :: "string \<Rightarrow> flagValue \<Rightarrow> Flag" where
  "newFlag name v = \<lparr>fl_Name = name, fl_Value = v, fl_Changed = False\<rparr>"

definition addCosignFlags :: "FlagSet \<Rightarrow> FlagSet" where
  "addCosignFlags cmd = cmd @ [newFlag ''cosign'' (FBool False), newFlag ''cosign-key'' (FStr [])]"

definition addPowerFlags :: "FlagSet \<Rightarrow> FlagSet" where
  "addPowerFlags cmd = cmd @ [newFlag ''reboot'' (FBool False), newFlag ''poweroff'' (FBool False)]"

definition addSystemFlag :: "FlagSet \<Rightarrow> FlagSet" where
  "addSystemFlag cmd = cmd @ [newFlag ''system'' (FStr [])]"

definition addRecoverySystemFlag :: "FlagSet \<Rightarrow> FlagSet" where
  "addRecoverySystemFlag cmd = cmd @ [newFlag ''recovery-system.uri'' (FStr [])]"

definition addSnapshotLabelsFlag :: "FlagSet \<Rightarrow> FlagSet" where
  "addSnapshotLabelsFlag cmd = cmd @ [newFlag ''snapshot-labels'' FOther]"

definition addLocalImageFlag :: "FlagSet \<Rightarrow> FlagSet" where
  "addLocalImageFlag cmd = cmd @ [newFlag ''local'' (FBool False)]"

definition addTLSVerifyFlag :: "FlagSet \<Rightarrow> FlagSet" where
  "addTLSVerifyFlag cmd = cmd @ [newFlag ''tls-verify'' (FBool True)]"

definition addSquashFsCompressionFlags :: "FlagSet \<Rightarrow> FlagSet" where
  "addSquashFsCompressionFlags cmd = cmd @ [newFlag ''squash-compression'' FOther, newFlag ''squash-no-compression'' (FBool False)]"

definition addPlatformFlags :: "string \<Rightarrow> FlagSet \<Rightarrow> FlagSet" where
  "addPlatformFlags goarch cmd = cmd @ [newFlag ''arch'' (FStr []), newFlag ''platform'' (FStr (''linux/'' @ goarch))]"

definition addResetFlags :: "FlagSet \<Rightarrow> FlagSet" where
  "addResetFlags cmd = addPowerFlags (addCosignFlags (addSystemFlag (addTLSVerifyFlag (addSnapshotLabelsFlag
     (cmd @ [newFlag ''directory'' (FStr []), newFlag ''docker-image'' (FStr []), newFlag ''verify'' (FBool False),
             newFlag ''strict'' (FBool False)])))))"

definition addSharedInstallUpgradeFlags :: "FlagSet \<Rightarrow> FlagSet" where
  "addSharedInstallUpgradeFlags cmd = addSquashFsCompressionFlags (addRecoverySystemFlag (addResetFlags cmd))"

record enum =
  en_Allowed :: "string list"
  en_Value :: string

definition newEnumFlag :: "string list \<Rightarrow> string \<Rightarrow> enum" where
  "newEnumFlag allowed d = \<lparr>en_Allowed = allowed, en_Value = d\<rparr>"

definition enum_String :: "enum \<Rightarrow> string" where "enum_String a = en_Value a"

definition enum_Set :: "enum \<Rightarrow> string \<Rightarrow> err + enum" where
  "enum_Set a p = (if p \<notin> set (en_Allowed a)
     then Inl (Errorf (p @ '' is not included in: '' @ strings_Join (en_Allowed a) '','')) else Inr (a\<lparr>en_Value := p\<rparr>))"

definition snapshotterType :: enum where
  "snapshotterType = newEnumFlag [LoopDeviceSnapshotterType, BtrfsSnapshotterType] LoopDeviceSnapshotterType"

definition addSnapshotterFlags :: "FlagSet \<Rightarrow> FlagSet" where
  "addSnapshotterFlags cmd = cmd @ [newFlag ''snapshotter.type'' (FStr (enum_String snapshotterType))]"

definition installFlags :: "string \<Rightarrow> FlagSet" where
  "installFlags goarch = addSnapshotterFlags (addPlatformFlags goarch (addLocalImageFlag (addSharedInstallUpgradeFlags
     [newFlag ''cloud-init'' FOther, newFlag ''iso'' (FStr []), newFlag ''no-format'' (FBool False), newFlag ''firmware'' (FStr ''efi''),
      newFlag ''part-table'' (FStr ''gpt''), newFlag ''force'' (FBool False), newFlag ''eject-cd'' (FBool False),
      newFlag ''disable-boot-entry'' (FBool False), newFlag ''cloud-init-paths'' FOther])))"

definition upgradeFlags :: FlagSet where
  "upgradeFlags = addLocalImageFlag (addSharedInstallUpgradeFlags
     [newFlag ''recovery'' (FBool False), newFlag ''bootloader'' (FBool False), newFlag ''cloud-init-paths'' FOther])"

definition upgradeRecoveryFlags :: FlagSet where
  "upgradeRecoveryFlags = addSquashFsCompressionFlags (addPowerFlags (addRecoverySystemFlag (addSnapshotLabelsFlag [])))"

definition resetFlags :: FlagSet where
  "resetFlags = addResetFlags [newFlag ''cloud-init'' FOther, newFlag ''reset-persistent'' (FBool False), newFlag ''reset-oem'' (FBool False),
     newFlag ''disable-boot-entry'' (FBool False), newFlag ''cloud-init-paths'' FOther]"

definition pullImageFlags :: "string \<Rightarrow> FlagSet" where
  "pullImageFlags goarch = addTLSVerifyFlag (addLocalImageFlag (addPlatformFlags goarch []))"

definition initFlags :: FlagSet where
  "initFlags = [newFlag ''mkinitrd'' (FBool True), newFlag ''force'' (FBool False)]"

definition runStageFlags :: FlagSet where
  "runStageFlags = [newFlag ''strict'' (FBool False), newFlag ''cloud-init-paths'' FOther]"

definition cloudInitFlags :: FlagSet where
  "cloudInitFlags = [newFlag ''stage'' (FStr ''default''), newFlag ''dotnotation'' (FBool False)]"

definition buildISOFlags :: "string \<Rightarrow> FlagSet" where
  "buildISOFlags goarch = addLocalImageFlag (addSquashFsCompressionFlags (addCosignFlags (addPlatformFlags goarch
     [newFlag ''name'' (FStr []), newFlag ''output'' (FStr []), newFlag ''date'' (FBool False), newFlag ''overlay-rootfs'' (FStr []),
      newFlag ''overlay-uefi'' (FStr []), newFlag ''overlay-iso'' (FStr []), newFlag ''label'' (FStr []), newFlag ''extra-cmdline'' (FStr []),
      newFlag ''bootloader-in-rootfs'' (FBool False), newFlag ''firmware'' (FStr ''efi'')])))"

definition buildDiskFlags :: "string \<Rightarrow> FlagSet" where
  "buildDiskFlags goarch = addSnapshotterFlags (addCosignFlags (addSquashFsCompressionFlags (addLocalImageFlag (addPlatformFlags goarch
     (addRecoverySystemFlag (addSystemFlag
     [newFlag ''name'' (FStr []), newFlag ''output'' (FStr []), newFlag ''date'' (FBool False), newFlag ''expandable'' (FBool False),
      newFlag ''type'' (FStr RawType), newFlag ''cloud-init'' FOther, newFlag ''cloud-init-paths'' FOther,
      newFlag ''deploy-command'' FOther]))))))"

subsection \<open>The environment of a command\<close>

record 'v CmdEnv =
  ce_V :: "'v Viper"
  ce_goarch :: string
  ce_yaml :: yamlState
  ce_sys :: RunConfig
  ce_euid :: nat
  ce_LookPath :: "string \<Rightarrow> err + string"
  ce_archives :: "string \<Rightarrow> err + archive"
  ce_build :: BuildEnv
  ce_shared :: bool
  ce_ref :: nat
  ce_Stdin :: "err + string"

type_synonym 'v cmd = "('v \<times> world, unit) io"

definition exit_RequiresRoot :: nat where "exit_RequiresRoot = 58"
definition exit_ReadingRunConfig :: nat where "exit_ReadingRunConfig = 31"
definition exit_ReadingBuildConfig :: nat where "exit_ReadingBuildConfig = 26"
definition exit_ReadingBuildDiskConfig :: nat where "exit_ReadingBuildDiskConfig = 27"
definition exit_ReadingInstallUpgradeFlags :: nat where "exit_ReadingInstallUpgradeFlags = 32"
definition exit_ReadingSpecConfig :: nat where "exit_ReadingSpecConfig = 33"
definition exit_InvalidTarget :: nat where "exit_InvalidTarget = 47"
definition exit_CosignWrongFlags :: nat where "exit_CosignWrongFlags = 14"
definition exit_IdentifySource :: nat where "exit_IdentifySource = 20"
definition exit_CloudInitRunStage :: nat where "exit_CloudInitRunStage = 65"
definition exit_UnpackImage :: nat where "exit_UnpackImage = 66"
definition exit_ReadFile :: nat where "exit_ReadFile = 67"
definition exit_NoSourceProvided :: nat where "exit_NoSourceProvided = 68"
definition exit_DisplayingInstallationState :: nat where "exit_DisplayingInstallationState = 89"

definition CheckRoot :: "'v CmdEnv \<Rightarrow> 'v cmd" where
  "CheckRoot env = (if ce_euid env \<noteq> 0 then failIO (error_New ''this command requires root privileges'' exit_RequiresRoot) else retIO ())"

text \<open>cobra: the arguments are checked first, then the hook before the run.\<close>

definition cobra :: "bool \<Rightarrow> 'v cmd \<Rightarrow> 'v cmd \<Rightarrow> 'v cmd" where
  "cobra argsOk preRun runE = (if \<not> argsOk then failIO (Errorf ''invalid arguments'') else thenIO preRun runE)"

definition lookMount :: "'v CmdEnv \<Rightarrow> 'v cmd" where
  "lookMount env = bindIO (sumIO (ce_LookPath env ''mount'')) (\<lambda>_. retIO ())"

definition readRun :: "'v CmdEnv \<Rightarrow> FlagSet \<Rightarrow> ('v \<times> world, RunConfig) io" where
  "readRun env flags = bindIO getO (\<lambda>gv.
     bindIO (ReadConfigRun (ce_V env) (ce_goarch env) (ce_yaml env) (ce_sys env)
       (vp_GetString (ce_V env) ''config-dir'' gv) (Some flags)) (\<lambda>(cfg, e).
     thenIO (raiseIO (NewFromError e exit_ReadingRunConfig)) (retIO cfg)))"

definition readBuild :: "'v CmdEnv \<Rightarrow> FlagSet \<Rightarrow> ('v \<times> world, BuildConfig) io" where
  "readBuild env flags = bindIO getO (\<lambda>gv.
     bindIO (ReadConfigBuild (ce_V env) (ce_goarch env) (rc_Config (ce_sys env))
       (vp_GetString (ce_V env) ''config-dir'' gv) (Some flags)) (\<lambda>(cfg, e).
     thenIO (raiseIO (NewFromError e exit_ReadingBuildConfig)) (retIO cfg)))"

text \<open>An action runs on its own object.\<close>

definition onAction :: "('a \<times> world, unit) io \<Rightarrow> 'a \<Rightarrow> 'v cmd" where
  "onAction m a = liftW (\<lambda>w. case m (a, w) of (r, (_, w')) \<Rightarrow> (r, w'))"

text \<open>\<open>ResolveLink\<close> returns the last path it reached beside an error; \<^verbatim>\<open>install\<close> ignores the error.\<close>

fun reachedLink :: "nat \<Rightarrow> string \<Rightarrow> string \<Rightarrow> node \<Rightarrow> (world, string) io" where
  "reachedLink 0 path rootDir d = retIO path"
| "reachedLink (Suc depth) path rootDir d = (case d of
     NLink _ \<Rightarrow> (\<lambda>w. case readlink path w of
        (Inl _, w1) \<Rightarrow> (Inr path, w1)
      | (Inr resolved, w1) \<Rightarrow>
          (let resolved' = (if \<not> IsAbs resolved then Join [Dir path, resolved] else Join [rootDir, resolved])
           in case fs_Lstat resolved' w1 of
                (Inl _, w2) \<Rightarrow> (Inr path, w2)
              | (Inr f, w2) \<Rightarrow> reachedLink depth resolved' rootDir f w2))
   | _ \<Rightarrow> retIO path)"

definition ReachedLink :: "string \<Rightarrow> string \<Rightarrow> nat \<Rightarrow> (world, string) io" where
  "ReachedLink path rootDir depth = (\<lambda>w. case fs_Lstat path w of
     (Inl _, w') \<Rightarrow> (Inr path, w') | (Inr f, w') \<Rightarrow> reachedLink depth path rootDir f w')"

subsection \<open>install, upgrade, upgrade-recovery and reset\<close>

definition setTarget :: "string list \<Rightarrow> InstallSpec \<Rightarrow> InstallSpec" where
  "setTarget args spec = (if length args = 1 then spec\<lparr>ins_Target := args ! 0\<rparr> else spec)"

definition installAction :: "'v CmdEnv \<Rightarrow> RunConfig \<Rightarrow> InstallSpec \<Rightarrow> 'v cmd" where
  "installAction env cfg spec =
     (if ins_Target spec = [] then failIO (error_New ''at least a target device must be supplied'' exit_InvalidTarget)
      else bindIO (liftW (ReachedLink (ins_Target spec) ''/'' MaxLinkDepth)) (\<lambda>target.
        bindIO (liftW (NewInstallAction cfg (spec\<lparr>ins_Target := target\<rparr>) (ce_shared env) [])) (onAction Install_Run)))"

definition install_RunE :: "'v CmdEnv \<Rightarrow> FlagSet \<Rightarrow> string list \<Rightarrow> 'v cmd" where
  "install_RunE env flags args =
     thenIO (lookMount env)
     (bindIO (readRun env flags) (\<lambda>cfg.
      thenIO (raiseIO (NewFromError (validateInstallUpgradeFlags flags) exit_ReadingInstallUpgradeFlags))
      (bindIO getO (\<lambda>gv.
       bindIO (liftW (ReadInstallSpec (ce_V env) (ce_ref env) gv (Some (adaptDockerImageAndDirectoryFlagsToSystem flags)))) (\<lambda>(spec, e).
       thenIO (raiseIO (NewFromError e exit_ReadingSpecConfig))
         (installAction env cfg (setTarget args spec)))))))"

definition NewInstallCmd :: "'v CmdEnv \<Rightarrow> bool \<Rightarrow> FlagSet \<Rightarrow> string list \<Rightarrow> 'v cmd" where
  "NewInstallCmd env addCheckRoot flags args =
     cobra (length args \<le> 1) (whenIO addCheckRoot (CheckRoot env)) (install_RunE env flags args)"

definition upgrade_RunE :: "'v CmdEnv \<Rightarrow> FlagSet \<Rightarrow> 'v cmd" where
  "upgrade_RunE env flags =
     thenIO (lookMount env)
     (bindIO (readRun env flags) (\<lambda>cfg.
      thenIO (raiseIO (NewFromError (validateInstallUpgradeFlags flags) exit_ReadingInstallUpgradeFlags))
      (bindIO getO (\<lambda>gv.
       bindIO (coded exit_ReadingSpecConfig (liftW (ReadUpgradeSpec (ce_V env) (ce_yaml env) cfg gv
         (Some (adaptDockerImageAndDirectoryFlagsToSystem flags)) False))) (\<lambda>spec.
       bindIO (liftW (NewUpgradeAction cfg spec [])) (onAction Upgrade_Run))))))"

definition NewUpgradeCmd :: "'v CmdEnv \<Rightarrow> bool \<Rightarrow> FlagSet \<Rightarrow> string list \<Rightarrow> 'v cmd" where
  "NewUpgradeCmd env addCheckRoot flags args =
     cobra (args = []) (whenIO addCheckRoot (CheckRoot env)) (upgrade_RunE env flags)"

definition upgradeRecovery_RunE :: "'v CmdEnv \<Rightarrow> FlagSet \<Rightarrow> 'v cmd" where
  "upgradeRecovery_RunE env flags =
     thenIO (lookMount env)
     (bindIO (readRun env flags) (\<lambda>cfg.
      bindIO getO (\<lambda>gv.
      bindIO (coded exit_ReadingSpecConfig (liftW (ReadUpgradeSpec (ce_V env) (ce_yaml env) cfg gv (Some flags) True))) (\<lambda>spec.
      bindIO (liftW (NewUpgradeRecoveryAction cfg spec [WithUpdateInstallState True])) (onAction UpgradeRecovery_Run)))))"

definition NewUpgradeRecoveryCmd :: "'v CmdEnv \<Rightarrow> bool \<Rightarrow> FlagSet \<Rightarrow> string list \<Rightarrow> 'v cmd" where
  "NewUpgradeRecoveryCmd env addCheckRoot flags args =
     cobra (args = []) (whenIO addCheckRoot (CheckRoot env)) (upgradeRecovery_RunE env flags)"

definition reset_RunE :: "'v CmdEnv \<Rightarrow> FlagSet \<Rightarrow> 'v cmd" where
  "reset_RunE env flags =
     thenIO (lookMount env)
     (bindIO (readRun env flags) (\<lambda>cfg.
      thenIO (raiseIO (NewFromError (validateInstallUpgradeFlags flags) exit_ReadingInstallUpgradeFlags))
      (bindIO getO (\<lambda>gv.
       bindIO (coded exit_ReadingSpecConfig (liftW (ReadResetSpec (ce_V env) (ce_yaml env) cfg gv
         (Some (adaptDockerImageAndDirectoryFlagsToSystem flags))))) (\<lambda>spec.
       bindIO (liftW (NewResetAction cfg spec [])) (onAction Reset_Run))))))"

definition NewResetCmd :: "'v CmdEnv \<Rightarrow> bool \<Rightarrow> FlagSet \<Rightarrow> string list \<Rightarrow> 'v cmd" where
  "NewResetCmd env addCheckRoot flags args =
     cobra (args = []) (whenIO addCheckRoot (CheckRoot env)) (reset_RunE env flags)"

subsection \<open>mount, init and the cloud-init stages\<close>

definition NewMountCmd :: "'v CmdEnv \<Rightarrow> FlagSet \<Rightarrow> 'v cmd" where
  "NewMountCmd env flags =
     bindIO (readRun env flags) (\<lambda>cfg.
     bindIO getO (\<lambda>gv.
     bindIO (liftW (ReadMountSpec (ce_V env) cfg gv (Some flags))) (\<lambda>(spec, e).
     thenIO (raiseIO (NewFromError e exit_ReadingSpecConfig))
       (if ms_Disable spec then retIO () else liftW (RunMount cfg spec)))))"

text \<open>One argument may hold a list separated by commas.\<close>

definition initArgs :: "string list \<Rightarrow> string list" where
  "initArgs args = (if length args = 1 then splitOn (CHR '','') (args ! 0) else args)"

definition InitCmd :: "'v CmdEnv \<Rightarrow> FlagSet \<Rightarrow> string list \<Rightarrow> 'v cmd" where
  "InitCmd env flags args = cobra (list_all (\<lambda>a. a \<in> set AllFeatures) (initArgs args)) (retIO ())
     (bindIO (readRun env flags) (\<lambda>cfg.
      bindIO getO (\<lambda>gv. case ReadInitSpec (ce_V env) gv (Some flags) of (spec, e) \<Rightarrow>
      thenIO (raiseIO (NewFromError e exit_ReadingSpecConfig))
        (liftW (RunInit (ce_archives env) cfg
          (spec\<lparr>is_Features := (if args = [] then DefaultFeatures else initArgs args)\<rparr>))))))"

definition NewRunStage :: "'v CmdEnv \<Rightarrow> FlagSet \<Rightarrow> string list \<Rightarrow> 'v cmd" where
  "NewRunStage env flags args = cobra (args \<noteq> []) (retIO ())
     (bindIO (readRun env flags) (\<lambda>cfg. let c = rc_Config cfg in
      coded exit_CloudInitRunStage (liftW (RunStage c (args ! 0) (cfg_Strict c) (cfg_CloudInitPaths c)))))"

definition NewCloudInitCmd :: "'v CmdEnv \<Rightarrow> FlagSet \<Rightarrow> string list \<Rightarrow> 'v cmd" where
  "NewCloudInitCmd env flags args = cobra (args \<noteq> [])
     (modO (\<lambda>vp. foldl (\<lambda>vp f. vp_BindPFlag (ce_V env) f vp) vp flags))
     (bindIO (readRun env flags) (\<lambda>cfg.
      bindIO (if length args = 1 \<and> args ! 0 = ''-''
              then bindIO (coded exit_ReadFile (sumIO (ce_Stdin env))) (\<lambda>std. retIO [std]) else retIO args) (\<lambda>args'.
      coded exit_CloudInitRunStage
        (liftW (cfg_CloudInitRun (rc_Config cfg) (flags_GetBool flags ''dotnotation'') (flags_GetString flags ''stage'') args')))))"

subsection \<open>state and pull-image\<close>

text \<open>The printed state is the result.\<close>

definition NewStateCmd :: "'v CmdEnv \<Rightarrow> FlagSet \<Rightarrow> ('v \<times> world, string) io" where
  "NewStateCmd env flags =
     thenIO (lookMount env)
     (bindIO (readRun env flags) (\<lambda>cfg.
      bindIO (coded exit_DisplayingInstallationState (liftW (LoadInstallState (ce_yaml env)))) (\<lambda>state.
      coded exit_DisplayingInstallationState (sumIO (rc_MarshalState cfg state)))))"

definition filepath_Abs :: "string \<Rightarrow> (world, string) io" where
  "filepath_Abs path = (if IsAbs path then retIO (Clean path) else bindIO os_Getwd (\<lambda>wd. retIO (Join [wd, path])))"

definition pullImage_RunE :: "'v CmdEnv \<Rightarrow> FlagSet \<Rightarrow> string list \<Rightarrow> 'v cmd" where
  "pullImage_RunE env flags args =
     bindIO (readRun env flags) (\<lambda>cfg.
     bindIO (coded exit_StatFile (liftW (filepath_Abs (args ! 1)))) (\<lambda>destination.
     bindIO (coded exit_ReadingBuildConfig (sumIO (flags_GetBoolE flags ''local''))) (\<lambda>isLocal.
     bindIO (coded exit_ReadingBuildConfig (sumIO (flags_GetBoolE flags ''tls-verify''))) (\<lambda>verify.
     bindIO (coded exit_UnpackImage (liftW (cfg_ExtractImage (rc_Config cfg) (args ! 0) destination
       (Platform_String (cfg_Platform (rc_Config cfg))) isLocal verify))) (\<lambda>_. retIO ())))))"

definition NewPullImageCmd :: "'v CmdEnv \<Rightarrow> bool \<Rightarrow> FlagSet \<Rightarrow> string list \<Rightarrow> 'v cmd" where
  "NewPullImageCmd env addCheckRoot flags args =
     cobra (length args = 2) (whenIO addCheckRoot (CheckRoot env)) (pullImage_RunE env flags args)"

subsection \<open>build-iso and build-disk\<close>

definition isoRootFS :: "Config \<Rightarrow> string list \<Rightarrow> LiveISO \<Rightarrow> err + LiveISO" where
  "isoRootFS cfg args spec =
     (if length args = 1 then
        (case NewSrcFromURI (cfg_ParseNormalizedNamed cfg) (args ! 0) of
           Inl e \<Rightarrow> Inl (Coded e exit_IdentifySource)
         | Inr imgSource \<Rightarrow> Inr (spec\<lparr>iso_RootFS := [Some imgSource]\<rparr>))
      else if iso_RootFS spec = []
      then Inl (error_New ''rootfs source image for building ISO was not provided'' exit_NoSourceProvided)
      else Inr spec)"

text \<open>An overlay directory is appended to a list of sources when it exists.\<close>

definition overlaySource :: "string \<Rightarrow> (ImageSource option list \<Rightarrow> ImageSource option list) \<Rightarrow> (world, ImageSource option list \<Rightarrow> ImageSource option list) io" where
  "overlaySource dir add = (if dir = [] then retIO add
     else (\<lambda>w. case Exists dir False w of
       (Inr True, w') \<Rightarrow> (Inr (\<lambda>srcs. add srcs @ [Some (NewDirSrc dir)]), w')
     | (_, w') \<Rightarrow> (Inl (error_New (''Invalid path '' @ dir) exit_StatFile), w')))"

definition isoOverlays :: "FlagSet \<Rightarrow> LiveISO \<Rightarrow> (world, LiveISO) io" where
  "isoOverlays flags spec =
     bindIO (overlaySource (flags_GetString flags ''overlay-rootfs'') (\<lambda>x. x)) (\<lambda>addRoot.
     bindIO (overlaySource (flags_GetString flags ''overlay-uefi'') (\<lambda>x. x)) (\<lambda>addUefi.
     bindIO (overlaySource (flags_GetString flags ''overlay-iso'') (\<lambda>x. x)) (\<lambda>addIso.
       retIO (spec\<lparr>iso_RootFS := addRoot (iso_RootFS spec), iso_UEFI := addUefi (iso_UEFI spec),
         iso_Image := addIso (iso_Image spec)\<rparr>))))"

definition buildISO_RunE :: "'v CmdEnv \<Rightarrow> FlagSet \<Rightarrow> string list \<Rightarrow> 'v cmd" where
  "buildISO_RunE env flags args =
     thenIO (coded exit_StatFile (lookMount env))
     (bindIO (readBuild env flags) (\<lambda>cfg.
      thenIO (raiseIO (NewFromError (validateCosignFlags flags) exit_CosignWrongFlags))
      (bindIO getO (\<lambda>gv. case ReadBuildISO (ce_V env) gv (Some flags) of (spec, e) \<Rightarrow>
       thenIO (raiseIO (NewFromError e exit_ReadingSpecConfig))
       (bindIO (sumIO (isoRootFS (bc_Config cfg) args spec)) (\<lambda>spec1.
        bindIO (liftW (isoOverlays flags spec1)) (\<lambda>spec2.
        bindIO (liftW (NewBuildISOAction (rc_EfiVars (ce_sys env)) cfg spec2 [])) (onAction BuildISO_Run))))))))"

definition NewBuildISO :: "'v CmdEnv \<Rightarrow> bool \<Rightarrow> FlagSet \<Rightarrow> string list \<Rightarrow> 'v cmd" where
  "NewBuildISO env addCheckRoot flags args =
     cobra (length args \<le> 1) (whenIO addCheckRoot (CheckRoot env)) (buildISO_RunE env flags args)"

definition buildDisk_RunE :: "'v CmdEnv \<Rightarrow> FlagSet \<Rightarrow> 'v cmd" where
  "buildDisk_RunE env flags =
     thenIO (lookMount env)
     (bindIO (readBuild env flags) (\<lambda>cfg.
      thenIO (raiseIO (NewFromError (validateCosignFlags flags) exit_CosignWrongFlags))
      (bindIO getO (\<lambda>gv.
       bindIO (liftW (ReadBuildDisk (ce_V env) (ce_ref env) cfg gv (Some flags))) (\<lambda>(spec, e).
       thenIO (raiseIO (NewFromError e exit_ReadingBuildDiskConfig))
       (bindIO (liftW (NewBuildDiskAction (ce_build env) cfg spec (ce_shared env) [])) (onAction BuildDiskRun)))))))"

definition NewBuildDisk :: "'v CmdEnv \<Rightarrow> bool \<Rightarrow> FlagSet \<Rightarrow> string list \<Rightarrow> 'v cmd" where
  "NewBuildDisk env addCheckRoot flags args =
     cobra (args = []) (whenIO addCheckRoot (CheckRoot env)) (buildDisk_RunE env flags)"

subsection \<open>The exit status (cmd/root.go)\<close>

text \<open>Only an error that is itself an \<open>ElementalError\<close> gives its code; a panic ends the process with status 2.\<close>

fun exitCode :: "err + 'a \<Rightarrow> nat" where
  "exitCode (Inr _) = 0"
| "exitCode (Inl (Coded _ code)) = code"
| "exitCode (Inl Panic) = 2"
| "exitCode (Inl _) = 1"

subsection \<open>Exit codes of the actions\<close>

text \<open>The clean-up wraps every error it sees, so the error of an action is an aggregate.\<close>

lemma cleanupStep_aggregate: "cleanupStep job errs s = (errs', s') \<Longrightarrow> aggregate errs \<Longrightarrow> aggregate errs'"
  by (auto simp: cleanupStep_def runCleanJob_def aggregate_def multierror_Append_def split: if_splits prod.splits sum.splits)

lemma cleanupLoop_aggregate: "cleanupLoop clean errs s = (errs', r) \<Longrightarrow> aggregate errs \<Longrightarrow> aggregate errs'"
proof (induction clean errs s rule: cleanupLoop.induct)
  case (1 clean errs s)
  show ?case
  proof (cases "CleanStack.count clean > 0")
    case True
    then obtain job clean' where p: "Pop clean = (Some job, clean')" by (auto simp: Pop_def Let_def)
    obtain e1 s1 where c: "cleanupStep job errs s = (e1, s1)" by fastforce
    have "cleanupLoop clean' e1 s1 = (errs', r)" using "1.prems"(1) True p c by (simp add: cleanupLoop.simps[of clean])
    then show ?thesis using "1.IH"[OF True p[symmetric] refl c[symmetric]] cleanupStep_aggregate[OF c "1.prems"(2)] by blast
  next
    case False
    then show ?thesis using "1.prems" by (simp add: cleanupLoop.simps[of clean])
  qed
qed

lemma Cleanup_aggregate: "Cleanup clean eo s = (eo', r) \<Longrightarrow> aggregate eo'"
  unfolding Cleanup_def Let_def
  by (erule cleanupLoop_aggregate) (simp add: aggregate_def multierror_Append_def split: option.splits)

lemma withCleanup_exitCode: "exitCode (fst (withCleanup body s)) \<in> {0, 1, 2}"
proof -
  obtain r st s1 where b: "body (NewCleanStack, s) = (r, (st, s1))" by (metis prod_cases3)
  obtain eo s2 st2 where c: "Cleanup st (seenError r) s1 = (eo, s2, st2)" by (metis prod_cases3)
  have "aggregate eo" by (rule Cleanup_aggregate[OF c])
  then show ?thesis using b c by (auto simp: withCleanup_def aggregate_def split: option.splits)
qed

text \<open>
  Property C18. The documented exit codes of the actions never reach the caller: whatever error an installation, an upgrade, a
  recovery upgrade, a reset or a disk build ends with, the process exits with status 1, since the deferred clean-up puts the error
  with its code into an aggregate (status 2 is a panic, 0 success).
\<close>

theorem action_exit_codes:
  "exitCode (fst (Install_Run i)) \<in> {0, 1, 2} \<and> exitCode (fst (Upgrade_Run u)) \<in> {0, 1, 2} \<and>
   exitCode (fst (UpgradeRecovery_Run ur)) \<in> {0, 1, 2} \<and> exitCode (fst (Reset_Run r)) \<in> {0, 1, 2} \<and>
   exitCode (fst (BuildDiskRun b)) \<in> {0, 1, 2}"
  unfolding Install_Run_def Upgrade_Run_def UpgradeRecovery_Run_def Reset_Run_def BuildDiskRun_def
  by (simp only: withCleanup_exitCode simp_thms)

subsection \<open>What an installation has checked\<close>

text \<open>The source the flags name.\<close>

definition flagSource :: "FlagSet \<Rightarrow> string" where
  "flagSource fs = (if flags_GetString fs ''docker-image'' \<noteq> [] then ''docker:'' @ flags_GetString fs ''docker-image''
     else if flags_GetString fs ''directory'' \<noteq> [] then ''dir:'' @ flags_GetString fs ''directory''
     else flags_GetString fs ''system'')"

definition oneSource :: "FlagSet \<Rightarrow> bool" where
  "oneSource fs \<longleftrightarrow> length (filter (\<lambda>n. flags_GetString fs n \<noteq> []) [''system'', ''directory'', ''docker-image'']) \<le> 1"

lemma flag_lookup_Set:
  "flag_lookup (flags_Set fs n v) m = (if m = n then map_option (\<lambda>_. FStr v) (flag_lookup fs n) else flag_lookup fs m)"
  by (induction fs) (auto simp: flag_lookup_def flags_Set_def)

lemma GetString_Set:
  "flags_GetString (flags_Set fs n v) m =
     (if m = n \<and> flag_lookup fs n \<noteq> None then v else if m = n then [] else flags_GetString fs m)"
  by (auto simp: flags_GetString_def flag_lookup_Set)

lemma validateSourceFlags_iff: "validateSourceFlags fs = None \<longleftrightarrow> oneSource fs"
  by (auto simp: validateSourceFlags_def oneSource_def Let_def)

lemma adapt_system:
  assumes "oneSource fs" "flag_lookup fs ''system'' \<noteq> None"
  shows "flags_GetString (adaptDockerImageAndDirectoryFlagsToSystem fs) ''system'' = flagSource fs"
  using assms by (auto simp: adaptDockerImageAndDirectoryFlagsToSystem_def flagSource_def oneSource_def GetString_Set Let_def split: if_splits)

lemma validated:
  assumes "validateInstallUpgradeFlags fs = None"
  shows "oneSource fs" "\<not> (flags_GetBool fs ''reboot'' \<and> flags_GetBool fs ''poweroff'')"
    "flags_GetString fs ''cosign-key'' \<noteq> [] \<longrightarrow> flags_GetBool fs ''cosign''"
  using assms by (auto simp: validateInstallUpgradeFlags_def validateSourceFlags_iff[symmetric] validateCosignFlags_def
      validatePowerFlags_def split: option.splits if_splits)

lemma raise_None: "raiseIO (NewFromError e code) s = (Inr u, s') \<longleftrightarrow> e = None \<and> s' = s"
  by (cases e) (auto simp: raiseIO_def NewFromError_def retIO_def failIO_def)

lemma onAction_returns:
  "onAction m a (v, w) = (Inr u, (v', w')) \<longleftrightarrow> v' = v \<and> (\<exists>a'. m (a, w) = (Inr u, (a', w')))"
  by (auto simp: onAction_def liftW_iff split: prod.splits)

lemma install_returns:
  assumes "install_RunE env flags args (v, w) = (Inr (), (v', w'))"
  obtains cfg v1 w1 spec w2 where "readRun env flags (v, w) = (Inr cfg, (v1, w1))"
    "validateInstallUpgradeFlags flags = None"
    "ReadInstallSpec (ce_V env) (ce_ref env) v1 (Some (adaptDockerImageAndDirectoryFlagsToSystem flags)) w1 = (Inr (spec, None), w2)"
    "installAction env cfg (setTarget args spec) (v1, w2) = (Inr (), (v', w'))"
proof -
  from assms obtain s0 where l: "lookMount env (v, w) = (Inr (), s0)" by (auto simp: install_RunE_def returns_iff)
  then have "s0 = (v, w)" by (auto simp: lookMount_def returns_iff sumIO_def retIO_def split: sum.splits)
  with l assms show thesis
    by (auto simp: install_RunE_def returns_iff raise_None objIO_bind getO_def liftW_iff intro!: that split: prod.splits)
qed

lemma ReadInstallSpec_accepted:
  assumes "ReadInstallSpec V ref gv flags w = (Inr (spec, None), w')"
  shows "\<exists>install n. InstallSpec_Sanitize n install = (None, spec)"
proof -
  from assms obtain i0 w0 where "NewInstallSpec ref w = (Inr i0, w0)" by (auto simp: ReadInstallSpec_def returns_iff)
  then show ?thesis using assms
    by (auto simp: ReadInstallSpec_def bindIO_def Let_def retIO_def failIO_def split: prod.split_asm if_split_asm)
qed

text \<open>
  A successful installation by the command line was started by root with flags that do not contradict each other, with a
  specification \<open>Sanitize\<close> accepted and a target device, and its action returned without error.
\<close>

theorem install_checked:
  assumes "NewInstallCmd env True flags args (v, w) = (Inr (), (v', w'))"
  shows "ce_euid env = 0 \<and> oneSource flags \<and> \<not> (flags_GetBool flags ''reboot'' \<and> flags_GetBool flags ''poweroff'') \<and>
    (\<exists>spec install n i i' w1. InstallSpec_Sanitize n install = (None, spec) \<and> ins_Target (setTarget args spec) \<noteq> [] \<and>
       Install_Run (i, w1) = (Inr (), (i', w')))"
proof -
  from assms have root: "ce_euid env = 0" and run: "install_RunE env flags args (v, w) = (Inr (), (v', w'))"
    by (auto simp: NewInstallCmd_def cobra_def whenIO_def CheckRoot_def returns_iff retIO_def failIO_def split: if_splits)
  from run obtain cfg v1 w1 spec w2 where c: "validateInstallUpgradeFlags flags = None"
    "ReadInstallSpec (ce_V env) (ce_ref env) v1 (Some (adaptDockerImageAndDirectoryFlagsToSystem flags)) w1 = (Inr (spec, None), w2)"
    "installAction env cfg (setTarget args spec) (v1, w2) = (Inr (), (v', w'))" by (rule install_returns)
  have "ins_Target (setTarget args spec) \<noteq> []" using c(3) by (auto simp: installAction_def failIO_def)
  moreover from this c(3) obtain i w3 i' where "Install_Run (i, w3) = (Inr (), (i', w'))"
    by (auto simp: installAction_def returns_iff liftW_iff onAction_returns)
  ultimately show ?thesis using root validated[OF c(1)] ReadInstallSpec_accepted[OF c(2)] by blast
qed

subsection \<open>A refused command has no effect\<close>

lemma untV_lookMount: "keeps untouchedV (lookMount env)"
  unfolding lookMount_def by (intro untV.keeps_bind untV.keeps_sum untV.keeps_ret)

lemma untV_readRun: "quietViper (ce_V env) \<Longrightarrow> keeps untouchedV (readRun env flags)"
  unfolding readRun_def
  by (auto intro!: untV.keeps_bind untV.keeps_then untV.keeps_raise untV.keeps_ret untV_objects untV_ReadConfigRun split: prod.splits)

text \<open>The common beginning of the three commands, with flags that are not valid.\<close>

lemma invalid_flags:
  fixes env :: "'v CmdEnv" and rest :: "RunConfig \<Rightarrow> 'v cmd"
  assumes "quietViper (ce_V env)" "validateInstallUpgradeFlags flags \<noteq> None"
    and "thenIO (lookMount env) (bindIO (readRun env flags) (\<lambda>cfg.
      thenIO (raiseIO (NewFromError (validateInstallUpgradeFlags flags) exit_ReadingInstallUpgradeFlags)) (rest cfg))) s = (r, s')"
  shows "isl r \<and> untouchedV s s'"
proof -
  have "thenIO (raiseIO (NewFromError (validateInstallUpgradeFlags flags) c)) m = failIO (the (NewFromError (validateInstallUpgradeFlags flags) c))" for c and m :: "'v cmd"
    using assms(2) by (auto simp: NewFromError_def raiseIO_def thenIO_def bindIO_def failIO_def fun_eq_iff)
  then have run: "thenIO (lookMount env) (bindIO (readRun env flags) (\<lambda>cfg.
      failIO (the (NewFromError (validateInstallUpgradeFlags flags) exit_ReadingInstallUpgradeFlags)))) s = (r, s')"
    using assms(3) by simp
  then have "isl r" by (cases r) (auto simp: returns_iff failIO_def)
  moreover have "untouchedV s s'"
  proof -
    have "keeps untouchedV (thenIO (lookMount env) (bindIO (readRun env flags) (\<lambda>cfg.
        failIO (the (NewFromError (validateInstallUpgradeFlags flags) exit_ReadingInstallUpgradeFlags)))))"
      by (intro untV.keeps_then untV.keeps_bind untV.keeps_fail untV_lookMount untV_readRun assms(1))
    from keepsD[OF this run] show ?thesis .
  qed
  ultimately show ?thesis ..
qed

lemma cobra_refused:
  fixes env :: "'v CmdEnv" and rest :: "RunConfig \<Rightarrow> 'v cmd"
  assumes "quietViper (ce_V env)" "ce_euid env \<noteq> 0 \<or> validateInstallUpgradeFlags flags \<noteq> None"
    and "cobra ok (whenIO True (CheckRoot env)) (thenIO (lookMount env) (bindIO (readRun env flags) (\<lambda>cfg.
      thenIO (raiseIO (NewFromError (validateInstallUpgradeFlags flags) exit_ReadingInstallUpgradeFlags)) (rest cfg)))) s = (r, s')"
  shows "isl r \<and> untouchedV s s'"
proof (cases "ok \<and> ce_euid env = 0")
  case True
  have "thenIO (retIO ()) k = k" for k :: "'v cmd" by (simp add: thenIO_def bindIO_def retIO_def)
  then have run: "thenIO (lookMount env) (bindIO (readRun env flags) (\<lambda>cfg.
      thenIO (raiseIO (NewFromError (validateInstallUpgradeFlags flags) exit_ReadingInstallUpgradeFlags)) (rest cfg))) s = (r, s')"
    using True assms(3) by (simp add: cobra_def whenIO_def CheckRoot_def)
  show ?thesis by (rule invalid_flags[OF assms(1) _ run]) (use True assms(2) in simp)
next
  case False
  then show ?thesis using assms(3) untV.refl[of s]
    by (auto simp: cobra_def whenIO_def CheckRoot_def thenIO_def bindIO_def failIO_def split: if_splits)
qed

text \<open>
  Property C15. An install, upgrade or reset command that is started without root privileges or with contradictory flags
  (several sources, reboot and power-off, a cosign key without cosign) fails, and it has run no program and mounted or unmounted
  nothing.
\<close>

theorem refused_without_effect:
  assumes "quietViper (ce_V env)" "ce_euid env \<noteq> 0 \<or> validateInstallUpgradeFlags flags \<noteq> None"
    and "m \<in> {NewInstallCmd env True flags args, NewUpgradeCmd env True flags args, NewResetCmd env True flags args}"
    and "m (v, w) = (r, (v', w'))"
  shows "isl r \<and> cmds w' = cmds w \<and> mounts w' = mounts w"
proof -
  note refused = cobra_refused[OF assms(1,2)]
  consider "NewInstallCmd env True flags args (v, w) = (r, (v', w'))" | "NewUpgradeCmd env True flags args (v, w) = (r, (v', w'))"
    | "NewResetCmd env True flags args (v, w) = (r, (v', w'))" using assms(3,4) by auto
  then have "isl r \<and> untouchedV (v, w) (v', w')"
    by cases (auto simp only: NewInstallCmd_def install_RunE_def NewUpgradeCmd_def upgrade_RunE_def NewResetCmd_def reset_RunE_def
        dest!: refused)
  then show ?thesis by (simp add: untouchedV_def untouched_def)
qed

text \<open>A host without configuration files, whose user is not root.\<close>

definition userEnv :: "unit CmdEnv" where
  "userEnv = \<lparr>ce_V = emptyViper, ce_goarch = ''amd64'', ce_yaml = (\<lambda>_ st. Inr st), ce_sys = demoRunConfig False, ce_euid = 1000,
     ce_LookPath = (\<lambda>p. Inr (''/usr/bin/'' @ p)), ce_archives = (\<lambda>n. Inl ENOENT), ce_build = demoEnv, ce_shared = True, ce_ref = 0,
     ce_Stdin = Inr []\<rparr>"

definition bothSources :: FlagSet where
  "bothSources = [\<lparr>fl_Name = ''directory'', fl_Value = FStr ''/src'', fl_Changed = True\<rparr>,
     \<lparr>fl_Name = ''system'', fl_Value = FStr ''dir:/other'', fl_Changed = True\<rparr>]"

theorem refused_without_effect_witness:
  "\<exists>r s'. NewInstallCmd (userEnv\<lparr>ce_euid := 0\<rparr>) True bothSources [''/dev/sda''] ((), demoWorld) = (r, s') \<and>
     isl r \<and> cmds (snd s') = cmds demoWorld \<and> mounts (snd s') = mounts demoWorld"
proof -
  obtain r v' w' where run: "NewInstallCmd (userEnv\<lparr>ce_euid := 0\<rparr>) True bothSources [''/dev/sda''] ((), demoWorld) = (r, (v', w'))"
    by (metis prod_cases3)
  have "quietViper emptyViper" by (simp add: quietViper_def emptyViper_def untouched_def)
  moreover have "validateInstallUpgradeFlags bothSources \<noteq> None" by code_simp
  ultimately have "isl r \<and> cmds w' = cmds demoWorld \<and> mounts w' = mounts demoWorld"
    using refused_without_effect[of "userEnv\<lparr>ce_euid := 0\<rparr>" bothSources
        "NewInstallCmd (userEnv\<lparr>ce_euid := 0\<rparr>) True bothSources [''/dev/sda'']" "[''/dev/sda'']" "()" demoWorld r v' w'] run
    by (simp add: userEnv_def)
  then show ?thesis using run by auto
qed

end
