(* ===== verification/Host_Services.thy ===== *)
theory Host_Services
  imports Disk
begin

section \<open>Services of the host: block devices, temporary files, images\<close>

text \<open>
  What stands behind three function fields of the configuration: the list of partitions made from the block devices the
  library ghw reports (\<^verbatim>\<open>pkg/utils/getpartitions.go\<close>), temporary files (\<^verbatim>\<open>pkg/utils/fs.go\<close>), and the extraction of a container image
  with its retries (\<^verbatim>\<open>pkg/types/image.go\<close>), where the registry libraries are the record \<open>Registry\<close>.
\<close>

subsection \<open>Block devices (pkg/utils/getpartitions.go)\<close>

record ghwPartition =
  gp_FilesystemLabel :: string
  gp_SizeBytes :: uint
  gp_Label :: string
  gp_Type :: string
  gp_MountPoint :: string
  gp_Name :: string
  gp_DiskName :: string

record ghwDisk =
  ghd_Partitions :: "ghwPartition list"

definition devPath :: "string \<Rightarrow> string" where "devPath name = Join [''/dev'', name]"

definition ghwPartitionToInternalPartition :: "nat \<Rightarrow> ghwPartition \<Rightarrow> Partition" where
  "ghwPartitionToInternalPartition ref p =
     \<lparr>p_ref = ref, p_Name = gp_Label p, p_FilesystemLabel = gp_FilesystemLabel p, p_Size = gp_SizeBytes p div (1024 * 1024),
      p_FS = gp_Type p, p_Flags = [], p_MountPoint = gp_MountPoint p, p_Path = devPath (gp_Name p), p_Disk = devPath (gp_DiskName p)\<rparr>"

text \<open>Every partition is a new object; \<open>ref\<close> is the address of the first.\<close>

fun internalParts :: "nat \<Rightarrow> ghwPartition list \<Rightarrow> Partition list" where
  "internalParts ref [] = []"
| "internalParts ref (p # ps) = ghwPartitionToInternalPartition ref p # internalParts (Suc ref) ps"

definition GetAllPartitions :: "nat \<Rightarrow> (world, ghwDisk list) io \<Rightarrow> (world, Partition list) io" where
  "GetAllPartitions ref blockNew = bindIO blockNew (\<lambda>disks. retIO (internalParts ref (concat (map ghd_Partitions disks))))"

definition ghwPartitionFS :: "(world, ghwDisk list) io \<Rightarrow> string \<Rightarrow> (world, string) io" where
  "ghwPartitionFS blockNew pdev =
     (let pdev' = (if HasPrefix pdev ''/dev'' then pdev else devPath pdev) in
      bindIO blockNew (\<lambda>disks.
        case find (\<lambda>p. devPath (gp_Name p) = pdev') (concat (map ghd_Partitions disks)) of
          None \<Rightarrow> failIO (Errorf (''could not find partition '' @ pdev'))
        | Some p \<Rightarrow> (if gp_Type p = ''unknown'' then failIO (Errorf (''could not find filesystem for partition '' @ pdev'))
                      else retIO (gp_Type p))))"

lemma find_internalParts:
  "map_option p_FS (find (\<lambda>p. p_Path p = d) (internalParts ref ps)) = map_option gp_Type (find (\<lambda>p. devPath (gp_Name p) = d) ps)"
  by (induction ps arbitrary: ref) (simp_all add: ghwPartitionToInternalPartition_def)

text \<open>
  The file system of a partition read from the list of partitions is the one read from the block devices directly, with the
  same errors: the lookup of \<open>Disk\<close> and the one of the library agree.
\<close>

theorem GetPartitionFS_ghw:
  assumes "cfg_AllPartitions cfg = GetAllPartitions ref blockNew"
  shows "GetPartitionFS cfg pdev = ghwPartitionFS blockNew pdev"
proof
  fix w
  obtain r w' where b: "blockNew w = (r, w')" by fastforce
  show "GetPartitionFS cfg pdev w = ghwPartitionFS blockNew pdev w"
  proof (cases r)
    case (Inl e)
    then show ?thesis using b assms by (simp add: GetPartitionFS_def ghwPartitionFS_def GetAllPartitions_def Let_def bindIO_def)
  next
    case (Inr disks)
    let ?ps = "concat (map ghd_Partitions disks)" and ?d = "if HasPrefix pdev ''/dev'' then pdev else devPath pdev"
    have "map_option p_FS (find (\<lambda>p. p_Path p = ?d) (internalParts ref ?ps)) = map_option gp_Type (find (\<lambda>p. devPath (gp_Name p) = ?d) ?ps)"
      by (rule find_internalParts)
    then show ?thesis using b Inr assms
      by (auto simp: GetPartitionFS_def ghwPartitionFS_def GetAllPartitions_def Let_def bindIO_def retIO_def devPath_def split: option.splits)
  qed
qed

subsection \<open>Temporary files (pkg/utils/fs.go)\<close>

text \<open>\<^verbatim>\<open>OpenFile\<close> with \<^verbatim>\<open>O_RDWR|O_CREATE|O_EXCL\<close>: the name must be free, links are not followed.\<close>

definition fs_OpenExcl :: "string \<Rightarrow> nat \<Rightarrow> (world, unit) io" where
  "fs_OpenExcl p mode = sysIO (\<lambda>w. let q = pathOf p in case fs_lookup w q of
     Some _ \<Rightarrow> (Inl EEXIST, w)
   | None \<Rightarrow> (if is_dir_at w (butlast q) then (Inr (), fs_set q (NFile mode []) w) else (Inl ENOENT, w)))"

fun tempFileTry :: "nat \<Rightarrow> nat \<Rightarrow> string \<Rightarrow> string \<Rightarrow> string \<Rightarrow> (world, string) io" where
  "tempFileTry 0 nconflict dir pfx sfx = failIO EEXIST"
| "tempFileTry (Suc n) nconflict dir pfx sfx =
     bindIO nextRandom (\<lambda>rnd.
       let name = Join [dir, pfx @ rnd @ sfx] in
       bindIO (tryIO (fs_OpenExcl name 384)) (\<lambda>e.
         case e of
           None \<Rightarrow> retIO name
         | Some EEXIST \<Rightarrow>
             thenIO (whenIO (Suc nconflict > 10) (modIO (\<lambda>w. w\<lparr>randSeed := clock w\<rparr>)))
               (tempFileTry n (Suc nconflict) dir pfx sfx)
         | Some e' \<Rightarrow> failIO e'))"

definition TempFile :: "string \<Rightarrow> string \<Rightarrow> (world, string) io" where
  "TempFile dir pattern =
     (let (pfx, sfx) = (case LastIndexByte pattern (CHR ''*'') of
        Some pos \<Rightarrow> (take pos pattern, drop (pos + 1) pattern) | None \<Rightarrow> (pattern, []))
      in tempFileTry 10000 0 (if dir = [] then ''/tmp'' else dir) pfx sfx)"

lemma OpenExcl_cases:
  assumes "fs_OpenExcl p mode w = (r, w')"
  shows "r = Inr () \<Longrightarrow> fs_lookup w (pathOf p) = None \<and> fs_lookup w' (pathOf p) = Some (NFile mode []) \<and>
      (\<forall>q. q \<noteq> pathOf p \<longrightarrow> fs_lookup w' q = fs_lookup w q)"
    and "isl r \<Longrightarrow> files w' = files w"
  using assms
  by (auto simp: fs_OpenExcl_def sysIO_def Let_def fs_lookup_def fs_set_def update_conv' split: if_splits option.splits)

lemma tempFileTry_fresh:
  "tempFileTry n c dir pfx sfx w = (Inr name, w') \<Longrightarrow> fs_lookup w (pathOf name) = None \<and>
     fs_lookup w' (pathOf name) = Some (NFile 384 []) \<and> (\<forall>q. q \<noteq> pathOf name \<longrightarrow> fs_lookup w' q = fs_lookup w q)"
proof (induction n arbitrary: c w)
  case 0
  then show ?case by (simp add: failIO_def)
next
  case (Suc n)
  obtain rnd w1 where rnd: "nextRandom w = (Inr rnd, w1)" "files w1 = files w" by (auto simp: nextRandom_def Let_def)
  have look: "fs_lookup v = fs_lookup w" if "files v = files w" for v using that by (simp add: fs_lookup_def fun_eq_iff)
  let ?name = "Join [dir, pfx @ rnd @ sfx]"
  obtain r w2 where o: "fs_OpenExcl ?name 384 w1 = (r, w2)" by fastforce
  show ?case
  proof (cases r)
    case (Inl e)
    have "files w2 = files w" using OpenExcl_cases(2)[OF o] Inl rnd(2) by simp
    moreover have "\<exists>w3. tempFileTry n (Suc c) dir pfx sfx w3 = (Inr name, w') \<and> files w3 = files w2"
      using Suc.prems rnd(1) o Inl
      by (cases e) (auto simp: bindIO_def tryIO_def thenIO_def whenIO_def modIO_def retIO_def failIO_def Let_def split: if_splits)
    ultimately obtain w3 where run: "tempFileTry n (Suc c) dir pfx sfx w3 = (Inr name, w')" "files w3 = files w" by auto
    from Suc.IH[OF run(1)] show ?thesis using look[OF run(2)] by simp
  next
    case (Inr u)
    then have "name = ?name" "w' = w2"
      using Suc.prems rnd(1) o by (auto simp: bindIO_def tryIO_def retIO_def Let_def)
    then show ?thesis using OpenExcl_cases(1)[OF o] Inr look[OF rnd(2)] by simp
  qed
qed

text \<open>A temporary file is new, empty and private, and nothing else in the tree has changed.\<close>

theorem TempFile_fresh:
  "TempFile dir pattern w = (Inr name, w') \<Longrightarrow> fs_lookup w (pathOf name) = None \<and>
     fs_lookup w' (pathOf name) = Some (NFile 384 []) \<and> (\<forall>q. q \<noteq> pathOf name \<longrightarrow> fs_lookup w' q = fs_lookup w q)"
  unfolding TempFile_def Let_def case_prod_beta by (rule tempFileTry_fresh)

subsection \<open>Container images (pkg/types/image.go)\<close>

record 'img Registry =
  rg_ParsePlatform :: "string \<Rightarrow> err + string"
  rg_ParseReference :: "bool \<Rightarrow> string \<Rightarrow> err + string"
  rg_Daemon :: "string \<Rightarrow> (world, 'img) io"
  rg_Remote :: "string \<Rightarrow> string \<Rightarrow> (world, 'img) io"
  rg_Digest :: "'img \<Rightarrow> err + string"
  rg_Apply :: "string \<Rightarrow> 'img \<Rightarrow> (world, unit) io"

text \<open>\<^verbatim>\<open>backoff.Retry\<close> with a bound: after a failing attempt, at most so many more.\<close>

fun retryIO :: "nat \<Rightarrow> ('s, 'a) io \<Rightarrow> ('s, 'a) io" where
  "retryIO 0 m = m"
| "retryIO (Suc n) m = (\<lambda>s. case m s of
     (Inl e, s') \<Rightarrow> (if e = Panic then (Inl e, s') else retryIO n m s') | (Inr x, s') \<Rightarrow> (Inr x, s'))"

definition image_fetch :: "'img Registry \<Rightarrow> string \<Rightarrow> string \<Rightarrow> bool \<Rightarrow> (world, 'img) io" where
  "image_fetch R ref platform loc = (if loc then rg_Daemon R ref else rg_Remote R ref platform)"

definition ExtractImage :: "'img Registry \<Rightarrow> string \<Rightarrow> string \<Rightarrow> string \<Rightarrow> bool \<Rightarrow> bool \<Rightarrow> (world, string) io" where
  "ExtractImage R imageRef destination platformRef loc verify =
     bindIO (sumIO (rg_ParsePlatform R platformRef)) (\<lambda>platform.
     bindIO (sumIO (rg_ParseReference R (\<not> verify) imageRef)) (\<lambda>ref.
     bindIO (retryIO 3 (image_fetch R ref platform loc)) (\<lambda>img.
     bindIO (sumIO (rg_Digest R img)) (\<lambda>digest.
     thenIO (rg_Apply R destination img) (retIO digest)))))"

text \<open>The state after a number of attempts.\<close>

definition attempts :: "('s, 'a) io \<Rightarrow> nat \<Rightarrow> 's \<Rightarrow> 's" where
  "attempts m k s = ((\<lambda>s. snd (m s)) ^^ k) s"

lemma attempts_Suc: "attempts m (Suc k) s = attempts m k (snd (m s))"
  by (simp only: attempts_def funpow_Suc_right o_apply)

text \<open>The first attempt among the allowed ones that succeeds decides; if there is none, the last one does.\<close>

lemma retry_decides:
  assumes "k \<le> n" "\<And>j. j < k \<Longrightarrow> \<exists>e. fst (m (attempts m j s)) = Inl e \<and> e \<noteq> Panic" "k = n \<or> \<not> isl (fst (m (attempts m k s)))"
  shows "retryIO n m s = m (attempts m k s)"
  using assms
proof (induction n arbitrary: k s)
  case 0
  then show ?case by (simp add: attempts_def)
next
  case (Suc n)
  show ?case
  proof (cases k)
    case 0
    then show ?thesis using Suc.prems(3) by (auto simp: attempts_def split: prod.splits sum.splits)
  next
    case (Suc k')
    obtain e s' where e: "m s = (Inl e, s')" "e \<noteq> Panic" using Suc.prems(2)[of 0] Suc by (auto simp: attempts_def prod_eq_iff)
    have "retryIO n m s' = m (attempts m k' s')"
    proof (rule Suc.IH)
      show "k' \<le> n" using Suc.prems(1) Suc by simp
      show "\<exists>e. fst (m (attempts m j s')) = Inl e \<and> e \<noteq> Panic" if "j < k'" for j
        using Suc.prems(2)[of "Suc j"] that Suc e(1) by (simp add: attempts_Suc)
      show "k' = n \<or> \<not> isl (fst (m (attempts m k' s')))" using Suc.prems(3) Suc e(1) by (simp add: attempts_Suc)
    qed
    then show ?thesis using e Suc by (simp add: attempts_Suc)
  qed
qed

end
