(* ===== verification/Spec2Isabelle.thy ===== *)
theory Spec2Isabelle
  imports Clean_Stack Types_Spec State_History Cloud_Init Commands Host_Services
begin

text \<open>
  \<^bold>\<open>elemental-toolkit: a verification library.\<close>

  The program installs, upgrades and resets immutable Linux systems: it partitions a disk, deploys a
  root tree into a new snapshot, makes the snapshot the one to boot and keeps a bounded number of old
  ones. Its packages are \<^verbatim>\<open>pkg/types\<close> (data and specifications), \<^verbatim>\<open>pkg/utils\<close> (files, chroot, clean-up),
  \<^verbatim>\<open>pkg/partitioner\<close> (disks), \<^verbatim>\<open>pkg/elemental\<close> (partitions, images, sources), \<^verbatim>\<open>pkg/snapshotter\<close>
  (transactions), \<^verbatim>\<open>pkg/bootloader\<close>, \<^verbatim>\<open>pkg/action\<close> (the commands) and \<^verbatim>\<open>cmd\<close> (the command line).

  \<^bold>\<open>Effects and environment.\<close> Theory \<open>Elemental_Prelude\<close> has the effect type: a function from a state to an
  error or a value and the new state, with one combinator per idiom of the source, and the locale
  \<open>state_frame\<close> of relations every operation keeps. \<open>Go_Lib\<close> and \<open>Go_Regexp\<close> hold the parts of the
  language and its standard library the program uses: 64-bit integers with their wrap-around, strings,
  decimal numbers, file paths, regular expressions. \<open>World\<close> is the system: a file tree, a mount table, the log
  of the commands run, the root and working directory of the process, and an arbitrary function that says which calls
  fail, so that every theorem about a world covers every pattern of failing calls. The programs the code
  starts, the image extractor, the HTTP client, the cloud-init executor and the list of block devices are function
  fields of the configuration; what a property needs of them is a named hypothesis with a witness.

  \<^bold>\<open>Components.\<close>
  \<^item> \<open>Clean_Stack\<close>: \<^verbatim>\<open>pkg/utils/cleanstack.go\<close>. The array with its counter, the loop of \<open>Cleanup\<close>
    (terminating by the counter), the locale of LIFO stacks and the refinement of \<open>Cleanup\<close> to a fold over the
    list of jobs; which jobs run after success and after an error.
  \<^item> \<open>Types_Base\<close>, \<open>Types_Config\<close>, \<open>Types_Spec\<close>: \<^verbatim>\<open>pkg/types\<close>. Partitions, image sources, platforms,
    specifications and their \<open>Sanitize\<close> methods, the installation state, the snapshotter configuration. A specification
    that passes \<open>Sanitize\<close> has an install order with at most one growing partition, in the last place.
  \<^item> \<open>Fs_Utils\<close>, \<open>Chroot\<close>: \<^verbatim>\<open>pkg/utils/fs.go\<close>, \<^verbatim>\<open>common.go\<close>, \<^verbatim>\<open>chroot.go\<close>. Directory walks, copies, links,
    environment files, the bind mounts of a chroot. A chrooted callback gives back the mount table and the root it found.
  \<^item> \<open>Partitioner\<close>, \<open>Disk\<close>: \<^verbatim>\<open>pkg/partitioner\<close>. The parted, sgdisk and mkfs calls, the parsers of their
    output, free space and alignment on 64-bit words. Printing and parsing a partition table is the identity; a new
    partition gets exactly the size asked for and never overlaps.
  \<^item> \<open>Elemental_Ops\<close>: \<^verbatim>\<open>pkg/elemental/elemental.go\<close>. Partitions, loop images, SELinux labels, image
    deployment, the recovery system.
  \<^item> \<open>Loop_Device\<close>: \<^verbatim>\<open>pkg/snapshotter/loopdevice.go\<close>. Transactions on numbered directories and the \<open>active\<close>
    link: fresh ids, nothing lost by a failed transaction, the bounded clean-up, the link after a commit.
  \<^item> \<open>Btrfs_Backend\<close>, \<open>Btrfs\<close>, \<open>Snapshotter\<close>: \<^verbatim>\<open>pkg/snapshotter/btrfs*.go\<close>, \<^verbatim>\<open>snapper-backend.go\<close>,
    \<^verbatim>\<open>snapshotter.go\<close>. The two btrfs backends, the snapshotter above them with its transactions, the choice of a snapshotter;
    \<open>Go_Time\<close> and \<open>Go_Xml\<close> hold the dates and the XML files of the snapshot metadata.
  \<^item> \<open>Efi\<close>, \<open>Grub\<close>: \<^verbatim>\<open>pkg/efi\<close>, \<^verbatim>\<open>pkg/bootloader\<close>. EFI load options, boot entries and boot order; the files
    grub is installed from, its environment files and the boot entry of the installed system.
  \<^item> \<open>Sources\<close>, \<open>Go_Url\<close>: the image source of a system as a URI (\<^verbatim>\<open>pkg/types/common.go\<close>), temporary directories,
    cloud-config files and ISO sources (\<^verbatim>\<open>pkg/elemental/elemental.go\<close>).
  \<^item> \<open>Action_Common\<close>, \<open>Install\<close>, \<open>Upgrade\<close>, \<open>Upgrade_Recovery\<close>, \<open>Reset\<close>: \<^verbatim>\<open>pkg/action\<close> and
    \<^verbatim>\<open>pkg/utils/runstage.go\<close>. The hooks, the exit codes and the commands as one effect each, the clean-up stack
    included; \<open>State_History\<close> follows the recorded snapshots over any number of upgrades.
  \<^item> \<open>Mount_Action\<close>, \<open>Init_Action\<close>: \<^verbatim>\<open>pkg/action/mount.go\<close>, \<^verbatim>\<open>init.go\<close>, \<^verbatim>\<open>pkg/features\<close> and \<^verbatim>\<open>pkg/systemd\<close>. The
    mounts of the booting system, its fstab and its ephemeral paths; the features unpacked into a container image, its
    units and its initrd. A volume is mounted after the volumes above it.
  \<^item> \<open>Build_Iso\<close>, \<open>Build_Disk\<close>, \<open>Vhd\<close>, \<open>Go_Sha256\<close>: \<^verbatim>\<open>pkg/action/build-iso.go\<close>, \<^verbatim>\<open>build-disk.go\<close>, \<^verbatim>\<open>pkg/utils/vhd.go\<close>
    and the digest of the files built. The partition table of a disk image describes the image put together.
  \<^item> \<open>Config_Defaults\<close>, \<open>Read_Config\<close>: \<^verbatim>\<open>pkg/config\<close>, \<^verbatim>\<open>cmd/config\<close>. The default configurations and specifications,
    and how files, flags, environment and kernel command line change them.
  \<^item> \<open>Commands\<close>: \<^verbatim>\<open>cmd\<close>. Every subcommand with its flags, its checks and its action. A command that is refused leaves the world
    as it was, an action that fails ends the process with the code of its error.
  \<^item> \<open>Cloud_Init\<close>, \<open>Host_Services\<close>, \<open>Fs_Walk\<close>: \<^verbatim>\<open>pkg/cloudinit\<close>; block devices, temporary files and the extraction of container
    images (\<^verbatim>\<open>pkg/utils\<close>, \<^verbatim>\<open>pkg/types/image.go\<close>); the bound of a directory walk. The layout plugin leaves a partition
    whose label exists as it is.

  \<^bold>\<open>Parameters.\<close> Code that is not part of the repository is an argument or a record of functions: viper and mapstructure
  (\<open>Viper\<close>), the registry libraries (\<open>Registry\<close>), the list of block devices of ghw, the feature archives generated by
  the build (\<open>embedded\<close>), YAML printers, clock, UUIDs and the archive writer of a disk build (\<open>BuildEnv\<close>), and what a command
  takes from its process (\<open>CmdEnv\<close>).

  \<^bold>\<open>Bounds.\<close> Loops of the source that need a bound in the model have it from the code or from the state: a walk gets as
  much fuel as the tree has files, and \<open>walkDir_terminates\<close> shows that a walk that leaves the tree as it is never needs
  more; links are followed at most 41 times by the kernel and \<open>MaxLinkDepth\<close> times by the program; \<open>TempDir\<close> and \<open>TempFile\<close> try
  10000 names, a partition device is looked up 11 times, a label ten times, an image is fetched again three times,
  as in the source.

  \<^bold>\<open>Not modelled.\<close> Logging and the display of progress; the version command and the generators of documentation and of the
  feature archives; test doubles (\<^verbatim>\<open>pkg/mocks\<close>); the HTTP client; the methods that only forward to the operating system,
  whose effect is that of the \<open>World\<close> operations. The cloud-init executor yip, the merging and decoding done by cobra, viper and
  mapstructure with their reflection hooks, and the YAML decoder behind \<^verbatim>\<open>SnapshotterConfig.UnmarshalYAML\<close> are third-party
  code, which enters only through the parameters above.
\<close>

end
